(* ===== verification/Go_Prelude.thy ===== *)
theory Go_Prelude
  imports Main
begin

text \<open>
  What every component of the development shares: the theorem collections, Go's fixed-width
  integers written out over \<^typ>\<open>int\<close>, the rows-as-lists view of an SQL table, and the generic
  list facts behind it.

  Go's \<open>int64\<close> (also \<open>time.Duration\<close> and \<open>int\<close> on the 64-bit targets the service is built for) and
  \<open>int32\<close> are \<^typ>\<open>int\<close> with the two's complement wrap-around \<open>i64\<close>, \<open>i32\<close> applied wherever the
  source computes a value that could leave the range.  Instants (\<open>time.Time\<close>) are nanoseconds on an
  unbounded \<^typ>\<open>int\<close> axis.
\<close>

named_theorems go_ints \<open>range facts of the fixed-width integers\<close>
named_theorems table_simps \<open>rows of a table after a statement\<close>
named_theorems repo_defs \<open>unfolding the SQL repository\<close>
named_theorems service_defs \<open>unfolding the service operations\<close>
named_theorems worker_defs \<open>unfolding the worker operations\<close>

section \<open>Fixed-width integers\<close>

type_synonym time = int
type_synonym duration = int

definition i64 :: "int \<Rightarrow> int" where
  "i64 x = signed_take_bit 63 x"

definition i32 :: "int \<Rightarrow> int" where
  "i32 x = signed_take_bit 31 x"

definition in_i64 :: "int \<Rightarrow> bool" where
  "in_i64 x \<longleftrightarrow> - 9223372036854775808 \<le> x \<and> x < 9223372036854775808"

definition in_i32 :: "int \<Rightarrow> bool" where
  "in_i32 x \<longleftrightarrow> - 2147483648 \<le> x \<and> x < 2147483648"

lemma i64_id [go_ints]: "in_i64 x \<Longrightarrow> i64 x = x"
  unfolding i64_def in_i64_def by (rule signed_take_bit_int_eq_self) simp_all

lemma i32_id [go_ints]: "in_i32 x \<Longrightarrow> i32 x = x"
  unfolding i32_def in_i32_def by (rule signed_take_bit_int_eq_self) simp_all

lemma in_i64_i64 [go_ints, simp]: "in_i64 (i64 x)"
  using signed_take_bit_int_less_exp [of 63 x] signed_take_bit_int_greater_eq_minus_exp [of 63 x]
  by (simp add: i64_def in_i64_def)

lemma in_i32_i32 [go_ints, simp]: "in_i32 (i32 x)"
  using signed_take_bit_int_less_exp [of 31 x] signed_take_bit_int_greater_eq_minus_exp [of 31 x]
  by (simp add: i32_def in_i32_def)

text \<open>Go's integer division truncates towards zero; the divisor is checked by the callers.\<close>

definition go_div :: "int \<Rightarrow> int \<Rightarrow> int" where
  "go_div a b = sgn a * sgn b * (\<bar>a\<bar> div \<bar>b\<bar>)"

lemma go_div_nonneg [simp]: "0 \<le> a \<Longrightarrow> 0 < b \<Longrightarrow> go_div a b = a div b"
  by (cases "a = 0") (auto simp: go_div_def)

section \<open>Tables\<close>

text \<open>
  A table is the list of its rows.  \<open>UPDATE \<dots> SET \<dots> WHERE \<dots>\<close> is \<open>update_where\<close>, its
  \<open>RowsAffected\<close> is \<open>affected\<close>, \<open>DELETE \<dots> WHERE \<dots>\<close> is \<open>delete_where\<close>.
\<close>

definition update_where :: "('r \<Rightarrow> bool) \<Rightarrow> ('r \<Rightarrow> 'r) \<Rightarrow> 'r list \<Rightarrow> 'r list" where
  "update_where P f rs = map (\<lambda>r. if P r then f r else r) rs"

definition affected :: "('r \<Rightarrow> bool) \<Rightarrow> 'r list \<Rightarrow> nat" where
  "affected P rs = length (filter P rs)"

definition delete_where :: "('r \<Rightarrow> bool) \<Rightarrow> 'r list \<Rightarrow> 'r list" where
  "delete_where P rs = filter (\<lambda>r. \<not> P r) rs"

lemma affected_zero [table_simps]: "affected P rs = 0 \<longleftrightarrow> (\<forall>r\<in>set rs. \<not> P r)"
  by (auto simp: affected_def filter_empty_conv)

lemma update_where_none [table_simps]: "\<forall>r\<in>set rs. \<not> P r \<Longrightarrow> update_where P f rs = rs"
  by (induction rs) (auto simp: update_where_def)

lemma set_update_where [table_simps]:
  "set (update_where P f rs) = f ` {r \<in> set rs. P r} \<union> {r \<in> set rs. \<not> P r}"
  by (induction rs) (auto simp: update_where_def)

lemma length_update_where [table_simps, simp]: "length (update_where P f rs) = length rs"
  by (simp add: update_where_def)

lemma set_delete_where [table_simps]: "set (delete_where P rs) = {r \<in> set rs. \<not> P r}"
  by (auto simp: delete_where_def)

text \<open>A column the statement does not write keeps its values, row by row.\<close>

lemma map_update_where [table_simps]:
  "(\<And>r. r \<in> set rs \<Longrightarrow> P r \<Longrightarrow> g (f r) = g r) \<Longrightarrow> map g (update_where P f rs) = map g rs"
  by (induction rs) (auto simp: update_where_def)

lemma find_update_where_other:
  "(\<And>r. r \<in> set rs \<Longrightarrow> P r \<Longrightarrow> \<not> Q r \<and> \<not> Q (f r)) \<Longrightarrow>
    find Q (update_where P f rs) = find Q rs"
  by (induction rs) (auto simp: update_where_def)

lemma find_update_where_same:
  "(\<And>r. r \<in> set rs \<Longrightarrow> P r \<Longrightarrow> Q (f r) = Q r) \<Longrightarrow>
    find Q (update_where P f rs) = map_option (\<lambda>r. if P r then f r else r) (find Q rs)"
  by (induction rs) (auto simp: update_where_def)

text \<open>With a key column of distinct values, a lookup by key is determined by membership.\<close>

lemma find_key_unique:
  assumes "distinct (map key rs)" and "r \<in> set rs" and "Q r"
    and "\<And>x. Q x \<Longrightarrow> key x = k"
  shows "find Q rs = Some r"
proof (cases "find Q rs")
  case None
  with assms(2,3) show ?thesis by (auto simp: find_None_iff)
next
  case (Some x)
  then have x: "x \<in> set rs" "Q x" by (auto simp: find_Some_iff)
  have "key x = key r" using assms(4) [OF x(2)] assms(4) [OF assms(3)] by simp
  with assms(1,2) x(1) have "x = r" by (simp add: distinct_map inj_on_def)
  with Some show ?thesis by simp
qed

lemma find_SomeD: "find Q rs = Some r \<Longrightarrow> r \<in> set rs \<and> Q r"
  by (auto simp: find_Some_iff)

lemma distinct_map_eq: "distinct (map f xs) \<Longrightarrow> x \<in> set xs \<Longrightarrow> y \<in> set xs \<Longrightarrow> f x = f y \<Longrightarrow> x = y"
  by (simp add: distinct_map inj_on_def)

section \<open>Sorting by a comparison\<close>

fun insort_by :: "('a \<Rightarrow> 'a \<Rightarrow> bool) \<Rightarrow> 'a \<Rightarrow> 'a list \<Rightarrow> 'a list" where
  "insort_by le x [] = [x]"
| "insort_by le x (y # ys) = (if le x y then x # y # ys else y # insort_by le x ys)"

definition sort_by :: "('a \<Rightarrow> 'a \<Rightarrow> bool) \<Rightarrow> 'a list \<Rightarrow> 'a list" where
  "sort_by le xs = foldr (insort_by le) xs []"

lemma set_insort_by [simp]: "set (insort_by le x xs) = insert x (set xs)"
  by (induction xs) auto

lemma length_insort_by [simp]: "length (insort_by le x xs) = Suc (length xs)"
  by (induction xs) auto

lemma distinct_insort_by [simp]: "distinct (insort_by le x xs) = (x \<notin> set xs \<and> distinct xs)"
  by (induction xs) auto

lemma sort_by_simps [simp]:
  "sort_by le [] = []" "sort_by le (x # xs) = insort_by le x (sort_by le xs)"
  by (simp_all add: sort_by_def)

lemma set_sort_by [simp]: "set (sort_by le xs) = set xs"
  by (induction xs) auto

lemma length_sort_by [simp]: "length (sort_by le xs) = length xs"
  by (induction xs) auto

lemma distinct_sort_by [simp]: "distinct (sort_by le xs) = distinct xs"
  by (induction xs) auto

text \<open>For a total and transitive comparison the result is sorted.\<close>

lemma sorted_insort_by:
  assumes total: "\<And>x y. le x y \<or> le y x" and trans: "\<And>x y z. le x y \<Longrightarrow> le y z \<Longrightarrow> le x z"
  shows "sorted_wrt le xs \<Longrightarrow> sorted_wrt le (insort_by le x xs)"
proof (induction xs)
  case Nil
  then show ?case by simp
next
  case (Cons y ys)
  show ?case
  proof (cases "le x y")
    case True
    with Cons.prems show ?thesis by (auto intro: trans)
  next
    case False
    with total have "le y x" by blast
    with False Cons show ?thesis by auto
  qed
qed

lemma sorted_sort_by:
  assumes "\<And>x y. le x y \<or> le y x" and "\<And>x y z. le x y \<Longrightarrow> le y z \<Longrightarrow> le x z"
  shows "sorted_wrt le (sort_by le xs)"
proof (induction xs)
  case (Cons x xs)
  then show ?case using sorted_insort_by [of le, OF assms] by simp
qed simp

end
