(* ===== verification/Go_Strings.thy ===== *)
theory Go_Strings
  imports Go_Prelude
begin

text \<open>
  The parts of Go's \<open>strings\<close>, \<open>unicode/utf8\<close> and \<open>path/filepath\<close> packages the service uses.

  A Go string is a byte sequence, here a \<^typ>\<open>string\<close> whose characters are the bytes.  Functions that
  work on runes decode UTF-8 the way \<open>for range\<close> does: a byte that starts no valid encoding is the
  rune \<open>U+FFFD\<close> of width one.  Only the case table of package \<open>unicode\<close> beyond ASCII is a parameter
  (\<open>ulow\<close>, the value of \<open>unicode.ToLower\<close> on runes from \<open>U+0080\<close> upwards).
\<close>

section \<open>UTF-8\<close>

type_synonym rune = nat

abbreviation byte :: "char \<Rightarrow> nat" where "byte c \<equiv> of_char c"

definition RuneError :: rune where "RuneError = 65533"

definition is_cont :: "nat \<Rightarrow> bool" where "is_cont b \<longleftrightarrow> 128 \<le> b \<and> b < 192"

fun DecodeRune :: "string \<Rightarrow> rune \<times> nat" where
  "DecodeRune [] = (RuneError, 0)"
| "DecodeRune (c # cs) =
    (let b0 = byte c;
         b1 = (case cs of x # _ \<Rightarrow> byte x | [] \<Rightarrow> 0);
         b2 = (case cs of _ # x # _ \<Rightarrow> byte x | _ \<Rightarrow> 0);
         b3 = (case cs of _ # _ # x # _ \<Rightarrow> byte x | _ \<Rightarrow> 0)
     in if b0 < 128 then (b0, 1)
        else if 194 \<le> b0 \<and> b0 \<le> 223 \<and> is_cont b1
          then ((b0 - 192) * 64 + (b1 - 128), 2)
        else if 224 \<le> b0 \<and> b0 \<le> 239 \<and> is_cont b1 \<and> is_cont b2
            \<and> (b0 = 224 \<longrightarrow> 160 \<le> b1) \<and> (b0 = 237 \<longrightarrow> b1 < 160)
          then ((b0 - 224) * 4096 + (b1 - 128) * 64 + (b2 - 128), 3)
        else if 240 \<le> b0 \<and> b0 \<le> 244 \<and> is_cont b1 \<and> is_cont b2 \<and> is_cont b3
            \<and> (b0 = 240 \<longrightarrow> 144 \<le> b1) \<and> (b0 = 244 \<longrightarrow> b1 < 144)
          then ((b0 - 240) * 262144 + (b1 - 128) * 4096 + (b2 - 128) * 64 + (b3 - 128), 4)
        else (RuneError, 1))"

definition EncodeRune :: "rune \<Rightarrow> string" where
  "EncodeRune r =
    (let q = (if 1114111 < r \<or> (55296 \<le> r \<and> r < 57344) then RuneError else r)
     in if q < 128 then [char_of q]
        else if q < 2048 then [char_of (192 + q div 64), char_of (128 + q mod 64)]
        else if q < 65536
          then [char_of (224 + q div 4096), char_of (128 + q div 64 mod 64), char_of (128 + q mod 64)]
        else [char_of (240 + q div 262144), char_of (128 + q div 4096 mod 64),
              char_of (128 + q div 64 mod 64), char_of (128 + q mod 64)])"

text \<open>The runes of \<open>for _, r := range s\<close>.\<close>

function runes :: "string \<Rightarrow> rune list" where
  "runes [] = []"
| "runes (c # cs) = (case DecodeRune (c # cs) of (r, w) \<Rightarrow> r # runes (drop (w - 1) cs))"
  by pat_completeness auto
termination by (relation "measure length") auto

text \<open>\<open>strings.Map\<close> for a mapping that never drops a rune.\<close>

definition strings_Map :: "(rune \<Rightarrow> rune) \<Rightarrow> string \<Rightarrow> string" where
  "strings_Map f s = concat (map (\<lambda>r. EncodeRune (f r)) (runes s))"

definition is_ascii :: "string \<Rightarrow> bool" where
  "is_ascii s \<longleftrightarrow> list_all (\<lambda>c. byte c < 128) s"

lemma DecodeRune_ascii [simp]: "byte c < 128 \<Longrightarrow> DecodeRune (c # cs) = (byte c, 1)"
  by simp

lemma runes_ascii: "is_ascii s \<Longrightarrow> runes s = map byte s"
  by (induction s) (auto simp: is_ascii_def simp del: DecodeRune.simps)

lemma EncodeRune_ascii: "r < 128 \<Longrightarrow> EncodeRune r = [char_of r]"
  by (simp add: EncodeRune_def)

lemma strings_Map_ascii:
  assumes "is_ascii s" and "\<And>r. r < 128 \<Longrightarrow> f r < 128"
  shows "strings_Map f s = map (\<lambda>c. char_of (f (byte c))) s"
  using assms(1)
proof (induction s)
  case Nil
  then show ?case by (simp add: strings_Map_def)
next
  case (Cons c s)
  then have "byte c < 128" "is_ascii s" by (simp_all add: is_ascii_def)
  with Cons assms(2) show ?case
    by (simp add: strings_Map_def EncodeRune_ascii del: DecodeRune.simps)
qed

section \<open>Prefixes, suffixes, substrings\<close>

definition HasPrefix :: "string \<Rightarrow> string \<Rightarrow> bool" where
  "HasPrefix s p \<longleftrightarrow> take (length p) s = p"

definition HasSuffix :: "string \<Rightarrow> string \<Rightarrow> bool" where
  "HasSuffix s p \<longleftrightarrow> length p \<le> length s \<and> drop (length s - length p) s = p"

definition TrimPrefix :: "string \<Rightarrow> string \<Rightarrow> string" where
  "TrimPrefix s p = (if HasPrefix s p then drop (length p) s else s)"

definition TrimSuffix :: "string \<Rightarrow> string \<Rightarrow> string" where
  "TrimSuffix s p = (if HasSuffix s p then take (length s - length p) s else s)"

fun Contains :: "string \<Rightarrow> string \<Rightarrow> bool" where
  "Contains [] p = (p = [])"
| "Contains (c # cs) p = (HasPrefix (c # cs) p \<or> Contains cs p)"

text \<open>\<open>strings.Cut\<close> at a one-byte separator: what is before, what is after, and whether it occurs.\<close>

definition Cut :: "string \<Rightarrow> char \<Rightarrow> string \<times> string \<times> bool" where
  "Cut s sep =
    (if sep \<in> set s
     then (takeWhile (\<lambda>c. c \<noteq> sep) s, tl (dropWhile (\<lambda>c. c \<noteq> sep) s), True)
     else (s, [], False))"

lemma HasPrefix_iff: "HasPrefix s p \<longleftrightarrow> (\<exists>t. s = p @ t)"
  unfolding HasPrefix_def by (metis append_eq_conv_conj append_take_drop_id)

lemma HasSuffix_iff: "HasSuffix s p \<longleftrightarrow> (\<exists>t. s = t @ p)"
proof
  assume "HasSuffix s p"
  then show "\<exists>t. s = t @ p" unfolding HasSuffix_def by (metis append_take_drop_id)
next
  assume "\<exists>t. s = t @ p"
  then show "HasSuffix s p" by (auto simp: HasSuffix_def)
qed

lemma HasSuffix_append [simp]: "HasSuffix (t @ p) p"
  by (auto simp: HasSuffix_iff)

lemma HasPrefix_append [simp]: "HasPrefix (p @ t) p"
  by (auto simp: HasPrefix_iff)

lemma Contains_iff: "Contains s p \<longleftrightarrow> (\<exists>a b. s = a @ p @ b)"
proof (induction s)
  case Nil
  then show ?case by auto
next
  case (Cons c s)
  note IH = Cons.IH
  show ?case
  proof
    assume "Contains (c # s) p"
    then consider t where "c # s = p @ t" | a b where "s = a @ p @ b"
      using Cons.IH by (auto simp: HasPrefix_iff)
    then show "\<exists>a b. c # s = a @ p @ b"
      by cases (metis append_Nil, metis append_Cons)
  next
    assume "\<exists>a b. c # s = a @ p @ b"
    then obtain a b where ab: "c # s = a @ p @ b" by blast
    show "Contains (c # s) p"
    proof (cases a)
      case Nil
      with ab have "HasPrefix (c # s) p" by (auto simp: HasPrefix_iff)
      then show ?thesis by simp
    next
      case (Cons x xs)
      with ab have "\<exists>u v. s = u @ p @ v" by auto
      then have "Contains s p" using IH by simp
      then show ?thesis by simp
    qed
  qed
qed

lemma Cut_recombine: "Cut s sep = (a, b, True) \<Longrightarrow> s = a @ sep # b \<and> sep \<notin> set a"
  unfolding Cut_def
  by (auto split: if_splits dest: set_takeWhileD)
     (metis (mono_tags, lifting) dropWhile_eq_Nil_conv hd_Cons_tl hd_dropWhile takeWhile_dropWhile_id)

section \<open>Comparison\<close>

text \<open>\<open>strings.Compare\<close>: lexicographic in the bytes, which is also the binary collation of SQL.\<close>

fun strings_Compare :: "string \<Rightarrow> string \<Rightarrow> int" where
  "strings_Compare [] [] = 0"
| "strings_Compare [] (_ # _) = -1"
| "strings_Compare (_ # _) [] = 1"
| "strings_Compare (c # cs) (d # ds) =
    (if byte c < byte d then -1 else if byte d < byte c then 1 else strings_Compare cs ds)"

lemma strings_Compare_range: "strings_Compare s t \<in> {-1, 0, 1}"
  by (induction s t rule: strings_Compare.induct) auto

lemma strings_Compare_eq [simp]: "strings_Compare s t = 0 \<longleftrightarrow> s = t"
  by (induction s t rule: strings_Compare.induct) (auto simp: not_less)

lemma strings_Compare_swap: "strings_Compare t s = - strings_Compare s t"
  by (induction s t rule: strings_Compare.induct) auto

lemma strings_Compare_trans:
  "strings_Compare s t \<le> 0 \<Longrightarrow> strings_Compare t u \<le> 0 \<Longrightarrow> strings_Compare s u \<le> 0"
proof (induction s t arbitrary: u rule: strings_Compare.induct)
  case 1
  then show ?case by simp
next
  case (2 d ds)
  then show ?case by (cases u) simp_all
next
  case (3 c cs)
  then show ?case by simp
next
  case (4 c cs d ds)
  show ?case
  proof (cases u)
    case Nil
    with "4.prems" show ?thesis by simp
  next
    case (Cons e es)
    with "4.prems" have le: "byte c \<le> byte d" "byte d \<le> byte e"
      by (simp_all split: if_splits)
    show ?thesis
    proof (cases "byte c < byte e")
      case True
      with Cons show ?thesis by simp
    next
      case False
      with le have "byte c = byte d" "byte d = byte e" by linarith+
      with "4.prems" Cons have "strings_Compare cs ds \<le> 0" "strings_Compare ds es \<le> 0" by simp_all
      with "4.IH" \<open>byte c = byte d\<close> have "strings_Compare cs es \<le> 0" by simp
      with Cons \<open>byte c = byte d\<close> \<open>byte d = byte e\<close> show ?thesis by simp
    qed
  qed
qed

definition str_le :: "string \<Rightarrow> string \<Rightarrow> bool" where
  "str_le s t \<longleftrightarrow> strings_Compare s t \<le> 0"

lemma str_le_total: "str_le s t \<or> str_le t s"
  using strings_Compare_swap [of s t] by (auto simp: str_le_def)

lemma str_le_trans: "str_le s t \<Longrightarrow> str_le t u \<Longrightarrow> str_le s u"
  unfolding str_le_def by (rule strings_Compare_trans)

lemma str_le_antisym: "str_le s t \<Longrightarrow> str_le t s \<Longrightarrow> s = t"
  unfolding str_le_def using strings_Compare_swap [of s t] strings_Compare_eq [of s t] by linarith

section \<open>White space\<close>

text \<open>
  \<open>unicode.IsSpace\<close>, as the UTF-8 encodings of its runes: \<open>\\t \\n \\v \\f \\r\<close> and blank, \<open>U+0085\<close>, \<open>U+00A0\<close>,
  \<open>U+1680\<close>, \<open>U+2000\<close> to \<open>U+200A\<close>, \<open>U+2028\<close>, \<open>U+2029\<close>, \<open>U+202F\<close>, \<open>U+205F\<close>, \<open>U+3000\<close>.
  A string's first (last) rune is a space exactly if the string starts (ends) with one of them.
\<close>

definition space_runes :: "rune list" where
  "space_runes = [32, 9, 10, 11, 12, 13, 133, 160, 5760, 8192, 8193, 8194, 8195, 8196, 8197, 8198,
     8199, 8200, 8201, 8202, 8232, 8233, 8239, 8287, 12288]"

definition IsSpace :: "rune \<Rightarrow> bool" where
  "IsSpace r \<longleftrightarrow> r \<in> set space_runes"

definition space_encodings :: "string list" where
  "space_encodings = map EncodeRune space_runes"

lemma space_encodings_nonempty: "e \<in> set space_encodings \<Longrightarrow> e \<noteq> []"
  by (auto simp: space_encodings_def EncodeRune_def Let_def split: if_splits)

function TrimLeftSpace :: "string \<Rightarrow> string" where
  "TrimLeftSpace s = (case find (HasPrefix s) space_encodings of
      None \<Rightarrow> s | Some e \<Rightarrow> TrimLeftSpace (drop (length e) s))"
  by pat_completeness auto
termination
proof (relation "measure length")
  fix s e assume "find (HasPrefix s) space_encodings = Some e"
  then have "e \<in> set space_encodings \<and> HasPrefix s e" by (rule find_SomeD)
  then have "e \<noteq> []" and "HasPrefix s e" by (simp_all add: space_encodings_nonempty)
  then show "(drop (length e) s, s) \<in> measure length"
    by (auto simp: HasPrefix_iff)
qed simp

function TrimRightSpace :: "string \<Rightarrow> string" where
  "TrimRightSpace s = (case find (HasSuffix s) space_encodings of
      None \<Rightarrow> s | Some e \<Rightarrow> TrimRightSpace (take (length s - length e) s))"
  by pat_completeness auto
termination
proof (relation "measure length")
  fix s e assume "find (HasSuffix s) space_encodings = Some e"
  then have "e \<in> set space_encodings \<and> HasSuffix s e" by (rule find_SomeD)
  then have "e \<noteq> []" and "HasSuffix s e" by (simp_all add: space_encodings_nonempty)
  then show "(take (length s - length e) s, s) \<in> measure length"
    by (auto simp: HasSuffix_iff)
qed simp

declare TrimLeftSpace.simps [simp del] TrimRightSpace.simps [simp del]

definition TrimSpace :: "string \<Rightarrow> string" where
  "TrimSpace s = TrimRightSpace (TrimLeftSpace s)"

lemma TrimLeftSpace_no_prefix: "find (HasPrefix (TrimLeftSpace s)) space_encodings = None"
proof (induction s rule: TrimLeftSpace.induct)
  case (1 s)
  show ?case
  proof (cases "find (HasPrefix s) space_encodings")
    case None
    then show ?thesis by (simp add: TrimLeftSpace.simps [of s])
  next
    case (Some e)
    then show ?thesis using "1.IH" [OF Some] by (simp add: TrimLeftSpace.simps [of s])
  qed
qed

lemma TrimRightSpace_no_suffix: "find (HasSuffix (TrimRightSpace s)) space_encodings = None"
proof (induction s rule: TrimRightSpace.induct)
  case (1 s)
  show ?case
  proof (cases "find (HasSuffix s) space_encodings")
    case None
    then show ?thesis by (simp add: TrimRightSpace.simps [of s])
  next
    case (Some e)
    then show ?thesis using "1.IH" [OF Some] by (simp add: TrimRightSpace.simps [of s])
  qed
qed

lemma TrimRightSpace_prefix: "\<exists>t. s = TrimRightSpace s @ t"
proof (induction s rule: TrimRightSpace.induct)
  case (1 s)
  show ?case
  proof (cases "find (HasSuffix s) space_encodings")
    case None
    then show ?thesis by (simp add: TrimRightSpace.simps [of s])
  next
    case (Some e)
    then obtain t where "take (length s - length e) s = TrimRightSpace s @ t"
      using "1.IH" [OF Some] by (auto simp: TrimRightSpace.simps [of s])
    then show ?thesis by (metis append.assoc append_take_drop_id)
  qed
qed

lemma TrimSpace_no_prefix: "find (HasPrefix (TrimSpace s)) space_encodings = None"
proof -
  obtain t where t: "TrimLeftSpace s = TrimSpace s @ t"
    using TrimRightSpace_prefix [of "TrimLeftSpace s"] by (auto simp: TrimSpace_def)
  have "\<not> HasPrefix (TrimSpace s) e" if "e \<in> set space_encodings" for e
    using that TrimLeftSpace_no_prefix [of s] unfolding find_None_iff t
    by (auto simp: HasPrefix_iff)
  then show ?thesis by (simp add: find_None_iff)
qed

lemma TrimSpace_id:
  assumes "find (HasPrefix s) space_encodings = None" and "find (HasSuffix s) space_encodings = None"
  shows "TrimSpace s = s"
  using assms by (simp add: TrimSpace_def TrimLeftSpace.simps TrimRightSpace.simps)

lemma TrimSpace_idem [simp]: "TrimSpace (TrimSpace s) = TrimSpace s"
  by (rule TrimSpace_id [OF TrimSpace_no_prefix])
     (simp add: TrimSpace_def TrimRightSpace_no_suffix)

text \<open>A string whose ends are visible ASCII bytes, or the empty string, is already trimmed.\<close>

definition visible :: "char \<Rightarrow> bool" where
  "visible c \<longleftrightarrow> 33 \<le> byte c \<and> byte c < 127"

lemma space_encodings_invisible:
  "list_all (\<lambda>e. e \<noteq> [] \<and> \<not> visible (hd e) \<and> \<not> visible (last e)) space_encodings"
  by (simp add: space_encodings_def space_runes_def EncodeRune_def visible_def)

lemma TrimSpace_Nil [simp]: "TrimSpace [] = []"
proof (rule TrimSpace_id)
  show "find (HasPrefix []) space_encodings = None"
    using space_encodings_nonempty by (auto simp: find_None_iff HasPrefix_iff)
  show "find (HasSuffix []) space_encodings = None"
    using space_encodings_nonempty by (auto simp: find_None_iff HasSuffix_iff)
qed

lemma TrimSpace_visible:
  assumes "s \<noteq> []" and "visible (hd s)" and "visible (last s)"
  shows "TrimSpace s = s"
proof (rule TrimSpace_id)
  have inv: "e \<noteq> [] \<and> \<not> visible (hd e) \<and> \<not> visible (last e)" if "e \<in> set space_encodings" for e
    using space_encodings_invisible that by (simp add: list_all_iff)
  show "find (HasPrefix s) space_encodings = None"
    unfolding find_None_iff HasPrefix_iff using inv assms(2) by (metis hd_append2)
  show "find (HasSuffix s) space_encodings = None"
    unfolding find_None_iff HasSuffix_iff using inv assms(3) by (metis last_appendR)
qed

section \<open>Case\<close>

definition lower_ascii :: "rune \<Rightarrow> rune" where
  "lower_ascii r = (if 65 \<le> r \<and> r \<le> 90 then r + 32 else r)"

definition ToLower :: "(rune \<Rightarrow> rune) \<Rightarrow> string \<Rightarrow> string" where
  "ToLower ulow s = strings_Map (\<lambda>r. if r < 128 then lower_ascii r else ulow r) s"

text \<open>
  \<open>strings.EqualFold\<close> against an ASCII string: simple folding identifies, beyond ASCII, only the
  Kelvin sign with \<open>k\<close> and the long s with \<open>s\<close>.
\<close>

definition fold_ascii :: "rune \<Rightarrow> rune" where
  "fold_ascii r = (if r = 8490 then 107 else if r = 383 then 115 else lower_ascii r)"

definition EqualFold :: "string \<Rightarrow> string \<Rightarrow> bool" where
  "EqualFold s t \<longleftrightarrow> map fold_ascii (runes s) = map fold_ascii (runes t)"

lemma ToLower_ascii:
  "is_ascii s \<Longrightarrow> ToLower ulow s = map (\<lambda>c. char_of (lower_ascii (byte c))) s"
  unfolding ToLower_def by (subst strings_Map_ascii) (auto simp: lower_ascii_def is_ascii_def list_all_iff)

lemma ToLower_lower:
  assumes "list_all (\<lambda>c. byte c < 128 \<and> \<not> (65 \<le> byte c \<and> byte c \<le> 90)) s"
  shows "ToLower ulow s = s"
proof -
  have "is_ascii s" using assms by (auto simp: is_ascii_def list_all_iff)
  then have "ToLower ulow s = map (\<lambda>c. char_of (lower_ascii (byte c))) s" by (rule ToLower_ascii)
  also have "\<dots> = s"
    using assms by (intro map_idI) (auto simp: list_all_iff lower_ascii_def)
  finally show ?thesis .
qed

section \<open>Paths\<close>

text \<open>\<open>filepath.Base\<close> on a Unix target.\<close>

definition filepath_Base :: "string \<Rightarrow> string" where
  "filepath_Base p =
    (if p = [] then ''.''
     else let q = rev (dropWhile (\<lambda>c. c = CHR ''/'') (rev p));
              b = rev (takeWhile (\<lambda>c. c \<noteq> CHR ''/'') (rev q))
          in if b = [] then ''/'' else b)"

lemma filepath_Base_nonempty [simp]: "filepath_Base p \<noteq> []"
  by (simp add: filepath_Base_def Let_def)

section \<open>Low bytes through runes\<close>

text \<open>An ASCII byte of a mapped string comes from an ASCII byte of its source.\<close>

lemma EncodeRune_bytes:
  assumes "c \<in> set (EncodeRune r)" and "byte c < (128::nat)"
  shows "byte c = r"
proof -
  define q where "q = (if 1114111 < r \<or> (55296 \<le> r \<and> r < 57344) then RuneError else r)"
  have q: "q < 1114112" by (simp add: q_def RuneError_def)
  have "q div 64 < 32" if "q < 2048" using that by linarith
  moreover have "q div 4096 < 16" if "q < 65536" using that by linarith
  moreover have "q div 262144 < 5" using q by linarith
  moreover have "128 + q mod 64 < 256" "128 + q div 64 mod 64 < 256" "128 + q div 4096 mod 64 < 256"
    by (simp_all add: add_strict_left_mono less_trans [OF mod_less_divisor])
  ultimately have "q < 128 \<and> c = char_of q"
    using assms by (auto simp: EncodeRune_def q_def [symmetric] Let_def split: if_splits)
  then show ?thesis by (auto simp: q_def RuneError_def split: if_splits)
qed

lemma DecodeRune_low: "DecodeRune (c # cs) = (r, n) \<Longrightarrow> r < 128 \<Longrightarrow> r = byte c"
  by (auto simp: Let_def RuneError_def is_cont_def split: if_splits list.splits)

lemma runes_low: "r \<in> set (runes s) \<Longrightarrow> r < 128 \<Longrightarrow> \<exists>c\<in>set s. byte c = r"
proof (induction s rule: runes.induct)
  case (2 c cs)
  obtain q n where q: "DecodeRune (c # cs) = (q, n)" by fastforce
  from 2(2) q have "r = q \<or> r \<in> set (runes (drop (n - 1) cs))" by auto
  then show ?case
  proof
    assume "r = q"
    then show ?thesis using DecodeRune_low [OF q] 2(3) by auto
  next
    assume "r \<in> set (runes (drop (n - 1) cs))"
    then have "\<exists>x\<in>set (drop (n - 1) cs). byte x = r" using 2(1) [OF q [symmetric]] 2(3) by simp
    then show ?thesis by (auto dest: in_set_dropD)
  qed
qed simp

lemma strings_Map_low:
  assumes "c \<in> set (strings_Map f s)" and "byte c < (128::nat)"
  shows "\<exists>r\<in>set (runes s). f r = byte c"
proof -
  obtain r where "r \<in> set (runes s)" "c \<in> set (EncodeRune (f r))"
    using assms(1) by (auto simp: strings_Map_def)
  then show ?thesis using EncodeRune_bytes assms(2) by metis
qed

lemma filepath_Base_set: "c \<in> set (filepath_Base p) \<Longrightarrow> c \<in> set p \<or> c = CHR ''.'' \<or> c = CHR ''/''"
  by (auto simp: filepath_Base_def Let_def split: if_splits dest!: set_takeWhileD set_dropWhileD)

section \<open>Numbers\<close>

text \<open>Decimal integers, as \<open>strconv\<close> prints them.\<close>

fun digits :: "nat \<Rightarrow> string" where
  "digits n = (if n < 10 then [char_of (48 + n)] else digits (n div 10) @ [char_of (48 + n mod 10)])"

declare digits.simps [simp del]

definition FormatInt :: "int \<Rightarrow> string" where
  "FormatInt i = (if i < 0 then CHR ''-'' # digits (nat (- i)) else digits (nat i))"

end
