(* ===== verification/App_Error.thy ===== *)
theory App_Error
  imports Go_Strings
begin

text \<open>
  Errors as values: Go's \<open>error\<close> interface with the sentinels the service compares against
  (\<open>errors.Is\<close>), wrapping (\<open>fmt.Errorf\<close> with \<open>%w\<close>), joining (\<open>errors.Join\<close>) and the application
  error of \<open>internal/apperror/error.go\<close> that both transports turn into a response.
\<close>

section \<open>Go errors\<close>

text \<open>
  \<open>Opaque\<close> is any error that is none of the named ones: an error of a driver, a client or the
  runtime, or one made by \<open>errors.New\<close> or a \<open>fmt.Errorf\<close> without \<open>%w\<close>.  \<open>GrpcStatus\<close> is an error of the gRPC \<open>status\<close>
  package, by its numeric code.  \<open>AppError\<close> is \<open>*apperror.Error\<close>: code, message, HTTP status, cause.  \<open>Panic\<close> is no error: it stands
  where a call does not return because it panicked, and the code behind the call is not run until a \<open>recover\<close>.
\<close>

datatype goerror =
    Opaque string
  | ErrNotFound
  | ErrStaleVersion
  | ErrConflict
  | ErrRowLimitExceeded
  | ErrByteLimitExceeded
  | ErrNoColumns
  | ErrUnsupportedFormat
  | ErrProviderStreamIncomplete
  | ErrDisabled
  | ErrNotGranted
  | SqlErrNoRows
  | SqlConstraint
  | IoEOF
  | ContextDeadlineExceeded
  | ContextCanceled
  | GrpcStatus nat string
  | Wrap string goerror string
  | Join goerror goerror
  | AppError int string int "goerror option"
  | Panic string

type_synonym 'a result = "goerror + 'a"

text \<open>\<open>errors.Is\<close>: the error itself or anything it unwraps to.\<close>

fun errors_Is :: "goerror \<Rightarrow> goerror \<Rightarrow> bool" where
  "errors_Is (Wrap a e b) t = (Wrap a e b = t \<or> errors_Is e t)"
| "errors_Is (Join e f) t = (Join e f = t \<or> errors_Is e t \<or> errors_Is f t)"
| "errors_Is (AppError c m h (Some e)) t = (AppError c m h (Some e) = t \<or> errors_Is e t)"
| "errors_Is e t = (e = t)"

text \<open>\<open>errors.As(err, &appErr)\<close>: the first application error met while unwrapping.\<close>

fun errors_As_App :: "goerror \<Rightarrow> (int \<times> string \<times> int \<times> goerror option) option" where
  "errors_As_App (AppError c m h e) = Some (c, m, h, e)"
| "errors_As_App (Wrap a e b) = errors_As_App e"
| "errors_As_App (Join e f) =
    (case errors_As_App e of Some x \<Rightarrow> Some x | None \<Rightarrow> errors_As_App f)"
| "errors_As_App e = None"

fun error_string :: "goerror \<Rightarrow> string" where
  "error_string (Opaque m) = m"
| "error_string ErrNotFound = ''export job not found''"
| "error_string ErrStaleVersion = ''stale export job version''"
| "error_string ErrConflict = ''export job conflict''"
| "error_string ErrRowLimitExceeded = ''export row limit exceeded''"
| "error_string ErrByteLimitExceeded = ''export byte limit exceeded''"
| "error_string ErrNoColumns = ''export provider returned no columns''"
| "error_string ErrUnsupportedFormat = ''unsupported export format''"
| "error_string ErrProviderStreamIncomplete =
     ''export provider stream ended before the final batch''"
| "error_string ErrDisabled = ''object storage is disabled''"
| "error_string ErrNotGranted = ''application not granted''"
| "error_string SqlErrNoRows = ''sql: no rows in result set''"
| "error_string SqlConstraint = ''constraint violation''"
| "error_string IoEOF = ''EOF''"
| "error_string ContextDeadlineExceeded = ''context deadline exceeded''"
| "error_string ContextCanceled = ''context canceled''"
| "error_string (GrpcStatus c m) = m"
| "error_string (Wrap a e b) = a @ error_string e @ b"
| "error_string (Join e f) = error_string e @ [CHR 0x0A] @ error_string f"
| "error_string (AppError c m h (Some e)) = error_string e"
| "error_string (AppError c m h None) = m"
| "error_string (Panic m) = m"

definition is_panic :: "goerror \<Rightarrow> bool" where
  "is_panic e = (case e of Panic _ \<Rightarrow> True | _ \<Rightarrow> False)"

lemma is_panic_simps [simp]:
  "is_panic (Panic m)"
  "\<not> is_panic (AppError c m h cause)"
  "\<not> is_panic (GrpcStatus k m)"
  "\<not> is_panic (Wrap m e m')"
  "\<not> is_panic (Opaque m)"
  by (simp_all add: is_panic_def)

lemma errors_Is_refl [simp]: "errors_Is e e"
  by (cases "(e, e)" rule: errors_Is.cases) auto

section \<open>Application errors\<close>

abbreviation (input) "CodeOK \<equiv> (0::int)"
abbreviation (input) "CodeInvalidArgument \<equiv> (10001::int)"
abbreviation (input) "CodeNotFound \<equiv> (10004::int)"
abbreviation (input) "CodeRequestTimeout \<equiv> (10008::int)"
abbreviation (input) "CodeTooManyRequests \<equiv> (10029::int)"
abbreviation (input) "CodeUnauthorized \<equiv> (20001::int)"
abbreviation (input) "CodeForbidden \<equiv> (20003::int)"
abbreviation (input) "CodeConflict \<equiv> (30009::int)"
abbreviation (input) "CodeRequestInProgress \<equiv> (30010::int)"
abbreviation (input) "CodeInternal \<equiv> (50000::int)"
abbreviation (input) "CodeDependencyUnavailable \<equiv> (50003::int)"

definition app_New :: "int \<Rightarrow> string \<Rightarrow> int \<Rightarrow> goerror option \<Rightarrow> goerror" where
  "app_New code message status err = AppError code message status err"

definition app_Invalid :: "string \<Rightarrow> goerror option \<Rightarrow> goerror" where
  "app_Invalid message err = app_New CodeInvalidArgument message 400 err"

definition app_NotFound :: "string \<Rightarrow> goerror" where
  "app_NotFound message = app_New CodeNotFound message 404 None"

definition app_Conflict :: "string \<Rightarrow> goerror option \<Rightarrow> goerror" where
  "app_Conflict message err = app_New CodeConflict message 409 err"

definition app_RequestInProgress :: goerror where
  "app_RequestInProgress = app_New CodeRequestInProgress ''request is already processing'' 409 None"

definition app_Unauthorized :: "string \<Rightarrow> goerror" where
  "app_Unauthorized message = app_New CodeUnauthorized message 401 None"

definition app_Forbidden :: "string \<Rightarrow> goerror" where
  "app_Forbidden message = app_New CodeForbidden message 403 None"

definition app_TooManyRequests :: goerror where
  "app_TooManyRequests = app_New CodeTooManyRequests ''too many requests'' 429 None"

definition app_RequestTimeout :: goerror where
  "app_RequestTimeout = app_New CodeRequestTimeout ''request timeout'' 504 None"

definition app_Unavailable :: "string \<Rightarrow> goerror option \<Rightarrow> goerror" where
  "app_Unavailable message err = app_New CodeDependencyUnavailable message 503 err"

definition app_Internal :: "goerror \<Rightarrow> goerror" where
  "app_Internal err = app_New CodeInternal ''internal server error'' 500 (Some err)"

lemmas app_error_defs =
  app_New_def app_Invalid_def app_NotFound_def app_Conflict_def app_RequestInProgress_def
  app_Unauthorized_def app_Forbidden_def app_TooManyRequests_def app_RequestTimeout_def
  app_Unavailable_def app_Internal_def

text \<open>The code of an error a caller sees, \<open>None\<close> for an error that is not an application error.\<close>

definition app_code :: "goerror \<Rightarrow> int option" where
  "app_code e = map_option fst (errors_As_App e)"

lemma is_panic_app [simp]:
  "\<not> is_panic (app_Invalid m e)" "\<not> is_panic (app_New c m h e)" "\<not> is_panic (app_Unavailable m e)"
  by (simp_all add: app_error_defs)

lemma app_code_simps [simp]:
  "app_code (app_Invalid m e) = Some CodeInvalidArgument"
  "app_code (app_NotFound m) = Some CodeNotFound"
  "app_code (app_Conflict m e) = Some CodeConflict"
  "app_code (app_Unauthorized m) = Some CodeUnauthorized"
  "app_code (app_Unavailable m e) = Some CodeDependencyUnavailable"
  "app_code (app_Internal e0) = Some CodeInternal"
  "app_code (app_New c m h e) = Some c"
  by (simp_all add: app_error_defs app_code_def)

end
