(* ===== verification/Export_Model.thy ===== *)
theory Export_Model
  imports App_Error
begin

text \<open>
  The data of the export domain, \<open>internal/export/model.go\<close> and the structs of \<open>catalog.go\<close>,
  \<open>events.go\<close> and \<open>proto.go\<close>, field by field.  A nullable column (\<open>*time.Time\<close>) is an option.
\<close>

section \<open>Jobs\<close>

definition StatusQueued :: string where "StatusQueued = ''queued''"
definition StatusRunning :: string where "StatusRunning = ''running''"
definition StatusSucceeded :: string where "StatusSucceeded = ''succeeded''"
definition StatusFailed :: string where "StatusFailed = ''failed''"
definition StatusCanceled :: string where "StatusCanceled = ''canceled''"
definition StatusExpired :: string where "StatusExpired = ''expired''"

definition FormatCSV :: string where "FormatCSV = ''csv''"
definition FormatJSONL :: string where "FormatJSONL = ''jsonl''"
definition FormatXLSX :: string where "FormatXLSX = ''xlsx''"

lemmas status_defs = StatusQueued_def StatusRunning_def StatusSucceeded_def StatusFailed_def
  StatusCanceled_def StatusExpired_def

lemmas format_defs = FormatCSV_def FormatJSONL_def FormatXLSX_def

lemma status_distinct [simp]:
  "distinct [StatusQueued, StatusRunning, StatusSucceeded, StatusFailed, StatusCanceled, StatusExpired]"
  by (simp add: status_defs)

lemma status_neq [simp]:
  "StatusQueued \<noteq> StatusRunning" "StatusQueued \<noteq> StatusSucceeded" "StatusQueued \<noteq> StatusFailed"
  "StatusQueued \<noteq> StatusCanceled" "StatusQueued \<noteq> StatusExpired"
  "StatusRunning \<noteq> StatusQueued" "StatusRunning \<noteq> StatusSucceeded" "StatusRunning \<noteq> StatusFailed"
  "StatusRunning \<noteq> StatusCanceled" "StatusRunning \<noteq> StatusExpired"
  "StatusSucceeded \<noteq> StatusQueued" "StatusSucceeded \<noteq> StatusRunning" "StatusSucceeded \<noteq> StatusFailed"
  "StatusSucceeded \<noteq> StatusCanceled" "StatusSucceeded \<noteq> StatusExpired"
  "StatusFailed \<noteq> StatusQueued" "StatusFailed \<noteq> StatusRunning" "StatusFailed \<noteq> StatusSucceeded"
  "StatusFailed \<noteq> StatusCanceled" "StatusFailed \<noteq> StatusExpired"
  "StatusCanceled \<noteq> StatusQueued" "StatusCanceled \<noteq> StatusRunning" "StatusCanceled \<noteq> StatusSucceeded"
  "StatusCanceled \<noteq> StatusFailed" "StatusCanceled \<noteq> StatusExpired"
  "StatusExpired \<noteq> StatusQueued" "StatusExpired \<noteq> StatusRunning" "StatusExpired \<noteq> StatusSucceeded"
  "StatusExpired \<noteq> StatusFailed" "StatusExpired \<noteq> StatusCanceled"
  by (simp_all add: status_defs)

record job =
  ID :: string
  TenantID :: string
  ApplicationID :: string
  DatasetCode :: string
  ProviderService :: string
  Format :: string
  Filename :: string
  QueryJSON :: string
  SelectedColumnsJSON :: string
  IdempotencyKey :: string
  Status :: string
  RowsExported :: int
  BytesWritten :: int
  ProgressPercent :: int
  ObjectKey :: string
  ContentType :: string
  Checksum :: string
  ErrorCode :: string
  ErrorMessage :: string
  StartedAt :: "time option"
  CompletedAt :: "time option"
  ExpiresAt :: "time option"
  Version :: int
  CreatedAt :: time
  UpdatedAt :: time
  CreatedBy :: string
  UpdatedBy :: string

text \<open>Go's zero value \<open>Job{}\<close>; the zero \<open>time.Time\<close> is instant 0 of the model.\<close>

definition zero_job :: job where
  "zero_job = \<lparr>ID = [], TenantID = [], ApplicationID = [], DatasetCode = [], ProviderService = [],
     Format = [], Filename = [], QueryJSON = [], SelectedColumnsJSON = [], IdempotencyKey = [],
     Status = [], RowsExported = 0, BytesWritten = 0, ProgressPercent = 0, ObjectKey = [],
     ContentType = [], Checksum = [], ErrorCode = [], ErrorMessage = [], StartedAt = None,
     CompletedAt = None, ExpiresAt = None, Version = 0, CreatedAt = 0, UpdatedAt = 0,
     CreatedBy = [], UpdatedBy = []\<rparr>"

section \<open>Datasets\<close>

record column =
  col_Key :: string
  col_Title :: string
  col_Type :: string
  col_Format :: string
  col_Sensitive :: bool

record query_field =
  qf_Key :: string
  qf_Title :: string
  qf_Type :: string
  qf_Format :: string
  qf_Description :: string
  qf_Options :: "string list"
  qf_Required :: bool

record dataset_summary =
  ds_ProviderService :: string
  ds_Code :: string
  ds_Title :: string
  ds_Formats :: "string list"
  ds_SupportsSnapshot :: bool
  ds_HealthyInstances :: int

record dataset_descriptor =
  dd_Code :: string
  dd_Title :: string
  dd_Columns :: "column list"
  dd_QueryFields :: "query_field list"
  dd_Formats :: "string list"
  dd_EstimatedRows :: int
  dd_SupportsSnapshot :: bool

section \<open>Requests and pages\<close>

record create_input =
  ci_TenantID :: string
  ci_ApplicationID :: string
  ci_DatasetCode :: string
  ci_ProviderService :: string
  ci_Format :: string
  ci_Filename :: string
  ci_QueryJSON :: string
  ci_SelectedColumnsJSON :: string
  ci_IdempotencyKey :: string
  ci_ActorID :: string

record list_filter =
  lf_TenantID :: string
  lf_ApplicationID :: string
  lf_Status :: string
  lf_DatasetCode :: string
  lf_CreatedFrom :: "time option"
  lf_CreatedTo :: "time option"
  lf_Page :: int
  lf_PageSize :: int

record page =
  pg_Items :: "job list"
  pg_Total :: int

section \<open>Events\<close>

record outbox_event =
  oe_ID :: string
  oe_Subject :: string
  oe_Envelope :: string
  oe_AvailableAt :: time
  oe_CreatedAt :: time
  oe_UpdatedAt :: time
  oe_CreatedBy :: string
  oe_UpdatedBy :: string

text \<open>
  The message \<open>exportv1.ExportJob\<close> as \<open>ToProto\<close> fills it: every field of the job but the
  idempotency key, timestamps that are nil left unset.
\<close>

record export_job_pb =
  pb_Id :: string
  pb_TenantId :: string
  pb_ApplicationId :: string
  pb_DatasetCode :: string
  pb_ProviderService :: string
  pb_Format :: string
  pb_Filename :: string
  pb_QueryJson :: string
  pb_SelectedColumnsJson :: string
  pb_Status :: string
  pb_RowsExported :: int
  pb_BytesWritten :: int
  pb_ProgressPercent :: int
  pb_ObjectKey :: string
  pb_ContentType :: string
  pb_Checksum :: string
  pb_ErrorCode :: string
  pb_ErrorMessage :: string
  pb_StartedAt :: "time option"
  pb_CompletedAt :: "time option"
  pb_ExpiresAt :: "time option"
  pb_Version :: int
  pb_CreatedAt :: time
  pb_UpdatedAt :: time
  pb_CreatedBy :: string
  pb_UpdatedBy :: string

definition ToProto :: "job \<Rightarrow> export_job_pb" where
  "ToProto v = \<lparr>pb_Id = ID v, pb_TenantId = TenantID v, pb_ApplicationId = ApplicationID v,
     pb_DatasetCode = DatasetCode v, pb_ProviderService = ProviderService v, pb_Format = Format v,
     pb_Filename = Filename v, pb_QueryJson = QueryJSON v,
     pb_SelectedColumnsJson = SelectedColumnsJSON v, pb_Status = Status v,
     pb_RowsExported = RowsExported v, pb_BytesWritten = BytesWritten v,
     pb_ProgressPercent = ProgressPercent v, pb_ObjectKey = ObjectKey v,
     pb_ContentType = ContentType v, pb_Checksum = Checksum v, pb_ErrorCode = ErrorCode v,
     pb_ErrorMessage = ErrorMessage v, pb_StartedAt = StartedAt v, pb_CompletedAt = CompletedAt v,
     pb_ExpiresAt = ExpiresAt v, pb_Version = Version v, pb_CreatedAt = CreatedAt v,
     pb_UpdatedAt = UpdatedAt v, pb_CreatedBy = CreatedBy v, pb_UpdatedBy = UpdatedBy v\<rparr>"

text \<open>
  The envelope \<open>jobChangedEvent\<close> builds: the metadata it passes to \<open>platformevents.NewEnvelope\<close>
  and the payload.  The platform library that assembles the message and the protobuf encoder are
  the parameter \<open>seal\<close>: the bytes, or the error of either call.
\<close>

record envelope =
  env_EventID :: string
  env_EventType :: string
  env_AggregateID :: string
  env_AggregateType :: string
  env_TenantID :: string
  env_ApplicationID :: string
  env_SchemaVersion :: int
  env_ActorID :: string
  env_OccurredAt :: time
  env_Job :: export_job_pb
  env_ChangeType :: string

definition event_envelope :: "string \<Rightarrow> job \<Rightarrow> string \<Rightarrow> string \<Rightarrow> time \<Rightarrow> envelope" where
  "event_envelope eid j change actor at = \<lparr>env_EventID = eid,
     env_EventType = ''platform.export.v1.ExportJobChanged'', env_AggregateID = ID j,
     env_AggregateType = ''export_job'', env_TenantID = TenantID j,
     env_ApplicationID = ApplicationID j, env_SchemaVersion = 1, env_ActorID = actor,
     env_OccurredAt = at, env_Job = ToProto j, env_ChangeType = change\<rparr>"

definition event_subject :: "string \<Rightarrow> string" where
  "event_subject change = ''platform.export.job.'' @ change @ ''.v1''"

definition jobChangedEvent ::
  "(envelope \<Rightarrow> string result) \<Rightarrow> string \<Rightarrow> job \<Rightarrow> string \<Rightarrow> string \<Rightarrow> time \<Rightarrow> outbox_event result" where
  "jobChangedEvent seal eid j change actor at =
    (case seal (event_envelope eid j change actor at) of
       Inl e \<Rightarrow> Inl e
     | Inr encoded \<Rightarrow> Inr \<lparr>oe_ID = eid, oe_Subject = event_subject change, oe_Envelope = encoded,
         oe_AvailableAt = at, oe_CreatedAt = at, oe_UpdatedAt = at,
         oe_CreatedBy = actor, oe_UpdatedBy = actor\<rparr>)"

lemma jobChangedEvent_InrD:
  "jobChangedEvent seal eid j change actor at = Inr ev \<Longrightarrow>
    seal (event_envelope eid j change actor at) = Inr (oe_Envelope ev) \<and>
    oe_ID ev = eid \<and> oe_Subject ev = event_subject change \<and> oe_AvailableAt ev = at"
  by (auto simp: jobChangedEvent_def split: sum.splits)

text \<open>\<open>normalize\<close> of \<open>repository.go\<close>.\<close>

definition normalize :: "string \<Rightarrow> string" where
  "normalize value = TrimSpace value"

lemma normalize_idem [simp]: "normalize (normalize s) = normalize s"
  by (simp add: normalize_def)

lemma normalize_Nil [simp]: "normalize [] = []"
  by (simp add: normalize_def)

lemma normalize_visible: "s \<noteq> [] \<Longrightarrow> visible (hd s) \<Longrightarrow> visible (last s) \<Longrightarrow> normalize s = s"
  by (simp add: normalize_def TrimSpace_visible)

end
