(* ===== verification/Export_Repository.thy ===== *)
theory Export_Repository
  imports Export_Model
begin

text \<open>
  \<open>internal/export/repository.go\<close> over the schema of \<open>migrations/postgres\<close>, and the transaction
  runner of \<open>internal/database/transaction.go\<close>.

  The database is its two tables.  Every SQL statement of the repository is a function on them
  (\<open>stmt_\<dots>\<close>); the operations (\<open>repo_\<dots>\<close>) run a statement in a world where statements can fail
  (\<open>Lost\<close>: not executed; \<open>Unacked\<close>: executed, the reply lost, which also covers a driver whose
  \<open>RowsAffected\<close> fails) and where other replicas commit their own transactions before every
  statement that runs outside a transaction of ours, and before every transaction we begin.
  A transaction sees no foreign change between its statements.
\<close>

section \<open>Tables\<close>

record outbox_row =
  or_event :: outbox_event
  or_attempts :: int
  or_published_at :: "time option"
  or_last_error :: string
  or_version :: int

record db =
  jobs :: "job list"
  outbox :: "outbox_row list"

text \<open>The constraints of \<open>export_jobs\<close>: checks per row, the primary key, the idempotency key.\<close>

definition row_check :: "job \<Rightarrow> bool" where
  "row_check j \<longleftrightarrow>
    Status j \<in> {StatusQueued, StatusRunning, StatusSucceeded, StatusFailed, StatusCanceled, StatusExpired}
    \<and> Format j \<in> {FormatCSV, FormatJSONL, FormatXLSX}
    \<and> 0 \<le> ProgressPercent j \<and> ProgressPercent j \<le> 100"

definition idempotency_unique :: "job \<Rightarrow> string \<times> string \<times> string" where
  "idempotency_unique j = (TenantID j, ApplicationID j, IdempotencyKey j)"

definition table_ok :: "job list \<Rightarrow> bool" where
  "table_ok rs \<longleftrightarrow> distinct (map ID rs) \<and> distinct (map idempotency_unique rs) \<and> list_all row_check rs"

definition job_at :: "string \<Rightarrow> string \<Rightarrow> string \<Rightarrow> job \<Rightarrow> bool" where
  "job_at t a i j \<longleftrightarrow> TenantID j = t \<and> ApplicationID j = a \<and> ID j = i"

definition lookup_job :: "db \<Rightarrow> string \<Rightarrow> string \<Rightarrow> string \<Rightarrow> job option" where
  "lookup_job d t a i = find (job_at t a i) (jobs d)"

section \<open>Statements\<close>

type_synonym 'a stmt = "db \<Rightarrow> ('a \<times> db) result"

definition exec_update :: "(job \<Rightarrow> bool) \<Rightarrow> (job \<Rightarrow> job) \<Rightarrow> nat stmt" where
  "exec_update P f d =
    (let rows = update_where P f (jobs d)
     in if table_ok rows then Inr (affected P (jobs d), d\<lparr>jobs := rows\<rparr>) else Inl SqlConstraint)"

definition exec_insert :: "job \<Rightarrow> nat stmt" where
  "exec_insert j d =
    (let rows = jobs d @ [j]
     in if table_ok rows then Inr (1, d\<lparr>jobs := rows\<rparr>) else Inl SqlConstraint)"

definition select_one :: "(job \<Rightarrow> bool) \<Rightarrow> job stmt" where
  "select_one P d = (case find P (jobs d) of None \<Rightarrow> Inl SqlErrNoRows | Some j \<Rightarrow> Inr (j, d))"

definition stmt_Get :: "string \<Rightarrow> string \<Rightarrow> string \<Rightarrow> job stmt" where
  "stmt_Get t a i = select_one (job_at t a i)"

definition stmt_by_key :: "string \<Rightarrow> string \<Rightarrow> string \<Rightarrow> job stmt" where
  "stmt_by_key t a k = select_one (\<lambda>j. TenantID j = t \<and> ApplicationID j = a \<and> IdempotencyKey j = k)"

text \<open>The \<open>WHERE\<close> clause \<open>List\<close> assembles, and its page in the order \<open>created_at DESC, id DESC\<close>.\<close>

definition list_where :: "list_filter \<Rightarrow> job \<Rightarrow> bool" where
  "list_where f j \<longleftrightarrow>
    TenantID j = lf_TenantID f \<and> ApplicationID j = lf_ApplicationID f
    \<and> (lf_Status f \<noteq> [] \<longrightarrow> Status j = lf_Status f)
    \<and> (lf_DatasetCode f \<noteq> [] \<longrightarrow> DatasetCode j = lf_DatasetCode f)
    \<and> (case lf_CreatedFrom f of None \<Rightarrow> True | Some t \<Rightarrow> t \<le> CreatedAt j)
    \<and> (case lf_CreatedTo f of None \<Rightarrow> True | Some t \<Rightarrow> CreatedAt j < t)"

definition newest_first :: "job \<Rightarrow> job \<Rightarrow> bool" where
  "newest_first x y \<longleftrightarrow> CreatedAt y < CreatedAt x \<or> (CreatedAt x = CreatedAt y \<and> str_le (ID y) (ID x))"

definition list_offset :: "list_filter \<Rightarrow> int" where
  "list_offset f = i32 (i32 (lf_Page f - 1) * lf_PageSize f)"

definition stmt_Count :: "list_filter \<Rightarrow> int stmt" where
  "stmt_Count f d = Inr (int (length (filter (list_where f) (jobs d))), d)"

definition stmt_Select :: "list_filter \<Rightarrow> job list stmt" where
  "stmt_Select f d =
    (if list_offset f < 0 \<or> lf_PageSize f < 0 then Inl (Opaque ''OFFSET must not be negative'')
     else Inr (take (nat (lf_PageSize f)) (drop (nat (list_offset f))
                 (sort_by newest_first (filter (list_where f) (jobs d)))), d))"

text \<open>The \<open>SET\<close> clauses of the guarded updates.\<close>

abbreviation "worker_actor \<equiv> ''data-export-worker''"
abbreviation "cleaner_actor \<equiv> ''data-export-cleaner''"

abbreviation set_Cancel :: "string \<Rightarrow> time \<Rightarrow> job \<Rightarrow> job" where
  "set_Cancel actor at j \<equiv> j\<lparr>Status := StatusCanceled, CompletedAt := Some at, Version := Version j + 1,
     UpdatedAt := at, UpdatedBy := actor\<rparr>"

abbreviation set_Retry :: "job \<Rightarrow> job \<Rightarrow> job" where
  "set_Retry v j \<equiv> j\<lparr>Status := StatusQueued, IdempotencyKey := IdempotencyKey v, RowsExported := 0,
     BytesWritten := 0, ProgressPercent := 0, ContentType := [], Checksum := [], ErrorCode := [],
     ErrorMessage := [], StartedAt := None, CompletedAt := None, ExpiresAt := None,
     Version := Version j + 1, UpdatedAt := UpdatedAt v, UpdatedBy := UpdatedBy v\<rparr>"

abbreviation set_Claim :: "time \<Rightarrow> job \<Rightarrow> job" where
  "set_Claim at j \<equiv> j\<lparr>Status := StatusRunning, StartedAt := Some at, Version := Version j + 1,
     UpdatedAt := at, UpdatedBy := worker_actor\<rparr>"

abbreviation set_Progress :: "int \<Rightarrow> int \<Rightarrow> int \<Rightarrow> time \<Rightarrow> job \<Rightarrow> job" where
  "set_Progress rows bytes percent at j \<equiv> j\<lparr>RowsExported := rows, BytesWritten := bytes, ProgressPercent := percent,
     Version := Version j + 1, UpdatedAt := at, UpdatedBy := worker_actor\<rparr>"

abbreviation set_Succeed :: "job \<Rightarrow> job \<Rightarrow> job" where
  "set_Succeed v j \<equiv> j\<lparr>Status := StatusSucceeded, RowsExported := RowsExported v, BytesWritten := BytesWritten v,
     ProgressPercent := 100, ContentType := ContentType v, Checksum := Checksum v,
     CompletedAt := CompletedAt v, ExpiresAt := ExpiresAt v, Version := Version j + 1,
     UpdatedAt := UpdatedAt v, UpdatedBy := UpdatedBy v\<rparr>"

abbreviation set_Fail :: "job \<Rightarrow> job \<Rightarrow> job" where
  "set_Fail v j \<equiv> j\<lparr>Status := StatusFailed, ErrorCode := ErrorCode v, ErrorMessage := ErrorMessage v,
     CompletedAt := CompletedAt v, Version := Version j + 1, UpdatedAt := UpdatedAt v,
     UpdatedBy := UpdatedBy v\<rparr>"

abbreviation set_Expire :: "time \<Rightarrow> job \<Rightarrow> job" where
  "set_Expire at j \<equiv> j\<lparr>Status := StatusExpired, Version := Version j + 1, UpdatedAt := at,
     UpdatedBy := cleaner_actor\<rparr>"

definition stmt_Cancel :: "string \<Rightarrow> string \<Rightarrow> string \<Rightarrow> int \<Rightarrow> string \<Rightarrow> time \<Rightarrow> nat stmt" where
  "stmt_Cancel t a i expected actor now =
    exec_update (\<lambda>j. job_at t a i j \<and> Version j = expected \<and> Status j \<in> {StatusQueued, StatusRunning})
      (set_Cancel actor now)"

definition stmt_Retry :: "job \<Rightarrow> int \<Rightarrow> nat stmt" where
  "stmt_Retry v expected =
    exec_update (\<lambda>j. job_at (TenantID v) (ApplicationID v) (ID v) j \<and> Version j = expected
        \<and> Status j \<in> {StatusFailed, StatusCanceled})
      (set_Retry v)"

definition stmt_Claim :: "string \<Rightarrow> string \<Rightarrow> string \<Rightarrow> time \<Rightarrow> nat stmt" where
  "stmt_Claim t a i now =
    exec_update (\<lambda>j. job_at t a i j \<and> Status j = StatusQueued)
      (set_Claim now)"

definition stmt_EnsureRunning :: "string \<Rightarrow> string \<Rightarrow> string \<Rightarrow> job stmt" where
  "stmt_EnsureRunning t a i = select_one (\<lambda>j. job_at t a i j \<and> Status j = StatusRunning)"

definition stmt_Progress :: "string \<Rightarrow> string \<Rightarrow> string \<Rightarrow> int \<Rightarrow> int \<Rightarrow> int \<Rightarrow> time \<Rightarrow> nat stmt" where
  "stmt_Progress t a i rows bytes percent now =
    exec_update (\<lambda>j. job_at t a i j \<and> Status j = StatusRunning)
      (set_Progress rows bytes percent now)"

definition stmt_Succeed :: "job \<Rightarrow> nat stmt" where
  "stmt_Succeed v =
    exec_update (\<lambda>j. job_at (TenantID v) (ApplicationID v) (ID v) j \<and> Status j = StatusRunning)
      (set_Succeed v)"

definition stmt_Fail :: "job \<Rightarrow> nat stmt" where
  "stmt_Fail v =
    exec_update (\<lambda>j. job_at (TenantID v) (ApplicationID v) (ID v) j \<and> Status j = StatusRunning)
      (set_Fail v)"

definition due :: "time \<Rightarrow> job \<Rightarrow> bool" where
  "due now j \<longleftrightarrow> (case ExpiresAt j of None \<Rightarrow> False | Some t \<Rightarrow> t \<le> now)"

definition earliest_expiry :: "job \<Rightarrow> job \<Rightarrow> bool" where
  "earliest_expiry x y \<longleftrightarrow> the (ExpiresAt x) < the (ExpiresAt y)
     \<or> (the (ExpiresAt x) = the (ExpiresAt y) \<and> str_le (ID x) (ID y))"

definition stmt_ListExpired :: "time \<Rightarrow> int \<Rightarrow> job list stmt" where
  "stmt_ListExpired now limit d =
    Inr (take (nat limit) (sort_by earliest_expiry
           (filter (\<lambda>j. Status j = StatusSucceeded \<and> due now j) (jobs d))), d)"

definition stmt_Expire :: "job \<Rightarrow> time \<Rightarrow> nat stmt" where
  "stmt_Expire v now =
    exec_update (\<lambda>j. job_at (TenantID v) (ApplicationID v) (ID v) j
        \<and> Status j = StatusSucceeded \<and> due now j)
      (set_Expire now)"

definition earliest_update :: "job \<Rightarrow> job \<Rightarrow> bool" where
  "earliest_update x y \<longleftrightarrow> UpdatedAt x < UpdatedAt y \<or> (UpdatedAt x = UpdatedAt y \<and> str_le (ID x) (ID y))"

definition stmt_ListExpiredMetadataBefore :: "time \<Rightarrow> int \<Rightarrow> job list stmt" where
  "stmt_ListExpiredMetadataBefore before limit d =
    Inr (take (nat limit) (sort_by earliest_update
           (filter (\<lambda>j. Status j = StatusExpired \<and> UpdatedAt j < before) (jobs d))), d)"

definition purgeable :: "job \<Rightarrow> time \<Rightarrow> job \<Rightarrow> bool" where
  "purgeable v before j \<longleftrightarrow> job_at (TenantID v) (ApplicationID v) (ID v) j \<and> Version j = Version v
     \<and> Status j = StatusExpired \<and> UpdatedAt j < before"

definition stmt_DeleteExpiredMetadata :: "job \<Rightarrow> time \<Rightarrow> nat stmt" where
  "stmt_DeleteExpiredMetadata v before d =
    Inr (affected (purgeable v before) (jobs d), d\<lparr>jobs := delete_where (purgeable v before) (jobs d)\<rparr>)"

definition stmt_AddOutbox :: "outbox_event \<Rightarrow> nat stmt" where
  "stmt_AddOutbox v d =
    (if oe_ID v \<in> (\<lambda>r. oe_ID (or_event r)) ` set (outbox d) then Inl SqlConstraint
     else Inr (1, d\<lparr>outbox := outbox d @ [\<lparr>or_event = v, or_attempts = 0, or_published_at = None,
       or_last_error = [], or_version = 1\<rparr>]\<rparr>))"

section \<open>The world the operations run in\<close>

datatype sql_fault = Lost goerror | Unacked goerror

text \<open>
  What the process does not decide: the clock, fresh UUIDs, which statements fail and how, what
  other replicas commit, whether a database is configured (\<open>nil\<close> otherwise) and the event encoder.
  Each is read in sequence, by the number of calls made so far.
\<close>

record env =
  clock :: "nat \<Rightarrow> time"
  uuid :: "nat \<Rightarrow> string"
  sql_faults :: "nat \<Rightarrow> sql_fault option"
  others :: "nat \<Rightarrow> db \<Rightarrow> db"
  db_enabled :: bool
  seal :: "envelope \<Rightarrow> string result"

record 'o world =
  w_db :: db
  w_objs :: 'o
  w_ticks :: nat
  w_stmts :: nat
  w_uuids :: nat

definition now :: "env \<Rightarrow> 'o world \<Rightarrow> time \<times> 'o world" where
  "now E w = (clock E (w_ticks w), w\<lparr>w_ticks := Suc (w_ticks w)\<rparr>)"

definition new_uuid :: "env \<Rightarrow> 'o world \<Rightarrow> string \<times> 'o world" where
  "new_uuid E w = (uuid E (w_uuids w), w\<lparr>w_uuids := Suc (w_uuids w)\<rparr>)"

definition foreign :: "env \<Rightarrow> 'o world \<Rightarrow> 'o world" where
  "foreign E w = w\<lparr>w_db := others E (w_stmts w) (w_db w)\<rparr>"

definition sql_tx :: "env \<Rightarrow> 'a stmt \<Rightarrow> 'o world \<Rightarrow> 'a result \<times> 'o world" where
  "sql_tx E st w =
    (let w1 = w\<lparr>w_stmts := Suc (w_stmts w)\<rparr>
     in case sql_faults E (w_stmts w) of
          Some (Lost e) \<Rightarrow> (Inl e, w1)
        | Some (Unacked e) \<Rightarrow>
            (case st (w_db w) of Inl e' \<Rightarrow> (Inl e', w1) | Inr (_, d) \<Rightarrow> (Inl e, w1\<lparr>w_db := d\<rparr>))
        | None \<Rightarrow>
            (case st (w_db w) of Inl e' \<Rightarrow> (Inl e', w1) | Inr (x, d) \<Rightarrow> (Inr x, w1\<lparr>w_db := d\<rparr>)))"

definition sql_auto :: "env \<Rightarrow> 'a stmt \<Rightarrow> 'o world \<Rightarrow> 'a result \<times> 'o world" where
  "sql_auto E st w = sql_tx E st (foreign E w)"

section \<open>Transactions\<close>

fun fault_error :: "sql_fault \<Rightarrow> goerror" where
  "fault_error (Lost e) = e"
| "fault_error (Unacked e) = e"

text \<open>
  \<open>Transactor.Within\<close>.  The closure's captured variables are the second component of its result,
  \<open>cap\<close> their value when the closure never ran.  A failed rollback hides the closure's error behind
  the driver's; a failed commit may (\<open>Unacked\<close>) or may not (\<open>Lost\<close>) have taken effect.
\<close>

definition Within ::
  "env \<Rightarrow> ('o world \<Rightarrow> (goerror option \<times> 'a) \<times> 'o world) \<Rightarrow> 'a \<Rightarrow> 'o world
    \<Rightarrow> (goerror option \<times> 'a) \<times> 'o world" where
  "Within E fn cap w =
    (if \<not> db_enabled E then ((Some (Opaque ''begin transaction: database is disabled''), cap), w)
     else case sql_auto E (\<lambda>d. Inr ((), d)) w of
       (Inl e, w0) \<Rightarrow> ((Some (Wrap ''begin transaction: '' e []), cap), w0)
     | (Inr _, w0) \<Rightarrow>
        (case fn w0 of
           ((Some e, x), w1) \<Rightarrow>
             (case sql_faults E (w_stmts w1) of
                None \<Rightarrow> ((Some e, x), w1\<lparr>w_db := w_db w0, w_stmts := Suc (w_stmts w1)\<rparr>)
              | Some f \<Rightarrow>
                  ((Some (Wrap (''rollback transaction after '' @ error_string e @ '': '') (fault_error f) []), x),
                   w1\<lparr>w_db := w_db w0, w_stmts := Suc (w_stmts w1)\<rparr>))
         | ((None, x), w1) \<Rightarrow>
             (case sql_faults E (w_stmts w1) of
                None \<Rightarrow> ((None, x), w1\<lparr>w_stmts := Suc (w_stmts w1)\<rparr>)
              | Some (Lost e) \<Rightarrow>
                  ((Some (Wrap ''commit transaction: '' e []), x),
                   w1\<lparr>w_db := w_db w0, w_stmts := Suc (w_stmts w1)\<rparr>)
              | Some (Unacked e) \<Rightarrow>
                  ((Some (Wrap ''commit transaction: '' e []), x), w1\<lparr>w_stmts := Suc (w_stmts w1)\<rparr>))))"

section \<open>Operations\<close>

definition optimistic :: "nat result \<Rightarrow> goerror option" where
  "optimistic r = (case r of Inl e \<Rightarrow> Some e | Inr rows \<Rightarrow> if rows = 0 then Some ErrStaleVersion else None)"

definition notFound :: "goerror \<Rightarrow> goerror" where
  "notFound e = (if errors_Is e SqlErrNoRows then ErrNotFound else e)"

definition repo_Create :: "env \<Rightarrow> job \<Rightarrow> 'o world \<Rightarrow> (job \<times> bool \<times> goerror option) \<times> 'o world" where
  "repo_Create E v w =
    (case sql_tx E (stmt_by_key (TenantID v) (ApplicationID v) (IdempotencyKey v)) w of
       (Inr existing, w1) \<Rightarrow> ((existing, False, None), w1)
     | (Inl e, w1) \<Rightarrow>
         if \<not> errors_Is e SqlErrNoRows then ((zero_job, False, Some e), w1)
         else (case sql_tx E (exec_insert v) w1 of
                 (Inl e', w2) \<Rightarrow> ((v, True, Some e'), w2)
               | (Inr _, w2) \<Rightarrow> ((v, True, None), w2)))"

definition repo_Get :: "env \<Rightarrow> string \<Rightarrow> string \<Rightarrow> string \<Rightarrow> 'o world \<Rightarrow> job result \<times> 'o world" where
  "repo_Get E t a i w =
    (case sql_auto E (stmt_Get t a i) w of
       (Inl e, w1) \<Rightarrow> (Inl (notFound e), w1)
     | (Inr j, w1) \<Rightarrow> (Inr j, w1))"

text \<open>The unexported \<open>get\<close>, which reads inside the caller's transaction.\<close>

definition repo_get_tx :: "env \<Rightarrow> string \<Rightarrow> string \<Rightarrow> string \<Rightarrow> 'o world \<Rightarrow> job result \<times> 'o world" where
  "repo_get_tx E t a i w =
    (case sql_tx E (stmt_Get t a i) w of
       (Inl e, w1) \<Rightarrow> (Inl (notFound e), w1)
     | (Inr j, w1) \<Rightarrow> (Inr j, w1))"

definition repo_List :: "env \<Rightarrow> list_filter \<Rightarrow> 'o world \<Rightarrow> page result \<times> 'o world" where
  "repo_List E f w =
    (case sql_auto E (stmt_Count f) w of
       (Inl e, w1) \<Rightarrow> (Inl e, w1)
     | (Inr count, w1) \<Rightarrow>
         (case sql_auto E (stmt_Select f) w1 of
            (Inl e, w2) \<Rightarrow> (Inl e, w2)
          | (Inr items, w2) \<Rightarrow> (Inr \<lparr>pg_Items = items, pg_Total = count\<rparr>, w2)))"

definition repo_Cancel ::
  "env \<Rightarrow> string \<Rightarrow> string \<Rightarrow> string \<Rightarrow> int \<Rightarrow> string \<Rightarrow> time \<Rightarrow> 'o world \<Rightarrow> goerror option \<times> 'o world" where
  "repo_Cancel E t a i expected actor at w =
    (case sql_tx E (stmt_Cancel t a i expected actor at) w of (r, w1) \<Rightarrow> (optimistic r, w1))"

definition repo_Retry :: "env \<Rightarrow> job \<Rightarrow> int \<Rightarrow> 'o world \<Rightarrow> goerror option \<times> 'o world" where
  "repo_Retry E v expected w =
    (case sql_tx E (stmt_Retry v expected) w of (r, w1) \<Rightarrow> (optimistic r, w1))"

text \<open>\<open>Inr None\<close>: nothing to claim.\<close>

definition repo_Claim ::
  "env \<Rightarrow> string \<Rightarrow> string \<Rightarrow> string \<Rightarrow> time \<Rightarrow> 'o world \<Rightarrow> job option result \<times> 'o world" where
  "repo_Claim E t a i at w =
    (case sql_auto E (stmt_Claim t a i at) w of
       (Inl e, w1) \<Rightarrow> (Inl e, w1)
     | (Inr rows, w1) \<Rightarrow>
         if rows = 0 then (Inr None, w1)
         else (case repo_Get E t a i w1 of
                 (Inl e, w2) \<Rightarrow> (Inl e, w2)
               | (Inr j, w2) \<Rightarrow> (Inr (Some j), w2)))"

definition repo_EnsureRunning ::
  "env \<Rightarrow> string \<Rightarrow> string \<Rightarrow> string \<Rightarrow> 'o world \<Rightarrow> goerror option \<times> 'o world" where
  "repo_EnsureRunning E t a i w =
    (case sql_auto E (stmt_EnsureRunning t a i) w of
       (Inl e, w1) \<Rightarrow> (Some (if errors_Is e SqlErrNoRows then ErrStaleVersion else e), w1)
     | (Inr _, w1) \<Rightarrow> (None, w1))"

definition repo_Progress ::
  "env \<Rightarrow> string \<Rightarrow> string \<Rightarrow> string \<Rightarrow> int \<Rightarrow> int \<Rightarrow> int \<Rightarrow> time \<Rightarrow> 'o world
    \<Rightarrow> goerror option \<times> 'o world" where
  "repo_Progress E t a i rows bytes percent at w =
    (case sql_auto E (stmt_Progress t a i rows bytes percent at) w of (r, w1) \<Rightarrow> (optimistic r, w1))"

definition repo_Succeed :: "env \<Rightarrow> job \<Rightarrow> 'o world \<Rightarrow> job result \<times> 'o world" where
  "repo_Succeed E v w =
    (case sql_tx E (stmt_Succeed v) w of
       (r, w1) \<Rightarrow> (case optimistic r of
           Some e \<Rightarrow> (Inl e, w1)
         | None \<Rightarrow> repo_get_tx E (TenantID v) (ApplicationID v) (ID v) w1))"

definition repo_Fail :: "env \<Rightarrow> job \<Rightarrow> 'o world \<Rightarrow> job result \<times> 'o world" where
  "repo_Fail E v w =
    (case sql_tx E (stmt_Fail v) w of
       (r, w1) \<Rightarrow> (case optimistic r of
           Some e \<Rightarrow> (Inl e, w1)
         | None \<Rightarrow> repo_get_tx E (TenantID v) (ApplicationID v) (ID v) w1))"

definition repo_ListExpired :: "env \<Rightarrow> time \<Rightarrow> int \<Rightarrow> 'o world \<Rightarrow> job list result \<times> 'o world" where
  "repo_ListExpired E at limit w = sql_auto E (stmt_ListExpired at limit) w"

definition repo_Expire :: "env \<Rightarrow> job \<Rightarrow> time \<Rightarrow> 'o world \<Rightarrow> job result \<times> 'o world" where
  "repo_Expire E v at w =
    (case sql_tx E (stmt_Expire v at) w of
       (r, w1) \<Rightarrow> (case optimistic r of
           Some e \<Rightarrow> (Inl e, w1)
         | None \<Rightarrow> repo_get_tx E (TenantID v) (ApplicationID v) (ID v) w1))"

definition repo_ListExpiredMetadataBefore ::
  "env \<Rightarrow> time \<Rightarrow> int \<Rightarrow> 'o world \<Rightarrow> job list result \<times> 'o world" where
  "repo_ListExpiredMetadataBefore E before limit w =
    sql_auto E (stmt_ListExpiredMetadataBefore before limit) w"

definition repo_DeleteExpiredMetadata ::
  "env \<Rightarrow> job \<Rightarrow> time \<Rightarrow> 'o world \<Rightarrow> bool result \<times> 'o world" where
  "repo_DeleteExpiredMetadata E v before w =
    (case sql_tx E (stmt_DeleteExpiredMetadata v before) w of
       (Inl e, w1) \<Rightarrow> (Inl e, w1)
     | (Inr rows, w1) \<Rightarrow> (Inr (rows = 1), w1))"

definition repo_AddOutbox :: "env \<Rightarrow> outbox_event \<Rightarrow> 'o world \<Rightarrow> goerror option \<times> 'o world" where
  "repo_AddOutbox E v w =
    (case sql_tx E (stmt_AddOutbox v) w of
       (Inl e, w1) \<Rightarrow> (Some e, w1)
     | (Inr _, w1) \<Rightarrow> (None, w1))"

section \<open>Laws of the statements\<close>

lemmas stmt_update_defs = stmt_Cancel_def stmt_Retry_def stmt_Claim_def stmt_Progress_def
  stmt_Succeed_def stmt_Fail_def stmt_Expire_def

lemma lookup_jobD:
  "lookup_job d t a i = Some j \<Longrightarrow> j \<in> set (jobs d) \<and> job_at t a i j"
  unfolding lookup_job_def by (rule find_SomeD)

lemma lookup_job_unique:
  assumes "table_ok (jobs d)" and "j \<in> set (jobs d)" and "job_at t a i j"
  shows "lookup_job d t a i = Some j"
  unfolding lookup_job_def
proof (rule find_key_unique)
  show "distinct (map ID (jobs d))" using assms(1) by (simp add: table_ok_def)
qed (use assms in \<open>auto simp: job_at_def\<close>)

text \<open>
  All seven guarded \<open>UPDATE\<close>s have one shape: they select a job by tenant, application and id,
  ask for a guard on its state, and rewrite the row, keeping its identity and counting its version
  up.  What a caller may rely on is proved once.
\<close>

locale keyed_update =
  fixes st :: "nat stmt" and t a i :: string and guard :: "job \<Rightarrow> bool" and eff :: "job \<Rightarrow> job"
  assumes st_eq: "st d = exec_update (\<lambda>j. job_at t a i j \<and> guard j) eff d"
    and eff_ID: "ID (eff j) = ID j"
    and eff_TenantID: "TenantID (eff j) = TenantID j"
    and eff_ApplicationID: "ApplicationID (eff j) = ApplicationID j"
    and eff_Version: "Version (eff j) = Version j + 1"
begin

lemma eff_at [simp]: "job_at x y z (eff j) = job_at x y z j"
  by (simp add: job_at_def eff_ID eff_TenantID eff_ApplicationID)

lemma run_cases:
  assumes "st d = Inr (n, d')"
  shows "n = affected (\<lambda>j. job_at t a i j \<and> guard j) (jobs d)
    \<and> d' = d\<lparr>jobs := update_where (\<lambda>j. job_at t a i j \<and> guard j) eff (jobs d)\<rparr>
    \<and> table_ok (jobs d')"
  using assms by (auto simp: st_eq exec_update_def Let_def split: if_splits)

lemma outbox_same: "st d = Inr (n, d') \<Longrightarrow> outbox d' = outbox d"
  by (drule run_cases) simp

lemma ids_same: "st d = Inr (n, d') \<Longrightarrow> map ID (jobs d') = map ID (jobs d)"
  by (drule run_cases) (simp add: map_update_where eff_ID)

lemma constraints: "st d = Inr (n, d') \<Longrightarrow> table_ok (jobs d')"
  by (blast dest: run_cases)

lemma stale: "st d = Inr (0, d') \<Longrightarrow> d' = d"
  by (drule run_cases) (auto simp: affected_zero update_where_none)

lemma frame:
  assumes "st d = Inr (n, d')" and "(x, y, z) \<noteq> (t, a, i)"
  shows "lookup_job d' x y z = lookup_job d x y z"
proof -
  have "find (job_at x y z) (update_where (\<lambda>j. job_at t a i j \<and> guard j) eff (jobs d))
      = find (job_at x y z) (jobs d)"
    using assms(2) by (intro find_update_where_other) (auto simp: job_at_def eff_ID eff_TenantID eff_ApplicationID)
  then show ?thesis using run_cases [OF assms(1)] by (simp add: lookup_job_def)
qed

lemma lookup_after:
  assumes "st d = Inr (n, d')"
  shows "lookup_job d' t a i = map_option (\<lambda>j. if guard j then eff j else j) (lookup_job d t a i)"
proof -
  have "find (job_at t a i) (update_where (\<lambda>j. job_at t a i j \<and> guard j) eff (jobs d))
      = map_option (\<lambda>j. if job_at t a i j \<and> guard j then eff j else j) (find (job_at t a i) (jobs d))"
    by (rule find_update_where_same) simp
  then show ?thesis using run_cases [OF assms(1)]
    by (cases "find (job_at t a i) (jobs d)") (auto simp: lookup_job_def dest: find_SomeD)
qed

lemma hit_iff:
  assumes "table_ok (jobs d)" and "st d = Inr (n, d')"
  shows "n \<noteq> 0 \<longleftrightarrow> (\<exists>j. lookup_job d t a i = Some j \<and> guard j)"
proof -
  have "n = 0 \<longleftrightarrow> (\<forall>j\<in>set (jobs d). \<not> (job_at t a i j \<and> guard j))"
    using run_cases [OF assms(2)] by (simp add: affected_zero)
  then show ?thesis
    using lookup_job_unique [OF assms(1)] lookup_jobD [of d t a i] by blast
qed

lemma hit:
  assumes "table_ok (jobs d)" and "st d = Inr (n, d')" and "n \<noteq> 0"
  obtains j where "lookup_job d t a i = Some j" "guard j" "lookup_job d' t a i = Some (eff j)"
proof -
  obtain j where j: "lookup_job d t a i = Some j" "guard j"
    using hit_iff [OF assms(1,2)] assms(3) by blast
  then show ?thesis using that lookup_after [OF assms(2)] by simp
qed

text \<open>A second run against the same guard finds the version moved on.\<close>

lemma version_bump:
  assumes "table_ok (jobs d)" and "st d = Inr (n, d')" and "n \<noteq> 0" and "lookup_job d t a i = Some j"
  shows "\<exists>j'. lookup_job d' t a i = Some j' \<and> Version j' = Version j + 1"
proof -
  obtain j' where "lookup_job d t a i = Some j'" "lookup_job d' t a i = Some (eff j')"
    using hit [OF assms(1-3)] by blast
  with assms(4) show ?thesis by (simp add: eff_Version)
qed

lemma written_row:
  assumes "st d = Inr (n, d')" and "j' \<in> set (jobs d')"
  shows "j' \<in> set (jobs d) \<or> (\<exists>j\<in>set (jobs d). job_at t a i j \<and> guard j \<and> j' = eff j)"
  using run_cases [OF assms(1)] assms(2) by (auto simp: set_update_where)

lemma other_rows:
  assumes "st d = Inr (n, d')" and "\<not> job_at t a i j"
  shows "j \<in> set (jobs d') \<longleftrightarrow> j \<in> set (jobs d)"
  using run_cases [OF assms(1)] assms(2) by (auto simp: set_update_where)

end

text \<open>
  A guarded update whose row keeps the table's constraints can fail only with the statement
  itself: the constraints never reject it.
\<close>

locale safe_update = keyed_update +
  assumes eff_key: "IdempotencyKey (eff j) = IdempotencyKey j"
    and eff_check: "row_check j \<Longrightarrow> guard j \<Longrightarrow> row_check (eff j)"
begin

lemma table_after: "table_ok rs \<Longrightarrow> table_ok (update_where (\<lambda>j. job_at t a i j \<and> guard j) eff rs)"
  unfolding table_ok_def
  by (auto simp: map_update_where eff_ID eff_TenantID eff_ApplicationID eff_key eff_check
      idempotency_unique_def list_all_iff set_update_where)

lemma accepted: "table_ok (jobs d) \<Longrightarrow> \<exists>n d'. st d = Inr (n, d')"
  by (simp add: st_eq exec_update_def Let_def table_after)

lemma accepted_hit:
  assumes "table_ok (jobs d)" and "lookup_job d t a i = Some j" and "guard j"
  obtains n d' where "st d = Inr (Suc n, d')" "lookup_job d' t a i = Some (eff j)"
proof -
  obtain n d' where st: "st d = Inr (n, d')" using accepted [OF assms(1)] by blast
  then have "n \<noteq> 0" using hit_iff [OF assms(1)] assms(2,3) by blast
  with st show ?thesis using that lookup_after [OF st] assms(2,3) by (cases n) auto
qed

lemma accepted_miss:
  assumes "table_ok (jobs d)" and "\<And>j. lookup_job d t a i = Some j \<Longrightarrow> \<not> guard j"
  shows "st d = Inr (0, d)"
proof -
  obtain n d' where st: "st d = Inr (n, d')" using accepted [OF assms(1)] by blast
  then have "n = 0" using hit_iff [OF assms(1)] assms(2) by blast
  with st stale show ?thesis by blast
qed

end

interpretation cancel: safe_update "stmt_Cancel t a i expected actor at" t a i
  "\<lambda>j. Version j = expected \<and> Status j \<in> {StatusQueued, StatusRunning}"
  "set_Cancel actor at"
  for t a i expected actor at
  by unfold_locales (auto simp: stmt_Cancel_def row_check_def)

interpretation retry: keyed_update "stmt_Retry v expected" "TenantID v" "ApplicationID v" "ID v"
  "\<lambda>j. Version j = expected \<and> Status j \<in> {StatusFailed, StatusCanceled}"
  "set_Retry v"
  for v expected
  by unfold_locales (auto simp: stmt_Retry_def)

interpretation claim: safe_update "stmt_Claim t a i at" t a i "\<lambda>j. Status j = StatusQueued"
  "set_Claim at"
  for t a i at
  by unfold_locales (auto simp: stmt_Claim_def row_check_def)

interpretation progress: keyed_update "stmt_Progress t a i rows bytes percent at" t a i
  "\<lambda>j. Status j = StatusRunning"
  "set_Progress rows bytes percent at"
  for t a i rows bytes percent at
  by unfold_locales (auto simp: stmt_Progress_def)

interpretation succeed: safe_update "stmt_Succeed v" "TenantID v" "ApplicationID v" "ID v"
  "\<lambda>j. Status j = StatusRunning"
  "set_Succeed v"
  for v
  by unfold_locales (auto simp: stmt_Succeed_def row_check_def)

interpretation fail: safe_update "stmt_Fail v" "TenantID v" "ApplicationID v" "ID v"
  "\<lambda>j. Status j = StatusRunning"
  "set_Fail v"
  for v
  by unfold_locales (auto simp: stmt_Fail_def row_check_def)

interpretation expire: safe_update "stmt_Expire v at" "TenantID v" "ApplicationID v" "ID v"
  "\<lambda>j. Status j = StatusSucceeded \<and> due at j"
  "set_Expire at"
  for v at
  by unfold_locales (auto simp: stmt_Expire_def row_check_def)

section \<open>Laws of the transaction runner\<close>

lemma sql_tx_Inr:
  "sql_tx E st w = (Inr x, w') \<Longrightarrow>
    st (w_db w) = Inr (x, w_db w') \<and> w' = w\<lparr>w_stmts := Suc (w_stmts w), w_db := w_db w'\<rparr>"
  by (auto simp: sql_tx_def Let_def split: option.splits sql_fault.splits sum.splits)

lemma sql_tx_db:
  "sql_tx E st w = (r, w') \<Longrightarrow> w_db w' = w_db w \<or> (\<exists>x. st (w_db w) = Inr (x, w_db w'))"
  by (auto simp: sql_tx_def Let_def split: option.splits sql_fault.splits sum.splits)

lemma sql_tx_frame:
  "sql_tx E st w = (r, w') \<Longrightarrow>
    w_objs w' = w_objs w \<and> w_ticks w' = w_ticks w \<and> w_uuids w' = w_uuids w \<and> w_stmts w' = Suc (w_stmts w)"
  by (auto simp: sql_tx_def Let_def split: option.splits sql_fault.splits sum.splits)

lemma foreign_simps [simp]:
  "w_objs (foreign E w) = w_objs w" "w_ticks (foreign E w) = w_ticks w"
  "w_uuids (foreign E w) = w_uuids w" "w_stmts (foreign E w) = w_stmts w"
  "w_db (foreign E w) = others E (w_stmts w) (w_db w)"
  by (simp_all add: foreign_def)

lemma sql_auto_Inr:
  "sql_auto E st w = (Inr x, w') \<Longrightarrow> st (others E (w_stmts w) (w_db w)) = Inr (x, w_db w')"
  unfolding sql_auto_def by (drule sql_tx_Inr) simp

lemma sql_auto_db:
  "sql_auto E st w = (r, w') \<Longrightarrow>
    w_db w' = others E (w_stmts w) (w_db w) \<or> (\<exists>x. st (others E (w_stmts w) (w_db w)) = Inr (x, w_db w'))"
  unfolding sql_auto_def by (drule sql_tx_db) simp

lemma sql_auto_frame:
  "sql_auto E st w = (r, w') \<Longrightarrow>
    w_objs w' = w_objs w \<and> w_ticks w' = w_ticks w \<and> w_uuids w' = w_uuids w \<and> w_stmts w' = Suc (w_stmts w)"
  unfolding sql_auto_def by (drule sql_tx_frame) simp

text \<open>
  Atomicity: after \<open>Within\<close> the database is what the foreign transactions made of it, or that with
  the whole closure applied; it is the latter whenever \<open>Within\<close> reports success.
\<close>

lemma Within_atomic:
  assumes "Within E fn cap w = ((r, x), w')"
  shows "w_db w' \<in> {w_db w, others E (w_stmts w) (w_db w)} \<and> r \<noteq> None
    \<or> (\<exists>w0 w1. fn w0 = ((None, x), w1) \<and> w_db w' = w_db w1
         \<and> w0 = w\<lparr>w_stmts := Suc (w_stmts w), w_db := others E (w_stmts w) (w_db w)\<rparr>)"
proof (cases "db_enabled E")
  case False
  with assms show ?thesis by (auto simp: Within_def)
next
  case True
  obtain b w0 where b: "sql_auto E (\<lambda>d. Inr ((), d)) w = (b, w0)" by fastforce
  have db0: "w_db w0 = others E (w_stmts w) (w_db w)"
    using sql_auto_db [OF b] by auto
  show ?thesis
  proof (cases b)
    case (Inl e)
    with True assms b db0 show ?thesis by (auto simp: Within_def)
  next
    case (Inr u)
    obtain r1 x1 w1 where fn: "fn w0 = ((r1, x1), w1)" by (metis prod.collapse)
    have w0: "w0 = w\<lparr>w_stmts := Suc (w_stmts w), w_db := others E (w_stmts w) (w_db w)\<rparr>"
      using b Inr
      by (auto simp: sql_auto_def sql_tx_def foreign_def Let_def split: option.splits sql_fault.splits)
    show ?thesis
    proof (cases r1)
      case (Some e)
      with True assms b Inr fn db0 show ?thesis
        by (auto simp: Within_def split: option.splits)
    next
      case None
      with True assms b Inr fn db0 w0 show ?thesis
        by (auto simp: Within_def split: option.splits sql_fault.splits)
    qed
  qed
qed

lemma Within_ok:
  assumes "Within E fn cap w = ((None, x), w')"
  obtains w0 w1 where "fn w0 = ((None, x), w1)" "w_db w' = w_db w1"
    "w0 = w\<lparr>w_stmts := Suc (w_stmts w), w_db := others E (w_stmts w) (w_db w)\<rparr>"
  using Within_atomic [OF assms] by auto

lemma Within_commit:
  assumes "Within E fn cap w = ((None, x), w')"
  obtains w0 w1 where "fn w0 = ((None, x), w1)" "w_db w' = w_db w1"
    "w_db w0 = others E (w_stmts w) (w_db w)"
  by (rule Within_ok [OF assms]) (use that in simp)

text \<open>An environment without faults and without other replicas.\<close>

definition calm :: "env \<Rightarrow> bool" where
  "calm E \<longleftrightarrow> db_enabled E \<and> sql_faults E = (\<lambda>_. None) \<and> others E = (\<lambda>_ d. d)"

lemma sql_tx_calm:
  "calm E \<Longrightarrow> sql_tx E st w =
    (case st (w_db w) of
       Inl e \<Rightarrow> (Inl e, w\<lparr>w_stmts := Suc (w_stmts w)\<rparr>)
     | Inr (x, d) \<Rightarrow> (Inr x, w\<lparr>w_stmts := Suc (w_stmts w), w_db := d\<rparr>))"
  by (auto simp: sql_tx_def calm_def Let_def split: sum.splits)

lemma sql_auto_calm: "calm E \<Longrightarrow> sql_auto E st w = sql_tx E st w"
  by (simp add: sql_auto_def foreign_def calm_def)

lemma Within_calm:
  assumes "calm E"
  shows "Within E fn cap w =
    (case fn (w\<lparr>w_stmts := Suc (w_stmts w)\<rparr>) of
       ((Some e, x), w1) \<Rightarrow> ((Some e, x), w1\<lparr>w_db := w_db w, w_stmts := Suc (w_stmts w1)\<rparr>)
     | ((None, x), w1) \<Rightarrow> ((None, x), w1\<lparr>w_stmts := Suc (w_stmts w1)\<rparr>))"
proof -
  have "db_enabled E" "sql_faults E = (\<lambda>_. None)" using assms by (simp_all add: calm_def)
  then show ?thesis
    using assms by (simp add: Within_def sql_auto_calm sql_tx_calm split: prod.splits option.splits)
qed

lemmas calm_simps = sql_tx_calm sql_auto_calm Within_calm

end
