(* ===== verification/Export_Lifecycle.thy ===== *)
theory Export_Lifecycle
  imports Export_Repository
begin

text \<open>
  The abstract specification of the job store: the committed changes of the two tables as one step
  relation, its lifecycle automaton, and what follows for every run of it.

  \<open>job_step\<close> has one rule for each transaction a replica can commit: the guarded statement and, where
  the code announces the change, the outbox row written with it.  \<open>job_run\<close> interleaves
  them with whatever the environment commits.  The theories of the service and of the worker show
  that each of their operations is such a run; the invariants of this theory then hold for them.
\<close>

section \<open>Transitions\<close>

definition announced :: "(envelope \<Rightarrow> string result) \<Rightarrow> job \<Rightarrow> string \<Rightarrow> db \<Rightarrow> db \<Rightarrow> bool" where
  "announced sl j change d d' \<longleftrightarrow>
    (\<exists>eid actor at ev n. jobChangedEvent sl eid j change actor at = Inr ev \<and> stmt_AddOutbox ev d = Inr (n, d'))"

definition initial :: "job \<Rightarrow> bool" where
  "initial j \<longleftrightarrow> Status j = StatusQueued \<and> Version j = 1 \<and> StartedAt j = None \<and> CompletedAt j = None
     \<and> ExpiresAt j = None \<and> RowsExported j = 0 \<and> BytesWritten j = 0 \<and> ProgressPercent j = 0"

inductive job_step :: "(envelope \<Rightarrow> string result) \<Rightarrow> db \<Rightarrow> db \<Rightarrow> bool" for sl where
  create: "exec_insert v d = Inr (n, d1) \<Longrightarrow> initial v \<Longrightarrow> announced sl v ''requested'' d1 d2
    \<Longrightarrow> job_step sl d d2"
| cancel: "stmt_Cancel t a i expected actor at d = Inr (n, d1) \<Longrightarrow> n \<noteq> 0
    \<Longrightarrow> Status v = StatusCanceled \<Longrightarrow> normalize (ID v) = i \<Longrightarrow> announced sl v ''canceled'' d1 d2
    \<Longrightarrow> job_step sl d d2"
| retry: "stmt_Retry v expected d = Inr (n, d1) \<Longrightarrow> n \<noteq> 0 \<Longrightarrow> Status v' = StatusQueued
    \<Longrightarrow> ID v' = ID v \<Longrightarrow> announced sl v' ''requested'' d1 d2 \<Longrightarrow> job_step sl d d2"
| claim: "stmt_Claim t a i at d = Inr (n, d1) \<Longrightarrow> job_step sl d d1"
| progress: "stmt_Progress t a i rows bytes percent at d = Inr (n, d1) \<Longrightarrow> job_step sl d d1"
| succeed: "stmt_Succeed v d = Inr (n, d1) \<Longrightarrow> n \<noteq> 0 \<Longrightarrow> CompletedAt v \<noteq> None \<Longrightarrow> ExpiresAt v \<noteq> None
    \<Longrightarrow> lookup_job d1 (TenantID v) (ApplicationID v) (ID v) = Some p
    \<Longrightarrow> announced sl p ''succeeded'' d1 d2 \<Longrightarrow> job_step sl d d2"
| fail: "stmt_Fail v d = Inr (n, d1) \<Longrightarrow> n \<noteq> 0 \<Longrightarrow> CompletedAt v \<noteq> None
    \<Longrightarrow> lookup_job d1 (TenantID v) (ApplicationID v) (ID v) = Some p
    \<Longrightarrow> announced sl p ''failed'' d1 d2 \<Longrightarrow> job_step sl d d2"
| expire: "stmt_Expire v at d = Inr (n, d1) \<Longrightarrow> n \<noteq> 0
    \<Longrightarrow> lookup_job d1 (TenantID v) (ApplicationID v) (ID v) = Some p
    \<Longrightarrow> announced sl p ''expired'' d1 d2 \<Longrightarrow> job_step sl d d2"
| purge: "stmt_DeleteExpiredMetadata v before d = Inr (n, d1) \<Longrightarrow> job_step sl d d1"
| relay: "jobs d' = jobs d \<Longrightarrow> job_step sl d d'"

text \<open>The lifecycle of a job: the status changes the steps can make.\<close>

definition lifecycle :: "(string \<times> string) set" where
  "lifecycle = {(StatusQueued, StatusRunning), (StatusQueued, StatusCanceled),
     (StatusRunning, StatusRunning), (StatusRunning, StatusSucceeded), (StatusRunning, StatusFailed),
     (StatusRunning, StatusCanceled), (StatusSucceeded, StatusExpired),
     (StatusFailed, StatusQueued), (StatusCanceled, StatusQueued)}"

text \<open>What no step changes of a job.\<close>

definition same_identity :: "job \<Rightarrow> job \<Rightarrow> bool" where
  "same_identity j j' \<longleftrightarrow> ID j' = ID j \<and> TenantID j' = TenantID j \<and> ApplicationID j' = ApplicationID j
     \<and> DatasetCode j' = DatasetCode j \<and> ProviderService j' = ProviderService j \<and> Format j' = Format j
     \<and> Filename j' = Filename j \<and> QueryJSON j' = QueryJSON j
     \<and> SelectedColumnsJSON j' = SelectedColumnsJSON j \<and> ObjectKey j' = ObjectKey j
     \<and> CreatedAt j' = CreatedAt j \<and> CreatedBy j' = CreatedBy j"

definition edge :: "job \<Rightarrow> job \<Rightarrow> bool" where
  "edge j j' \<longleftrightarrow> same_identity j j' \<and> Version j' = Version j + 1 \<and> (Status j, Status j') \<in> lifecycle"

text \<open>What the times and counters of a row say, by its status.\<close>

definition row_ok :: "job \<Rightarrow> bool" where
  "row_ok j \<longleftrightarrow> 1 \<le> Version j
     \<and> (Status j = StatusQueued \<longrightarrow> StartedAt j = None \<and> CompletedAt j = None \<and> RowsExported j = 0
          \<and> BytesWritten j = 0 \<and> ProgressPercent j = 0)
     \<and> (Status j = StatusRunning \<longrightarrow> StartedAt j \<noteq> None \<and> CompletedAt j = None)
     \<and> (Status j \<in> {StatusSucceeded, StatusFailed, StatusCanceled, StatusExpired} \<longrightarrow> CompletedAt j \<noteq> None)
     \<and> (ExpiresAt j \<noteq> None \<longleftrightarrow> Status j \<in> {StatusSucceeded, StatusExpired})
     \<and> (Status j \<in> {StatusSucceeded, StatusExpired} \<longrightarrow> ProgressPercent j = 100)
     \<and> (Status j = StatusExpired \<longrightarrow> due (UpdatedAt j) j)"

definition store_ok :: "db \<Rightarrow> bool" where
  "store_ok d \<longleftrightarrow> table_ok (jobs d) \<and> list_all row_ok (jobs d)"

section \<open>Runs\<close>

text \<open>A run of ours among the transactions of the environment; a run in which one job stays present.\<close>

definition job_run :: "env \<Rightarrow> db \<Rightarrow> db \<Rightarrow> bool" where
  "job_run E = (\<lambda>d d'. job_step (seal E) d d' \<or> (\<exists>n. d' = others E n d))\<^sup>*\<^sup>*"

definition present :: "string \<Rightarrow> db \<Rightarrow> bool" where
  "present i d \<longleftrightarrow> i \<in> ID ` set (jobs d)"

definition life :: "(envelope \<Rightarrow> string result) \<Rightarrow> string \<Rightarrow> db \<Rightarrow> db \<Rightarrow> bool" where
  "life sl i = (\<lambda>d d'. job_step sl d d' \<and> present i d \<and> present i d')\<^sup>*\<^sup>*"

definition later :: "job \<Rightarrow> job \<Rightarrow> bool" where
  "later j j' \<longleftrightarrow> same_identity j j' \<and> (j' = j \<or> Version j < Version j')"

text \<open>Other replicas run the same program.\<close>

definition replicas :: "env \<Rightarrow> bool" where
  "replicas E \<longleftrightarrow> (\<forall>n d. (job_step (seal E))\<^sup>*\<^sup>* d (others E n d))"

section \<open>Facts about one step\<close>

lemma announced_jobs: "announced sl j change d d' \<Longrightarrow> jobs d' = jobs d"
  by (auto simp: announced_def stmt_AddOutbox_def split: if_splits)

lemma announced_row: "announced sl j change d d' \<Longrightarrow> r \<in> set (jobs d') \<Longrightarrow> r \<in> set (jobs d)"
  by (simp add: announced_jobs)

lemma edge_intro:
  "same_identity j j' \<Longrightarrow> Version j' = Version j + 1 \<Longrightarrow> (Status j, Status j') \<in> lifecycle \<Longrightarrow> edge j j'"
  by (simp add: edge_def)

text \<open>
  A keyed update whose effect follows the lifecycle: every row of the result was there before or
  came over an edge, and no job appears or disappears.
\<close>

locale lifecycle_update = keyed_update +
  assumes eff_identity: "same_identity j (eff j)"
    and eff_edge: "guard j \<Longrightarrow> (Status j, Status (eff j)) \<in> lifecycle"
begin

lemma eff_is_edge: "guard j \<Longrightarrow> edge j (eff j)"
  by (rule edge_intro) (simp_all add: eff_identity eff_edge eff_Version)

lemma rows_follow:
  assumes "st d = Inr (n, d')" and "j' \<in> set (jobs d')"
  shows "j' \<in> set (jobs d) \<or> (\<exists>j\<in>set (jobs d). edge j j')"
  using written_row [OF assms] eff_is_edge by blast

lemma keeps: "st d = Inr (n, d') \<Longrightarrow> j \<in> set (jobs d) \<Longrightarrow> ID j \<in> ID ` set (jobs d')"
  by (drule ids_same) (metis image_eqI set_map)

end

lemmas identity_defs = same_identity_def lifecycle_def

interpretation cancel: lifecycle_update "stmt_Cancel t a i expected actor at" t a i
  "\<lambda>j. Version j = expected \<and> Status j \<in> {StatusQueued, StatusRunning}"
  "set_Cancel actor at"
  for t a i expected actor at
  by unfold_locales (auto simp: identity_defs)

interpretation retry: lifecycle_update "stmt_Retry v expected" "TenantID v" "ApplicationID v" "ID v"
  "\<lambda>j. Version j = expected \<and> Status j \<in> {StatusFailed, StatusCanceled}"
  "set_Retry v"
  for v expected
  by unfold_locales (auto simp: identity_defs)

interpretation claim: lifecycle_update "stmt_Claim t a i at" t a i "\<lambda>j. Status j = StatusQueued"
  "set_Claim at"
  for t a i at
  by unfold_locales (auto simp: identity_defs)

interpretation progress: lifecycle_update "stmt_Progress t a i rows bytes percent at" t a i
  "\<lambda>j. Status j = StatusRunning"
  "set_Progress rows bytes percent at"
  for t a i rows bytes percent at
  by unfold_locales (auto simp: identity_defs)

interpretation succeed: lifecycle_update "stmt_Succeed v" "TenantID v" "ApplicationID v" "ID v"
  "\<lambda>j. Status j = StatusRunning"
  "set_Succeed v"
  for v
  by unfold_locales (auto simp: identity_defs)

interpretation fail: lifecycle_update "stmt_Fail v" "TenantID v" "ApplicationID v" "ID v"
  "\<lambda>j. Status j = StatusRunning"
  "set_Fail v"
  for v
  by unfold_locales (auto simp: identity_defs)

interpretation expire: lifecycle_update "stmt_Expire v at" "TenantID v" "ApplicationID v" "ID v"
  "\<lambda>j. Status j = StatusSucceeded \<and> due at j"
  "set_Expire at"
  for v at
  by unfold_locales (auto simp: identity_defs)


lemmas update_rows_follow = cancel.rows_follow retry.rows_follow claim.rows_follow
  progress.rows_follow succeed.rows_follow fail.rows_follow expire.rows_follow

lemmas update_keeps = cancel.keeps retry.keeps claim.keeps progress.keeps succeed.keeps fail.keeps
  expire.keeps

lemmas update_constraints = cancel.constraints retry.constraints claim.constraints
  progress.constraints succeed.constraints fail.constraints expire.constraints

lemma exec_insert_InrD:
  "exec_insert v d = Inr (n, d') \<Longrightarrow> jobs d' = jobs d @ [v] \<and> table_ok (jobs d')"
  by (auto simp: exec_insert_def Let_def split: if_splits)

lemma exec_insert_fresh: "exec_insert v d = Inr (n, d') \<Longrightarrow> \<not> present (ID v) d"
  by (drule exec_insert_InrD) (auto simp: present_def table_ok_def)

lemma table_ok_filter: "table_ok rs \<Longrightarrow> table_ok (filter P rs)"
  by (auto simp: table_ok_def distinct_map list_all_iff inj_on_def)

lemma delete_InrD:
  "stmt_DeleteExpiredMetadata v before d = Inr (n, d') \<Longrightarrow>
    jobs d' = filter (\<lambda>j. \<not> purgeable v before j) (jobs d)"
  by (auto simp: stmt_DeleteExpiredMetadata_def delete_where_def)

lemma job_step_rows:
  assumes "job_step sl d d'" and "j' \<in> set (jobs d')"
  shows "j' \<in> set (jobs d) \<or> (\<exists>j\<in>set (jobs d). edge j j') \<or> (initial j' \<and> \<not> present (ID j') d)"
  using assms
proof cases
  case (create v n d1)
  with assms(2) show ?thesis
    using exec_insert_InrD [OF create(1)] exec_insert_fresh [OF create(1)] announced_jobs [OF create(3)]
    by auto
next
  case (purge v before n)
  with assms(2) show ?thesis using delete_InrD by auto
next
  case relay
  with assms(2) show ?thesis by simp
qed (use assms(2) in \<open>auto dest!: announced_jobs dest: update_rows_follow\<close>)

lemma job_step_table_ok: "job_step sl d d' \<Longrightarrow> table_ok (jobs d) \<Longrightarrow> table_ok (jobs d')"
  by (induction rule: job_step.induct)
    (auto dest!: announced_jobs exec_insert_InrD delete_InrD dest: update_constraints intro: table_ok_filter)

lemma job_step_removes:
  assumes "job_step sl d d'" and "j \<in> set (jobs d)" and "\<not> present (ID j) d'"
  shows "Status j = StatusExpired"
  using assms(1)
proof cases
  case (create v n d1)
  with assms show ?thesis
    using exec_insert_InrD [OF create(1)] announced_jobs [OF create(3)] by (auto simp: present_def)
next
  case (purge v before n)
  with assms(2,3) show ?thesis using delete_InrD [OF purge]
    by (auto simp: present_def purgeable_def image_iff)
next
  case relay
  with assms(2,3) show ?thesis by (simp add: present_def)
qed (use assms(2,3) in \<open>auto dest!: announced_jobs dest: update_keeps simp: present_def\<close>)

text \<open>The rows a step writes are well formed when the rows it reads are.\<close>

lemma row_ok_initial: "initial j \<Longrightarrow> row_ok j"
  by (simp add: initial_def row_ok_def)

lemma row_ok_eff:
  "row_ok j \<Longrightarrow> Status j \<in> {StatusQueued, StatusRunning} \<Longrightarrow> row_ok (set_Cancel actor at j)"
  "row_ok j \<Longrightarrow> Status j \<in> {StatusFailed, StatusCanceled} \<Longrightarrow> row_ok (set_Retry v j)"
  "row_ok j \<Longrightarrow> Status j = StatusQueued \<Longrightarrow> row_ok (set_Claim at j)"
  "row_ok j \<Longrightarrow> Status j = StatusRunning \<Longrightarrow> row_ok (set_Progress rows bytes percent at j)"
  "row_ok j \<Longrightarrow> Status j = StatusRunning \<Longrightarrow> CompletedAt v \<noteq> None \<Longrightarrow> ExpiresAt v \<noteq> None
    \<Longrightarrow> row_ok (set_Succeed v j)"
  "row_ok j \<Longrightarrow> Status j = StatusRunning \<Longrightarrow> CompletedAt v \<noteq> None \<Longrightarrow> row_ok (set_Fail v j)"
  "row_ok j \<Longrightarrow> Status j = StatusSucceeded \<Longrightarrow> due at j \<Longrightarrow> row_ok (set_Expire at j)"
  by (auto simp: row_ok_def due_def)

lemmas update_written = cancel.written_row retry.written_row claim.written_row progress.written_row
  succeed.written_row fail.written_row expire.written_row

lemma job_step_row_ok:
  assumes "job_step sl d d'" and "\<forall>j\<in>set (jobs d). row_ok j" and "j' \<in> set (jobs d')"
  shows "row_ok j'"
  using assms(1)
proof cases
  case (create v n d1)
  with assms(2,3) show ?thesis
    using exec_insert_InrD [OF create(1)] announced_jobs [OF create(3)] row_ok_initial by auto
next
  case (purge v before n)
  with assms(2,3) show ?thesis using delete_InrD by auto
next
  case relay
  with assms(2,3) show ?thesis by simp
next
  case (succeed v n d1 p)
  then have "j' \<in> set (jobs d1)" using assms(3) announced_row by blast
  then show ?thesis using succeed.written_row [OF succeed(1)] row_ok_eff(5) succeed(3,4) assms(2) by blast
next
  case (fail v n d1 p)
  then have "j' \<in> set (jobs d1)" using assms(3) announced_row by blast
  then show ?thesis using fail.written_row [OF fail(1)] row_ok_eff(6) fail(3) assms(2) by blast
next
  case (cancel t a i expected actor at n d1 v)
  then have "j' \<in> set (jobs d1)" using assms(3) announced_row by blast
  then show ?thesis using cancel.written_row [OF cancel(1)] row_ok_eff(1) assms(2) by blast
next
  case (retry v expected n d1 v')
  then have "j' \<in> set (jobs d1)" using assms(3) announced_row by blast
  then show ?thesis using retry.written_row [OF retry(1)] row_ok_eff(2) assms(2) by blast
next
  case (claim t a i at n)
  then show ?thesis using claim.written_row [OF claim assms(3)] row_ok_eff(3) assms(2) by blast
next
  case (progress t a i rows bytes percent at n)
  then show ?thesis using progress.written_row [OF progress assms(3)] row_ok_eff(4) assms(2) by blast
next
  case (expire v at n d1 p)
  then have "j' \<in> set (jobs d1)" using assms(3) announced_row by blast
  then show ?thesis using expire.written_row [OF expire(1)] row_ok_eff(7) assms(2) by blast
qed

lemma job_step_store_ok: "job_step sl d d' \<Longrightarrow> store_ok d \<Longrightarrow> store_ok d'"
  using job_step_table_ok job_step_row_ok by (auto simp: store_ok_def list_all_iff)

lemma job_steps_store_ok: "(job_step sl)\<^sup>*\<^sup>* d d' \<Longrightarrow> store_ok d \<Longrightarrow> store_ok d'"
  by (induction rule: rtranclp_induct) (auto intro: job_step_store_ok)

lemma job_run_replicas: "replicas E \<Longrightarrow> job_run E d d' \<Longrightarrow> (job_step (seal E))\<^sup>*\<^sup>* d d'"
  unfolding job_run_def
proof (rotate_tac, induction rule: rtranclp_induct)
  case (step y z)
  then have "(job_step (seal E))\<^sup>*\<^sup>* y z" by (auto simp: replicas_def)
  with step show ?case by (meson rtranclp_trans)
qed simp

section \<open>Facts about runs\<close>

text \<open>
  The life of one job.  Along a run in which it stays present its identity is fixed, its version
  never decreases, and its row changes only together with its version.
\<close>

lemma later_refl: "later j j"
  by (simp add: later_def same_identity_def)

lemma same_identity_trans: "same_identity j j' \<Longrightarrow> same_identity j' j'' \<Longrightarrow> same_identity j j''"
  unfolding same_identity_def by metis

lemma later_edge:
  assumes "later j j'" and "edge j' j''"
  shows "later j j''"
proof -
  have "same_identity j j''" using assms same_identity_trans unfolding later_def edge_def by blast
  moreover have "Version j \<le> Version j'" using assms(1) unfolding later_def by auto
  moreover have "Version j'' = Version j' + 1" using assms(2) unfolding edge_def by blast
  ultimately show ?thesis unfolding later_def by simp
qed

lemma step_later:
  assumes "job_step sl d d'" and "table_ok (jobs d)" and "x \<in> set (jobs d)" and "y \<in> set (jobs d')"
    and "ID y = ID x"
  shows "y = x \<or> edge x y"
proof -
  have "distinct (map ID (jobs d))" using assms(2) by (simp add: table_ok_def)
  note same = distinct_map_eq [OF this]
  from job_step_rows [OF assms(1,4)] show ?thesis
  proof (elim disjE bexE conjE)
    assume "y \<in> set (jobs d)"
    then show ?thesis using same assms(3,5) by blast
  next
    fix j assume "j \<in> set (jobs d)" "edge j y"
    moreover from \<open>edge j y\<close> have "ID j = ID x" using assms(5) by (simp add: edge_def same_identity_def)
    ultimately show ?thesis using same assms(3) by blast
  next
    assume "initial y" "\<not> present (ID y) d"
    then show ?thesis using assms(3,5) by (auto simp: present_def)
  qed
qed

lemma life_later:
  assumes "life sl i d d'" and "table_ok (jobs d)" and "x \<in> set (jobs d)" and "ID x = i"
  shows "table_ok (jobs d') \<and> (\<forall>y\<in>set (jobs d'). ID y = i \<longrightarrow> later x y)"
  using assms(1) unfolding life_def
proof (induction rule: rtranclp_induct)
  case base
  have "distinct (map ID (jobs d))" using assms(2) by (simp add: table_ok_def)
  then show ?case using assms(2-4) later_refl distinct_map_eq by metis
next
  case (step y z)
  then have ok: "table_ok (jobs z)" using job_step_table_ok by blast
  from step(2) obtain u where u: "u \<in> set (jobs y)" "ID u = i" by (auto simp: present_def)
  have "later x v" if "v \<in> set (jobs z)" "ID v = i" for v
    using step_later [of sl y z u v] step u that later_edge by auto
  with ok show ?case by blast
qed

lemma settled_edge: "edge j j' \<Longrightarrow> Status j = StatusSucceeded \<Longrightarrow> Status j' = StatusExpired"
  "edge j j' \<Longrightarrow> Status j \<noteq> StatusExpired"
  by (auto simp: edge_def lifecycle_def status_neq)

lemma life_settled:
  assumes "life sl i d d'" and "table_ok (jobs d)" and "x \<in> set (jobs d)" and "ID x = i"
  shows "Status x = StatusSucceeded \<longrightarrow> (\<forall>y\<in>set (jobs d'). ID y = i \<longrightarrow> y = x \<or> Status y = StatusExpired)"
  using assms(1) unfolding life_def
proof (induction rule: rtranclp_induct)
  case base
  have "distinct (map ID (jobs d))" using assms(2) by (simp add: table_ok_def)
  then show ?case using assms(2-4) distinct_map_eq by metis
next
  case (step y z)
  then have "life sl i d y" by (simp add: life_def)
  then have ok: "table_ok (jobs y)" using life_later [OF _ assms(2-4)] by blast
  from step(2) obtain u where u: "u \<in> set (jobs y)" "ID u = i" by (auto simp: present_def)
  have "v = u \<or> edge u v" if "v \<in> set (jobs z)" "ID v = i" for v
    using step_later [of sl y z u v] step ok u that by auto
  then show ?case using step.IH u settled_edge by metis
qed

section \<open>Operations as runs\<close>

text \<open>
  What makes an operation a run: the relation is reflexive and transitive, and it contains what the
  environment commits.  A statement on its own, or a transaction whose closure is a run, is then
  a run, whatever faults it meets.
\<close>

locale run_relation =
  fixes R :: "db \<Rightarrow> db \<Rightarrow> bool" and E :: env
  assumes refl [simp, intro]: "R d d"
    and trans [trans]: "R d d' \<Longrightarrow> R d' d'' \<Longrightarrow> R d d''"
    and env: "R d (others E n d)"
begin

lemma sql_auto_run:
  assumes "sql_auto E st w = (r, w')" and "\<And>d x d'. st d = Inr (x, d') \<Longrightarrow> R d d'"
  shows "R (w_db w) (w_db w')"
  using sql_auto_db [OF assms(1)] assms(2) env trans by metis

lemma Within_run:
  assumes "Within E fn cap w = ((r, x), w')"
    and "\<And>w0 y w1. fn w0 = ((None, y), w1) \<Longrightarrow> R (w_db w0) (w_db w1)"
  shows "R (w_db w) (w_db w')"
  using Within_atomic [OF assms(1)]
proof (elim disjE conjE exE)
  assume "w_db w' \<in> {w_db w, others E (w_stmts w) (w_db w)}"
  then show ?thesis using env by auto
next
  fix w0 w1
  assume "fn w0 = ((None, x), w1)" "w_db w' = w_db w1"
    and w0: "w0 = w\<lparr>w_stmts := Suc (w_stmts w), w_db := others E (w_stmts w) (w_db w)\<rparr>"
  then have "R (w_db w0) (w_db w')" using assms(2) by metis
  moreover have "R (w_db w) (w_db w0)" using env by (simp add: w0)
  ultimately show ?thesis by (rule trans [rotated])
qed

end

interpretation run: run_relation "job_run E" E for E
proof
  show "job_run E d d" for d by (simp add: job_run_def)
  show "job_run E d d' \<Longrightarrow> job_run E d' d'' \<Longrightarrow> job_run E d d''" for d d' d''
    unfolding job_run_def by (rule rtranclp_trans)
  show "job_run E d (others E n d)" for d n unfolding job_run_def by blast
qed

lemma job_run_step: "job_step (seal E) d d' \<Longrightarrow> job_run E d d'"
  unfolding job_run_def by blast

end
