(* ===== verification/Go_Path.thy ===== *)
theory Go_Path
  imports App_Error
begin

text \<open>
  \<open>path.Match\<close> of the Go standard library, which the configuration checks and the route matchers of
  the transports rely on: \<open>*\<close> matches any run of bytes without a slash, \<open>?\<close> one rune that is not a
  slash, brackets a class of runes, a backslash quotes the next byte.  The pattern is read chunk by
  chunk, a chunk being what stands between two unbracketed stars.
\<close>

definition ErrBadPattern :: goerror where
  "ErrBadPattern = Opaque ''syntax error in pattern''"

section \<open>Chunks\<close>

fun scan_end :: "bool \<Rightarrow> string \<Rightarrow> string \<times> string" where
  "scan_end inrange [] = ([], [])"
| "scan_end inrange (c # cs) =
    (if c = CHR 0x5C then
       (case cs of
          [] \<Rightarrow> ([c], [])
        | d # ds \<Rightarrow> (case scan_end inrange ds of (a, b) \<Rightarrow> (c # d # a, b)))
     else if c = CHR ''*'' \<and> \<not> inrange then ([], c # cs)
     else (case scan_end (if c = CHR ''['' then True else if c = CHR '']'' then False else inrange) cs of
             (a, b) \<Rightarrow> (c # a, b)))"

definition scanChunk :: "string \<Rightarrow> bool \<times> string \<times> string" where
  "scanChunk pattern =
    (let p = dropWhile (\<lambda>c. c = CHR ''*'') pattern
     in case scan_end False p of (chunk, rest) \<Rightarrow> (p \<noteq> pattern, chunk, rest))"

lemma scan_end_split: "scan_end inrange p = (a, b) \<Longrightarrow> p = a @ b"
  by (induction inrange p arbitrary: a b rule: scan_end.induct)
    (auto split: if_splits list.splits prod.splits)

lemma scan_end_progress:
  "scan_end False p = (a, b) \<Longrightarrow> p \<noteq> [] \<Longrightarrow> hd p \<noteq> CHR ''*'' \<Longrightarrow> length b < length p"
  by (cases p) (auto split: if_splits list.splits prod.splits dest!: scan_end_split)

lemma scanChunk_progress:
  assumes "scanChunk pattern = (star, chunk, rest)" and "pattern \<noteq> []"
  shows "length rest < length pattern"
proof -
  define p where "p = dropWhile (\<lambda>c. c = CHR ''*'') pattern"
  have s: "scan_end False p = (chunk, rest)"
    using assms(1) by (simp add: scanChunk_def p_def Let_def split: prod.splits)
  have le: "length p \<le> length pattern" by (simp add: p_def length_dropWhile_le)
  show ?thesis
  proof (cases "p = []")
    case True
    then show ?thesis using s assms(2) by simp
  next
    case False
    then have "hd p \<noteq> CHR ''*''" using hd_dropWhile [of "\<lambda>c. c = CHR ''*''" pattern] by (simp add: p_def)
    then show ?thesis using scan_end_progress [OF s False] le by simp
  qed
qed

section \<open>Matching a chunk\<close>

definition getEsc :: "string \<Rightarrow> (rune \<times> string) option" where
  "getEsc chunk =
    (if chunk = [] \<or> hd chunk = CHR ''-'' \<or> hd chunk = CHR '']'' then None
     else let c1 = (if hd chunk = CHR 0x5C then tl chunk else chunk)
          in if c1 = [] then None
             else case DecodeRune c1 of (r, n) \<Rightarrow>
               if r = RuneError \<and> n = 1 then None
               else if drop n c1 = [] then None else Some (r, drop n c1))"

lemma DecodeRune_width: "DecodeRune (c # cs) = (r, n) \<Longrightarrow> 0 < n"
  by (auto simp: Let_def split: if_splits list.splits)

lemma getEsc_shorter: "getEsc chunk = Some (r, rest) \<Longrightarrow> length rest < length chunk \<and> rest \<noteq> []"
  by (cases chunk)
    (auto simp: getEsc_def Let_def split: if_splits prod.splits list.splits dest: DecodeRune_width
      simp del: DecodeRune.simps)

text \<open>The ranges of a class, after \<open>[\<close> and an optional \<open>^\<close>: whether the rune is in one of them, and the
  rest of the chunk after the closing bracket.\<close>

function class_ranges :: "rune \<Rightarrow> bool \<Rightarrow> bool \<Rightarrow> string \<Rightarrow> (bool \<times> string) option" where
  "class_ranges r some_range matched chunk =
    (if chunk \<noteq> [] \<and> hd chunk = CHR '']'' \<and> some_range then Some (matched, tl chunk)
     else case getEsc chunk of
       None \<Rightarrow> None
     | Some (lo, c1) \<Rightarrow>
         if hd c1 = CHR ''-'' then
           (case getEsc (tl c1) of
              None \<Rightarrow> None
            | Some (hi, c2) \<Rightarrow> class_ranges r True (matched \<or> lo \<le> r \<and> r \<le> hi) c2)
         else class_ranges r True (matched \<or> lo = r) c1)"
  by pat_completeness auto
termination
  by (relation "measure (\<lambda>(_, _, _, chunk). length chunk)") (auto dest!: getEsc_shorter)

declare class_ranges.simps [simp del]

lemma class_ranges_shorter:
  "class_ranges r some_range matched chunk = Some (m, rest) \<Longrightarrow> length rest < length chunk"
proof (induction r some_range matched chunk rule: class_ranges.induct)
  case (1 r some_range matched chunk)
  show ?case
  proof (cases "chunk \<noteq> [] \<and> hd chunk = CHR '']'' \<and> some_range")
    case True
    then have "class_ranges r some_range matched chunk = Some (matched, tl chunk)"
      by (subst class_ranges.simps) simp
    with 1(3) True show ?thesis by (cases chunk) auto
  next
    case False
    then obtain lo c1 where g: "getEsc chunk = Some (lo, c1)"
      using 1(3) by (auto simp: class_ranges.simps [of r some_range matched chunk] split: option.splits)
    show ?thesis
    proof (cases "hd c1 = CHR ''-''")
      case True
      with False g 1(3) obtain hi c2 where "getEsc (tl c1) = Some (hi, c2)"
        "class_ranges r True (matched \<or> lo \<le> r \<and> r \<le> hi) c2 = Some (m, rest)"
        by (auto simp: class_ranges.simps [of r some_range matched chunk] split: option.splits)
      then show ?thesis using 1(1) [OF False g refl True] getEsc_shorter [OF g] getEsc_shorter by fastforce
    next
      case nodash: False
      with False g 1(3) have "class_ranges r True (matched \<or> lo = r) c1 = Some (m, rest)"
        by (auto simp: class_ranges.simps [of r some_range matched chunk])
      then show ?thesis using 1(2) [OF False g refl nodash] getEsc_shorter [OF g] by fastforce
    qed
  qed
qed

text \<open>\<open>None\<close>: the pattern is malformed.  \<open>Some None\<close>: no match.  \<open>Some (Some rest)\<close>: what is left of the
  name.  After a mismatch the rest of the chunk is still checked.\<close>

function matchChunk :: "bool \<Rightarrow> string \<Rightarrow> string \<Rightarrow> string option option" where
  "matchChunk failed [] s = Some (if failed then None else Some s)"
| "matchChunk failed0 (c # cs) s =
    (let failed = (failed0 \<or> s = [])
     in if c = CHR ''['' then
          (let rn = (if failed then (0, 0) else DecodeRune s);
               s1 = drop (snd rn) s;
               negated = (cs \<noteq> [] \<and> hd cs = CHR ''^'');
               c1 = (if negated then tl cs else cs)
           in case class_ranges (fst rn) False False c1 of
                None \<Rightarrow> None
              | Some (m, c2) \<Rightarrow> matchChunk (failed \<or> m = negated) c2 s1)
        else if c = CHR ''?'' then
          (if failed then matchChunk True cs s
           else matchChunk (hd s = CHR ''/'') cs (drop (snd (DecodeRune s)) s))
        else if c = CHR 0x5C then
          (case cs of
             [] \<Rightarrow> None
           | d # ds \<Rightarrow> if failed then matchChunk True ds s else matchChunk (d \<noteq> hd s) ds (tl s))
        else if failed then matchChunk True cs s else matchChunk (c \<noteq> hd s) cs (tl s))"
  by pat_completeness auto
termination
proof (relation "measure (\<lambda>(_, chunk, _). length chunk)", goal_cases)
  case (2 failed0 c cs s failed rn s1 negated c1 mc m c2)
  then have "length c2 < length c1" using class_ranges_shorter by metis
  moreover have "length c1 \<le> length cs" using 2 by (simp split: if_splits)
  ultimately show ?case by simp
qed auto

section \<open>Matching a path\<close>

text \<open>The rest of the pattern after a mismatch: is it well formed?\<close>

function rest_ok :: "string \<Rightarrow> bool" where
  "rest_ok pattern = (if pattern = [] then True
     else case scanChunk pattern of (_, chunk, rest) \<Rightarrow>
       matchChunk False chunk [] \<noteq> None \<and> rest_ok rest)"
  by pat_completeness auto
termination by (relation "measure length") (auto dest: scanChunk_progress [OF sym])

declare rest_ok.simps [simp del]

text \<open>Skipping bytes under a star, none of them a slash; the last chunk must reach the end.\<close>

fun star_match :: "string \<Rightarrow> bool \<Rightarrow> string \<Rightarrow> string option option" where
  "star_match chunk final [] = Some None"
| "star_match chunk final (c # cs) =
    (if c = CHR ''/'' then Some None
     else case matchChunk False chunk cs of
       None \<Rightarrow> None
     | Some None \<Rightarrow> star_match chunk final cs
     | Some (Some t) \<Rightarrow> if final \<and> t \<noteq> [] then star_match chunk final cs else Some (Some t))"

function path_Match :: "string \<Rightarrow> string \<Rightarrow> bool result" where
  "path_Match pattern name =
    (if pattern = [] then Inr (name = [])
     else case scanChunk pattern of (star, chunk, rest) \<Rightarrow>
       if star \<and> chunk = [] then Inr (CHR ''/'' \<notin> set name)
       else case matchChunk False chunk name of
         None \<Rightarrow> Inl ErrBadPattern
       | Some here \<Rightarrow>
           (case (case here of
                    Some t \<Rightarrow> if t = [] \<or> rest \<noteq> [] then Some (Some t)
                              else if star then star_match chunk (rest = []) name else Some None
                  | None \<Rightarrow> if star then star_match chunk (rest = []) name else Some None) of
              None \<Rightarrow> Inl ErrBadPattern
            | Some (Some t) \<Rightarrow> path_Match rest t
            | Some None \<Rightarrow> if rest_ok rest then Inr False else Inl ErrBadPattern))"
  by pat_completeness auto
termination by (relation "measure (\<lambda>(pattern, _). length pattern)") (auto dest: scanChunk_progress [OF sym])

declare path_Match.simps [simp del]

end
