(* ===== verification/Go_Json.thy ===== *)
theory Go_Json
  imports Go_Strings
begin

text \<open>
  JSON text the way \<open>encoding/json\<close> reads it, for the three places the service decodes or checks
  a document: a lexer and a parser that consume their input once, front to back (so both are
  total), the decoding of string literals, and the encoder's string escaping.  Numbers keep their
  literal; converting one to a \<open>float64\<close> is \<open>strconv.ParseFloat\<close>, a parameter that gives the
  nearest double \<open>m * 2^e\<close> as \<open>(m, e)\<close> and fails when the literal overflows.
\<close>

type_synonym float64 = "int \<times> int"

datatype json =
    JNull | JBool bool | JNum string | JStr string | JArr "json list" | JObj "(string \<times> json) list"

datatype token =
    TLBrace | TRBrace | TLBrack | TRBrack | TColon | TComma | TStr string | TNum string
  | TTrue | TFalse | TNull

section \<open>String literals\<close>

definition hex_val :: "char \<Rightarrow> nat option" where
  "hex_val c = (let b = byte c in
     if 48 \<le> b \<and> b \<le> 57 then Some (b - 48)
     else if 97 \<le> b \<and> b \<le> 102 then Some (b - 87)
     else if 65 \<le> b \<and> b \<le> 70 then Some (b - 55)
     else None)"

fun getu4 :: "string \<Rightarrow> nat option" where
  "getu4 (a # b # c # d # _) =
    (case (hex_val a, hex_val b, hex_val c, hex_val d) of
       (Some w, Some x, Some y, Some z) \<Rightarrow> Some (w * 4096 + x * 256 + y * 16 + z)
     | _ \<Rightarrow> None)"
| "getu4 _ = None"

definition simple_escape :: "char \<Rightarrow> char option" where
  "simple_escape c =
    (if c = CHR 0x22 \<or> c = CHR 0x5C \<or> c = CHR ''/'' then Some c
     else if c = CHR ''b'' then Some (CHR 0x08)
     else if c = CHR ''f'' then Some (CHR 0x0C)
     else if c = CHR ''n'' then Some (CHR 0x0A)
     else if c = CHR ''r'' then Some (CHR 0x0D)
     else if c = CHR ''t'' then Some (CHR 0x09)
     else None)"

text \<open>
  The body of a literal, between its quotes.  A \<open>\u\<close> escape of a surrogate is a rune only together
  with the other half; alone, like any byte that is not UTF-8, it becomes \<open>U+FFFD\<close>.
\<close>

function unquote :: "string \<Rightarrow> string option" where
  "unquote [] = Some []"
| "unquote (c # cs) =
    (if c = CHR 0x5C then
       (case cs of
          [] \<Rightarrow> None
        | e # rest \<Rightarrow>
            if e = CHR ''u'' then
              (case getu4 rest of
                 None \<Rightarrow> None
               | Some hi \<Rightarrow>
                   let after = drop 4 rest;
                       lo = (if HasPrefix after [CHR 0x5C, CHR ''u''] then getu4 (drop 2 after) else None)
                   in if 55296 \<le> hi \<and> hi < 57344 then
                        (if hi < 56320 \<and> (case lo of Some l \<Rightarrow> 56320 \<le> l \<and> l < 57344 | None \<Rightarrow> False)
                         then map_option ((@) (EncodeRune ((hi - 55296) * 1024 + (the lo - 56320) + 65536)))
                                (unquote (drop 6 after))
                         else map_option ((@) (EncodeRune RuneError)) (unquote after))
                      else map_option ((@) (EncodeRune hi)) (unquote after))
            else (case simple_escape e of
                    None \<Rightarrow> None
                  | Some x \<Rightarrow> map_option ((#) x) (unquote rest)))
     else if c = CHR 0x22 \<or> byte c < 32 then None
     else case DecodeRune (c # cs) of (r, w) \<Rightarrow>
       map_option ((@) (EncodeRune r)) (unquote (drop (w - 1) cs)))"
  by pat_completeness auto
termination
  by (relation "measure length") auto

section \<open>Lexer\<close>

text \<open>
  One pass over the bytes.  \<open>LStr\<close> holds the literal so far (reversed) and whether the last byte was
  an unpaired backslash; \<open>LWord\<close> a number or a bare word.
\<close>

datatype lexer = LNone | LStr string bool | LWord string

definition json_space :: "char \<Rightarrow> bool" where
  "json_space c \<longleftrightarrow> c = CHR '' '' \<or> c = CHR 0x09 \<or> c = CHR 0x0A \<or> c = CHR 0x0D"

definition punct :: "char \<Rightarrow> token option" where
  "punct c = map_of [(CHR 0x7B, TLBrace), (CHR 0x7D, TRBrace), (CHR 0x5B, TLBrack),
     (CHR 0x5D, TRBrack), (CHR '':'', TColon), (CHR '','', TComma)] c"

definition is_digit :: "char \<Rightarrow> bool" where
  "is_digit c \<longleftrightarrow> 48 \<le> byte c \<and> byte c \<le> 57"

text \<open>The grammar of a number: \<open>-?(0|[1-9][0-9]*)(\.[0-9]+)?([eE][+-]?[0-9]+)?\<close>.\<close>

definition digits1 :: "string \<Rightarrow> string option" where
  "digits1 s = (if takeWhile is_digit s = [] then None else Some (dropWhile is_digit s))"

definition number_exp :: "string \<Rightarrow> bool" where
  "number_exp s =
    (case s of
       [] \<Rightarrow> True
     | c # t \<Rightarrow>
         (c = CHR ''e'' \<or> c = CHR ''E'') \<and>
         (case t of
            d # u \<Rightarrow> digits1 (if d = CHR ''+'' \<or> d = CHR ''-'' then u else t) = Some []
          | [] \<Rightarrow> False))"

definition number_frac :: "string \<Rightarrow> bool" where
  "number_frac s =
    (case s of
       c # t \<Rightarrow> (if c = CHR ''.'' then (case digits1 t of None \<Rightarrow> False | Some u \<Rightarrow> number_exp u)
                 else number_exp s)
     | [] \<Rightarrow> True)"

definition valid_number :: "string \<Rightarrow> bool" where
  "valid_number s =
    (let t = (case s of c # u \<Rightarrow> if c = CHR ''-'' then u else s | [] \<Rightarrow> s)
     in case t of
          [] \<Rightarrow> False
        | c # u \<Rightarrow>
            if c = CHR ''0'' then number_frac u
            else is_digit c \<and> number_frac (dropWhile is_digit u))"

definition word_token :: "string \<Rightarrow> token option" where
  "word_token w =
    (if w = ''true'' then Some TTrue else if w = ''false'' then Some TFalse
     else if w = ''null'' then Some TNull
     else if valid_number w then Some (TNum w) else None)"

definition start_token :: "char \<Rightarrow> token list \<Rightarrow> (lexer \<times> token list) option" where
  "start_token c ts =
    (if json_space c then Some (LNone, ts)
     else if c = CHR 0x22 then Some (LStr [] False, ts)
     else case punct c of
            Some t \<Rightarrow> Some (LNone, t # ts)
          | None \<Rightarrow> Some (LWord [c], ts))"

fun lex_step :: "(lexer \<times> token list) \<Rightarrow> char \<Rightarrow> (lexer \<times> token list) option" where
  "lex_step (LNone, ts) c = start_token c ts"
| "lex_step (LStr acc esc, ts) c =
    (if \<not> esc \<and> c = CHR 0x22
     then (case unquote (rev acc) of None \<Rightarrow> None | Some s \<Rightarrow> Some (LNone, TStr s # ts))
     else Some (LStr (c # acc) (\<not> esc \<and> c = CHR 0x5C), ts))"
| "lex_step (LWord acc, ts) c =
    (if json_space c \<or> c = CHR 0x22 \<or> punct c \<noteq> None
     then (case word_token (rev acc) of None \<Rightarrow> None | Some t \<Rightarrow> start_token c (t # ts))
     else Some (LWord (c # acc), ts))"

fun lex :: "(lexer \<times> token list) \<Rightarrow> string \<Rightarrow> token list option" where
  "lex (LNone, ts) [] = Some (rev ts)"
| "lex (LStr _ _, ts) [] = None"
| "lex (LWord acc, ts) [] = map_option (\<lambda>t. rev (t # ts)) (word_token (rev acc))"
| "lex st (c # cs) = (case lex_step st c of None \<Rightarrow> None | Some st' \<Rightarrow> lex st' cs)"

section \<open>Parser\<close>

text \<open>
  A stack of open containers, their elements in reverse; an object's frame carries the key whose
  value is being read.  \<open>WantElem\<close> and \<open>WantMember\<close> also accept the closing bracket.
\<close>

datatype frame = FArr "json list" | FObj "(string \<times> json) list" string

datatype want = WantValue | WantElem | WantMember "(string \<times> json) list" | WantKey "(string \<times> json) list"
  | WantColon "(string \<times> json) list" string | WantNext | Complete json

definition max_depth :: nat where "max_depth = 10000"

text \<open>A value is finished: it is the document, or it goes into the innermost container.\<close>

fun give :: "frame list \<Rightarrow> json \<Rightarrow> frame list \<times> want" where
  "give [] v = ([], Complete v)"
| "give (FArr vs # st) v = (FArr (v # vs) # st, WantNext)"
| "give (FObj ms k # st) v = (FObj ((k, v) # ms) k # st, WantNext)"

definition scalar_token :: "token \<Rightarrow> json option" where
  "scalar_token t = (case t of TStr s \<Rightarrow> Some (JStr s) | TNum s \<Rightarrow> Some (JNum s)
     | TTrue \<Rightarrow> Some (JBool True) | TFalse \<Rightarrow> Some (JBool False) | TNull \<Rightarrow> Some JNull | _ \<Rightarrow> None)"

definition begin_value :: "frame list \<Rightarrow> token \<Rightarrow> (frame list \<times> want) option" where
  "begin_value st t =
    (case t of
       TLBrack \<Rightarrow> if length st < max_depth then Some (FArr [] # st, WantElem) else None
     | TLBrace \<Rightarrow> if length st < max_depth then Some (st, WantMember []) else None
     | _ \<Rightarrow> map_option (give st) (scalar_token t))"

fun parse_step :: "frame list \<times> want \<Rightarrow> token \<Rightarrow> (frame list \<times> want) option" where
  "parse_step (st, WantValue) t = begin_value st t"
| "parse_step (FArr vs # st, WantElem) t =
    (if t = TRBrack then Some (give st (JArr (rev vs))) else begin_value (FArr vs # st) t)"
| "parse_step (st, WantMember ms) t =
    (case t of TStr k \<Rightarrow> Some (st, WantColon ms k)
     | TRBrace \<Rightarrow> Some (give st (JObj (rev ms)))
     | _ \<Rightarrow> None)"
| "parse_step (st, WantKey ms) t =
    (case t of TStr k \<Rightarrow> Some (st, WantColon ms k) | _ \<Rightarrow> None)"
| "parse_step (st, WantColon ms k) t =
    (if t = TColon then Some (FObj ms k # st, WantValue) else None)"
| "parse_step (FArr vs # st, WantNext) t =
    (if t = TComma then Some (FArr vs # st, WantValue)
     else if t = TRBrack then Some (give st (JArr (rev vs))) else None)"
| "parse_step (FObj ms k # st, WantNext) t =
    (if t = TComma then Some (st, WantKey ms)
     else if t = TRBrace then Some (give st (JObj (rev ms))) else None)"
| "parse_step _ _ = None"

fun parse_tokens :: "frame list \<times> want \<Rightarrow> token list \<Rightarrow> json option" where
  "parse_tokens (_, Complete v) [] = Some v"
| "parse_tokens _ [] = None"
| "parse_tokens s (t # ts) = (case parse_step s t of None \<Rightarrow> None | Some s' \<Rightarrow> parse_tokens s' ts)"

definition json_parse :: "string \<Rightarrow> json option" where
  "json_parse s = (case lex (LNone, []) s of None \<Rightarrow> None | Some ts \<Rightarrow> parse_tokens ([], WantValue) ts)"

text \<open>\<open>json.Valid\<close>.\<close>

definition json_Valid :: "string \<Rightarrow> bool" where
  "json_Valid s \<longleftrightarrow> json_parse s \<noteq> None"

section \<open>Decoding into Go types\<close>

text \<open>
  Into \<open>any\<close> every number of the document is converted; into \<open>map[string]any\<close> the document is an
  object or \<open>null\<close>; into \<open>[]string\<close> it is \<open>null\<close> or an array of strings, where a \<open>null\<close> element
  leaves the empty string.  A repeated key keeps its last value.
\<close>

fun numbers_ok :: "(string \<Rightarrow> float64 option) \<Rightarrow> json \<Rightarrow> bool" where
  "numbers_ok pf (JNum s) = (pf s \<noteq> None)"
| "numbers_ok pf (JArr vs) = list_all (numbers_ok pf) vs"
| "numbers_ok pf (JObj ms) = list_all (\<lambda>m. numbers_ok pf (snd m)) ms"
| "numbers_ok pf _ = True"

definition object_of :: "(string \<times> json) list \<Rightarrow> (string \<rightharpoonup> json)" where
  "object_of ms = map_of (rev ms)"

definition Unmarshal_map_any :: "(string \<Rightarrow> float64 option) \<Rightarrow> string \<Rightarrow> (string \<rightharpoonup> json) option" where
  "Unmarshal_map_any pf s =
    (case json_parse s of
       Some (JObj ms) \<Rightarrow> if numbers_ok pf (JObj ms) then Some (object_of ms) else None
     | Some JNull \<Rightarrow> Some Map.empty
     | _ \<Rightarrow> None)"

text \<open>\<open>map[string]json.RawMessage\<close>: the members in the order of their first appearance.\<close>

definition Unmarshal_map_raw :: "string \<Rightarrow> (string \<times> json) list option" where
  "Unmarshal_map_raw s =
    (case json_parse s of
       Some (JObj ms) \<Rightarrow> Some (map (\<lambda>k. (k, the (object_of ms k))) (rev (remdups (rev (map fst ms)))))
     | Some JNull \<Rightarrow> Some []
     | _ \<Rightarrow> None)"

fun string_elems :: "json list \<Rightarrow> string list option" where
  "string_elems [] = Some []"
| "string_elems (JStr s # vs) = map_option ((#) s) (string_elems vs)"
| "string_elems (JNull # vs) = map_option ((#) []) (string_elems vs)"
| "string_elems _ = None"

definition Unmarshal_strings :: "string \<Rightarrow> string list option" where
  "Unmarshal_strings s =
    (case json_parse s of
       Some (JArr vs) \<Rightarrow> string_elems vs
     | Some JNull \<Rightarrow> Some []
     | _ \<Rightarrow> None)"

end
