(* ===== verification/App_Config.thy ===== *)
theory App_Config
  imports Go_Path Go_Json
begin

text \<open>
  \<open>internal/config/config.go\<close>: the configuration tree, struct by struct, its defaults, the checks it
  must pass before the service starts, and the two conversions of \<open>LoadWithProfile\<close> that are its own
  (the string-slice hook and the profile's file name).  Reading files and the environment is left
  to the viper library.  Durations are nanoseconds; Go's maps are association lists.
\<close>

section \<open>Structures\<close>

record runtime_config =
  rt_ActiveProfile :: string
  rt_ConfigFiles :: "string list"

record app_config =
  app_Name :: string
  app_Schema :: string
  app_Env :: string
  app_ShutdownTimeout :: duration

record cors_config =
  cors_Enabled :: bool
  cors_AllowedOrigins :: "string list"
  cors_AllowedHeaders :: "string list"
  cors_ExposedHeaders :: "string list"
  cors_MaxAge :: duration

record http_config =
  http_Address :: string
  http_ReadTimeout :: duration
  http_WriteTimeout :: duration
  http_IdleTimeout :: duration
  http_RequestTimeout :: duration
  http_MaxBodyBytes :: int
  http_TrustedProxies :: "string list"
  http_CORS :: cors_config

record grpc_tls_config =
  gtls_Enabled :: bool
  gtls_CertFile :: string
  gtls_KeyFile :: string
  gtls_ClientCAFile :: string

record grpc_config =
  grpc_Enabled :: bool
  grpc_Address :: string
  grpc_ReflectionEnabled :: bool
  grpc_MaxReceiveBytes :: int
  grpc_TLS :: grpc_tls_config

record log_config =
  log_Level :: string
  log_Format :: string
  log_File :: string
  log_MaxSizeMB :: int
  log_MaxBackups :: int
  log_MaxAgeDays :: int
  log_Compress :: bool

record database_config =
  dbc_Enabled :: bool
  dbc_Name :: string
  dbc_Schema :: string
  dbc_Type :: string
  dbc_DSN :: string
  dbc_MaxOpenConns :: int
  dbc_MaxIdleConns :: int
  dbc_ConnMaxLifetime :: duration
  dbc_ConnMaxIdleTime :: duration
  dbc_PingTimeout :: duration

record redis_config =
  redis_Enabled :: bool
  redis_Address :: string
  redis_Username :: string
  redis_Password :: string
  redis_DB :: int
  redis_DialTimeout :: duration
  redis_ReadTimeout :: duration
  redis_WriteTimeout :: duration

record health_config =
  health_DatabaseTimeout :: duration
  health_RedisTimeout :: duration

record rate_limit_rule_config =
  rule_Rate :: int
  rule_Burst :: int
  rule_Period :: duration

record rate_limit_config =
  rl_Enabled :: bool
  rl_FailOpen :: bool
  rl_IP :: rate_limit_rule_config
  rl_API :: rate_limit_rule_config
  rl_User :: rate_limit_rule_config
  rl_Login :: rate_limit_rule_config

record observability_config =
  obs_MetricsEnabled :: bool
  obs_TracingEnabled :: bool
  obs_TracingEndpoint :: string
  obs_TracingSampleRatio :: float64
  obs_PprofEnabled :: bool
  obs_PprofToken :: string

record swagger_config =
  swagger_Enabled :: bool
  swagger_RequireAuth :: bool

record jwt_config =
  jwt_Issuer :: string
  jwt_Secret :: string
  jwt_TTL :: duration

record psk_config =
  psk_Enabled :: bool
  psk_Key :: string
  psk_HTTPPaths :: "string list"
  psk_GRPCMethods :: "string list"

record auth_config =
  auth_JWKSURL :: string
  auth_Issuer :: string
  auth_Audience :: string
  auth_ClientID :: string
  auth_ClientSecret :: string
  auth_SkipHTTPPaths :: "string list"
  auth_SkipGRPCMethods :: "string list"
  auth_PSK :: psk_config

record authorization_config =
  authz_Enabled :: bool

record cron_config =
  cron_Enabled :: bool
  cron_Timezone :: string
  cron_SampleSpec :: string
  cron_ExportCleanupSpec :: string
  cron_MetadataCleanupSpec :: string
  cron_MetadataRetention :: duration
  cron_CleanupBatchSize :: int

record migration_config =
  migr_AutoUp :: bool
  migr_CreateSchema :: bool
  migr_Path :: string
  migr_DatabaseURL :: string
  migr_Table :: string
  migr_Schema :: string
  migr_DatabaseName :: string

record user_config =
  user_CacheTTL :: duration
  user_LockTTL :: duration
  user_LockRetryDelay :: duration

record idempotency_config =
  idem_Enabled :: bool
  idem_HTTPPaths :: "string list"
  idem_GRPCMethods :: "string list"
  idem_ProcessingTTL :: duration
  idem_ResultTTL :: duration
  idem_FailureTTL :: duration

record client_auth_config =
  ca_Type :: string
  ca_Token :: string

record retry_config =
  retry_MaxAttempts :: int
  retry_InitialBackoff :: duration
  retry_MaxBackoff :: duration
  retry_Methods :: "string list"

record breaker_config =
  brk_Enabled :: bool
  brk_FailureThreshold :: int
  brk_OpenTimeout :: duration

record client_tls_config =
  ctls_Enabled :: bool
  ctls_AllowInsecure :: bool
  ctls_ServerName :: string
  ctls_CAFile :: string
  ctls_CertFile :: string
  ctls_KeyFile :: string

record http_upstream_config =
  hu_BaseURL :: string
  hu_Timeout :: duration
  hu_Auth :: client_auth_config
  hu_Retry :: retry_config
  hu_Breaker :: breaker_config
  hu_TLS :: client_tls_config

record grpc_upstream_config =
  gu_Target :: string
  gu_Timeout :: duration
  gu_Auth :: client_auth_config
  gu_Retry :: retry_config
  gu_Breaker :: breaker_config
  gu_TLS :: client_tls_config

record outbound_config =
  outb_HTTP :: "(string \<times> http_upstream_config) list"
  outb_GRPC :: "(string \<times> grpc_upstream_config) list"

record event_bus_config =
  eb_Enabled :: bool
  eb_URLs :: "string list"
  eb_StreamName :: string
  eb_Subjects :: "string list"
  eb_Storage :: string
  eb_MaxAge :: duration
  eb_DuplicateWindow :: duration
  eb_ConnectTimeout :: duration
  eb_ReconnectWait :: duration
  eb_PublishTimeout :: duration
  eb_ConsumerAckWait :: duration
  eb_ConsumerMaxDeliver :: int
  eb_DispatchInterval :: duration
  eb_DispatchBatchSize :: int
  eb_DispatchLease :: duration
  eb_DispatchRetryDelay :: duration
  eb_PublishedRetention :: duration
  eb_CleanupInterval :: duration
  eb_CleanupBatchSize :: int

record export_config =
  exp_BatchSize :: int
  exp_MaxRows :: int
  exp_MaxBytes :: int
  exp_JobTimeout :: duration
  exp_ResultTTL :: duration
  exp_WorkerCount :: int
  exp_ProgressEvery :: int

record object_storage_config =
  os_Enabled :: bool
  os_Endpoint :: string
  os_PresignEndpoint :: string
  os_AccessKey :: string
  os_SecretKey :: string
  os_Bucket :: string
  os_Region :: string
  os_UseSSL :: bool
  os_PresignUseSSL :: bool
  os_PresignTTL :: duration

record service_registry_config =
  sr_Enabled :: bool
  sr_Target :: string
  sr_PSK :: string
  sr_MaxStale :: duration
  sr_SnapshotDirectory :: string
  sr_AllowInsecure :: bool
  sr_TLS :: client_tls_config

record provider_client_config =
  pc_PSK :: string
  pc_AllowedDNSSuffixes :: "string list"
  pc_Timeout :: duration
  pc_FailureCooldown :: duration
  pc_AllowInsecure :: bool
  pc_Retry :: retry_config
  pc_Breaker :: breaker_config
  pc_TLS :: client_tls_config

record config =
  c_Runtime :: runtime_config
  c_App :: app_config
  c_HTTP :: http_config
  c_GRPC :: grpc_config
  c_Log :: log_config
  c_Database :: database_config
  c_Redis :: redis_config
  c_Health :: health_config
  c_RateLimit :: rate_limit_config
  c_Observability :: observability_config
  c_Swagger :: swagger_config
  c_JWT :: jwt_config
  c_Auth :: auth_config
  c_Authorization :: authorization_config
  c_Cron :: cron_config
  c_Migration :: migration_config
  c_User :: user_config
  c_Idempotency :: idempotency_config
  c_Outbound :: outbound_config
  c_EventBus :: event_bus_config
  c_Export :: export_config
  c_ObjectStorage :: object_storage_config
  c_ServiceRegistry :: service_registry_config
  c_ProviderClient :: provider_client_config

section \<open>Checks\<close>

text \<open>A check is an error or nothing; the first error of a sequence is the result.\<close>

definition check :: "bool \<Rightarrow> string \<Rightarrow> goerror option" where
  "check bad message = (if bad then Some (Opaque message) else None)"

fun first_error :: "goerror option list \<Rightarrow> goerror option" where
  "first_error [] = None"
| "first_error (None # es) = first_error es"
| "first_error (Some e # es) = Some e"

text \<open>The regular expressions \<open>^[a-z0-9][a-z0-9_-]*$\<close> and \<open>^[a-z][a-z0-9_]{0,62}$\<close>.\<close>

definition lower_alpha :: "char \<Rightarrow> bool" where
  "lower_alpha c \<longleftrightarrow> 97 \<le> (byte c :: nat) \<and> (byte c :: nat) \<le> 122"

definition validProfile :: "string \<Rightarrow> bool" where
  "validProfile s = (case s of [] \<Rightarrow> False
     | c # cs \<Rightarrow> (lower_alpha c \<or> is_digit c)
         \<and> list_all (\<lambda>x. lower_alpha x \<or> is_digit x \<or> x = CHR ''_'' \<or> x = CHR ''-'') cs)"

definition validMigrationTable :: "string \<Rightarrow> bool" where
  "validMigrationTable s = (case s of [] \<Rightarrow> False
     | c # cs \<Rightarrow> lower_alpha c \<and> length cs \<le> 62
         \<and> list_all (\<lambda>x. lower_alpha x \<or> is_digit x \<or> x = CHR ''_'') cs)"

definition isDBType :: "string \<Rightarrow> bool" where
  "isDBType value \<longleftrightarrow> value = ''mysql'' \<or> value = ''postgres'' \<or> value = ''kingbase''"

text \<open>\<open>filepath.Ext\<close>: from the last dot of the last path element.\<close>

definition filepath_Ext :: "string \<Rightarrow> string" where
  "filepath_Ext p =
    (let r = takeWhile (\<lambda>c. c \<noteq> CHR ''/'') (rev p)
     in if CHR ''.'' \<in> set r then CHR ''.'' # rev (takeWhile (\<lambda>c. c \<noteq> CHR ''.'') r) else [])"

definition profileConfigPath :: "string \<Rightarrow> string \<Rightarrow> string" where
  "profileConfigPath path profile =
    (let extension = filepath_Ext path; base = TrimSuffix path extension
     in base @ ''-'' @ profile @ extension)"

definition production :: "config \<Rightarrow> bool" where
  "production c \<longleftrightarrow> app_Env (c_App c) = ''production''"

definition bad_pattern :: "string \<Rightarrow> bool" where
  "bad_pattern p \<longleftrightarrow> (case path_Match p ''/validation/target'' of Inl _ \<Rightarrow> True | Inr _ \<Rightarrow> False)"

definition http_patterns :: "string \<Rightarrow> string list \<Rightarrow> goerror option list" where
  "http_patterns key ps = concat (map (\<lambda>p.
     [check (\<not> HasPrefix p ''/api/'') (key @ '' contains path outside /api''),
      check (bad_pattern p) (key @ '' contains invalid pattern'')]) ps)"

definition method_shape :: "string \<Rightarrow> bool" where
  "method_shape p \<longleftrightarrow> HasPrefix p ''/'' \<and> length (filter (\<lambda>c. c = CHR ''/'') p) = 2"

definition grpc_patterns :: "string \<Rightarrow> string list \<Rightarrow> goerror option list" where
  "grpc_patterns key ps = concat (map (\<lambda>p.
     [check (\<not> method_shape p) (key @ '' contains invalid method pattern''),
      check (bad_pattern p) (key @ '' contains invalid pattern'')]) ps)"

subsection \<open>Policies\<close>

definition validateObjectStoragePolicy :: "object_storage_config \<Rightarrow> bool \<Rightarrow> goerror option" where
  "validateObjectStoragePolicy storage live =
    (if \<not> os_Enabled storage then None
     else first_error
       [check (os_Endpoint storage = [] \<or> os_AccessKey storage = [] \<or> os_SecretKey storage = []
            \<or> os_Bucket storage = [] \<or> os_PresignTTL storage \<le> 0)
          ''enabled object_storage requires endpoint, credentials, bucket, and positive presign_ttl'',
        check (os_PresignEndpoint storage \<noteq> [] \<and> os_Region storage = [])
          ''object_storage.region is required with presign_endpoint'',
        check (live \<and> (\<not> os_UseSSL storage \<or> (os_PresignEndpoint storage \<noteq> [] \<and> \<not> os_PresignUseSSL storage)))
          ''production object_storage and presigned URLs require TLS''])"

definition validateClientPolicy ::
  "string \<Rightarrow> client_auth_config \<Rightarrow> retry_config \<Rightarrow> breaker_config \<Rightarrow> client_tls_config \<Rightarrow> bool \<Rightarrow> goerror option" where
  "validateClientPolicy name auth retry breaker tls live = first_error (
     [check (ca_Type auth \<noteq> [] \<and> ca_Type auth \<noteq> ''bearer'' \<and> ca_Type auth \<noteq> ''psk'')
        (''outbound '' @ name @ '' auth.type must be bearer or psk''),
      check (ca_Type auth \<noteq> [] \<and> ca_Token auth = []) (''outbound '' @ name @ '' auth.token is required''),
      check (ca_Type auth \<noteq> [] \<and> \<not> ctls_Enabled tls \<and> \<not> ctls_AllowInsecure tls)
        (''outbound '' @ name @ '' credentials require TLS or explicit allow_insecure''),
      check (ctls_Enabled tls \<and> ctls_AllowInsecure tls)
        (''outbound '' @ name @ '' TLS and allow_insecure are mutually exclusive''),
      check (live \<and> ca_Type auth \<noteq> [] \<and> ctls_AllowInsecure tls)
        (''production outbound '' @ name @ '' credentials require TLS''),
      check (retry_MaxAttempts retry < 1 \<or> 5 < retry_MaxAttempts retry \<or> retry_InitialBackoff retry \<le> 0
          \<or> retry_MaxBackoff retry < retry_InitialBackoff retry)
        (''outbound '' @ name @ '' retry policy is invalid'')]
     @ concat (map (\<lambda>p.
         [check (\<not> method_shape p) (''outbound '' @ name @ '' retry method pattern is invalid''),
          check (bad_pattern p) (''outbound '' @ name @ '' retry method pattern is invalid'')]) (retry_Methods retry))
     @ [check (brk_Enabled breaker \<and> (brk_FailureThreshold breaker = 0 \<or> brk_OpenTimeout breaker \<le> 0))
          (''outbound '' @ name @ '' breaker policy is invalid''),
        check (ctls_Enabled tls \<and> (ctls_CertFile tls = []) \<noteq> (ctls_KeyFile tls = []))
          (''outbound '' @ name @ '' TLS certificate and key must be configured together'')])"

subsection \<open>Validate, group by group\<close>

definition validate_servers :: "config \<Rightarrow> goerror option list" where
  "validate_servers c =
    (let d = c_Database c; g = c_GRPC c; m = c_Migration c
     in [check (\<not> validMigrationTable (dbc_Name d)) ''database.name must contain lowercase letters, digits, or underscores and be at most 63 characters'',
         check (dbc_Schema d \<noteq> [] \<and> \<not> validMigrationTable (dbc_Schema d)) ''database.schema must contain lowercase letters, digits, or underscores and be at most 63 characters'',
         check (http_Address (c_HTTP c) = []) ''http.address is required'',
         check (grpc_Enabled g \<and> (grpc_Address g = [] \<or> grpc_MaxReceiveBytes g \<le> 0)) ''enabled grpc requires address and positive max_receive_bytes'',
         check (gtls_Enabled (grpc_TLS g) \<and> (gtls_CertFile (grpc_TLS g) = [] \<or> gtls_KeyFile (grpc_TLS g) = [])) ''grpc tls requires cert_file and key_file'',
         check (production c \<and> grpc_Enabled g \<and> \<not> gtls_Enabled (grpc_TLS g)) ''grpc tls must be enabled in production'',
         check (production c \<and> grpc_ReflectionEnabled g) ''grpc reflection must be disabled in production'',
         check (dbc_Enabled d \<and> (dbc_DSN d = [] \<or> \<not> isDBType (dbc_Type d))) ''enabled database requires dsn and type mysql, postgres, or kingbase'',
         check (dbc_Enabled d \<and> map_of (outb_GRPC (c_Outbound c)) ''application'' = None) ''enabled database requires outbound.grpc.application'',
         check (migr_AutoUp m \<and> (\<not> dbc_Enabled d \<or> migr_Path m = [] \<or> migr_DatabaseURL m = [] \<or> \<not> validMigrationTable (migr_Table m))) ''migration.auto_up requires enabled database, path, database_url, and a valid service-specific table'',
         check (redis_Enabled (c_Redis c) \<and> redis_Address (c_Redis c) = []) ''enabled redis requires address'',
         check (http_RequestTimeout (c_HTTP c) \<le> 0 \<or> health_DatabaseTimeout (c_Health c) \<le> 0 \<or> health_RedisTimeout (c_Health c) \<le> 0) ''http and health timeouts must be positive''])"

definition rule_bad :: "rate_limit_rule_config \<Rightarrow> bool" where
  "rule_bad r \<longleftrightarrow> rule_Rate r \<le> 0 \<or> rule_Burst r \<le> 0 \<or> rule_Period r \<le> 0"

definition validate_rate_limit :: "config \<Rightarrow> goerror option list" where
  "validate_rate_limit c =
    (let l = c_RateLimit c
     in [check (rl_Enabled l \<and> \<not> redis_Enabled (c_Redis c)) ''rate_limit requires redis.enabled'',
         check (rl_Enabled l \<and> rule_bad (rl_IP l)) ''rate_limit.ip values must be positive'',
         check (rl_Enabled l \<and> rule_bad (rl_API l)) ''rate_limit.api values must be positive'',
         check (rl_Enabled l \<and> rule_bad (rl_User l)) ''rate_limit.user values must be positive'',
         check (rl_Enabled l \<and> rule_bad (rl_Login l)) ''rate_limit.login values must be positive''])"

text \<open>\<open>ratio < 0 || ratio > 1\<close> for the double \<open>m * 2^e\<close>.\<close>

definition outside_unit :: "float64 \<Rightarrow> bool" where
  "outside_unit f = (case f of (m, e) \<Rightarrow> m < 0 \<or> (if 0 \<le> e then 1 < m * 2 ^ nat e else 2 ^ nat (- e) < m))"

definition validate_exposure :: "config \<Rightarrow> goerror option list" where
  "validate_exposure c =
    (let ob = c_Observability c; a = c_Auth c
     in [check (cors_Enabled (http_CORS (c_HTTP c)) \<and> cors_AllowedOrigins (http_CORS (c_HTTP c)) = []) ''cors.allowed_origins is required when cors is enabled'',
         check (outside_unit (obs_TracingSampleRatio ob)) ''observability.tracing_sample_ratio must be between 0 and 1'',
         check (obs_TracingEnabled ob \<and> obs_TracingEndpoint ob = []) ''observability.tracing_endpoint is required'',
         check (obs_PprofEnabled ob \<and> length (obs_PprofToken ob) < 32) ''observability.pprof_token must contain at least 32 bytes'',
         check (production c \<and> swagger_Enabled (c_Swagger c) \<and> \<not> swagger_RequireAuth (c_Swagger c)) ''swagger.require_auth must be enabled in production'',
         check (production c \<and> (TrimSpace (auth_JWKSURL a) = [] \<or> TrimSpace (auth_Issuer a) = [] \<or> TrimSpace (auth_Audience a) = [])) ''production auth requires JWKS URL, issuer, and audience'',
         check (production c \<and> \<not> authz_Enabled (c_Authorization c)) ''authorization must be enabled in production'',
         check (authz_Enabled (c_Authorization c) \<and> map_of (outb_GRPC (c_Outbound c)) ''authorization'' = None) ''enabled authorization requires outbound.grpc.authorization'',
         check ((auth_ClientID a \<noteq> [] \<or> auth_ClientSecret a \<noteq> []) \<and> length (jwt_Secret (c_JWT c)) < 32) ''jwt.secret must contain at least 32 bytes when auth is enabled''])"

definition validate_routes :: "config \<Rightarrow> goerror option list" where
  "validate_routes c =
    (let a = c_Auth c; p = auth_PSK a; i = c_Idempotency c; u = c_User c
     in http_patterns ''auth.skip_http_paths'' (auth_SkipHTTPPaths a)
        @ grpc_patterns ''auth.skip_grpc_methods'' (auth_SkipGRPCMethods a)
        @ [check (psk_Enabled p \<and> (length (psk_Key p) < 32 \<or> length (psk_HTTPPaths p) + length (psk_GRPCMethods p) = 0)) ''enabled auth.psk requires a key of at least 32 bytes and at least one route pattern'']
        @ http_patterns ''auth.psk.http_paths'' (psk_HTTPPaths p)
        @ grpc_patterns ''auth.psk.grpc_methods'' (psk_GRPCMethods p)
        @ [check (user_CacheTTL u \<le> 0 \<or> user_LockTTL u \<le> 0 \<or> user_LockRetryDelay u \<le> 0) ''user cache and lock durations must be positive'',
           check (idem_Enabled i \<and> (\<not> redis_Enabled (c_Redis c) \<or> length (idem_HTTPPaths i) + length (idem_GRPCMethods i) = 0
               \<or> idem_ProcessingTTL i \<le> 0 \<or> idem_ResultTTL i \<le> 0 \<or> idem_FailureTTL i \<le> 0)) ''enabled idempotency requires redis, at least one route pattern, and positive TTL values'']
        @ http_patterns ''idempotency.http_paths'' (idem_HTTPPaths i)
        @ grpc_patterns ''idempotency.grpc_methods'' (idem_GRPCMethods i))"

definition validate_event_bus :: "config \<Rightarrow> goerror option list" where
  "validate_event_bus c =
    (let e = c_EventBus c
     in [check (eb_Enabled e \<and> (eb_URLs e = [] \<or> eb_StreamName e = [] \<or> eb_Subjects e \<noteq> [''platform.>'']
             \<or> (eb_Storage e \<noteq> ''file'' \<and> eb_Storage e \<noteq> ''memory'') \<or> eb_MaxAge e \<le> 0 \<or> eb_DuplicateWindow e \<le> 0
             \<or> eb_ConnectTimeout e \<le> 0 \<or> eb_ReconnectWait e \<le> 0 \<or> eb_PublishTimeout e \<le> 0
             \<or> eb_ConsumerAckWait e \<le> 0 \<or> eb_ConsumerMaxDeliver e \<le> 0 \<or> eb_DispatchInterval e \<le> 0
             \<or> eb_DispatchBatchSize e \<le> 0 \<or> eb_DispatchLease e \<le> 0 \<or> eb_DispatchRetryDelay e \<le> 0
             \<or> eb_PublishedRetention e < eb_MaxAge e \<or> eb_CleanupInterval e \<le> 0 \<or> eb_CleanupBatchSize e \<le> 0))
           ''enabled event_bus requires URLs, stream, canonical platform.> subjects, valid storage, positive delivery/dispatch/cleanup settings, and published retention at least max_age'',
         check (eb_Enabled e \<and> eb_ConsumerAckWait e \<le> exp_JobTimeout (c_Export c)) ''event_bus.consumer_ack_wait must exceed export.job_timeout''])"

definition validate_export :: "config \<Rightarrow> goerror option list" where
  "validate_export c =
    (let cr = c_Cron c; x = c_Export c
     in [check (cron_Enabled cr \<and> cron_ExportCleanupSpec cr \<noteq> [] \<and> cron_CleanupBatchSize cr \<le> 0) ''cron.cleanup_batch_size must be positive when export cleanup is enabled'',
         check (cron_Enabled cr \<and> cron_MetadataCleanupSpec cr \<noteq> [] \<and> (cron_CleanupBatchSize cr \<le> 0 \<or> cron_MetadataRetention cr \<le> 0)) ''cron metadata cleanup requires positive retention and batch size'',
         check (exp_BatchSize x < 1 \<or> 10000 < exp_BatchSize x \<or> exp_MaxRows x < 1 \<or> exp_MaxBytes x < 1
             \<or> exp_JobTimeout x \<le> 0 \<or> exp_ResultTTL x \<le> 0 \<or> exp_WorkerCount x < 1 \<or> 32 < exp_WorkerCount x
             \<or> exp_ProgressEvery x < 1) ''export requires valid batch_size, limits, timeouts, worker_count, and progress_every'',
         validateObjectStoragePolicy (c_ObjectStorage c) (production c)])"

definition validate_registry :: "config \<Rightarrow> goerror option list" where
  "validate_registry c =
    (let r = c_ServiceRegistry c; p = c_ProviderClient c
     in if \<not> sr_Enabled r then []
        else [check (sr_Target r = [] \<or> length (sr_PSK r) < 32 \<or> sr_MaxStale r \<le> 0 \<or> sr_SnapshotDirectory r = []
                \<or> length (pc_PSK p) < 32 \<or> pc_AllowedDNSSuffixes p = [] \<or> pc_Timeout p \<le> 0 \<or> pc_FailureCooldown p \<le> 0)
              ''enabled service_registry requires registry and provider credentials, cache, DNS allowlist, and positive timeouts'',
            check (production c \<and> (\<not> ctls_Enabled (sr_TLS r) \<or> \<not> ctls_Enabled (pc_TLS p) \<or> sr_AllowInsecure r \<or> pc_AllowInsecure p))
              ''production service discovery and provider calls require TLS'',
            check ((\<not> ctls_Enabled (sr_TLS r) \<and> \<not> sr_AllowInsecure r) \<or> (\<not> ctls_Enabled (pc_TLS p) \<and> \<not> pc_AllowInsecure p))
              ''plaintext registry or provider credentials require explicit allow_insecure''])"

definition validate_outbound :: "config \<Rightarrow> goerror option list" where
  "validate_outbound c =
    concat (map (\<lambda>(name, u).
      [check (hu_BaseURL u = [] \<or> hu_Timeout u \<le> 0) (''outbound.http.'' @ name @ '' requires base_url and positive timeout''),
       validateClientPolicy name (hu_Auth u) (hu_Retry u) (hu_Breaker u) (hu_TLS u) (production c)]) (outb_HTTP (c_Outbound c)))
    @ concat (map (\<lambda>(name, u).
      [check (gu_Target u = [] \<or> gu_Timeout u \<le> 0) (''outbound.grpc.'' @ name @ '' requires target and positive timeout''),
       validateClientPolicy name (gu_Auth u) (gu_Retry u) (gu_Breaker u) (gu_TLS u) (production c)]) (outb_GRPC (c_Outbound c)))"

definition Validate :: "config \<Rightarrow> goerror option" where
  "Validate c = first_error (validate_servers c @ validate_rate_limit c @ validate_exposure c @ validate_routes c
     @ validate_event_bus c @ validate_export c @ validate_registry c @ validate_outbound c)"

section \<open>Loading\<close>

text \<open>\<open>stringToStringSliceHook\<close> on a string that is to become a slice: brackets off, split at commas,
  spaces and quotes off each part.\<close>

fun split_comma :: "string \<Rightarrow> string list" where
  "split_comma [] = [[]]"
| "split_comma (c # cs) =
    (if c = CHR '','' then [] # split_comma cs
     else case split_comma cs of [] \<Rightarrow> [[c]] | p # ps \<Rightarrow> (c # p) # ps)"

definition trim_quotes :: "string \<Rightarrow> string" where
  "trim_quotes s = (let q = (\<lambda>c. c = CHR 0x22 \<or> c = CHR 0x27) in rev (dropWhile q (rev (dropWhile q s))))"

definition stringToStringSlice :: "string \<Rightarrow> string list" where
  "stringToStringSlice value =
    (let raw0 = TrimSpace value;
         raw = (if HasPrefix raw0 ''['' \<and> HasSuffix raw0 '']'' then TrimSpace (drop 1 (take (length raw0 - 1) raw0)) else raw0)
     in if raw = [] then [] else map (\<lambda>v. trim_quotes (TrimSpace v)) (split_comma raw))"

end
