(* ===== verification/Object_Storage.thy ===== *)
theory Object_Storage
  imports Export_Model App_Config
begin

text \<open>
  \<open>internal/objectstorage/storage.go\<close>: the S3 wrapper over the MinIO client.

  The client is a parameter over an abstract bucket state \<open>'o\<close>.  \<open>PutObject\<close> reads the source
  while the export writes it, so it is given in parts: \<open>mc_read\<close> says whether the upload gives up
  while taking the next chunk (how much of it was taken, and the error), \<open>mc_finish\<close> what happens
  when the source ends, \<open>mc_abort\<close> what it returns and leaves in the bucket when the source fails.
\<close>

section \<open>Client and wrapper\<close>

record 'o minio =
  mc_read :: "string \<Rightarrow> string \<Rightarrow> string \<Rightarrow> 'o \<Rightarrow> (nat \<times> goerror) option"
  mc_finish :: "string \<Rightarrow> string \<Rightarrow> string \<Rightarrow> 'o \<Rightarrow> int result \<times> 'o"
  mc_abort :: "string \<Rightarrow> string \<Rightarrow> goerror \<Rightarrow> 'o \<Rightarrow> goerror \<times> 'o"
  mc_RemoveObject :: "string \<Rightarrow> 'o \<Rightarrow> goerror option \<times> 'o"
  mc_PresignedGetObject :: "string \<Rightarrow> duration \<Rightarrow> 'o \<Rightarrow> string result"

record 'o s3 =
  s3_client :: "'o minio"
  s3_presignClient :: "'o minio"
  s3_cfg :: object_storage_config

text \<open>
  \<open>New\<close>: a disabled storage has no clients (never used); a separate presign client exists exactly
  when the public endpoint or its scheme differs.  \<open>dial\<close> is \<open>minio.New\<close> for an endpoint.
\<close>

definition s3_New ::
  "(string \<Rightarrow> bool \<Rightarrow> object_storage_config \<Rightarrow> 'o minio result) \<Rightarrow> 'o minio \<Rightarrow> object_storage_config
    \<Rightarrow> 'o s3 result" where
  "s3_New dial nil c =
    (if \<not> os_Enabled c then Inr \<lparr>s3_client = nil, s3_presignClient = nil, s3_cfg = c\<rparr>
     else case dial (os_Endpoint c) (os_UseSSL c) c of
       Inl e \<Rightarrow> Inl e
     | Inr client \<Rightarrow>
         if os_PresignEndpoint c \<noteq> []
            \<and> (os_PresignEndpoint c \<noteq> os_Endpoint c \<or> os_PresignUseSSL c \<noteq> os_UseSSL c)
         then (case dial (os_PresignEndpoint c) (os_PresignUseSSL c) c of
                 Inl e \<Rightarrow> Inl e
               | Inr p \<Rightarrow> Inr \<lparr>s3_client = client, s3_presignClient = p, s3_cfg = c\<rparr>)
         else Inr \<lparr>s3_client = client, s3_presignClient = client, s3_cfg = c\<rparr>)"

definition s3_Enabled :: "'o s3 \<Rightarrow> bool" where
  "s3_Enabled s = os_Enabled (s3_cfg s)"

definition s3_Bucket :: "'o s3 \<Rightarrow> string" where
  "s3_Bucket s = os_Bucket (s3_cfg s)"

text \<open>
  \<open>Put\<close>, in the three parts of the client: the next chunk, the end of the source, its failure.
  A disabled storage returns \<open>ErrDisabled\<close> before reading anything.
\<close>

definition s3_Put_read :: "'o s3 \<Rightarrow> string \<Rightarrow> string \<Rightarrow> string \<Rightarrow> 'o \<Rightarrow> (nat \<times> goerror) option" where
  "s3_Put_read s key sent chunk bk =
    (if \<not> s3_Enabled s then Some (0, ErrDisabled) else mc_read (s3_client s) key sent chunk bk)"

definition s3_Put_finish :: "'o s3 \<Rightarrow> string \<Rightarrow> string \<Rightarrow> string \<Rightarrow> 'o \<Rightarrow> int result \<times> 'o" where
  "s3_Put_finish s key content contentType bk =
    (if \<not> s3_Enabled s then (Inl ErrDisabled, bk) else mc_finish (s3_client s) key content contentType bk)"

definition s3_Put_abort :: "'o s3 \<Rightarrow> string \<Rightarrow> string \<Rightarrow> goerror \<Rightarrow> 'o \<Rightarrow> goerror \<times> 'o" where
  "s3_Put_abort s key sent cause bk =
    (if \<not> s3_Enabled s then (ErrDisabled, bk) else mc_abort (s3_client s) key sent cause bk)"

definition s3_Delete :: "'o s3 \<Rightarrow> string \<Rightarrow> 'o \<Rightarrow> goerror option \<times> 'o" where
  "s3_Delete s key bk =
    (if \<not> s3_Enabled s then (Some ErrDisabled, bk) else mc_RemoveObject (s3_client s) key bk)"

definition s3_PresignDownload :: "'o s3 \<Rightarrow> string \<Rightarrow> duration \<Rightarrow> 'o \<Rightarrow> string result" where
  "s3_PresignDownload s key ttl bk =
    (if \<not> s3_Enabled s then Inl ErrDisabled
     else let ttl' = (if ttl \<le> 0 \<or> os_PresignTTL (s3_cfg s) < ttl then os_PresignTTL (s3_cfg s) else ttl)
          in mc_PresignedGetObject (s3_presignClient s) key ttl' bk)"

end
