(* ===== verification/Export_Service.thy ===== *)
theory Export_Service
  imports Export_Lifecycle Object_Storage Go_Json
begin

text \<open>
  \<open>internal/export/service.go\<close>: authorization, validation and the operations of the job API.
  Every operation is the whole method: its guards in the source's order, the transaction it runs
  and what it returns, errors included.
\<close>

section \<open>Dependencies\<close>

text \<open>
  \<open>golib\<close> holds the tables and formats of the Go standard library that are data here: the Unicode
  case table, \<open>strconv.ParseFloat\<close>, \<open>time.Parse(time.RFC3339, \<dots>)\<close> and \<open>Time.Format\<close> for the date
  part of the object key.  The application verifier (\<open>appaccess\<close>) and the dataset catalog are
  functions; \<open>None\<close> is a nil catalog.
\<close>

record golib =
  unicode_ToLower :: "rune \<Rightarrow> rune"
  ParseFloat :: "string \<Rightarrow> float64 option"
  Parse_RFC3339 :: "string \<Rightarrow> bool"
  Format_date :: "time \<Rightarrow> string"

type_synonym verifier = "string \<Rightarrow> string \<Rightarrow> goerror option"
type_synonym describer = "string \<Rightarrow> string \<Rightarrow> string \<Rightarrow> string \<Rightarrow> dataset_descriptor result"

datatype principal_type = TypeUser | TypeServiceAccount | TypeSystem

record principal =
  p_ID :: string
  p_Type :: principal_type
  p_TenantID :: string

record 'o service =
  sv_lib :: golib
  sv_storage :: "'o s3"
  resultTTL :: duration
  presignTTL :: duration
  applications :: verifier
  catalog :: "describer option"

definition allowAllApplications :: verifier where
  "allowAllApplications t a = None"

definition NewService :: "golib \<Rightarrow> 'o s3 \<Rightarrow> duration \<Rightarrow> duration \<Rightarrow> 'o service" where
  "NewService lib storage rttl pttl = \<lparr>sv_lib = lib, sv_storage = storage, resultTTL = rttl,
     presignTTL = pttl, applications = allowAllApplications, catalog = None\<rparr>"

definition NewRuntimeService ::
  "golib \<Rightarrow> 'o s3 \<Rightarrow> duration \<Rightarrow> duration \<Rightarrow> verifier option \<Rightarrow> describer option \<Rightarrow> 'o service result" where
  "NewRuntimeService lib storage rttl pttl apps cat =
    (case apps of
       None \<Rightarrow> Inl (Opaque ''application verifier is required'')
     | Some v \<Rightarrow>
         (case cat of
            None \<Rightarrow> Inl (Opaque ''export dataset catalog provider is required'')
          | Some c \<Rightarrow> Inr ((NewService lib storage rttl pttl)\<lparr>applications := v, catalog := Some c\<rparr>)))"

section \<open>Validation\<close>

definition lower_letter :: "char \<Rightarrow> bool" where
  "lower_letter c \<longleftrightarrow> 97 \<le> byte c \<and> byte c \<le> 122"

text \<open>\<open>codePattern\<close>: \<open>^[a-z][a-z0-9._-]{1,127}$\<close>.\<close>

definition code_char :: "char \<Rightarrow> bool" where
  "code_char c \<longleftrightarrow> lower_letter c \<or> is_digit c \<or> c = CHR ''.'' \<or> c = CHR ''_'' \<or> c = CHR ''-''"

definition codePattern :: "string \<Rightarrow> bool" where
  "codePattern s = (case s of [] \<Rightarrow> False
     | c # cs \<Rightarrow> lower_letter c \<and> 1 \<le> length cs \<and> length cs \<le> 127 \<and> list_all code_char cs)"

definition contains :: "string list \<Rightarrow> string \<Rightarrow> bool" where
  "contains values target = list_ex (\<lambda>v. v = target) values"

definition validFormat :: "string \<Rightarrow> bool" where
  "validFormat value \<longleftrightarrow> value = FormatCSV \<or> value = FormatJSONL \<or> value = FormatXLSX"

definition validJSONObject :: "golib \<Rightarrow> string \<Rightarrow> bool" where
  "validJSONObject lib value \<longleftrightarrow>
    normalize value = [] \<or> Unmarshal_map_any (ParseFloat lib) value \<noteq> None"

definition validStringArray :: "string \<Rightarrow> bool" where
  "validStringArray value \<longleftrightarrow> normalize value = [] \<or> Unmarshal_strings value \<noteq> None"

definition defaultJSON :: "string \<Rightarrow> string \<Rightarrow> string" where
  "defaultJSON value fallback = (if normalize value = [] then fallback else value)"

text \<open>
  \<open>safeFilename\<close>.  The mapping works on runes, the final cut on bytes.
\<close>

definition filename_rune :: "rune \<Rightarrow> rune" where
  "filename_rune r =
    (if r < 32 \<or> r \<in> byte ` set (''/:*?'' @ [CHR 0x22] @ ''<>|'') then byte (CHR ''_'') else r)"

definition safeFilename :: "golib \<Rightarrow> string \<Rightarrow> string \<Rightarrow> string \<Rightarrow> string" where
  "safeFilename lib value dataset format =
    (let base0 = filepath_Base (map (\<lambda>c. if c = CHR 0x5C then CHR ''/'' else c) (normalize value));
         base1 = strings_Map filename_rune base0;
         base2 = (if base1 = [] \<or> base1 = ''.'' then dataset else base1);
         ext = ''.'' @ format;
         base3 = (if HasSuffix (ToLower (unicode_ToLower lib) base2) ext then base2 else base2 @ ext)
     in if 240 < length base3 then take (240 - length ext) base3 @ ext else base3)"

text \<open>\<open>number != float64(int64(number))\<close> for the double \<open>m * 2^e\<close>; a value outside the range of
  \<open>int64\<close> converts to the least integer on the targets the service is built for.\<close>

definition is_int64_float :: "float64 \<Rightarrow> bool" where
  "is_int64_float f =
    (case f of (m, e) \<Rightarrow>
       if 0 \<le> e then in_i64 (m * 2 ^ nat e)
       else 2 ^ nat (- e) dvd m \<and> in_i64 (m div 2 ^ nat (- e)))"

definition validateQueryValue :: "golib \<Rightarrow> json \<Rightarrow> query_field \<Rightarrow> goerror option" where
  "validateQueryValue lib raw field =
    (if \<not> numbers_ok (ParseFloat lib) raw then Some (Opaque ''cannot unmarshal number'')
     else if qf_Type field = ''string'' \<or> qf_Type field = ''datetime'' then
       (case raw of
          JStr txt \<Rightarrow>
            if qf_Type field = ''datetime'' \<and> txt \<noteq> [] \<and> \<not> Parse_RFC3339 lib txt
            then Some (Opaque (qf_Key field @ '' must be RFC3339''))
            else if 0 < length (qf_Options field) \<and> \<not> contains (qf_Options field) txt
            then Some (Opaque (qf_Key field @ '' is not an allowed option''))
            else None
        | _ \<Rightarrow> Some (Opaque (qf_Key field @ '' must be a string'')))
     else if qf_Type field = ''integer'' then
       (case raw of
          JNum lit \<Rightarrow>
            (case ParseFloat lib lit of
               Some number \<Rightarrow> if is_int64_float number then None
                               else Some (Opaque (qf_Key field @ '' must be an integer''))
             | None \<Rightarrow> Some (Opaque (qf_Key field @ '' must be an integer'')))
        | _ \<Rightarrow> Some (Opaque (qf_Key field @ '' must be an integer'')))
     else if qf_Type field = ''number'' then
       (case raw of JNum _ \<Rightarrow> None | _ \<Rightarrow> Some (Opaque (qf_Key field @ '' must be a number'')))
     else if qf_Type field = ''boolean'' then
       (case raw of JBool _ \<Rightarrow> None | _ \<Rightarrow> Some (Opaque (qf_Key field @ '' must be a boolean'')))
     else Some (Opaque (qf_Key field @ '' has unsupported type '' @ qf_Type field)))"

text \<open>
  The two loops of \<open>validateQuery\<close>: over the declared fields, building \<open>available\<close> and checking the
  required ones, and over the members of the query.  Go visits a map's members in no fixed order;
  the order below decides only which of several errors is reported.
\<close>

fun query_fields_loop ::
  "(string \<rightharpoonup> query_field) \<Rightarrow> (string \<times> json) list \<Rightarrow> query_field list \<Rightarrow> (string \<rightharpoonup> query_field) result" where
  "query_fields_loop available values [] = Inr available"
| "query_fields_loop available values (field # fs) =
    (let key = normalize (qf_Key field)
     in if key = [] then query_fields_loop available values fs
        else if qf_Required field \<and> map_of values key = None
        then Inl (app_Invalid ''query_json is missing a required field'' None)
        else query_fields_loop (available(key \<mapsto> field\<lparr>qf_Key := key\<rparr>)) values fs)"

fun query_values_loop ::
  "golib \<Rightarrow> (string \<rightharpoonup> query_field) \<Rightarrow> (string \<times> json) list \<Rightarrow> goerror option" where
  "query_values_loop lib available [] = None"
| "query_values_loop lib available ((key, raw) # values) =
    (case available key of
       None \<Rightarrow> Some (app_Invalid ''query_json contains a field not exposed by the dataset'' None)
     | Some field \<Rightarrow>
         (case validateQueryValue lib raw field of
            Some e \<Rightarrow> Some (app_Invalid ''query_json contains an invalid field value'' (Some e))
          | None \<Rightarrow> query_values_loop lib available values))"

definition validateQuery :: "golib \<Rightarrow> string \<Rightarrow> query_field list \<Rightarrow> goerror option" where
  "validateQuery lib raw fs =
    (case (if normalize raw = [] then Some [] else Unmarshal_map_raw raw) of
       None \<Rightarrow> Some (app_Invalid ''query_json must be an object'' (Some (Opaque ''json'')))
     | Some values \<Rightarrow>
         (case query_fields_loop Map.empty values fs of
            Inl e \<Rightarrow> Some e
          | Inr available \<Rightarrow> query_values_loop lib available values))"

fun selected_loop :: "string set \<Rightarrow> string set \<Rightarrow> string list \<Rightarrow> goerror option" where
  "selected_loop available seen [] = None"
| "selected_loop available seen (column # selected) =
    (if column \<notin> available
     then Some (app_Invalid ''selected_columns_json contains a column not exposed by the dataset'' None)
     else if column \<in> seen
     then Some (app_Invalid ''selected_columns_json contains duplicate columns'' None)
     else selected_loop available (insert column seen) selected)"

definition validateDataset :: "'o service \<Rightarrow> create_input \<Rightarrow> goerror option" where
  "validateDataset S input =
    (case catalog S of
       None \<Rightarrow> None
     | Some describe \<Rightarrow>
        (case describe (ci_TenantID input) (ci_ApplicationID input) (ci_ProviderService input)
                (ci_DatasetCode input) of
           Inl e \<Rightarrow> Some (app_Unavailable ''export dataset descriptor is unavailable'' (Some e))
         | Inr value \<Rightarrow>
            if dd_Code value \<noteq> ci_DatasetCode input \<or> \<not> contains (dd_Formats value) (ci_Format input)
            then Some (app_Invalid ''dataset does not support the requested format'' None)
            else (case validateQuery (sv_lib S) (ci_QueryJSON input) (dd_QueryFields value) of
                Some e \<Rightarrow> Some e
              | None \<Rightarrow>
                  (case (if normalize (ci_SelectedColumnsJSON input) = [] then Some []
                         else Unmarshal_strings (ci_SelectedColumnsJSON input)) of
                     None \<Rightarrow> Some (app_Invalid ''selected_columns_json must be a string array''
                               (Some (Opaque ''json'')))
                   | Some selected \<Rightarrow>
                       selected_loop (set (map col_Key (dd_Columns value))) {} selected))))"

section \<open>Authorization\<close>

definition authorize :: "principal option \<Rightarrow> string \<Rightarrow> string result" where
  "authorize ctx tenantID =
    (case ctx of
       None \<Rightarrow> Inl (app_Unauthorized ''authenticated actor is required'')
     | Some p \<Rightarrow>
         if p_Type p \<noteq> TypeServiceAccount \<and> p_Type p \<noteq> TypeSystem
            \<and> (p_TenantID p = [] \<or> p_TenantID p \<noteq> normalize tenantID)
         then Inl (app_New CodeForbidden ''tenant access denied'' 403 None)
         else Inr (p_ID p))"

definition authorizeScope :: "verifier \<Rightarrow> principal option \<Rightarrow> string \<Rightarrow> string \<Rightarrow> string result" where
  "authorizeScope verify ctx tenantID applicationID =
    (case authorize ctx tenantID of
       Inl e \<Rightarrow> Inl e
     | Inr actor \<Rightarrow>
        (let t = normalize tenantID; a = normalize applicationID
         in if t = [] \<or> a = [] then Inl (app_Invalid ''tenant_id and application_id are required'' None)
            else (case verify t a of
                Some e \<Rightarrow> if errors_Is e ErrNotGranted
                          then Inl (app_New CodeForbidden ''application access denied'' 403 (Some e))
                          else Inl (app_Unavailable ''application authorization unavailable'' (Some e))
              | None \<Rightarrow> Inr actor)))"

definition translate :: "goerror \<Rightarrow> goerror" where
  "translate err =
    (if errors_Is err ErrNotFound then app_NotFound ''export job not found''
     else if errors_Is err ErrStaleVersion
       then app_Conflict ''export job version or state changed'' (Some err)
     else if errors_Is err ErrConflict
       then app_Conflict ''idempotency key was reused with different export parameters'' (Some err)
     else app_Internal err)"

section \<open>Operations\<close>

definition addEvent :: "env \<Rightarrow> job \<Rightarrow> string \<Rightarrow> string \<Rightarrow> time \<Rightarrow> 'o world \<Rightarrow> goerror option \<times> 'o world" where
  "addEvent E j change actor at w =
    (case new_uuid E w of
       (eid, w1) \<Rightarrow>
         (case jobChangedEvent (seal E) eid j change actor at of
            Inl e \<Rightarrow> (Some e, w1)
          | Inr event \<Rightarrow> repo_AddOutbox E event w1))"

text \<open>The normalized input of \<open>Create\<close>, its check, and the job it builds.\<close>

definition normalize_input :: "golib \<Rightarrow> create_input \<Rightarrow> create_input" where
  "normalize_input lib input = input\<lparr>
     ci_TenantID := normalize (ci_TenantID input),
     ci_ApplicationID := normalize (ci_ApplicationID input),
     ci_DatasetCode := ToLower (unicode_ToLower lib) (normalize (ci_DatasetCode input)),
     ci_ProviderService := ToLower (unicode_ToLower lib) (normalize (ci_ProviderService input)),
     ci_Format := ToLower (unicode_ToLower lib) (normalize (ci_Format input)),
     ci_IdempotencyKey := normalize (ci_IdempotencyKey input)\<rparr>"

definition input_invalid :: "create_input \<Rightarrow> bool" where
  "input_invalid input \<longleftrightarrow>
    ci_TenantID input = [] \<or> ci_ApplicationID input = [] \<or> \<not> codePattern (ci_DatasetCode input)
    \<or> \<not> codePattern (ci_ProviderService input) \<or> \<not> validFormat (ci_Format input)
    \<or> ci_IdempotencyKey input = [] \<or> 191 < length (ci_IdempotencyKey input)"

definition new_job :: "golib \<Rightarrow> create_input \<Rightarrow> string \<Rightarrow> time \<Rightarrow> string \<Rightarrow> job" where
  "new_job lib input i at actor = zero_job\<lparr>
     ID := i, TenantID := ci_TenantID input, ApplicationID := ci_ApplicationID input,
     DatasetCode := ci_DatasetCode input, ProviderService := ci_ProviderService input,
     Format := ci_Format input,
     Filename := safeFilename lib (ci_Filename input) (ci_DatasetCode input) (ci_Format input),
     QueryJSON := defaultJSON (ci_QueryJSON input) ''{}'',
     SelectedColumnsJSON := defaultJSON (ci_SelectedColumnsJSON input) ''[]'',
     IdempotencyKey := ci_IdempotencyKey input, Status := StatusQueued,
     ObjectKey := ci_TenantID input @ ''/'' @ ci_ApplicationID input @ ''/'' @ Format_date lib at
       @ ''/'' @ i @ ''.'' @ ci_Format input,
     Version := 1, CreatedAt := at, UpdatedAt := at, CreatedBy := actor, UpdatedBy := actor\<rparr>"

definition differs :: "create_input \<Rightarrow> job \<Rightarrow> bool" where
  "differs input v \<longleftrightarrow>
    DatasetCode v \<noteq> ci_DatasetCode input \<or> ProviderService v \<noteq> ci_ProviderService input
    \<or> Format v \<noteq> ci_Format input \<or> QueryJSON v \<noteq> defaultJSON (ci_QueryJSON input) ''{}''
    \<or> SelectedColumnsJSON v \<noteq> defaultJSON (ci_SelectedColumnsJSON input) ''[]''"

text \<open>The closure \<open>Create\<close> runs in its transaction.\<close>

definition create_tx ::
  "env \<Rightarrow> create_input \<Rightarrow> job \<Rightarrow> string \<Rightarrow> time \<Rightarrow> 'o world
    \<Rightarrow> (goerror option \<times> job \<times> bool) \<times> 'o world" where
  "create_tx E input v actor at w =
    (case repo_Create E v w of
       ((v', created, Some e), w1) \<Rightarrow> ((Some e, v', created), w1)
     | ((v', created, None), w1) \<Rightarrow>
         if \<not> created then
           (if differs input v' then ((Some ErrConflict, v', created), w1) else ((None, v', created), w1))
         else (case addEvent E v' ''requested'' actor at w1 of
                 (r, w2) \<Rightarrow> ((r, v', created), w2)))"

definition Create ::
  "'o service \<Rightarrow> env \<Rightarrow> principal option \<Rightarrow> create_input \<Rightarrow> 'o world
    \<Rightarrow> (job \<times> bool \<times> goerror option) \<times> 'o world" where
  "Create S E ctx input0 w =
    (case authorizeScope (applications S) ctx (ci_TenantID input0) (ci_ApplicationID input0) of
       Inl e \<Rightarrow> ((zero_job, False, Some e), w)
     | Inr actor \<Rightarrow>
        (let input = normalize_input (sv_lib S) input0
         in if input_invalid input then
              ((zero_job, False, Some (app_Invalid ''tenant_id, application_id, dataset_code, provider_service, format, and idempotency_key are required'' None)), w)
            else if \<not> validJSONObject (sv_lib S) (ci_QueryJSON input)
                \<or> \<not> validStringArray (ci_SelectedColumnsJSON input) then
              ((zero_job, False, Some (app_Invalid ''query_json must be an object and selected_columns_json must be a string array'' None)), w)
            else case validateDataset S input of
              Some e \<Rightarrow> ((zero_job, False, Some e), w)
            | None \<Rightarrow>
               (case now E w of (at, w1) \<Rightarrow>
                (case new_uuid E w1 of (i, w2) \<Rightarrow>
                 (let v = new_job (sv_lib S) input i at actor
                  in case Within E (create_tx E input v actor at) (v, False) w2 of
                       ((err, v', created), w3) \<Rightarrow> ((v', \<not> created, map_option translate err), w3))))))"

definition Get ::
  "'o service \<Rightarrow> env \<Rightarrow> principal option \<Rightarrow> string \<Rightarrow> string \<Rightarrow> string \<Rightarrow> 'o world
    \<Rightarrow> job result \<times> 'o world" where
  "Get S E ctx tenantID applicationID i w =
    (case authorizeScope (applications S) ctx tenantID applicationID of
       Inl e \<Rightarrow> (Inl e, w)
     | Inr _ \<Rightarrow>
        (case repo_Get E (normalize tenantID) (normalize applicationID) (normalize i) w of
           (Inl e, w1) \<Rightarrow> (Inl (translate e), w1)
         | (Inr j, w1) \<Rightarrow> (Inr j, w1)))"

definition normalize_filter :: "golib \<Rightarrow> list_filter \<Rightarrow> list_filter" where
  "normalize_filter lib f =
    (let p = (if lf_Page f < 1 then 1 else lf_Page f);
         s0 = (if lf_PageSize f < 1 then 20 else lf_PageSize f);
         s = (if 200 < s0 then 200 else s0)
     in f\<lparr>lf_Page := p, lf_PageSize := s, lf_TenantID := normalize (lf_TenantID f),
          lf_ApplicationID := normalize (lf_ApplicationID f),
          lf_Status := ToLower (unicode_ToLower lib) (normalize (lf_Status f)),
          lf_DatasetCode := ToLower (unicode_ToLower lib) (normalize (lf_DatasetCode f))\<rparr>)"

definition List ::
  "'o service \<Rightarrow> env \<Rightarrow> principal option \<Rightarrow> list_filter \<Rightarrow> 'o world \<Rightarrow> page result \<times> 'o world" where
  "List S E ctx f w =
    (case authorizeScope (applications S) ctx (lf_TenantID f) (lf_ApplicationID f) of
       Inl e \<Rightarrow> (Inl e, w)
     | Inr _ \<Rightarrow>
        (case repo_List E (normalize_filter (sv_lib S) f) w of
           (Inl e, w1) \<Rightarrow> (Inl (translate e), w1)
         | (Inr p, w1) \<Rightarrow> (Inr p, w1)))"

text \<open>
  \<open>Cancel\<close>.  The event's job carries the identifiers as the caller wrote them; the statement uses
  the normalized ones.
\<close>

definition canceled_job :: "string \<Rightarrow> string \<Rightarrow> string \<Rightarrow> int \<Rightarrow> string \<Rightarrow> time \<Rightarrow> job" where
  "canceled_job tenantID applicationID i expected actor at =
    zero_job\<lparr>ID := i, TenantID := tenantID, ApplicationID := applicationID, Status := StatusCanceled,
      Version := i64 (expected + 1), UpdatedAt := at, UpdatedBy := actor\<rparr>"

definition cancel_tx ::
  "env \<Rightarrow> string \<Rightarrow> string \<Rightarrow> string \<Rightarrow> int \<Rightarrow> string \<Rightarrow> time \<Rightarrow> 'o world
    \<Rightarrow> (goerror option \<times> unit) \<times> 'o world" where
  "cancel_tx E tenantID applicationID i expected actor at w =
    (case repo_Cancel E (normalize tenantID) (normalize applicationID) (normalize i) expected actor at w of
       (Some e, w1) \<Rightarrow> ((Some e, ()), w1)
     | (None, w1) \<Rightarrow>
        (case addEvent E (canceled_job tenantID applicationID i expected actor at) ''canceled'' actor at w1 of
           (r, w2) \<Rightarrow> ((r, ()), w2)))"

definition Cancel ::
  "'o service \<Rightarrow> env \<Rightarrow> principal option \<Rightarrow> string \<Rightarrow> string \<Rightarrow> string \<Rightarrow> int \<Rightarrow> 'o world
    \<Rightarrow> job result \<times> 'o world" where
  "Cancel S E ctx tenantID applicationID i expected w =
    (case authorizeScope (applications S) ctx tenantID applicationID of
       Inl e \<Rightarrow> (Inl e, w)
     | Inr actor \<Rightarrow>
        if expected < 1 then (Inl (app_Invalid ''positive version is required'' None), w)
        else case now E w of (at, w1) \<Rightarrow>
          (case Within E (cancel_tx E tenantID applicationID i expected actor at) () w1 of
             ((Some e, _), w2) \<Rightarrow> (Inl (translate e), w2)
           | ((None, _), w2) \<Rightarrow> Get S E ctx tenantID applicationID i w2))"

text \<open>\<open>Retry\<close>.  The event carries the job as read before the update, with status and version set.\<close>

definition retry_tx ::
  "env \<Rightarrow> job \<Rightarrow> int \<Rightarrow> string \<Rightarrow> time \<Rightarrow> 'o world \<Rightarrow> (goerror option \<times> unit) \<times> 'o world" where
  "retry_tx E current expected actor at w =
    (case repo_Retry E current expected w of
       (Some e, w1) \<Rightarrow> ((Some e, ()), w1)
     | (None, w1) \<Rightarrow>
        (case addEvent E (current\<lparr>Status := StatusQueued, Version := i64 (expected + 1)\<rparr>)
                ''requested'' actor at w1 of (r, w2) \<Rightarrow> ((r, ()), w2)))"

definition Retry ::
  "'o service \<Rightarrow> env \<Rightarrow> principal option \<Rightarrow> string \<Rightarrow> string \<Rightarrow> string \<Rightarrow> int \<Rightarrow> string \<Rightarrow> 'o world
    \<Rightarrow> (job \<times> bool) result \<times> 'o world" where
  "Retry S E ctx tenantID applicationID i expected key w =
    (case authorizeScope (applications S) ctx tenantID applicationID of
       Inl e \<Rightarrow> (Inl e, w)
     | Inr actor \<Rightarrow>
        if expected < 1 \<or> normalize key = []
        then (Inl (app_Invalid ''positive version and idempotency_key are required'' None), w)
        else (case repo_Get E (normalize tenantID) (normalize applicationID) (normalize i) w of
            (Inl e, w1) \<Rightarrow> (Inl (translate e), w1)
          | (Inr current, w1) \<Rightarrow>
             if Status current \<noteq> StatusFailed \<and> Status current \<noteq> StatusCanceled
             then (Inl (app_Conflict ''only failed or canceled jobs can be retried'' None), w1)
             else if IdempotencyKey current = normalize key then (Inr (current, True), w1)
             else (case now E w1 of (at, w2) \<Rightarrow>
               (let current' = current\<lparr>IdempotencyKey := normalize key, UpdatedAt := at, UpdatedBy := actor\<rparr>
                in case Within E (retry_tx E current' expected actor at) () w2 of
                     ((Some e, _), w3) \<Rightarrow> (Inl (translate e), w3)
                   | ((None, _), w3) \<Rightarrow>
                      (case Get S E ctx tenantID applicationID i w3 of
                         (Inl e, w4) \<Rightarrow> (Inl e, w4)
                       | (Inr v, w4) \<Rightarrow> (Inr (v, False), w4))))))"

definition download_ttl :: "duration \<Rightarrow> duration \<Rightarrow> duration \<Rightarrow> duration" where
  "download_ttl limit remaining ttl0 =
    (let ttl1 = (if ttl0 \<le> 0 \<or> limit < ttl0 then limit else ttl0)
     in if remaining < ttl1 then remaining else ttl1)"

definition CreateDownloadURL ::
  "'o service \<Rightarrow> env \<Rightarrow> principal option \<Rightarrow> string \<Rightarrow> string \<Rightarrow> string \<Rightarrow> duration \<Rightarrow> 'o world
    \<Rightarrow> (string \<times> time \<times> job) result \<times> 'o world" where
  "CreateDownloadURL S E ctx tenantID applicationID i ttl0 w =
    (case Get S E ctx tenantID applicationID i w of
       (Inl e, w1) \<Rightarrow> (Inl e, w1)
     | (Inr j, w1) \<Rightarrow>
        (case now E w1 of (at, w2) \<Rightarrow>
          (case ExpiresAt j of
             None \<Rightarrow> (Inl (app_Conflict ''export result is not available'' None), w2)
           | Some expires \<Rightarrow>
              if Status j \<noteq> StatusSucceeded \<or> \<not> at < expires
              then (Inl (app_Conflict ''export result is not available'' None), w2)
              else (let ttl = download_ttl (presignTTL S) (expires - at) ttl0
                    in case s3_PresignDownload (sv_storage S) (ObjectKey j) ttl (w_objs w2) of
                         Inl e \<Rightarrow> (Inl (app_Unavailable ''object storage unavailable'' (Some e)), w2)
                       | Inr url \<Rightarrow> (Inr (url, at + ttl, j), w2)))))"

text \<open>
  Names for the proofs: the world after reading the clock, the job \<open>Retry\<close> writes, the job \<open>Create\<close>
  builds, and the checks \<open>Create\<close> makes before its transaction.
\<close>

abbreviation tick :: "'o world \<Rightarrow> 'o world" where
  "tick w \<equiv> w\<lparr>w_ticks := Suc (w_ticks w)\<rparr>"

abbreviation retried :: "job \<Rightarrow> string \<Rightarrow> time \<Rightarrow> string \<Rightarrow> job" where
  "retried j key at actor \<equiv> j\<lparr>IdempotencyKey := normalize key, UpdatedAt := at, UpdatedBy := actor\<rparr>"

abbreviation created_job ::
  "'o service \<Rightarrow> env \<Rightarrow> create_input \<Rightarrow> string \<Rightarrow> 'o world \<Rightarrow> job" where
  "created_job S E input actor w \<equiv>
    new_job (sv_lib S) (normalize_input (sv_lib S) input) (uuid E (w_uuids w)) (clock E (w_ticks w)) actor"

definition create_refused :: "'o service \<Rightarrow> principal option \<Rightarrow> create_input \<Rightarrow> goerror option" where
  "create_refused S ctx input0 =
    (case authorizeScope (applications S) ctx (ci_TenantID input0) (ci_ApplicationID input0) of
       Inl e \<Rightarrow> Some e
     | Inr _ \<Rightarrow>
        (let input = normalize_input (sv_lib S) input0
         in if input_invalid input then Some (app_Invalid ''tenant_id, application_id, dataset_code, provider_service, format, and idempotency_key are required'' None)
            else if \<not> validJSONObject (sv_lib S) (ci_QueryJSON input)
                \<or> \<not> validStringArray (ci_SelectedColumnsJSON input)
            then Some (app_Invalid ''query_json must be an object and selected_columns_json must be a string array'' None)
            else validateDataset S input))"

section \<open>Authorization lemmas\<close>

lemma authorize_tenant:
  "authorize (Some p) t = Inr actor \<Longrightarrow> actor = p_ID p \<and>
    (p_Type p \<in> {TypeServiceAccount, TypeSystem} \<or> (p_TenantID p \<noteq> [] \<and> p_TenantID p = normalize t))"
  by (auto simp: authorize_def split: if_splits)

lemma authorizeScope_InrD:
  assumes "authorizeScope verify ctx t a = Inr actor"
  shows "normalize t \<noteq> [] \<and> normalize a \<noteq> [] \<and> verify (normalize t) (normalize a) = None
    \<and> authorize ctx t = Inr actor"
  using assms by (auto simp: authorizeScope_def Let_def split: sum.splits if_splits option.splits)

lemma authorizeScope_code:
  assumes "authorizeScope verify ctx t a = Inl e"
  shows "app_code e \<in> Some ` {CodeUnauthorized, CodeForbidden, CodeInvalidArgument, CodeDependencyUnavailable}"
  using assms
  by (auto simp: authorizeScope_def authorize_def Let_def split: sum.splits if_splits option.splits)

section \<open>Transactions of the service\<close>

lemma addEvent_ok:
  assumes "addEvent E j change actor at w = (None, w')"
  shows "\<exists>ev n. jobChangedEvent (seal E) (uuid E (w_uuids w)) j change actor at = Inr ev
    \<and> stmt_AddOutbox ev (w_db w) = Inr (n, w_db w')"
  using assms
  by (auto simp: addEvent_def new_uuid_def repo_AddOutbox_def split: sum.splits prod.splits dest!: sql_tx_Inr)

lemma addEvent_announced: "addEvent E j change actor at w = (None, w') \<Longrightarrow>
    announced (seal E) j change (w_db w) (w_db w')"
  unfolding announced_def by (drule addEvent_ok) blast

lemma optimistic_None: "optimistic r = None \<longleftrightarrow> (\<exists>n. r = Inr n \<and> n \<noteq> 0)"
  by (auto simp: optimistic_def split: sum.splits)

lemma repo_Cancel_ok:
  "repo_Cancel E t a i expected actor at w = (None, w') \<Longrightarrow>
    \<exists>n. n \<noteq> 0 \<and> stmt_Cancel t a i expected actor at (w_db w) = Inr (n, w_db w')"
  by (auto simp: repo_Cancel_def optimistic_None split: prod.splits dest!: sql_tx_Inr)

lemma repo_Retry_ok:
  "repo_Retry E v expected w = (None, w') \<Longrightarrow> \<exists>n. n \<noteq> 0 \<and> stmt_Retry v expected (w_db w) = Inr (n, w_db w')"
  by (auto simp: repo_Retry_def optimistic_None split: prod.splits dest!: sql_tx_Inr)

lemma cancel_tx_ok:
  assumes "cancel_tx E t a i expected actor at w = ((None, u), w')"
  obtains n d1 where "n \<noteq> 0"
    "stmt_Cancel (normalize t) (normalize a) (normalize i) expected actor at (w_db w) = Inr (n, d1)"
    "announced (seal E) (canceled_job t a i expected actor at) ''canceled'' d1 (w_db w')"
  using assms
  by (auto simp: cancel_tx_def split: prod.splits option.splits dest!: repo_Cancel_ok addEvent_announced)

lemma retry_tx_ok:
  assumes "retry_tx E v expected actor at w = ((None, u), w')"
  obtains n d1 where "n \<noteq> 0" "stmt_Retry v expected (w_db w) = Inr (n, d1)"
    "announced (seal E) (v\<lparr>Status := StatusQueued, Version := i64 (expected + 1)\<rparr>) ''requested'' d1 (w_db w')"
  using assms
  by (auto simp: retry_tx_def split: prod.splits option.splits dest!: repo_Retry_ok addEvent_announced)

lemma sql_tx_select_same:
  "sql_tx E (select_one P) w = (r, w') \<Longrightarrow> w_db w' = w_db w"
  by (auto simp: sql_tx_def select_one_def Let_def split: option.splits sql_fault.splits sum.splits)

lemma repo_Create_ok:
  assumes "repo_Create E v w = ((v', created, None), w')"
  shows "if created then v' = v \<and> (\<exists>n. exec_insert v (w_db w) = Inr (n, w_db w'))
    else w_db w' = w_db w
      \<and> stmt_by_key (TenantID v) (ApplicationID v) (IdempotencyKey v) (w_db w) = Inr (v', w_db w)"
proof -
  obtain r w1 where sel: "sql_tx E (stmt_by_key (TenantID v) (ApplicationID v) (IdempotencyKey v)) w = (r, w1)"
    by fastforce
  then have same: "w_db w1 = w_db w" by (auto simp: stmt_by_key_def dest: sql_tx_select_same)
  show ?thesis
  proof (cases r)
    case (Inr x)
    with sel same assms show ?thesis by (auto simp: repo_Create_def dest!: sql_tx_Inr)
  next
    case (Inl e)
    with sel same assms show ?thesis
      by (auto simp: repo_Create_def split: if_splits sum.splits prod.splits dest!: sql_tx_Inr)
  qed
qed

section \<open>Operations are runs of the job store\<close>

lemma select_one_same: "select_one P d = Inr (x, d') \<Longrightarrow> d' = d"
  by (auto simp: select_one_def split: option.splits)

lemma initial_new_job: "initial (new_job lib input i at actor)"
  by (simp add: initial_def new_job_def zero_job_def)

lemma repo_Get_run: "repo_Get E t a i w = (r, w') \<Longrightarrow> job_run E (w_db w) (w_db w')"
proof -
  assume "repo_Get E t a i w = (r, w')"
  then have "sql_auto E (stmt_Get t a i) w = (fst (sql_auto E (stmt_Get t a i) w), w')"
    by (auto simp: repo_Get_def split: prod.splits sum.splits)
  then show ?thesis
    by (rule run.sql_auto_run) (auto simp: stmt_Get_def dest: select_one_same)
qed

lemma Get_run: "Get S E ctx t a i w = (r, w') \<Longrightarrow> job_run E (w_db w) (w_db w')"
  by (auto simp: Get_def split: sum.splits prod.splits dest: repo_Get_run)

lemma stmt_page_same:
  "stmt_Count f d = Inr (n, d') \<Longrightarrow> d' = d" "stmt_Select f d = Inr (xs, d') \<Longrightarrow> d' = d"
  by (auto simp: stmt_Count_def stmt_Select_def split: if_splits)

lemma repo_List_run: "repo_List E f w = (r, w') \<Longrightarrow> job_run E (w_db w) (w_db w')"
proof -
  assume l: "repo_List E f w = (r, w')"
  obtain c w1 where c: "sql_auto E (stmt_Count f) w = (c, w1)" by fastforce
  obtain s w2 where s: "sql_auto E (stmt_Select f) w1 = (s, w2)" by fastforce
  have r1: "job_run E (w_db w) (w_db w1)" using c
    by (rule run.sql_auto_run) (auto dest: stmt_page_same)
  have r2: "job_run E (w_db w1) (w_db w2)" using s
    by (rule run.sql_auto_run) (auto dest: stmt_page_same)
  from l c s have "w' = w1 \<or> w' = w2" by (auto simp: repo_List_def split: sum.splits)
  then show ?thesis using r1 run.trans [OF r1 r2] by blast
qed

lemma List_run: "List S E ctx f w = (r, w') \<Longrightarrow> job_run E (w_db w) (w_db w')"
  by (auto simp: List_def split: sum.splits prod.splits dest: repo_List_run)

lemma cancel_tx_run:
  "cancel_tx E t a i expected actor at w = ((None, u), w') \<Longrightarrow> job_run E (w_db w) (w_db w')"
  by (erule cancel_tx_ok) (rule job_run_step, rule job_step.cancel, auto simp: canceled_job_def)

lemma retry_tx_run:
  "retry_tx E v expected actor at w = ((None, u), w') \<Longrightarrow> job_run E (w_db w) (w_db w')"
  by (erule retry_tx_ok) (rule job_run_step, rule job_step.retry, auto)

lemma create_tx_run:
  assumes "create_tx E input v actor at w = ((None, y), w')" and "initial v"
  shows "job_run E (w_db w) (w_db w')"
proof -
  obtain v' created e w1 where c: "repo_Create E v w = ((v', created, e), w1)" by (metis prod.collapse)
  with assms(1) have e: "e = None" by (auto simp: create_tx_def split: option.splits)
  show ?thesis
  proof (cases created)
    case True
    with c e assms(1) have "addEvent E v' ''requested'' actor at w1 = (None, w')"
      by (auto simp: create_tx_def split: prod.splits)
    then show ?thesis using repo_Create_ok [OF c [unfolded e]] True assms(2)
      by (auto intro!: job_run_step job_step.create dest: addEvent_announced)
  next
    case False
    with c e assms(1) have "w' = w1" by (auto simp: create_tx_def split: if_splits)
    then show ?thesis using repo_Create_ok [OF c [unfolded e]] False by auto
  qed
qed

lemma cancel_within_run:
  "Within E (cancel_tx E t a i expected actor at) () w = (x, w') \<Longrightarrow> job_run E (w_db w) (w_db w')"
  by (cases x) (auto elim!: run.Within_run intro: cancel_tx_run)

lemma retry_within_run:
  "Within E (retry_tx E v expected actor at) () w = (x, w') \<Longrightarrow> job_run E (w_db w) (w_db w')"
  by (cases x) (auto elim!: run.Within_run intro: retry_tx_run)

lemma create_within_run:
  "Within E (create_tx E input v actor at) cap w = (x, w') \<Longrightarrow> initial v \<Longrightarrow> job_run E (w_db w) (w_db w')"
  by (cases x) (auto elim!: run.Within_run intro: create_tx_run)

text \<open>The ways through each operation, as elimination rules.\<close>

lemma Cancel_elim:
  assumes "Cancel S E ctx t a i expected w = (r, w')"
  obtains (denied) e where "authorizeScope (applications S) ctx t a = Inl e" "r = Inl e" "w' = w"
  | (invalid) actor where "authorizeScope (applications S) ctx t a = Inr actor" "expected < 1"
      "r = Inl (app_Invalid ''positive version is required'' None)" "w' = w"
  | (failed) actor e u where "authorizeScope (applications S) ctx t a = Inr actor" "1 \<le> expected"
      "Within E (cancel_tx E t a i expected actor (clock E (w_ticks w))) () (tick w) = ((Some e, u), w')"
      "r = Inl (translate e)"
  | (committed) actor u w1 where "authorizeScope (applications S) ctx t a = Inr actor" "1 \<le> expected"
      "Within E (cancel_tx E t a i expected actor (clock E (w_ticks w))) () (tick w) = ((None, u), w1)"
      "Get S E ctx t a i w1 = (r, w')"
proof (cases "authorizeScope (applications S) ctx t a")
  case (Inl e)
  with assms show ?thesis by (intro denied) (auto simp: Cancel_def)
next
  case (Inr actor)
  obtain e u w1 where W:
    "Within E (cancel_tx E t a i expected actor (clock E (w_ticks w))) () (tick w) = ((e, u), w1)"
    by (metis prod.collapse)
  show ?thesis
  proof (cases "expected < 1")
    case True
    with Inr assms show ?thesis by (intro invalid) (auto simp: Cancel_def)
  next
    case False
    then show ?thesis using Inr W assms that
      by (cases e) (auto simp: Cancel_def now_def not_less)
  qed
qed

lemma Cancel_run:
  assumes "Cancel S E ctx t a i expected w = (r, w')"
  shows "job_run E (w_db w) (w_db w')"
  using assms
proof (cases rule: Cancel_elim)
  case (failed actor e u)
  then show ?thesis using cancel_within_run by fastforce
next
  case (committed actor u w1)
  have "job_run E (w_db w) (w_db w1)"
    using cancel_within_run [OF committed(3)] by simp
  also have "job_run E (w_db w1) (w_db w')" using Get_run [OF committed(4)] .
  finally show ?thesis .
qed auto

lemma Retry_elim:
  assumes "Retry S E ctx t a i expected key w = (r, w')"
  obtains (denied) e where "authorizeScope (applications S) ctx t a = Inl e" "r = Inl e" "w' = w"
  | (invalid) actor where "authorizeScope (applications S) ctx t a = Inr actor"
      "expected < 1 \<or> normalize key = []"
      "r = Inl (app_Invalid ''positive version and idempotency_key are required'' None)" "w' = w"
  | (missing) actor e where "authorizeScope (applications S) ctx t a = Inr actor"
      "1 \<le> expected" "normalize key \<noteq> []"
      "repo_Get E (normalize t) (normalize a) (normalize i) w = (Inl e, w')" "r = Inl (translate e)"
  | (state) actor j where "authorizeScope (applications S) ctx t a = Inr actor"
      "1 \<le> expected" "normalize key \<noteq> []"
      "repo_Get E (normalize t) (normalize a) (normalize i) w = (Inr j, w')"
      "Status j \<notin> {StatusFailed, StatusCanceled}"
      "r = Inl (app_Conflict ''only failed or canceled jobs can be retried'' None)"
  | (replay) actor j where "authorizeScope (applications S) ctx t a = Inr actor"
      "1 \<le> expected" "normalize key \<noteq> []"
      "repo_Get E (normalize t) (normalize a) (normalize i) w = (Inr j, w')"
      "Status j \<in> {StatusFailed, StatusCanceled}" "IdempotencyKey j = normalize key" "r = Inr (j, True)"
  | (failed) actor j w1 e u where "authorizeScope (applications S) ctx t a = Inr actor"
      "1 \<le> expected" "normalize key \<noteq> []"
      "repo_Get E (normalize t) (normalize a) (normalize i) w = (Inr j, w1)"
      "Status j \<in> {StatusFailed, StatusCanceled}" "IdempotencyKey j \<noteq> normalize key"
      "Within E (retry_tx E (retried j key (clock E (w_ticks w1)) actor) expected actor (clock E (w_ticks w1)))
         () (tick w1) = ((Some e, u), w')" "r = Inl (translate e)"
  | (committed) actor j w1 u w2 where "authorizeScope (applications S) ctx t a = Inr actor"
      "1 \<le> expected" "normalize key \<noteq> []"
      "repo_Get E (normalize t) (normalize a) (normalize i) w = (Inr j, w1)"
      "Status j \<in> {StatusFailed, StatusCanceled}" "IdempotencyKey j \<noteq> normalize key"
      "Within E (retry_tx E (retried j key (clock E (w_ticks w1)) actor) expected actor (clock E (w_ticks w1)))
         () (tick w1) = ((None, u), w2)"
      "Get S E ctx t a i w2 = (map_sum id fst r, w')" "\<And>x. r = Inr x \<Longrightarrow> \<not> snd x"
proof (cases "authorizeScope (applications S) ctx t a")
  case (Inl e)
  with assms show ?thesis by (intro denied) (auto simp: Retry_def)
next
  case auth: (Inr actor)
  show ?thesis
  proof (cases "expected < 1 \<or> normalize key = []")
    case True
    with auth assms show ?thesis by (intro invalid) (auto simp: Retry_def)
  next
    case False
    then have ok: "1 \<le> expected" "normalize key \<noteq> []" by auto
    obtain g w1 where G: "repo_Get E (normalize t) (normalize a) (normalize i) w = (g, w1)" by fastforce
    show ?thesis
    proof (cases g)
      case (Inl e)
      with auth ok G assms show ?thesis by (intro missing [of actor e]) (auto simp: Retry_def)
    next
      case (Inr j)
      note base = auth ok G [unfolded Inr]
      obtain e u w2 where W: "Within E (retry_tx E (retried j key (clock E (w_ticks w1)) actor) expected actor
          (clock E (w_ticks w1))) () (tick w1) = ((e, u), w2)" by (metis prod.collapse)
      consider "Status j \<notin> {StatusFailed, StatusCanceled}"
        | "Status j \<in> {StatusFailed, StatusCanceled}" "IdempotencyKey j = normalize key"
        | "Status j \<in> {StatusFailed, StatusCanceled}" "IdempotencyKey j \<noteq> normalize key" by blast
      then show ?thesis
      proof cases
        case 1
        with base assms show ?thesis by (intro state [of actor j]) (auto simp: Retry_def)
      next
        case 2
        with base assms show ?thesis by (intro replay [of actor j]) (auto simp: Retry_def)
      next
        case 3
        note base = base 3 W
        show ?thesis
        proof (cases e)
          case None
          with base assms show ?thesis
            by (intro committed [of actor j w1 u w2])
              (auto simp: Retry_def now_def Let_def split: prod.splits sum.splits)
        next
          case (Some x)
          with base assms show ?thesis
            by (intro failed [of actor j w1 x u]) (auto simp: Retry_def now_def Let_def)
        qed
      qed
    qed
  qed
qed

lemma Retry_run:
  assumes "Retry S E ctx t a i expected key w = (r, w')"
  shows "job_run E (w_db w) (w_db w')"
  using assms
proof (cases rule: Retry_elim)
  case (failed actor j w1 e u)
  have "job_run E (w_db w) (w_db w1)" using repo_Get_run failed(4) .
  also have "job_run E (w_db w1) (w_db w')" using retry_within_run [OF failed(7)] by simp
  finally show ?thesis .
next
  case (committed actor j w1 u w2)
  have "job_run E (w_db w) (w_db w1)" using repo_Get_run committed(4) .
  also have "job_run E (w_db w1) (w_db w2)" using retry_within_run [OF committed(7)] by simp
  also have "job_run E (w_db w2) (w_db w')" using Get_run committed(8) .
  finally show ?thesis .
qed (auto dest: repo_Get_run)

lemma Create_elim:
  assumes "Create S E ctx input w = (r, w')"
  obtains (refused) e where "create_refused S ctx input = Some e" "r = (zero_job, False, Some e)" "w' = w"
  | (ran) actor err v created where "create_refused S ctx input = None"
      "authorizeScope (applications S) ctx (ci_TenantID input) (ci_ApplicationID input) = Inr actor"
      "Within E (create_tx E (normalize_input (sv_lib S) input) (created_job S E input actor w) actor
         (clock E (w_ticks w))) (created_job S E input actor w, False)
         ((tick w)\<lparr>w_uuids := Suc (w_uuids w)\<rparr>) = ((err, v, created), w')"
      "r = (v, \<not> created, map_option translate err)"
proof (cases "create_refused S ctx input")
  case (Some e)
  then have "r = (zero_job, False, Some e)" "w' = w" using assms
    by (auto simp: Create_def create_refused_def Let_def split: sum.splits if_splits option.splits)
  with Some show ?thesis by (rule refused)
next
  case None
  then obtain actor where auth:
    "authorizeScope (applications S) ctx (ci_TenantID input) (ci_ApplicationID input) = Inr actor"
    by (auto simp: create_refused_def split: sum.splits)
  obtain err v created w1 where W:
    "Within E (create_tx E (normalize_input (sv_lib S) input) (created_job S E input actor w) actor
       (clock E (w_ticks w))) (created_job S E input actor w, False)
       ((tick w)\<lparr>w_uuids := Suc (w_uuids w)\<rparr>) = ((err, v, created), w1)"
    by (metis prod.collapse)
  with None auth assms have "r = (v, \<not> created, map_option translate err)" "w' = w1"
    by (auto simp: Create_def create_refused_def Let_def now_def new_uuid_def split: if_splits)
  with None auth W show ?thesis by (intro ran) auto
qed

lemma Create_run:
  assumes "Create S E ctx input w = (r, w')"
  shows "job_run E (w_db w) (w_db w')"
  using assms
proof (cases rule: Create_elim)
  case (ran actor err v created)
  show ?thesis using create_within_run [OF ran(3) initial_new_job] by simp
qed simp

lemma CreateDownloadURL_elim:
  assumes "CreateDownloadURL S E ctx t a i ttl w = (r, w')"
  obtains (missing) e where "Get S E ctx t a i w = (Inl e, w')" "r = Inl e"
  | (unavailable) j w1 where "Get S E ctx t a i w = (Inr j, w1)" "w' = tick w1"
      "Status j \<noteq> StatusSucceeded \<or> \<not> (\<exists>x. ExpiresAt j = Some x \<and> clock E (w_ticks w1) < x)"
      "r = Inl (app_Conflict ''export result is not available'' None)"
  | (presign) j w1 x where "Get S E ctx t a i w = (Inr j, w1)" "w' = tick w1"
      "Status j = StatusSucceeded" "ExpiresAt j = Some x" "clock E (w_ticks w1) < x"
      "r = (let at = clock E (w_ticks w1); ttl' = download_ttl (presignTTL S) (x - at) ttl in
         case s3_PresignDownload (sv_storage S) (ObjectKey j) ttl' (w_objs w1) of
           Inl e \<Rightarrow> Inl (app_Unavailable ''object storage unavailable'' (Some e))
         | Inr url \<Rightarrow> Inr (url, at + ttl', j))"
proof -
  obtain g w1 where G: "Get S E ctx t a i w = (g, w1)" by fastforce
  show ?thesis
  proof (cases g)
    case (Inl e)
    with G assms show ?thesis by (intro missing) (auto simp: CreateDownloadURL_def)
  next
    case (Inr j)
    show ?thesis
    proof (cases "Status j = StatusSucceeded \<and> (\<exists>x. ExpiresAt j = Some x \<and> clock E (w_ticks w1) < x)")
      case True
      then obtain x where "Status j = StatusSucceeded" "ExpiresAt j = Some x" "clock E (w_ticks w1) < x"
        by blast
      with G Inr assms show ?thesis
        by (intro presign [of j w1 x]) (auto simp: CreateDownloadURL_def now_def Let_def split: sum.splits)
    next
      case False
      with G Inr assms show ?thesis
        by (intro unavailable [of j w1])
          (auto simp: CreateDownloadURL_def now_def Let_def split: option.splits if_splits)
    qed
  qed
qed

lemma CreateDownloadURL_run:
  "CreateDownloadURL S E ctx t a i ttl w = (r, w') \<Longrightarrow> job_run E (w_db w) (w_db w')"
  by (erule CreateDownloadURL_elim) (auto dest: Get_run)

end
