(* ===== verification/App_Auth.thy ===== *)
theory App_Auth
  imports Export_Service App_Config
begin

text \<open>
  \<open>internal/auth\<close>: route patterns, pre-shared keys and the token service.  The JWT library and the
  platform's JWKS verifier are parameters; \<open>jwt_contract\<close> states what the JWT library documents.
\<close>

section \<open>Route patterns and pre-shared keys\<close>

fun MatchesAny :: "string \<Rightarrow> string list \<Rightarrow> bool" where
  "MatchesAny value [] = False"
| "MatchesAny value (pattern # ps) =
    (case path_Match pattern value of
       Inr True \<Rightarrow> True
     | _ \<Rightarrow> MatchesAny value ps)"

text \<open>\<open>subtle.ConstantTimeCompare\<close> returns 1 for equal contents, and 0 at once for different lengths.\<close>

definition ConstantTimeCompare :: "string \<Rightarrow> string \<Rightarrow> int" where
  "ConstantTimeCompare x y = (if length x \<noteq> length y then 0 else if x = y then 1 else 0)"

definition VerifyPSK :: "string \<Rightarrow> string \<Rightarrow> bool" where
  "VerifyPSK authorization expected =
    (case Cut authorization (CHR '' '') of
       (scheme, supplied, ok) \<Rightarrow>
         if \<not> ok \<or> \<not> EqualFold scheme ''PSK'' \<or> supplied = [] \<or> length supplied \<noteq> length expected then False
         else ConstantTimeCompare supplied expected = 1)"

section \<open>Tokens\<close>

record claims =
  cl_Issuer :: string
  cl_Subject :: string
  cl_ID :: string
  cl_IssuedAt :: time
  cl_NotBefore :: time
  cl_ExpiresAt :: time

text \<open>
  The JWT library: rounding a time to the precision of a token, signing with HS256, and parsing with
  a key function, the required issuer, a required expiry and a checked issue time.  \<open>jl_signed raw alg
  key\<close> is that the signature of a raw token under an algorithm verifies with a key.
\<close>

record jwtlib =
  jl_NewNumericDate :: "time \<Rightarrow> time"
  jl_SignedString :: "claims \<Rightarrow> string \<Rightarrow> string result"
  jl_ParseWithClaims :: "string \<Rightarrow> (string \<Rightarrow> string result) \<Rightarrow> string \<Rightarrow> time \<Rightarrow> claims result"
  jl_signed :: "string \<Rightarrow> string \<Rightarrow> string \<Rightarrow> bool"
  jl_rand :: "string result"
  jl_RawURLEncoding :: "string \<Rightarrow> string"

record auth_service =
  as_issuer :: string
  as_secret :: string
  as_ttl :: duration
  as_clientID :: string
  as_clientSecret :: string
  as_verifier :: "(string \<Rightarrow> principal result) option"

definition auth_New :: "config \<Rightarrow> auth_service" where
  "auth_New cfg = \<lparr>as_issuer = jwt_Issuer (c_JWT cfg), as_secret = jwt_Secret (c_JWT cfg), as_ttl = jwt_TTL (c_JWT cfg),
     as_clientID = auth_ClientID (c_Auth cfg), as_clientSecret = auth_ClientSecret (c_Auth cfg), as_verifier = None\<rparr>"

definition auth_NewRuntime ::
  "(string \<Rightarrow> string \<Rightarrow> string \<Rightarrow> (string \<Rightarrow> principal result) result) \<Rightarrow> config \<Rightarrow> auth_service result" where
  "auth_NewRuntime newJWKSVerifier cfg =
    (let service = auth_New cfg; a = c_Auth cfg
     in if auth_JWKSURL a = [] then Inr service
        else case newJWKSVerifier (auth_JWKSURL a) (auth_Issuer a) (auth_Audience a) of
          Inl e \<Rightarrow> Inl (Wrap ''configure identity token verifier: '' e [])
        | Inr verifier \<Rightarrow> Inr (service\<lparr>as_verifier := Some verifier\<rparr>))"

definition auth_Enabled :: "auth_service \<Rightarrow> bool" where
  "auth_Enabled s \<longleftrightarrow> 32 \<le> length (as_secret s) \<and> as_clientID s \<noteq> [] \<and> as_clientSecret s \<noteq> []"

definition Authenticate :: "auth_service \<Rightarrow> string \<Rightarrow> string \<Rightarrow> bool" where
  "Authenticate s clientID clientSecret =
    (if \<not> auth_Enabled s then False
     else ConstantTimeCompare clientID (as_clientID s) = 1 \<and> ConstantTimeCompare clientSecret (as_clientSecret s) = 1)"

definition randomID :: "jwtlib \<Rightarrow> string result" where
  "randomID L = (case jl_rand L of Inl e \<Rightarrow> Inl e | Inr b \<Rightarrow> Inr (jl_RawURLEncoding L b))"

definition Issue :: "jwtlib \<Rightarrow> auth_service \<Rightarrow> time \<Rightarrow> string \<Rightarrow> string result" where
  "Issue L s at subject =
    (if \<not> auth_Enabled s then Inl (Opaque ''authentication is not configured'')
     else case randomID L of
       Inl e \<Rightarrow> Inl (Wrap ''create token id: '' e [])
     | Inr jti \<Rightarrow>
        jl_SignedString L \<lparr>cl_Issuer = as_issuer s, cl_Subject = subject, cl_ID = jti,
          cl_IssuedAt = jl_NewNumericDate L at, cl_NotBefore = jl_NewNumericDate L at,
          cl_ExpiresAt = jl_NewNumericDate L (at + as_ttl s)\<rparr> (as_secret s))"

definition token_key :: "auth_service \<Rightarrow> string \<Rightarrow> string result" where
  "token_key s alg = (if alg \<noteq> ''HS256'' then Inl (Opaque (''unexpected signing method '' @ alg)) else Inr (as_secret s))"

definition auth_Parse :: "jwtlib \<Rightarrow> auth_service \<Rightarrow> time \<Rightarrow> string \<Rightarrow> claims result" where
  "auth_Parse L s at raw =
    (if \<not> auth_Enabled s then Inl (Opaque ''authentication is not configured'')
     else case jl_ParseWithClaims L raw (token_key s) (as_issuer s) at of
       Inl e \<Rightarrow> Inl (Wrap ''parse jwt: '' e [])
     | Inr claims \<Rightarrow> Inr claims)"

definition auth_Verify :: "jwtlib \<Rightarrow> auth_service \<Rightarrow> time \<Rightarrow> string \<Rightarrow> principal result" where
  "auth_Verify L s at raw =
    (case as_verifier s of
       Some verify \<Rightarrow> verify raw
     | None \<Rightarrow>
        (case auth_Parse L s at raw of
           Inl e \<Rightarrow> Inl e
         | Inr claims \<Rightarrow> Inr \<lparr>p_ID = cl_Subject claims, p_Type = TypeUser, p_TenantID = []\<rparr>))"

section \<open>Facts\<close>

lemma MatchesAny_iff: "MatchesAny value ps \<longleftrightarrow> (\<exists>p\<in>set ps. path_Match p value = Inr True)"
  by (induction ps) (auto split: sum.splits bool.splits)

lemma ConstantTimeCompare_iff [simp]: "ConstantTimeCompare x y = 1 \<longleftrightarrow> x = y"
  by (auto simp: ConstantTimeCompare_def)

lemma Cut_space:
  "Cut s (CHR '' '') = (a, b, True) \<longleftrightarrow> s = a @ [CHR '' ''] @ b \<and> CHR '' '' \<notin> set a"
proof
  assume C: "Cut s (CHR '' '') = (a, b, True)"
  let ?d = "dropWhile (\<lambda>c. c \<noteq> CHR '' '') s"
  have p: "CHR '' '' \<in> set s" "a = takeWhile (\<lambda>c. c \<noteq> CHR '' '') s" "b = tl ?d"
    using C by (auto simp: Cut_def split: if_splits)
  then have d: "?d \<noteq> []" by simp
  then have "hd ?d = CHR '' ''" using hd_dropWhile [of "\<lambda>c. c \<noteq> CHR '' ''" s] by auto
  then have "?d = CHR '' '' # b" using d p(3) by (metis list.collapse)
  then have "s = a @ [CHR '' ''] @ b" using p(2) takeWhile_dropWhile_id [of "\<lambda>c. c \<noteq> CHR '' ''" s] by simp
  moreover have "CHR '' '' \<notin> set a" using p(2) set_takeWhileD by fastforce
  ultimately show "s = a @ [CHR '' ''] @ b \<and> CHR '' '' \<notin> set a" by blast
next
  assume "s = a @ [CHR '' ''] @ b \<and> CHR '' '' \<notin> set a"
  then have s: "s = a @ CHR '' '' # b" and a: "\<forall>c\<in>set a. c \<noteq> CHR '' ''" by auto
  have "takeWhile (\<lambda>c. c \<noteq> CHR '' '') s = a" "dropWhile (\<lambda>c. c \<noteq> CHR '' '') s = CHR '' '' # b"
    unfolding s using a by (simp_all add: takeWhile_append2 dropWhile_append2)
  then show "Cut s (CHR '' '') = (a, b, True)" by (simp add: Cut_def s)
qed

text \<open>A key is accepted exactly when it is the expected one, after a scheme that reads \<open>PSK\<close> in any case.\<close>

lemma VerifyPSK_iff:
  "VerifyPSK authorization expected \<longleftrightarrow> expected \<noteq> []
    \<and> (\<exists>scheme. authorization = scheme @ [CHR '' ''] @ expected \<and> CHR '' '' \<notin> set scheme \<and> EqualFold scheme ''PSK'')"
proof -
  obtain scheme supplied ok where C: "Cut authorization (CHR '' '') = (scheme, supplied, ok)" by (metis prod.exhaust)
  show ?thesis
  proof (cases ok)
    case True
    then have only: "authorization = a @ [CHR '' ''] @ b \<and> CHR '' '' \<notin> set a \<longleftrightarrow> a = scheme \<and> b = supplied" for a b
      using C Cut_space [of authorization a b] by auto
    have "VerifyPSK authorization expected \<longleftrightarrow> EqualFold scheme ''PSK'' \<and> supplied = expected \<and> expected \<noteq> []"
      using C True by (auto simp: VerifyPSK_def)
    then show ?thesis using only by metis
  next
    case False
    then have "\<not> (authorization = a @ [CHR '' ''] @ b \<and> CHR '' '' \<notin> set a)" for a b
      using C Cut_space [of authorization a b] by auto
    moreover have "\<not> VerifyPSK authorization expected" using C False by (simp add: VerifyPSK_def)
    ultimately show ?thesis by metis
  qed
qed

section \<open>Properties\<close>

text \<open>
  What the library documents: a token it signed parses with the same key under HS256 for the issuer it
  names, from its issue time until its expiry; and what parses is signed, under an algorithm and with
  a key the key function allows, for the required issuer, and not expired.  A token's times are at most
  a second before the given ones.
\<close>

definition jwt_contract :: "jwtlib \<Rightarrow> bool" where
  "jwt_contract L \<longleftrightarrow>
    (\<forall>t. jl_NewNumericDate L t \<le> t \<and> t - 1000000000 < jl_NewNumericDate L t)
    \<and> (\<forall>cs secret raw key at. jl_SignedString L cs secret = Inr raw \<longrightarrow> key ''HS256'' = Inr secret
         \<longrightarrow> cl_IssuedAt cs \<le> at \<longrightarrow> cl_NotBefore cs \<le> at \<longrightarrow> at < cl_ExpiresAt cs
         \<longrightarrow> jl_ParseWithClaims L raw key (cl_Issuer cs) at = Inr cs)
    \<and> (\<forall>raw key issuer at cs. jl_ParseWithClaims L raw key issuer at = Inr cs
         \<longrightarrow> cl_Issuer cs = issuer \<and> at < cl_ExpiresAt cs \<and> (\<exists>alg k. key alg = Inr k \<and> jl_signed L raw alg k))"

text \<open>
  C28. Tokens.  A token the service issued identifies its subject from then on until (up to the second that its
  times are rounded to) its lifetime has passed; and without an external verifier the service accepts
  only tokens that are signed with its own secret under HS256.
\<close>

theorem issued_token_identifies:
  assumes "jwt_contract L" and "as_verifier s = None" and "Issue L s t subject = Inr raw"
    and "t \<le> at" and "at \<le> t + as_ttl s - 1000000000"
  shows "auth_Verify L s at raw = Inr \<lparr>p_ID = subject, p_Type = TypeUser, p_TenantID = []\<rparr>
    \<and> (\<forall>raw' p. auth_Verify L s at raw' = Inr p \<longrightarrow> jl_signed L raw' ''HS256'' (as_secret s))"
proof -
  have en: "auth_Enabled s" using assms(3) by (auto simp: Issue_def split: if_splits)
  obtain jti where sign: "jl_SignedString L \<lparr>cl_Issuer = as_issuer s, cl_Subject = subject, cl_ID = jti,
          cl_IssuedAt = jl_NewNumericDate L t, cl_NotBefore = jl_NewNumericDate L t,
          cl_ExpiresAt = jl_NewNumericDate L (t + as_ttl s)\<rparr> (as_secret s) = Inr raw"
    using assms(3) en by (auto simp: Issue_def split: sum.splits)
  have parse: "jl_ParseWithClaims L raw key (cl_Issuer cs) at = Inr cs"
    if "jl_SignedString L cs secret = Inr raw" "key ''HS256'' = Inr secret" "cl_IssuedAt cs \<le> at" "cl_NotBefore cs \<le> at"
      "at < cl_ExpiresAt cs" for cs secret raw key at
    using assms(1) that unfolding jwt_contract_def by blast
  have date: "jl_NewNumericDate L t \<le> t" "t + as_ttl s - 1000000000 < jl_NewNumericDate L (t + as_ttl s)"
    using assms(1) by (auto simp: jwt_contract_def)
  have key: "token_key s ''HS256'' = Inr (as_secret s)" by (simp add: token_key_def)
  have "jl_ParseWithClaims L raw (token_key s) (as_issuer s) at = Inr \<lparr>cl_Issuer = as_issuer s, cl_Subject = subject, cl_ID = jti,
          cl_IssuedAt = jl_NewNumericDate L t, cl_NotBefore = jl_NewNumericDate L t,
          cl_ExpiresAt = jl_NewNumericDate L (t + as_ttl s)\<rparr>"
    using parse [OF sign, of "token_key s"] key date assms(4,5) by simp
  moreover have "jl_signed L raw' ''HS256'' (as_secret s)" if accepted: "auth_Verify L s at raw' = Inr p" for raw' p
  proof -
    obtain cs where "jl_ParseWithClaims L raw' (token_key s) (as_issuer s) at = Inr cs"
      using accepted assms(2) en
      by (cases "jl_ParseWithClaims L raw' (token_key s) (as_issuer s) at") (simp_all add: auth_Verify_def auth_Parse_def)
    then obtain alg k where "token_key s alg = Inr k" "jl_signed L raw' alg k"
      using assms(1) unfolding jwt_contract_def by blast
    then show ?thesis by (auto simp: token_key_def split: if_splits)
  qed
  ultimately show ?thesis using assms(2) en by (simp add: auth_Verify_def auth_Parse_def)
qed

text \<open>A library whose tokens are their claims, for the witness.\<close>

definition demo_claims :: claims where
  "demo_claims = \<lparr>cl_Issuer = ''i'', cl_Subject = ''u'', cl_ID = ''r'', cl_IssuedAt = 0, cl_NotBefore = 0,
     cl_ExpiresAt = 7000000000\<rparr>"

definition demo_jwt :: jwtlib where
  "demo_jwt = \<lparr>jl_NewNumericDate = id,
     jl_SignedString = (\<lambda>cs secret. if cs = demo_claims then Inr (CHR ''k'' # secret) else Inl (Opaque ''no'')),
     jl_ParseWithClaims = (\<lambda>raw key issuer t.
       if key ''HS256'' = Inr (tl raw) \<and> issuer = ''i'' \<and> 0 \<le> t \<and> t < 7000000000 then Inr demo_claims else Inl (Opaque ''no'')),
     jl_signed = (\<lambda>raw alg k. alg = ''HS256'' \<and> tl raw = k), jl_rand = Inr ''r'', jl_RawURLEncoding = id\<rparr>"

definition demo_auth :: auth_service where
  "demo_auth = \<lparr>as_issuer = ''i'', as_secret = replicate 32 CHR ''x'', as_ttl = 7000000000, as_clientID = ''c'',
     as_clientSecret = ''s'', as_verifier = None\<rparr>"

lemma demo_jwt_contract: "jwt_contract demo_jwt"
  unfolding jwt_contract_def
proof (intro conjI allI impI)
  fix cs secret raw and key :: "string \<Rightarrow> string result" and at :: time
  assume a: "jl_SignedString demo_jwt cs secret = Inr raw" "key ''HS256'' = Inr secret" "cl_IssuedAt cs \<le> at"
    "at < cl_ExpiresAt cs"
  then have "cs = demo_claims" "raw = CHR ''k'' # secret" by (auto simp: demo_jwt_def split: if_splits)
  then show "jl_ParseWithClaims demo_jwt raw key (cl_Issuer cs) at = Inr cs"
    using a by (simp add: demo_jwt_def demo_claims_def)
qed (auto simp: demo_jwt_def demo_claims_def split: if_splits)

theorem issued_token_identifies_witness:
  "auth_Verify demo_jwt demo_auth 5 (CHR ''k'' # replicate 32 CHR ''x'') = Inr \<lparr>p_ID = ''u'', p_Type = TypeUser, p_TenantID = []\<rparr>"
proof -
  have "Issue demo_jwt demo_auth 0 ''u'' = Inr (CHR ''k'' # replicate 32 CHR ''x'')"
    by (simp add: Issue_def auth_Enabled_def randomID_def demo_jwt_def demo_auth_def demo_claims_def)
  then show ?thesis
    using issued_token_identifies [OF demo_jwt_contract, of demo_auth 0 "''u''" _ 5] by (simp add: demo_auth_def)
qed

end
