(* ===== verification/App_Health.thy ===== *)
theory App_Health
  imports App_Error App_Config
begin

text \<open>
  \<open>internal/health/service.go\<close>.  A client of the database or of Redis is what
  a ping of it returns; \<open>None\<close> is a nil client.  The two checks run concurrently: \<open>db_first\<close> says whose result
  arrives first.  The printed latency is a parameter.
\<close>

record dependency =
  dep_Status :: string
  dep_Latency :: string

record health_status =
  hst_Status :: string
  hst_Dependencies :: "(string \<times> dependency) list"

record health_service =
  hs_db :: "(duration \<Rightarrow> goerror option) option"
  hs_redis :: "(duration \<Rightarrow> goerror option) option"
  hs_cfg :: health_config

record check_result =
  cr_name :: string
  cr_dependency :: dependency
  cr_ready :: bool

definition health_New ::
  "(duration \<Rightarrow> goerror option) option \<Rightarrow> (duration \<Rightarrow> goerror option) option \<Rightarrow> config \<Rightarrow> health_service" where
  "health_New db redis cfg = \<lparr>hs_db = db, hs_redis = redis, hs_cfg = c_Health cfg\<rparr>"

definition health_Live :: health_status where
  "health_Live = \<lparr>hst_Status = ''up'', hst_Dependencies = []\<rparr>"

definition checkResult :: "string \<Rightarrow> string \<Rightarrow> goerror option \<Rightarrow> check_result" where
  "checkResult name latency err =
    (case err of
       Some _ \<Rightarrow> \<lparr>cr_name = name, cr_dependency = \<lparr>dep_Status = ''down'', dep_Latency = latency\<rparr>, cr_ready = False\<rparr>
     | None \<Rightarrow> \<lparr>cr_name = name, cr_dependency = \<lparr>dep_Status = ''up'', dep_Latency = latency\<rparr>, cr_ready = True\<rparr>)"

definition disabled_result :: "string \<Rightarrow> check_result" where
  "disabled_result name =
    \<lparr>cr_name = name, cr_dependency = \<lparr>dep_Status = ''disabled'', dep_Latency = []\<rparr>, cr_ready = True\<rparr>"

definition checkDatabase :: "health_service \<Rightarrow> string \<Rightarrow> check_result" where
  "checkDatabase s latency =
    (case hs_db s of
       None \<Rightarrow> disabled_result ''database''
     | Some ping \<Rightarrow> checkResult ''database'' latency (ping (health_DatabaseTimeout (hs_cfg s))))"

definition checkRedis :: "health_service \<Rightarrow> string \<Rightarrow> check_result" where
  "checkRedis s latency =
    (case hs_redis s of
       None \<Rightarrow> disabled_result ''redis''
     | Some ping \<Rightarrow> checkResult ''redis'' latency (ping (health_RedisTimeout (hs_cfg s))))"

definition health_Ready :: "health_service \<Rightarrow> string \<Rightarrow> bool \<Rightarrow> health_status \<times> bool" where
  "health_Ready s latency db_first =
    (let d = checkDatabase s latency; r = checkRedis s latency;
         results = (if db_first then [d, r] else [r, d]);
         ready = list_all cr_ready results
     in (\<lparr>hst_Status = (if ready then ''ready'' else ''not_ready''),
          hst_Dependencies = map (\<lambda>i. (cr_name i, cr_dependency i)) results\<rparr>, ready))"

text \<open>Readiness is that every client that exists answers its ping, in whatever order the answers arrive.\<close>

lemma health_Ready_iff:
  "snd (health_Ready s latency db_first) \<longleftrightarrow>
    (\<forall>ping. hs_db s = Some ping \<longrightarrow> ping (health_DatabaseTimeout (hs_cfg s)) = None)
    \<and> (\<forall>ping. hs_redis s = Some ping \<longrightarrow> ping (health_RedisTimeout (hs_cfg s)) = None)"
  by (auto simp: health_Ready_def checkDatabase_def checkRedis_def disabled_result_def checkResult_def Let_def split: option.splits)

lemma health_Ready_order:
  "map_of (hst_Dependencies (fst (health_Ready s latency True))) = map_of (hst_Dependencies (fst (health_Ready s latency False)))
    \<and> hst_Status (fst (health_Ready s latency True)) = hst_Status (fst (health_Ready s latency False))"
  by (auto simp: health_Ready_def checkDatabase_def checkRedis_def disabled_result_def checkResult_def Let_def fun_eq_iff
      split: option.splits)

end
