(* ===== verification/Observability.thy ===== *)
theory Observability
  imports App_Config App_Error
begin

text \<open>
  \<open>internal/observability\<close> and \<open>internal/logging\<close>: the metrics of the process, their registration and their use, and the settings of its traces and logs.  The
  metrics library is modelled by what it checks: a registry refuses a name it has, a vector refuses a list of values
  that is not as long as its list of labels, both with a panic.  What it keeps of a sample is its own.
\<close>

section \<open>Vectors and the registry\<close>

record metric_vec =
  mv_Name :: string
  mv_Labels :: "string list"

text \<open>A counter's sample has no value, a histogram's the seconds observed, as a duration.\<close>

record sample =
  sm_Name :: string
  sm_Values :: "string list"
  sm_Seconds :: "duration option"

definition CounterVec :: "string \<Rightarrow> string list \<Rightarrow> metric_vec" where
  "CounterVec name labels = \<lparr>mv_Name = name, mv_Labels = labels\<rparr>"

definition HistogramVec :: "string \<Rightarrow> string list \<Rightarrow> metric_vec" where
  "HistogramVec name labels = \<lparr>mv_Name = name, mv_Labels = labels\<rparr>"

text \<open>A collector registers the names of its metrics, in order.\<close>

fun MustRegister :: "string list \<Rightarrow> string list \<Rightarrow> string list result" where
  "MustRegister registry [] = Inr registry"
| "MustRegister registry (name # names) =
    (if name \<in> set registry then Inl (Panic ''duplicate metrics collector registration attempted'')
     else MustRegister (registry @ [name]) names)"

text \<open>
  \<open>WithLabelValues\<close> and what is done with the metric it gives: \<open>Inc\<close> when there is no value, \<open>Observe\<close> otherwise.
  \<open>add\<close> is what the library does with a sample.
\<close>

definition WithLabelValues ::
  "(sample \<Rightarrow> 'm \<Rightarrow> 'm) \<Rightarrow> metric_vec \<Rightarrow> string list \<Rightarrow> duration option \<Rightarrow> 'm \<Rightarrow> 'm result" where
  "WithLabelValues add vec values seconds m =
    (if length values \<noteq> length (mv_Labels vec) then Inl (Panic ''inconsistent label cardinality'')
     else Inr (add \<lparr>sm_Name = mv_Name vec, sm_Values = values, sm_Seconds = seconds\<rparr> m))"

section \<open>The metrics of the process\<close>

record metrics =
  mt_enabled :: bool
  mt_registry :: "string list"
  HTTPRequests :: metric_vec
  HTTPDuration :: metric_vec
  CronRuns :: metric_vec
  CronDuration :: metric_vec
  GRPCRequests :: metric_vec
  GRPCDuration :: metric_vec
  OutboundRequests :: metric_vec
  OutboundDuration :: metric_vec

text \<open>The collectors of the library: the names of the metrics of the Go runtime, the process and a database.\<close>

record collector_names =
  cn_Go :: "string list"
  cn_Process :: "string list"
  cn_DBStats :: "string \<Rightarrow> string list"

definition redis_metric_names :: "string list" where
  "redis_metric_names = [''redis_pool_hits_total'', ''redis_pool_misses_total'', ''redis_pool_timeouts_total'',
     ''redis_pool_connections'', ''redis_pool_idle_connections'']"

definition registerRedisMetrics :: "string list \<Rightarrow> string list result" where
  "registerRedisMetrics registry = MustRegister registry redis_metric_names"

definition metrics_of :: "bool \<Rightarrow> metrics" where
  "metrics_of enabled = \<lparr>mt_enabled = enabled, mt_registry = [],
     HTTPRequests = CounterVec ''http_requests_total'' [''method'', ''route'', ''status''],
     HTTPDuration = HistogramVec ''http_request_duration_seconds'' [''method'', ''route''],
     CronRuns = CounterVec ''cron_runs_total'' [''job'', ''status''],
     CronDuration = HistogramVec ''cron_run_duration_seconds'' [''job''],
     GRPCRequests = CounterVec ''grpc_server_requests_total'' [''method'', ''code''],
     GRPCDuration = HistogramVec ''grpc_server_duration_seconds'' [''method''],
     OutboundRequests = CounterVec ''outbound_requests_total'' [''protocol'', ''client'', ''status''],
     OutboundDuration = HistogramVec ''outbound_request_duration_seconds'' [''protocol'', ''client'']\<rparr>"

definition metric_vecs :: "metrics \<Rightarrow> metric_vec list" where
  "metric_vecs M = [HTTPRequests M, HTTPDuration M, CronRuns M, CronDuration M, GRPCRequests M, GRPCDuration M,
     OutboundRequests M, OutboundDuration M]"

definition NewMetrics :: "collector_names \<Rightarrow> observability_config \<Rightarrow> bool \<Rightarrow> bool \<Rightarrow> metrics result" where
  "NewMetrics N cfg has_db has_redis =
    (let M = metrics_of (obs_MetricsEnabled cfg)
     in case MustRegister [] (cn_Go N @ cn_Process N @ map mv_Name (metric_vecs M)) of
          Inl p \<Rightarrow> Inl p
        | Inr r1 \<Rightarrow>
           (case (if has_db then MustRegister r1 (cn_DBStats N ''primary'') else Inr r1) of
              Inl p \<Rightarrow> Inl p
            | Inr r2 \<Rightarrow>
               (case (if has_redis then registerRedisMetrics r2 else Inr r2) of
                  Inl p \<Rightarrow> Inl p
                | Inr r3 \<Rightarrow> Inr (M\<lparr>mt_registry := r3\<rparr>))))"

text \<open>The two samples of an observation: a count, and the time it took.\<close>

definition count_and_time ::
  "(sample \<Rightarrow> 'm \<Rightarrow> 'm) \<Rightarrow> metric_vec \<Rightarrow> string list \<Rightarrow> metric_vec \<Rightarrow> string list \<Rightarrow> duration \<Rightarrow> 'm \<Rightarrow> 'm result" where
  "count_and_time add counter values latency values' elapsed m =
    (case WithLabelValues add counter values None m of
       Inl p \<Rightarrow> Inl p
     | Inr m1 \<Rightarrow> WithLabelValues add latency values' (Some elapsed) m1)"

text \<open>
  What code that observes is given: the metrics, the library's handling of a sample, and the name of the status code of
  an error, \<open>status.Code(err).String()\<close>.
\<close>

record 'm meter =
  mr_metrics :: metrics
  mr_sample :: "sample \<Rightarrow> 'm \<Rightarrow> 'm"
  mr_Code :: "goerror option \<Rightarrow> string"

definition ObserveCron :: "'m meter \<Rightarrow> string \<Rightarrow> string \<Rightarrow> duration \<Rightarrow> 'm \<Rightarrow> 'm result" where
  "ObserveCron K job status elapsed m =
    (if \<not> mt_enabled (mr_metrics K) then Inr m
     else count_and_time (mr_sample K) (CronRuns (mr_metrics K)) [job, status] (CronDuration (mr_metrics K)) [job] elapsed m)"

section \<open>Traces and logs\<close>

text \<open>The settings the libraries are given; creating an exporter and the directory of the log file may fail.\<close>

record trace_provider =
  tp_Endpoint :: string
  tp_ServiceName :: string
  tp_ServiceVersion :: string
  tp_SampleRatio :: float64

record tracing =
  tg_enabled :: bool
  tg_provider :: "trace_provider option"

definition NewTracing :: "(string \<Rightarrow> goerror option) \<Rightarrow> string \<Rightarrow> config \<Rightarrow> tracing result" where
  "NewTracing newExporter build_version cfg =
    (let ob = c_Observability cfg
     in if \<not> obs_TracingEnabled ob then Inr \<lparr>tg_enabled = False, tg_provider = None\<rparr>
        else case newExporter (obs_TracingEndpoint ob) of
          Some e \<Rightarrow> Inl (Wrap ''create OTLP trace exporter: '' e [])
        | None \<Rightarrow> Inr \<lparr>tg_enabled = True, tg_provider = Some \<lparr>tp_Endpoint = obs_TracingEndpoint ob,
            tp_ServiceName = app_Name (c_App cfg), tp_ServiceVersion = build_version,
            tp_SampleRatio = obs_TracingSampleRatio ob\<rparr>\<rparr>)"

datatype log_handler = TextHandler | JSONHandler

record logger =
  lg_Filename :: string
  lg_MaxSize :: int
  lg_MaxBackups :: int
  lg_MaxAge :: int
  lg_Compress :: bool
  lg_Level :: int
  lg_Handler :: log_handler
  lg_Attrs :: "(string \<times> string) list"

text \<open>\<open>mkdir\<close> makes the directory of a file, \<open>parse_level\<close> reads the name of a level.\<close>

definition logging_New ::
  "(string \<Rightarrow> goerror option) \<Rightarrow> (string \<Rightarrow> int result) \<Rightarrow> (rune \<Rightarrow> rune) \<Rightarrow> log_config \<Rightarrow> logger result" where
  "logging_New mkdir parse_level lower cfg =
    (case mkdir (log_File cfg) of
       Some e \<Rightarrow> Inl (Wrap ''create log directory: '' e [])
     | None \<Rightarrow>
        (case parse_level (ToLower lower (log_Level cfg)) of
           Inl e \<Rightarrow> Inl (Wrap ''parse log level: '' e [])
         | Inr level \<Rightarrow> Inr \<lparr>lg_Filename = log_File cfg, lg_MaxSize = log_MaxSizeMB cfg, lg_MaxBackups = log_MaxBackups cfg,
             lg_MaxAge = log_MaxAgeDays cfg, lg_Compress = log_Compress cfg, lg_Level = level,
             lg_Handler = (if log_Format cfg = ''text'' then TextHandler else JSONHandler), lg_Attrs = []\<rparr>))"

section \<open>Laws\<close>

lemma MustRegister_ok:
  "distinct (registry @ names) \<Longrightarrow> MustRegister registry names = Inr (registry @ names)"
  by (induction registry names rule: MustRegister.induct) auto

lemma MustRegister_Inr:
  "MustRegister registry names = Inr r \<Longrightarrow> r = registry @ names \<and> (distinct registry \<longrightarrow> distinct r)"
  by (induction registry names rule: MustRegister.induct) (auto split: if_splits)

text \<open>Metrics are well typed when every vector has the arity its observations are made with.\<close>

definition well_typed :: "metrics \<Rightarrow> bool" where
  "well_typed M \<longleftrightarrow> map (length \<circ> mv_Labels) (metric_vecs M) = [3, 2, 2, 1, 2, 1, 3, 2]"

lemma metrics_of_typed [simp]: "well_typed ((metrics_of b)\<lparr>mt_registry := r\<rparr>)"
  by (simp add: well_typed_def metric_vecs_def metrics_of_def CounterVec_def HistogramVec_def)

lemma NewMetrics_Inr:
  assumes "NewMetrics N cfg has_db has_redis = Inr M"
  shows "M = (metrics_of (obs_MetricsEnabled cfg))\<lparr>mt_registry := mt_registry M\<rparr> \<and> distinct (mt_registry M)"
  using assms
  by (auto simp: NewMetrics_def registerRedisMetrics_def Let_def split: sum.splits if_splits dest!: MustRegister_Inr)

lemma metric_names: "map mv_Name (metric_vecs (metrics_of b)) =
  [''http_requests_total'', ''http_request_duration_seconds'', ''cron_runs_total'', ''cron_run_duration_seconds'',
   ''grpc_server_requests_total'', ''grpc_server_duration_seconds'', ''outbound_requests_total'', ''outbound_request_duration_seconds'']"
  by (simp add: metric_vecs_def metrics_of_def CounterVec_def HistogramVec_def)

lemma NewMetrics_ok:
  assumes "distinct (cn_Go N @ cn_Process N @ map mv_Name (metric_vecs (metrics_of True)) @ cn_DBStats N ''primary'' @ redis_metric_names)"
  shows "\<exists>M. NewMetrics N cfg has_db has_redis = Inr M"
proof -
  have names: "map mv_Name (metric_vecs (metrics_of b)) = map mv_Name (metric_vecs (metrics_of True))" for b
    by (simp only: metric_names)
  define own where "own = map mv_Name (metric_vecs (metrics_of True))"
  let ?lib = "cn_Go N @ cn_Process N @ own"
  have d: "distinct (?lib @ cn_DBStats N ''primary'' @ redis_metric_names)" using assms by (simp add: own_def)
  have 1: "MustRegister [] ?lib = Inr ?lib" by (subst MustRegister_ok) (use d in auto)
  have 2: "MustRegister ?lib (cn_DBStats N ''primary'') = Inr (?lib @ cn_DBStats N ''primary'')"
    by (rule MustRegister_ok) (use d in auto)
  have 3: "MustRegister ?lib redis_metric_names = Inr (?lib @ redis_metric_names)"
    by (rule MustRegister_ok) (use d in auto)
  have 4: "MustRegister (?lib @ cn_DBStats N ''primary'') redis_metric_names
      = Inr ((?lib @ cn_DBStats N ''primary'') @ redis_metric_names)"
    by (rule MustRegister_ok) (use d in auto)
  show ?thesis
    unfolding NewMetrics_def Let_def names [of "obs_MetricsEnabled cfg"] own_def [symmetric] registerRedisMetrics_def
    using 1 2 3 4 by simp
qed

lemma NewMetrics_typed: "NewMetrics N cfg has_db has_redis = Inr M \<Longrightarrow> well_typed M"
  using metrics_of_typed NewMetrics_Inr by metis

lemma count_and_time_ok [simp]:
  "length values = length (mv_Labels counter) \<Longrightarrow> length values' = length (mv_Labels latency) \<Longrightarrow>
    count_and_time add counter values latency values' elapsed m
      = Inr (add \<lparr>sm_Name = mv_Name latency, sm_Values = values', sm_Seconds = Some elapsed\<rparr>
          (add \<lparr>sm_Name = mv_Name counter, sm_Values = values, sm_Seconds = None\<rparr> m))"
  by (simp add: count_and_time_def WithLabelValues_def)

lemma well_typedD:
  assumes "well_typed M"
  shows "length (mv_Labels (HTTPRequests M)) = 3" "length (mv_Labels (HTTPDuration M)) = 2"
    "length (mv_Labels (CronRuns M)) = 2" "length (mv_Labels (CronDuration M)) = 1"
    "length (mv_Labels (GRPCRequests M)) = 2" "length (mv_Labels (GRPCDuration M)) = 1"
    "length (mv_Labels (OutboundRequests M)) = 3" "length (mv_Labels (OutboundDuration M)) = 2"
  using assms by (simp_all add: well_typed_def metric_vecs_def)

lemma ObserveCron_typed: "well_typed (mr_metrics K) \<Longrightarrow> \<exists>m1. ObserveCron K job status elapsed m = Inr m1"
  by (simp add: ObserveCron_def well_typedD)

end
