(* ===== verification/Go_Net.thy ===== *)
theory Go_Net
  imports Go_Strings
begin

text \<open>
  The parts of package \<open>net\<close> that the provider's target check uses: \<open>SplitHostPort\<close>, and whether
  \<open>ParseIP\<close> recognises an address (IPv4 in dotted form, IPv6 with at most one ellipsis and an
  optional dotted tail; an address with a zone is none for \<open>ParseIP\<close>).
\<close>

section \<open>Host and port\<close>

definition last_index :: "char \<Rightarrow> string \<Rightarrow> nat option" where
  "last_index c s = (if c \<in> set s then Some (length s - 1 - length (takeWhile (\<lambda>x. x \<noteq> c) (rev s))) else None)"

definition first_index :: "char \<Rightarrow> string \<Rightarrow> nat option" where
  "first_index c s = (if c \<in> set s then Some (length (takeWhile (\<lambda>x. x \<noteq> c) s)) else None)"

definition SplitHostPort :: "string \<Rightarrow> (string \<times> string) option" where
  "SplitHostPort s =
    (case last_index (CHR '':'') s of
       None \<Rightarrow> None
     | Some i \<Rightarrow>
        if hd s = CHR ''['' then
          (case first_index (CHR '']'') s of
             None \<Rightarrow> None
           | Some close \<Rightarrow>
              if close + 1 \<noteq> i then None
              else if CHR ''['' \<in> set (drop 1 s) \<or> CHR '']'' \<in> set (drop (close + 1) s) then None
              else Some (drop 1 (take close s), drop (i + 1) s))
        else if CHR '':'' \<in> set (take i s) \<or> CHR ''['' \<in> set s \<or> CHR '']'' \<in> set s then None
        else Some (take i s, drop (i + 1) s))"

section \<open>Addresses\<close>

fun split_on :: "char \<Rightarrow> string \<Rightarrow> string list" where
  "split_on x [] = [[]]"
| "split_on x (c # cs) =
    (if c = x then [] # split_on x cs
     else case split_on x cs of [] \<Rightarrow> [[c]] | p # ps \<Rightarrow> (c # p) # ps)"

definition dec_digit :: "char \<Rightarrow> bool" where
  "dec_digit c \<longleftrightarrow> 48 \<le> (byte c :: nat) \<and> (byte c :: nat) \<le> 57"

definition hex_digit :: "char \<Rightarrow> bool" where
  "hex_digit c \<longleftrightarrow> dec_digit c \<or> (97 \<le> (byte c :: nat) \<and> (byte c :: nat) \<le> 102)
     \<or> (65 \<le> (byte c :: nat) \<and> (byte c :: nat) \<le> 70)"

definition dec_value :: "string \<Rightarrow> nat" where
  "dec_value s = foldl (\<lambda>v c. v * 10 + (byte c - 48)) 0 s"

definition octet :: "string \<Rightarrow> bool" where
  "octet s \<longleftrightarrow> s \<noteq> [] \<and> list_all dec_digit s \<and> (hd s = CHR ''0'' \<longrightarrow> s = ''0'') \<and> dec_value s \<le> 255"

definition is_ipv4 :: "string \<Rightarrow> bool" where
  "is_ipv4 s \<longleftrightarrow> length (split_on (CHR ''.'') s) = 4 \<and> list_all octet (split_on (CHR ''.'') s)"

text \<open>
  The loop over the groups of an IPv6 address: \<open>left\<close> groups may follow, \<open>ell\<close> says whether an
  ellipsis was seen.  The result says whether the whole string was used well.
\<close>

fun ipv6_groups :: "nat \<Rightarrow> bool \<Rightarrow> string \<Rightarrow> bool" where
  "ipv6_groups 0 ell s = (s = [] \<and> \<not> ell)"
| "ipv6_groups (Suc left) ell s =
    (let g = takeWhile hex_digit s; rest = dropWhile hex_digit s
     in if g = [] \<or> 4 < length g then False
        else if rest \<noteq> [] \<and> hd rest = CHR ''.'' then
          (if \<not> ell \<and> left \<noteq> 1 then False
           else if left = 0 then False
           else is_ipv4 s \<and> (left = 1 \<longrightarrow> \<not> ell))
        else if rest = [] then (left = 0 \<longrightarrow> \<not> ell) \<and> (left \<noteq> 0 \<longrightarrow> ell)
        else if hd rest \<noteq> CHR '':'' \<or> tl rest = [] then False
        else if hd (tl rest) = CHR '':'' then
          (if ell then False
           else if tl (tl rest) = [] then left \<noteq> 0
           else ipv6_groups left True (tl (tl rest)))
        else ipv6_groups left ell (tl rest))"

definition is_ipv6 :: "string \<Rightarrow> bool" where
  "is_ipv6 s =
    (if HasPrefix s ''::'' then (if drop 2 s = [] then True else ipv6_groups 8 True (drop 2 s))
     else ipv6_groups 8 False s)"

definition ParseIP :: "string \<Rightarrow> bool" where
  "ParseIP s =
    (if CHR ''%'' \<in> set s then False
     else case find (\<lambda>c. c = CHR ''.'' \<or> c = CHR '':'') s of
       None \<Rightarrow> False
     | Some c \<Rightarrow> if c = CHR ''.'' then is_ipv4 s else is_ipv6 s)"

end
