(* ===== verification/Export_Provider.thy ===== *)
theory Export_Provider
  imports Export_Model App_Config Go_Net "HOL-Library.Word"
begin

text \<open>
  \<open>internal/export/provider.go\<close>: the client side of export providers.  It lists and describes the
  datasets that registered instances offer, chooses an instance, keeps its connections, and
  streams a dataset's batches with retries that resume after the last accepted batch.

  Parameters, as this code sees them: the registry's discovery (the instances it knows, and the
  reports it takes), the parser of an instance's metadata, dialing, the static outbound registry,
  the provider's answers, gRPC's \<open>status.Code\<close> and the cancellation of a wait.
\<close>

section \<open>Data\<close>

text \<open>The Go values a row can hold (\<open>any\<close>): the cases the formatters tell apart.\<close>

datatype gvalue =
    GNil
  | GString string
  | GBytes string
  | GTime time
  | GBool bool
  | GJsonNumber string
  | GFloat64 float64
  | GFloat32 float64
  | GInt int
  | GInt8 int
  | GInt16 int
  | GInt32 int
  | GInt64 int
  | GUint int
  | GUint8 int
  | GUint16 int
  | GUint32 int
  | GUint64 int
  | GOther json

type_synonym row = "(string \<times> gvalue) list"

record batch =
  bt_Columns :: "column list"
  bt_Rows :: "row list"
  bt_NextCursor :: string
  bt_SnapshotToken :: string
  bt_EstimatedTotalRows :: int
  bt_Done :: bool

record stream_request =
  sq_TenantID :: string
  sq_ApplicationID :: string
  sq_DatasetCode :: string
  sq_QueryJSON :: string
  sq_Cursor :: string
  sq_SnapshotToken :: string
  sq_SelectedColumns :: "string list"
  sq_BatchSize :: int

text \<open>The wire messages; a row is given by the map its \<open>AsMap\<close> returns.\<close>

record stream_rows_request =
  rq_TenantId :: string
  rq_ApplicationId :: string
  rq_DatasetCode :: string
  rq_QueryJson :: string
  rq_SelectedColumns :: "string list"
  rq_BatchSize :: int
  rq_Cursor :: string
  rq_SnapshotToken :: string

record stream_rows_response =
  rp_Columns :: "column list"
  rp_Rows :: "row list"
  rp_NextCursor :: string
  rp_SnapshotToken :: string
  rp_EstimatedTotalRows :: int
  rp_Done :: bool

text \<open>
  An open stream: the responses \<open>Recv\<close> will return and the error that follows them (\<open>IoEOF\<close> when the
  provider closes it).  The run's deadline ends every stream.
\<close>

type_synonym row_stream = "stream_rows_response list \<times> goerror"

record service_instance =
  si_InstanceId :: string
  si_ServiceName :: string
  si_Endpoint :: string
  si_Metadata :: "(string \<times> string) list"

record provider_dataset =
  pd_Code :: string
  pd_Title :: string
  pd_Formats :: "string list"
  pd_SupportsSnapshot :: bool

type_synonym metadata_parser = "(string \<times> string) list \<Rightarrow> provider_dataset list result"

section \<open>Streaming\<close>

definition to_batch :: "stream_rows_response \<Rightarrow> batch" where
  "to_batch response = \<lparr>
     bt_Columns = map (\<lambda>v. \<lparr>col_Key = col_Key v, col_Title = col_Title v, col_Type = col_Type v,
       col_Format = col_Format v, col_Sensitive = col_Sensitive v\<rparr>) (rp_Columns response),
     bt_Rows = rp_Rows response, bt_NextCursor = rp_NextCursor response,
     bt_SnapshotToken = rp_SnapshotToken response,
     bt_EstimatedTotalRows = rp_EstimatedTotalRows response, bt_Done = rp_Done response\<rparr>"

text \<open>
  \<open>receiveRows\<close>: the consumer \<open>receive\<close> is a closure over a state \<open>'s\<close>.  The request and \<open>delivered\<close>
  are updated in place, after the consumer accepted the batch.
\<close>

type_synonym 's receiver = "batch \<Rightarrow> 's \<Rightarrow> goerror option \<times> 's"

fun receiveRows ::
  "'s receiver \<Rightarrow> stream_rows_response list \<Rightarrow> goerror \<Rightarrow> stream_rows_request \<Rightarrow> bool \<Rightarrow> 's
    \<Rightarrow> goerror option \<times> stream_rows_request \<times> bool \<times> 's" where
  "receiveRows receive [] err request delivered s =
    (Some (if errors_Is err IoEOF then ErrProviderStreamIncomplete else err), request, delivered, s)"
| "receiveRows receive (response # stream) err request delivered s =
    (case receive (to_batch response) s of
       (Some e, s1) \<Rightarrow> (Some e, request, delivered, s1)
     | (None, s1) \<Rightarrow>
        (let request1 = request\<lparr>rq_Cursor := rp_NextCursor response,
               rq_SnapshotToken := rp_SnapshotToken response\<rparr>
         in if rp_Done response then (None, request1, True, s1)
            else receiveRows receive stream err request1 True s1))"

abbreviation (input) "codes_Unavailable \<equiv> (14::nat)"
abbreviation (input) "codes_ResourceExhausted \<equiv> (8::nat)"

definition retryableStreamError :: "(goerror \<Rightarrow> nat) \<Rightarrow> goerror \<Rightarrow> bool" where
  "retryableStreamError status_Code err \<longleftrightarrow>
    errors_Is err ErrProviderStreamIncomplete
    \<or> status_Code err = codes_Unavailable \<or> status_Code err = codes_ResourceExhausted"

text \<open>\<open>waitStreamRetry\<close>: the delay it sets its timer to; \<open>wait\<close> says whether the context ends first.\<close>

definition stream_retry_delay :: "retry_config \<Rightarrow> nat \<Rightarrow> duration" where
  "stream_retry_delay retry attempt =
    (let delay = i64 (retry_InitialBackoff retry * 2 ^ (attempt - 1))
     in if 0 < retry_MaxBackoff retry \<and> retry_MaxBackoff retry < delay then retry_MaxBackoff retry else delay)"

definition waitStreamRetry :: "(nat \<Rightarrow> duration \<Rightarrow> goerror option) \<Rightarrow> retry_config \<Rightarrow> nat \<Rightarrow> goerror option" where
  "waitStreamRetry wait retry attempt = wait attempt (stream_retry_delay retry attempt)"

record stream_env =
  se_open :: "nat \<Rightarrow> stream_rows_request \<Rightarrow> row_stream result"
  se_wait :: "nat \<Rightarrow> duration \<Rightarrow> goerror option"
  se_status_Code :: "goerror \<Rightarrow> nat"

definition stream_request_of :: "stream_request \<Rightarrow> stream_rows_request" where
  "stream_request_of request = \<lparr>rq_TenantId = sq_TenantID request, rq_ApplicationId = sq_ApplicationID request,
     rq_DatasetCode = sq_DatasetCode request, rq_QueryJson = sq_QueryJSON request,
     rq_SelectedColumns = sq_SelectedColumns request, rq_BatchSize = i32 (sq_BatchSize request),
     rq_Cursor = sq_Cursor request, rq_SnapshotToken = sq_SnapshotToken request\<rparr>"

text \<open>
  The attempts of \<open>streamRows\<close>, from \<open>attempt\<close> on, \<open>left\<close> of them after this one.  The result is
  whether the instance is to blame, the error, and the consumer's state.
\<close>

fun stream_attempts ::
  "stream_env \<Rightarrow> retry_config \<Rightarrow> 's receiver \<Rightarrow> nat \<Rightarrow> nat \<Rightarrow> stream_rows_request \<Rightarrow> bool \<Rightarrow> 's
    \<Rightarrow> (bool \<times> goerror option) \<times> 's" where
  "stream_attempts N retry receive left attempt request delivered s =
    (case (case se_open N attempt request of
             Inl e \<Rightarrow> (Some e, request, delivered, s)
           | Inr (stream, err) \<Rightarrow> receiveRows receive stream err request delivered s) of
       (None, _, _, s1) \<Rightarrow> ((False, None), s1)
     | (Some e, request1, delivered1, s1) \<Rightarrow>
        if \<not> retryableStreamError (se_status_Code N) e \<or> (delivered1 \<and> rq_Cursor request1 = [])
        then ((retryableStreamError (se_status_Code N) e, Some e), s1)
        else (case left of
            0 \<Rightarrow> ((True, Some e), s1)
          | Suc left' \<Rightarrow>
             (case waitStreamRetry (se_wait N) retry attempt of
                Some e' \<Rightarrow> ((False, Some e'), s1)
              | None \<Rightarrow> stream_attempts N retry receive left' (Suc attempt) request1 delivered1 s1)))"

declare stream_attempts.simps [simp del]

definition streamRows ::
  "stream_env \<Rightarrow> stream_request \<Rightarrow> retry_config \<Rightarrow> 's receiver \<Rightarrow> 's \<Rightarrow> (bool \<times> goerror option) \<times> 's" where
  "streamRows N request retry receive s =
    (let maxAttempts = max 1 (retry_MaxAttempts retry)
     in stream_attempts N retry receive (nat maxAttempts - 1) 1 (stream_request_of request) False s)"

section \<open>Instances and connections\<close>

definition supportsDataset :: "metadata_parser \<Rightarrow> (string \<times> string) list \<Rightarrow> string \<Rightarrow> bool" where
  "supportsDataset parse metadata dataset =
    (case parse metadata of Inl _ \<Rightarrow> False | Inr vs \<Rightarrow> list_ex (\<lambda>v. pd_Code v = dataset) vs)"

fun suffix_allowed :: "(rune \<Rightarrow> rune) \<Rightarrow> string \<Rightarrow> string list \<Rightarrow> bool" where
  "suffix_allowed ulow host [] = False"
| "suffix_allowed ulow host (raw # suffixes) =
    (let suffix = ToLower ulow (TrimSpace raw)
     in if suffix \<noteq> [] \<and> (host = TrimPrefix suffix ''.'' \<or> HasSuffix host suffix) then True
        else suffix_allowed ulow host suffixes)"

definition validateProviderTarget :: "(rune \<Rightarrow> rune) \<Rightarrow> string \<Rightarrow> string list \<Rightarrow> goerror option" where
  "validateProviderTarget ulow target suffixes =
    (case SplitHostPort (TrimPrefix target ''dns:///'') of
       None \<Rightarrow> Some (Opaque ''provider target must be a DNS name with port'')
     | Some (host, port) \<Rightarrow>
        if host = [] \<or> port = [] \<or> ParseIP host \<or> EqualFold host ''localhost''
        then Some (Opaque ''provider target must be a DNS name with port'')
        else if suffix_allowed ulow (ToLower ulow (TrimSuffix host ''.'')) suffixes then None
        else Some (Opaque (''provider host '' @ host @ '' is outside allowed DNS suffixes'')))"

text \<open>
  The provider's own state: the round-robin counter, the open connections by instance, and a log
  of what it did to connections and reported to discovery.  \<open>'c\<close> is a client connection.
\<close>

datatype 'c provider_effect = Closed 'c | ReportFailure string duration | ReportSuccess string

record 'c grpc_provider =
  gp_cursor :: "64 word"
  gp_connections :: "string \<rightharpoonup> string \<times> 'c"
  gp_log :: "'c provider_effect list"

record 'c provider_env =
  pe_discovery :: "service_instance list result option"
  pe_static :: "string \<Rightarrow> 'c option"
  pe_dial :: "string \<Rightarrow> string \<Rightarrow> provider_client_config \<Rightarrow> 'c result"
  pe_ParseMetadata :: metadata_parser
  pe_config :: provider_client_config
  pe_ToLower :: "rune \<Rightarrow> rune"

definition candidates_of :: "'c provider_env \<Rightarrow> service_instance list \<Rightarrow> string \<Rightarrow> string \<Rightarrow> service_instance list" where
  "candidates_of P instances service dataset =
    filter (\<lambda>x. si_ServiceName x = service \<and> supportsDataset (pe_ParseMetadata P) (si_Metadata x) dataset) instances"

definition endpoint_target :: "string \<Rightarrow> string" where
  "endpoint_target endpoint = TrimPrefix (TrimPrefix endpoint ''grpc://'') ''grpcs://''"

definition client ::
  "'c provider_env \<Rightarrow> string \<Rightarrow> string \<Rightarrow> 'c grpc_provider
    \<Rightarrow> ('c \<times> service_instance option) result \<times> 'c grpc_provider" where
  "client P service dataset p =
    (case pe_discovery P of
       None \<Rightarrow>
        (case pe_static P service of
           None \<Rightarrow> (Inl (Opaque (''export provider '' @ service @ '' is not configured'')), p)
         | Some connection \<Rightarrow> (Inr (connection, None), p))
     | Some (Inl e) \<Rightarrow> (Inl e, p)
     | Some (Inr instances) \<Rightarrow>
        (let candidates = candidates_of P instances service dataset
         in if candidates = []
            then (Inl (Opaque (''export provider '' @ service @ '' with dataset '' @ dataset @ '' is not registered'')), p)
            else
              (let chosen = candidates ! (unat (gp_cursor p) mod length candidates);
                   p1 = p\<lparr>gp_cursor := gp_cursor p + 1\<rparr>;
                   target = endpoint_target (si_Endpoint chosen);
                   i = si_InstanceId chosen
               in case validateProviderTarget (pe_ToLower P) target (pc_AllowedDNSSuffixes (pe_config P)) of
                    Some e \<Rightarrow> (Inl e, p1)
                  | None \<Rightarrow>
                     (case gp_connections p1 i of
                        Some (t, connection) \<Rightarrow>
                          if t = target then (Inr (connection, Some chosen), p1)
                          else (let p2 = p1\<lparr>gp_connections := (gp_connections p1)(i := None),
                                       gp_log := gp_log p1 @ [Closed connection]\<rparr>
                                in case pe_dial P service target (pe_config P) of
                                     Inl e \<Rightarrow> (Inl e, p2)
                                   | Inr fresh \<Rightarrow> (Inr (fresh, Some chosen),
                                       p2\<lparr>gp_connections := (gp_connections p2)(i \<mapsto> (target, fresh))\<rparr>))
                      | None \<Rightarrow>
                          (case pe_dial P service target (pe_config P) of
                             Inl e \<Rightarrow> (Inl e, p1)
                           | Inr fresh \<Rightarrow> (Inr (fresh, Some chosen),
                               p1\<lparr>gp_connections := (gp_connections p1)(i \<mapsto> (target, fresh))\<rparr>))))))"

definition failure :: "'c provider_env \<Rightarrow> service_instance option \<Rightarrow> 'c grpc_provider \<Rightarrow> 'c grpc_provider" where
  "failure P i p =
    (case i of
       Some x \<Rightarrow> if pe_discovery P \<noteq> None
         then p\<lparr>gp_log := gp_log p @ [ReportFailure (si_InstanceId x) (pc_FailureCooldown (pe_config P))]\<rparr> else p
     | None \<Rightarrow> p)"

definition success :: "'c provider_env \<Rightarrow> service_instance option \<Rightarrow> 'c grpc_provider \<Rightarrow> 'c grpc_provider" where
  "success P i p =
    (case i of
       Some x \<Rightarrow> if pe_discovery P \<noteq> None
         then p\<lparr>gp_log := gp_log p @ [ReportSuccess (si_InstanceId x)]\<rparr> else p
     | None \<Rightarrow> p)"

text \<open>\<open>Stream\<close>: \<open>rows\<close> is the connection's \<open>StreamRows\<close>.\<close>

definition Stream ::
  "'c provider_env \<Rightarrow> ('c \<Rightarrow> stream_env) \<Rightarrow> string \<Rightarrow> stream_request \<Rightarrow> 's receiver
    \<Rightarrow> 'c grpc_provider \<times> 's \<Rightarrow> goerror option \<times> 'c grpc_provider \<times> 's" where
  "Stream P rows service request receive ps =
    (case ps of (p, s) \<Rightarrow>
      (case client P service (sq_DatasetCode request) p of
         (Inl e, p1) \<Rightarrow> (Some e, p1, s)
       | (Inr (connection, i), p1) \<Rightarrow>
          (case streamRows (rows connection) request (pc_Retry (pe_config P)) receive s of
             ((failed, Some e), s1) \<Rightarrow> (Some e, (if failed then failure P i p1 else p1), s1)
           | ((_, None), s1) \<Rightarrow> (None, success P i p1, s1))))"

text \<open>\<open>DescribeDataset\<close>: \<open>describe\<close> is the connection's call; the inner option is the response's dataset,
  \<open>None\<close> for nil.\<close>

definition DescribeDataset ::
  "'c provider_env \<Rightarrow> ('c \<Rightarrow> string \<Rightarrow> string \<Rightarrow> string \<Rightarrow> dataset_descriptor option result)
    \<Rightarrow> string \<Rightarrow> string \<Rightarrow> string \<Rightarrow> string \<Rightarrow> 'c grpc_provider \<Rightarrow> dataset_descriptor result \<times> 'c grpc_provider" where
  "DescribeDataset P describe tenantID applicationID service dataset p =
    (case client P service dataset p of
       (Inl e, p1) \<Rightarrow> (Inl e, p1)
     | (Inr (connection, i), p1) \<Rightarrow>
        (case describe connection tenantID applicationID dataset of
           Inl e \<Rightarrow> (Inl e, failure P i p1)
         | Inr None \<Rightarrow> (Inl (Opaque ''export provider returned an invalid dataset descriptor''), failure P i p1)
         | Inr (Some value) \<Rightarrow>
             if dd_Code value \<noteq> dataset
             then (Inl (Opaque ''export provider returned an invalid dataset descriptor''), failure P i p1)
             else (Inr value, success P i p1)))"

text \<open>\<open>Close\<close>: every connection is closed; the first error is kept.  \<open>order\<close> is the order in which Go
  visits the map.\<close>

fun close_all :: "('c \<Rightarrow> goerror option) \<Rightarrow> (string \<times> 'c) list \<Rightarrow> goerror option \<Rightarrow> goerror option \<times> 'c provider_effect list" where
  "close_all close [] err = (err, [])"
| "close_all close ((i, connection) # cs) err =
    (let err' = (case (close connection, err) of
                   (Some e, None) \<Rightarrow> Some (Wrap (''close provider '' @ i @ '': '') e [])
                 | _ \<Rightarrow> err)
     in case close_all close cs err' of (r, es) \<Rightarrow> (r, Closed connection # es))"

definition provider_Close ::
  "('c \<Rightarrow> goerror option) \<Rightarrow> string list \<Rightarrow> 'c option \<Rightarrow> 'c grpc_provider \<Rightarrow> goerror option \<times> 'c grpc_provider" where
  "provider_Close close order registry p =
    (case close_all close (map (\<lambda>i. (i, snd (the (gp_connections p i)))) order) None of
       (r, es) \<Rightarrow>
         (let p1 = p\<lparr>gp_connections := Map.empty, gp_log := gp_log p @ es\<rparr>
          in case registry of
               None \<Rightarrow> (r, p1)
             | Some connection \<Rightarrow>
                 ((case (close connection, r) of (Some e, None) \<Rightarrow> Some e | _ \<Rightarrow> r),
                  p1\<lparr>gp_log := gp_log p1 @ [Closed connection]\<rparr>)))"

section \<open>The catalog of registered datasets\<close>

type_synonym summary_key = "string \<times> string"

definition matches_search :: "(rune \<Rightarrow> rune) \<Rightarrow> string \<Rightarrow> string \<Rightarrow> provider_dataset \<Rightarrow> bool" where
  "matches_search ulow search service d \<longleftrightarrow>
    search = [] \<or> Contains (ToLower ulow (pd_Code d @ '' '' @ pd_Title d @ '' '' @ service)) search"

definition count_dataset ::
  "string \<Rightarrow> provider_dataset \<Rightarrow> (summary_key \<times> dataset_summary) list \<Rightarrow> (summary_key \<times> dataset_summary) list" where
  "count_dataset service d result =
    (let k = (service, pd_Code d);
         zero = \<lparr>ds_ProviderService = [], ds_Code = [], ds_Title = [], ds_Formats = [],
                  ds_SupportsSnapshot = False, ds_HealthyInstances = 0\<rparr>;
         current0 = (case map_of result k of Some x \<Rightarrow> x | None \<Rightarrow> zero);
         current = (if ds_HealthyInstances current0 = 0
           then \<lparr>ds_ProviderService = service, ds_Code = pd_Code d, ds_Title = pd_Title d,
                  ds_Formats = pd_Formats d, ds_SupportsSnapshot = pd_SupportsSnapshot d, ds_HealthyInstances = 0\<rparr>
           else current0)
     in (k, current\<lparr>ds_HealthyInstances := i32 (ds_HealthyInstances current + 1)\<rparr>)
        # filter (\<lambda>x. fst x \<noteq> k) result)"

fun count_instance ::
  "(rune \<Rightarrow> rune) \<Rightarrow> string \<Rightarrow> string \<Rightarrow> provider_dataset list
    \<Rightarrow> (summary_key \<times> dataset_summary) list \<Rightarrow> (summary_key \<times> dataset_summary) list" where
  "count_instance ulow search service [] result = result"
| "count_instance ulow search service (d # ds) result =
    count_instance ulow search service ds
      (if matches_search ulow search service d then count_dataset service d result else result)"

fun count_instances ::
  "(rune \<Rightarrow> rune) \<Rightarrow> metadata_parser \<Rightarrow> string \<Rightarrow> service_instance list
    \<Rightarrow> (summary_key \<times> dataset_summary) list \<Rightarrow> (summary_key \<times> dataset_summary) list" where
  "count_instances ulow parse search [] result = result"
| "count_instances ulow parse search (x # xs) result =
    count_instances ulow parse search xs
      (case parse (si_Metadata x) of
         Inl _ \<Rightarrow> result
       | Inr ds \<Rightarrow> count_instance ulow search (si_ServiceName x) ds result)"

definition summary_le :: "dataset_summary \<Rightarrow> dataset_summary \<Rightarrow> bool" where
  "summary_le a b \<longleftrightarrow>
    (if strings_Compare (ds_ProviderService a) (ds_ProviderService b) \<noteq> 0
     then strings_Compare (ds_ProviderService a) (ds_ProviderService b) \<le> 0
     else strings_Compare (ds_Code a) (ds_Code b) \<le> 0)"

definition summarizeDatasets ::
  "(rune \<Rightarrow> rune) \<Rightarrow> metadata_parser \<Rightarrow> service_instance list \<Rightarrow> string \<Rightarrow> dataset_summary list" where
  "summarizeDatasets ulow parse instances search =
    sort_by summary_le (map snd (count_instances ulow parse (ToLower ulow (TrimSpace search)) instances []))"

definition normalizeCatalogPage :: "int \<Rightarrow> int \<Rightarrow> int \<times> int" where
  "normalizeCatalogPage page pageSize =
    ((if page < 1 then 1 else page),
     (if pageSize < 1 then 20 else if 100 < pageSize then 100 else pageSize))"

text \<open>\<open>ListDatasets\<close>.  The start of the slice is computed in 32 bits; a negative start is a run-time
  panic.\<close>

definition slice_panic :: goerror where
  "slice_panic = Panic ''runtime error: slice bounds out of range''"

definition ListDatasets ::
  "'c provider_env \<Rightarrow> string \<Rightarrow> int \<Rightarrow> int \<Rightarrow> (dataset_summary list \<times> int) result" where
  "ListDatasets P search page0 pageSize0 =
    (case pe_discovery P of
       None \<Rightarrow> Inr ([], 0)
     | Some (Inl e) \<Rightarrow> Inl e
     | Some (Inr instances) \<Rightarrow>
        (let vs = summarizeDatasets (pe_ToLower P) (pe_ParseMetadata P) instances search;
             page = fst (normalizeCatalogPage page0 pageSize0);
             pageSize = snd (normalizeCatalogPage page0 pageSize0);
             start = i32 (i32 (page - 1) * pageSize)
         in if int (length vs) \<le> start then Inr ([], int (length vs))
            else if start < 0 then Inl slice_panic
            else Inr (drop (nat start) (take (nat (min (start + pageSize) (int (length vs)))) vs), int (length vs))))"

end
