(* ===== verification/Export_Formatter.thy ===== *)
theory Export_Formatter
  imports Object_Storage Export_Provider
begin

text \<open>
  \<open>internal/export/formatter.go\<close> and the writer it writes to (\<open>limitWriter\<close> of \<open>pipeline.go\<close> over a pipe
  and a hash).

  The writers of \<open>encoding/csv\<close> (with its buffer of 4096 bytes) and \<open>encoding/json\<close> are modelled
  byte by byte; how numbers, times and byte slices print is the record \<open>gofmt\<close> of tables.  The
  spreadsheet library is a parameter: what it answers to each call, given the rows set so far, and
  the chunks it writes in the end.
\<close>

section \<open>The destination\<close>

text \<open>
  The pipe's reader is the upload: \<open>take_chunk sent chunk\<close> says whether it fails while taking a chunk
  (after how many bytes, and with what).  \<open>sk_sent\<close> are the bytes it took, \<open>sk_hashed\<close> those that
  reached the hash, \<open>sk_closed\<close> the error it closed the pipe with.
\<close>

record sink =
  sk_max :: int
  sk_written :: int
  sk_sent :: string
  sk_hashed :: string
  sk_closed :: "goerror option"

type_synonym upload = "string \<Rightarrow> string \<Rightarrow> (nat \<times> goerror) option"

definition pipe_Write :: "upload \<Rightarrow> string \<Rightarrow> sink \<Rightarrow> (nat \<times> goerror option) \<times> sink" where
  "pipe_Write up chunk k =
    (case sk_closed k of
       Some e \<Rightarrow> ((0, Some e), k)
     | None \<Rightarrow>
        (case up (sk_sent k) chunk of
           None \<Rightarrow> ((length chunk, None), k\<lparr>sk_sent := sk_sent k @ chunk\<rparr>)
         | Some (n, e) \<Rightarrow>
             ((min n (length chunk), Some e),
              k\<lparr>sk_sent := sk_sent k @ take n chunk, sk_closed := Some e\<rparr>)))"

text \<open>\<open>io.MultiWriter(writer, hash)\<close>: the hash sees a chunk only when the pipe took all of it.\<close>

definition multi_Write :: "upload \<Rightarrow> string \<Rightarrow> sink \<Rightarrow> (nat \<times> goerror option) \<times> sink" where
  "multi_Write up chunk k =
    (case pipe_Write up chunk k of
       ((n, Some e), k1) \<Rightarrow> ((n, Some e), k1)
     | ((n, None), k1) \<Rightarrow> ((n, None), k1\<lparr>sk_hashed := sk_hashed k1 @ chunk\<rparr>))"

definition limit_Write :: "upload \<Rightarrow> string \<Rightarrow> sink \<Rightarrow> (nat \<times> goerror option) \<times> sink" where
  "limit_Write up chunk k =
    (if sk_max k - sk_written k < int (length chunk) then ((0, Some ErrByteLimitExceeded), k)
     else case multi_Write up chunk k of
       ((n, r), k1) \<Rightarrow> ((n, r), k1\<lparr>sk_written := sk_written k1 + int n\<rparr>))"

section \<open>Values\<close>

record gofmt =
  gf_float64 :: "float64 \<Rightarrow> string"
  gf_float32 :: "float64 \<Rightarrow> string"
  gf_json_float64 :: "float64 \<Rightarrow> string"
  gf_json_float32 :: "float64 \<Rightarrow> string"
  gf_time :: "time \<Rightarrow> string"
  gf_base64 :: "string \<Rightarrow> string"

text \<open>
  A string in JSON as the encoder writes it: quotes, backslashes and control bytes escaped, the
  bytes that are special in HTML too; bytes that are no UTF-8 become the replacement rune, and the
  two line separators of JavaScript are escaped.
\<close>

definition hex_lower :: "nat \<Rightarrow> char" where
  "hex_lower n = char_of (if n < 10 then 48 + n else 87 + n)"

definition json_rune :: "rune \<Rightarrow> string" where
  "json_rune r =
    (if r < 128 then
       (if r = 34 \<or> r = 92 then [CHR 0x5C, char_of r]
        else if r = 8 then [CHR 0x5C, CHR ''b''] else if r = 12 then [CHR 0x5C, CHR ''f'']
        else if r = 10 then [CHR 0x5C, CHR ''n''] else if r = 13 then [CHR 0x5C, CHR ''r'']
        else if r = 9 then [CHR 0x5C, CHR ''t'']
        else if r < 32 \<or> r = 60 \<or> r = 62 \<or> r = 38
          then [CHR 0x5C, CHR ''u'', CHR ''0'', CHR ''0'', hex_lower (r div 16), hex_lower (r mod 16)]
        else [char_of r])
     else if r = 8232 then CHR 0x5C # ''u2028'' else if r = 8233 then CHR 0x5C # ''u2029''
     else EncodeRune r)"

text \<open>An invalid byte is written as the escape of \<open>U+FFFD\<close>, a valid encoding of that rune as itself.\<close>

function json_runes :: "string \<Rightarrow> string" where
  "json_runes [] = []"
| "json_runes (c # cs) =
    (case DecodeRune (c # cs) of (r, n) \<Rightarrow>
       (if r = RuneError \<and> n = 1 then CHR 0x5C # ''ufffd'' else json_rune r) @ json_runes (drop (n - 1) cs))"
  by pat_completeness auto
termination by (relation "measure length") auto

definition json_quote :: "string \<Rightarrow> string" where
  "json_quote s = [CHR 0x22] @ json_runes s @ [CHR 0x22]"

definition comma_separated :: "string list \<Rightarrow> string" where
  "comma_separated xs = (case xs of [] \<Rightarrow> [] | y # ys \<Rightarrow> y @ concat (map (\<lambda>z. CHR '','' # z) ys))"

fun json_encode :: "json \<Rightarrow> string" where
  "json_encode JNull = ''null''"
| "json_encode (JBool b) = (if b then ''true'' else ''false'')"
| "json_encode (JNum s) = s"
| "json_encode (JStr s) = json_quote s"
| "json_encode (JArr vs) = ''['' @ comma_separated (map json_encode vs) @ '']''"
| "json_encode (JObj ms) = ''{'' @ comma_separated (map (\<lambda>m. json_quote (fst m) @ '':'' @ json_encode (snd m)) ms) @ ''}''"

text \<open>\<open>json.Marshal\<close> of a value; a nested map or slice is given by its tree, keys sorted.\<close>

fun json_Marshal :: "gofmt \<Rightarrow> gvalue \<Rightarrow> string" where
  "json_Marshal G GNil = ''null''"
| "json_Marshal G (GString s) = json_quote s"
| "json_Marshal G (GBytes s) = [CHR 0x22] @ gf_base64 G s @ [CHR 0x22]"
| "json_Marshal G (GTime t) = [CHR 0x22] @ gf_time G t @ [CHR 0x22]"
| "json_Marshal G (GBool b) = (if b then ''true'' else ''false'')"
| "json_Marshal G (GJsonNumber s) = (if s = [] then ''0'' else s)"
| "json_Marshal G (GFloat64 f) = gf_json_float64 G f"
| "json_Marshal G (GFloat32 f) = gf_json_float32 G f"
| "json_Marshal G (GInt i) = FormatInt i"
| "json_Marshal G (GInt8 i) = FormatInt i"
| "json_Marshal G (GInt16 i) = FormatInt i"
| "json_Marshal G (GInt32 i) = FormatInt i"
| "json_Marshal G (GInt64 i) = FormatInt i"
| "json_Marshal G (GUint i) = FormatInt i"
| "json_Marshal G (GUint8 i) = FormatInt i"
| "json_Marshal G (GUint16 i) = FormatInt i"
| "json_Marshal G (GUint32 i) = FormatInt i"
| "json_Marshal G (GUint64 i) = FormatInt i"
| "json_Marshal G (GOther j) = json_encode j"

fun scalarString :: "gofmt \<Rightarrow> gvalue \<Rightarrow> string" where
  "scalarString G GNil = []"
| "scalarString G (GString s) = s"
| "scalarString G (GBytes s) = s"
| "scalarString G (GTime t) = gf_time G t"
| "scalarString G (GBool b) = (if b then ''true'' else ''false'')"
| "scalarString G (GJsonNumber s) = s"
| "scalarString G (GFloat64 f) = gf_float64 G f"
| "scalarString G (GFloat32 f) = gf_float32 G f"
| "scalarString G (GInt i) = FormatInt i"
| "scalarString G (GInt32 i) = FormatInt i"
| "scalarString G (GInt64 i) = FormatInt i"
| "scalarString G (GUint i) = FormatInt i"
| "scalarString G (GUint32 i) = FormatInt i"
| "scalarString G (GUint64 i) = FormatInt i"
| "scalarString G v = json_Marshal G v"

definition spreadsheetValue :: "gofmt \<Rightarrow> gvalue \<Rightarrow> gvalue" where
  "spreadsheetValue G v =
    (case v of
       GBytes _ \<Rightarrow> GString (scalarString G v)
     | GJsonNumber _ \<Rightarrow> GString (scalarString G v)
     | GUint64 _ \<Rightarrow> GString (scalarString G v)
     | GOther _ \<Rightarrow> GString (scalarString G v)
     | _ \<Rightarrow> v)"

text \<open>\<open>row[column.Key]\<close> of a Go map: nil when the key is missing.\<close>

definition cell :: "row \<Rightarrow> column \<Rightarrow> gvalue" where
  "cell r c = (case map_of r (col_Key c) of Some v \<Rightarrow> v | None \<Rightarrow> GNil)"

section \<open>CSV\<close>

definition fieldNeedsQuotes :: "string \<Rightarrow> bool" where
  "fieldNeedsQuotes s =
    (if s = [] then False
     else if s = [CHR 0x5C, CHR ''.''] then True
     else list_ex (\<lambda>c. c = CHR 0x0A \<or> c = CHR 0x0D \<or> c = CHR 0x22 \<or> c = CHR '','') s
       \<or> IsSpace (fst (DecodeRune s)))"

definition csv_field :: "string \<Rightarrow> string" where
  "csv_field s =
    (if fieldNeedsQuotes s
     then [CHR 0x22] @ concat (map (\<lambda>c. if c = CHR 0x22 then [c, c] else [c]) s) @ [CHR 0x22]
     else s)"

definition csv_line :: "string list \<Rightarrow> string" where
  "csv_line record = comma_separated (map csv_field record) @ [CHR 0x0A]"

text \<open>The buffer in front of the destination: full pieces of 4096 bytes go out when more arrives; the
  first error sticks.\<close>

definition buffer_size :: nat where "buffer_size = 4096"

function buffer_write :: "upload \<Rightarrow> string \<Rightarrow> string \<Rightarrow> sink \<Rightarrow> (goerror option \<times> string) \<times> sink" where
  "buffer_write up pending s k =
    (if length (pending @ s) \<le> buffer_size then ((None, pending @ s), k)
     else case limit_Write up (take buffer_size (pending @ s)) k of
       ((_, Some e), k1) \<Rightarrow> ((Some e, []), k1)
     | ((n, None), k1) \<Rightarrow> buffer_write up [] (drop buffer_size (pending @ s)) k1)"
  by pat_completeness auto
termination
  by (relation "measure (\<lambda>(_, pending, s, _). length pending + length s)") (auto simp: buffer_size_def)

declare buffer_write.simps [simp del]

section \<open>The formatters\<close>

record excelize =
  xl_NewStreamWriter :: "goerror option"
  xl_CellName :: "int \<Rightarrow> string result"
  xl_SetRow :: "(string \<times> gvalue list) list \<Rightarrow> string \<Rightarrow> gvalue list \<Rightarrow> goerror option"
  xl_Flush :: "(string \<times> gvalue list) list \<Rightarrow> goerror option"
  xl_Write :: "(string \<times> gvalue list) list \<Rightarrow> string list \<times> goerror option"
  xl_Close :: "goerror option"

datatype formatter =
    CsvFormatter string "goerror option"
  | JsonlFormatter "goerror option"
  | XlsxFormatter "(string \<times> gvalue list) list" int bool

record fmt_env =
  fe_gofmt :: gofmt
  fe_excelize :: excelize
  fe_upload :: upload

definition NewFormatter :: "excelize \<Rightarrow> string \<Rightarrow> (formatter \<times> string) result" where
  "NewFormatter X format =
    (if format = FormatCSV then Inr (CsvFormatter [] None, ''text/csv; charset=utf-8'')
     else if format = FormatJSONL then Inr (JsonlFormatter None, ''application/x-ndjson'')
     else if format = FormatXLSX then
       (case xl_NewStreamWriter X of
          Some e \<Rightarrow> Inl (Wrap ''create xlsx stream: '' e [])
        | None \<Rightarrow> Inr (XlsxFormatter [] 1 False, ''application/vnd.openxmlformats-officedocument.spreadsheetml.sheet''))
     else Inl (Wrap [] ErrUnsupportedFormat ('': '' @ format)))"

type_synonym 'a fmt_op = "formatter \<times> sink \<Rightarrow> 'a \<times> formatter \<times> sink"

text \<open>One record of the CSV writer.\<close>

definition csv_Write :: "fmt_env \<Rightarrow> string list \<Rightarrow> string \<Rightarrow> goerror option \<Rightarrow> sink \<Rightarrow> goerror option \<times> formatter \<times> sink" where
  "csv_Write F record pending err k =
    (case err of
       Some e \<Rightarrow> (Some e, CsvFormatter pending err, k)
     | None \<Rightarrow>
        (case buffer_write (fe_upload F) pending (csv_line record) k of
           ((r, pending1), k1) \<Rightarrow> (r, CsvFormatter pending1 r, k1)))"

fun csv_WriteRows :: "fmt_env \<Rightarrow> column list \<Rightarrow> row list \<Rightarrow> string \<Rightarrow> goerror option \<Rightarrow> sink \<Rightarrow> goerror option \<times> formatter \<times> sink" where
  "csv_WriteRows F columns [] pending err k = (None, CsvFormatter pending err, k)"
| "csv_WriteRows F columns (r # rs) pending err k =
    (case csv_Write F (map (\<lambda>c. scalarString (fe_gofmt F) (cell r c)) columns) pending err k of
       (None, CsvFormatter pending1 err1, k1) \<Rightarrow> csv_WriteRows F columns rs pending1 err1 k1
     | other \<Rightarrow> other)"

text \<open>One row of JSON lines: the selected columns, keys sorted, a newline, one write.\<close>

definition selected_row :: "column list \<Rightarrow> row \<Rightarrow> (string \<times> gvalue) list" where
  "selected_row columns r = map (\<lambda>k. (k, case map_of r k of Some v \<Rightarrow> v | None \<Rightarrow> GNil))
     (sort_by str_le (remdups (map col_Key columns)))"

definition jsonl_line :: "gofmt \<Rightarrow> column list \<Rightarrow> row \<Rightarrow> string" where
  "jsonl_line G columns r =
    ''{'' @ comma_separated (map (\<lambda>m. json_quote (fst m) @ '':'' @ json_Marshal G (snd m)) (selected_row columns r))
      @ ''}'' @ [CHR 0x0A]"

fun jsonl_WriteRows :: "fmt_env \<Rightarrow> column list \<Rightarrow> row list \<Rightarrow> goerror option \<Rightarrow> sink \<Rightarrow> goerror option \<times> formatter \<times> sink" where
  "jsonl_WriteRows F columns [] err k = (None, JsonlFormatter err, k)"
| "jsonl_WriteRows F columns (r # rs) err k =
    (case err of
       Some e \<Rightarrow> (Some e, JsonlFormatter err, k)
     | None \<Rightarrow>
        (case limit_Write (fe_upload F) (jsonl_line (fe_gofmt F) columns r) k of
           ((_, Some e), k1) \<Rightarrow> (Some e, JsonlFormatter (Some e), k1)
         | ((_, None), k1) \<Rightarrow> jsonl_WriteRows F columns rs None k1))"

definition xlsx_write :: "fmt_env \<Rightarrow> gvalue list \<Rightarrow> (string \<times> gvalue list) list \<Rightarrow> int \<Rightarrow> goerror option \<times> (string \<times> gvalue list) list \<times> int" where
  "xlsx_write F vs history row =
    (case xl_CellName (fe_excelize F) row of
       Inl e \<Rightarrow> (Some e, history, row)
     | Inr name \<Rightarrow>
        (case xl_SetRow (fe_excelize F) history name vs of
           Some e \<Rightarrow> (Some e, history, row)
         | None \<Rightarrow> (None, history @ [(name, vs)], row + 1)))"

fun xlsx_WriteRows :: "fmt_env \<Rightarrow> column list \<Rightarrow> row list \<Rightarrow> (string \<times> gvalue list) list \<Rightarrow> int
    \<Rightarrow> goerror option \<times> (string \<times> gvalue list) list \<times> int" where
  "xlsx_WriteRows F columns [] history n = (None, history, n)"
| "xlsx_WriteRows F columns (r # rs) history n =
    (case xlsx_write F (map (\<lambda>c. spreadsheetValue (fe_gofmt F) (cell r c)) columns) history n of
       (Some e, h, m) \<Rightarrow> (Some e, h, m)
     | (None, h, m) \<Rightarrow> xlsx_WriteRows F columns rs h m)"

definition fmt_WriteHeader :: "fmt_env \<Rightarrow> column list \<Rightarrow> goerror option fmt_op" where
  "fmt_WriteHeader F columns fk =
    (case fk of
       (CsvFormatter pending err, k) \<Rightarrow> csv_Write F (map col_Title columns) pending err k
     | (JsonlFormatter err, k) \<Rightarrow> (None, JsonlFormatter err, k)
     | (XlsxFormatter history n closed, k) \<Rightarrow>
        (case xlsx_write F (map (\<lambda>c. GString (col_Title c)) columns) history n of
           (r, h, m) \<Rightarrow> (r, XlsxFormatter h m closed, k)))"

definition fmt_WriteRows :: "fmt_env \<Rightarrow> column list \<Rightarrow> row list \<Rightarrow> goerror option fmt_op" where
  "fmt_WriteRows F columns rows fk =
    (case fk of
       (CsvFormatter pending err, k) \<Rightarrow> csv_WriteRows F columns rows pending err k
     | (JsonlFormatter err, k) \<Rightarrow> jsonl_WriteRows F columns rows err k
     | (XlsxFormatter history n closed, k) \<Rightarrow>
        (case xlsx_WriteRows F columns rows history n of (r, h, m) \<Rightarrow> (r, XlsxFormatter h m closed, k)))"

fun write_chunks :: "upload \<Rightarrow> string list \<Rightarrow> sink \<Rightarrow> goerror option \<times> sink" where
  "write_chunks up [] k = (None, k)"
| "write_chunks up (c # cs) k =
    (case limit_Write up c k of
       ((_, Some e), k1) \<Rightarrow> (Some e, k1)
     | ((_, None), k1) \<Rightarrow> write_chunks up cs k1)"

text \<open>\<open>Close\<close>: the buffer is flushed (an empty one writes nothing); the spreadsheet is flushed, written and
  closed, once.\<close>

definition fmt_Close :: "fmt_env \<Rightarrow> goerror option fmt_op" where
  "fmt_Close F fk =
    (case fk of
       (CsvFormatter pending err, k) \<Rightarrow>
        (case err of
           Some e \<Rightarrow> (Some e, CsvFormatter pending err, k)
         | None \<Rightarrow>
            if pending = [] then (None, CsvFormatter [] None, k)
            else case limit_Write (fe_upload F) pending k of
              ((_, r), k1) \<Rightarrow> (r, CsvFormatter [] r, k1))
     | (JsonlFormatter err, k) \<Rightarrow> (None, JsonlFormatter err, k)
     | (XlsxFormatter history n closed, k) \<Rightarrow>
        if closed then (None, XlsxFormatter history n True, k)
        else case xl_Flush (fe_excelize F) history of
          Some e \<Rightarrow> (Some e, XlsxFormatter history n True, k)
        | None \<Rightarrow>
           (case write_chunks (fe_upload F) (fst (xl_Write (fe_excelize F) history)) k of
              (Some e, k1) \<Rightarrow> (Some e, XlsxFormatter history n True, k1)
            | (None, k1) \<Rightarrow>
               (case snd (xl_Write (fe_excelize F) history) of
                  Some e \<Rightarrow> (Some e, XlsxFormatter history n True, k1)
                | None \<Rightarrow> (xl_Close (fe_excelize F), XlsxFormatter history n True, k1))))"

end
