(* ===== verification/Export_Formatter_Laws.thy ===== *)
theory Export_Formatter_Laws
  imports Export_Formatter
begin

text \<open>
  What the formatters promise.

  The destination never takes more than its limit and counts exactly what it took; whatever the
  buffering, the bytes of a closed export are the document of its header and rows; a CSV document
  reads back to exactly its records, and a JSON-lines document has one line per row.

  \<open>chunk_sink\<close> is the contract of a destination, \<open>document_writer\<close> that of a formatter.
\<close>

section \<open>The destination\<close>

text \<open>The count is what was sent; until the upload gives up, the hash saw all of it.\<close>

definition sink_ok :: "sink \<Rightarrow> bool" where
  "sink_ok k \<longleftrightarrow> sk_written k = int (length (sk_sent k)) \<and> sk_written k \<le> sk_max k
    \<and> (sk_closed k = None \<longrightarrow> sk_hashed k = sk_sent k)"

definition grown :: "sink \<Rightarrow> string \<Rightarrow> sink \<Rightarrow> bool" where
  "grown k s k' \<longleftrightarrow> sink_ok k' \<and> sk_max k' = sk_max k \<and> sk_closed k' = None \<and> sk_sent k' = sk_sent k @ s"

lemma limit_Write_ok:
  assumes "limit_Write up s k = ((n, None), k')" and "sink_ok k"
  shows "n = length s \<and> sk_closed k = None \<and> grown k s k'"
  using assms
  by (auto simp: limit_Write_def multi_Write_def pipe_Write_def sink_ok_def grown_def
      split: option.splits prod.splits if_splits)

lemma limit_Write_kept:
  assumes "limit_Write up s k = (r, k')" and "sink_ok k"
  shows "sink_ok k' \<and> sk_max k' = sk_max k \<and> (\<exists>t. sk_sent k' = sk_sent k @ t)"
  using assms
  by (auto simp: limit_Write_def multi_Write_def pipe_Write_def sink_ok_def min_def
      split: option.splits prod.splits if_splits)

text \<open>A destination for whole texts, and what it gives to a client that writes several.\<close>

locale chunk_sink =
  fixes put :: "string \<Rightarrow> sink \<Rightarrow> goerror option \<times> sink"
  assumes taken: "put s k = (None, k') \<Longrightarrow> sink_ok k \<Longrightarrow> sk_closed k = None \<Longrightarrow> grown k s k'"
    and kept: "put s k = (r, k') \<Longrightarrow> sink_ok k \<Longrightarrow> sink_ok k' \<and> sk_max k' = sk_max k"

definition limit_write :: "upload \<Rightarrow> string \<Rightarrow> sink \<Rightarrow> goerror option \<times> sink" where
  "limit_write up s k = (case limit_Write up s k of ((_, r), k') \<Rightarrow> (r, k'))"

interpretation limited: chunk_sink "limit_write up" for up
  by unfold_locales
    (auto simp: limit_write_def split: prod.splits dest: limit_Write_ok limit_Write_kept)

lemma grown_refl: "sink_ok k \<Longrightarrow> sk_closed k = None \<Longrightarrow> grown k [] k"
  by (simp add: grown_def)

lemma grown_trans: "grown k s k1 \<Longrightarrow> grown k1 t k2 \<Longrightarrow> grown k (s @ t) k2"
  by (simp add: grown_def)

lemma write_chunks_Cons:
  "write_chunks up (c # cs) k =
    (case limit_write up c k of (Some e, k1) \<Rightarrow> (Some e, k1) | (None, k1) \<Rightarrow> write_chunks up cs k1)"
  by (auto simp: limit_write_def split: prod.splits option.splits)

lemma write_chunks_ok:
  "write_chunks up cs k = (None, k') \<Longrightarrow> sink_ok k \<Longrightarrow> sk_closed k = None \<Longrightarrow> grown k (concat cs) k'"
proof (induction cs arbitrary: k)
  case (Cons c cs)
  then obtain k1 where k1: "limit_write up c k = (None, k1)" "write_chunks up cs k1 = (None, k')"
    unfolding write_chunks_Cons by (auto split: prod.splits option.splits)
  then have "grown k c k1" using limited.taken Cons.prems(2,3) by blast
  then show ?case using Cons.IH [OF k1(2)] grown_trans [of k c k1] by (auto simp: grown_def)
qed (simp add: grown_refl)

lemma write_chunks_kept:
  "write_chunks up cs k = (r, k') \<Longrightarrow> sink_ok k \<Longrightarrow> sink_ok k' \<and> sk_max k' = sk_max k"
proof (induction cs arbitrary: k)
  case (Cons c cs)
  obtain r1 k1 where k1: "limit_write up c k = (r1, k1)" by fastforce
  then have "sink_ok k1 \<and> sk_max k1 = sk_max k" using limited.kept Cons.prems(2) by blast
  then show ?case using Cons.IH [of k1] Cons.prems(1) k1 unfolding write_chunks_Cons by (cases r1) auto
qed simp

lemma buffer_write_ok:
  "buffer_write up pending s k = ((None, pending'), k') \<Longrightarrow> sink_ok k \<Longrightarrow> sk_closed k = None \<Longrightarrow>
    \<exists>t. grown k t k' \<and> t @ pending' = pending @ s"
proof (induction up pending s k rule: buffer_write.induct)
  case (1 up pending s k)
  show ?case
  proof (cases "length (pending @ s) \<le> buffer_size")
    case True
    then show ?thesis using 1 by (auto simp: buffer_write.simps [of up pending] intro!: exI [of _ "[]"] grown_refl)
  next
    case False
    obtain n r k1 where W: "limit_Write up (take buffer_size (pending @ s)) k = ((n, r), k1)" by (metis prod.exhaust)
    with False 1 have r: "r = None"
      and B: "buffer_write up [] (drop buffer_size (pending @ s)) k1 = ((None, pending'), k')"
      by (auto simp: buffer_write.simps [of up pending] split: option.splits)
    have g: "grown k (take buffer_size (pending @ s)) k1" using limit_Write_ok W r 1 by blast
    then obtain t where t: "grown k1 t k'" "t @ pending' = drop buffer_size (pending @ s)"
      using 1(1) [OF False W [symmetric] refl r B] by (auto simp: grown_def)
    show ?thesis using grown_trans [OF g t(1)] t(2) by (metis append.assoc append_take_drop_id)
  qed
qed

lemma buffer_write_kept:
  "buffer_write up pending s k = (r, k') \<Longrightarrow> sink_ok k \<Longrightarrow> sink_ok k' \<and> sk_max k' = sk_max k"
proof (induction up pending s k rule: buffer_write.induct)
  case (1 up pending s k)
  show ?case
  proof (cases "length (pending @ s) \<le> buffer_size")
    case True
    then show ?thesis using 1 by (auto simp: buffer_write.simps [of up pending])
  next
    case False
    obtain n e k1 where W: "limit_Write up (take buffer_size (pending @ s)) k = ((n, e), k1)" by (metis prod.exhaust)
    have k1: "sink_ok k1 \<and> sk_max k1 = sk_max k" using limit_Write_kept W 1 by blast
    show ?thesis
    proof (cases e)
      case None
      then show ?thesis
        using 1(1) [OF False W [symmetric] refl None] 1(2) k1 False W by (simp add: buffer_write.simps [of up pending])
    next
      case (Some x)
      then show ?thesis using 1(2) k1 False W by (auto simp: buffer_write.simps [of up pending])
    qed
  qed
qed

section \<open>Documents\<close>

definition csv_cells :: "gofmt \<Rightarrow> column list \<Rightarrow> row \<Rightarrow> string list" where
  "csv_cells G columns r = map (\<lambda>c. scalarString G (cell r c)) columns"

definition csv_records :: "gofmt \<Rightarrow> column list \<Rightarrow> bool \<Rightarrow> row list \<Rightarrow> string list list" where
  "csv_records G columns header rs = (if header then [map col_Title columns] else []) @ map (csv_cells G columns) rs"

definition csv_text :: "string list list \<Rightarrow> string" where
  "csv_text records = concat (map csv_line records)"

definition jsonl_text :: "gofmt \<Rightarrow> column list \<Rightarrow> row list \<Rightarrow> string" where
  "jsonl_text G columns rs = concat (map (jsonl_line G columns) rs)"

definition sheet_rows :: "gofmt \<Rightarrow> column list \<Rightarrow> bool \<Rightarrow> row list \<Rightarrow> gvalue list list" where
  "sheet_rows G columns header rs = (if header then [map (\<lambda>c. GString (col_Title c)) columns] else [])
    @ map (\<lambda>r. map (\<lambda>c. spreadsheetValue G (cell r c)) columns) rs"

text \<open>A sheet holds its rows in order, each under the name of its cell in the first column.\<close>

definition sheet :: "excelize \<Rightarrow> gvalue list list \<Rightarrow> (string \<times> gvalue list) list \<Rightarrow> bool" where
  "sheet X vss history \<longleftrightarrow> map snd history = vss
    \<and> (\<forall>i<length history. xl_CellName X (int i + 1) = Inr (fst (history ! i)))"

definition live :: "sink \<Rightarrow> bool" where
  "live k \<longleftrightarrow> sink_ok k \<and> sk_closed k = None"

text \<open>What a formatter that has taken the header and some rows looks like, and the document they make.\<close>

fun taken :: "fmt_env \<Rightarrow> column list \<Rightarrow> bool \<Rightarrow> row list \<Rightarrow> formatter \<times> sink \<Rightarrow> bool" where
  "taken F columns header rs (CsvFormatter pending err, k) \<longleftrightarrow> err = None \<and> live k
    \<and> sk_sent k @ pending = csv_text (csv_records (fe_gofmt F) columns header rs)"
| "taken F columns header rs (JsonlFormatter err, k) \<longleftrightarrow> err = None \<and> live k
    \<and> sk_sent k = jsonl_text (fe_gofmt F) columns rs"
| "taken F columns header rs (XlsxFormatter history n closed, k) \<longleftrightarrow> \<not> closed \<and> live k \<and> sk_sent k = []
    \<and> n = int (length history) + 1 \<and> sheet (fe_excelize F) (sheet_rows (fe_gofmt F) columns header rs) history"

fun document :: "fmt_env \<Rightarrow> column list \<Rightarrow> row list \<Rightarrow> formatter \<times> sink \<Rightarrow> bool" where
  "document F columns rs (CsvFormatter _ _, k) \<longleftrightarrow> live k
    \<and> sk_sent k = csv_text (csv_records (fe_gofmt F) columns True rs)"
| "document F columns rs (JsonlFormatter _, k) \<longleftrightarrow> live k \<and> sk_sent k = jsonl_text (fe_gofmt F) columns rs"
| "document F columns rs (XlsxFormatter history _ _, k) \<longleftrightarrow> live k
    \<and> sheet (fe_excelize F) (sheet_rows (fe_gofmt F) columns True rs) history
    \<and> sk_sent k = concat (fst (xl_Write (fe_excelize F) history))"

lemma csv_text_append [simp]: "csv_text (xs @ ys) = csv_text xs @ csv_text ys" and csv_text_simps [simp]:
  "csv_text [] = []" "csv_text (x # xs) = csv_line x @ csv_text xs"
  by (simp_all add: csv_text_def)

lemma live_grown: "grown k s k' \<Longrightarrow> live k' \<and> sk_sent k' = sk_sent k @ s"
  by (simp add: grown_def live_def)

lemma csv_Write_taken:
  assumes "csv_Write F record pending None k = (None, f', k')" and "live k"
  shows "\<exists>pending'. f' = CsvFormatter pending' None \<and> live k' \<and> sk_sent k' @ pending' = sk_sent k @ pending @ csv_line record"
proof -
  obtain pending' where "buffer_write (fe_upload F) pending (csv_line record) k = ((None, pending'), k')"
    and f': "f' = CsvFormatter pending' None"
    using assms(1) by (auto simp: csv_Write_def split: prod.splits)
  then obtain t where t: "grown k t k'" "t @ pending' = pending @ csv_line record"
    using buffer_write_ok assms(2) by (meson live_def)
  have "live k'" "sk_sent k' = sk_sent k @ t" using live_grown [OF t(1)] by simp_all
  with t(2) f' show ?thesis by simp
qed

lemma csv_WriteRows_taken:
  assumes "csv_WriteRows F columns rs pending None k = (None, f', k')" and "live k"
  shows "\<exists>pending'. f' = CsvFormatter pending' None \<and> live k'
    \<and> sk_sent k' @ pending' = sk_sent k @ pending @ csv_text (map (csv_cells (fe_gofmt F) columns) rs)"
  using assms
proof (induction rs arbitrary: pending k)
  case (Cons r rs)
  obtain e f1 k1 where W: "csv_Write F (csv_cells (fe_gofmt F) columns r) pending None k = (e, f1, k1)" by (metis prod.exhaust)
  then have e: "e = None" using Cons.prems(1)
    by (auto simp: csv_cells_def split: option.splits formatter.splits)
  then obtain p1 where f1: "f1 = CsvFormatter p1 None" "live k1"
    "sk_sent k1 @ p1 = sk_sent k @ pending @ csv_line (csv_cells (fe_gofmt F) columns r)"
    using csv_Write_taken W Cons.prems(2) by blast
  then have "csv_WriteRows F columns rs p1 None k1 = (None, f', k')"
    using Cons.prems(1) W e by (simp add: csv_cells_def)
  then obtain p' where p': "f' = CsvFormatter p' None" "live k'"
    "sk_sent k' @ p' = sk_sent k1 @ p1 @ csv_text (map (csv_cells (fe_gofmt F) columns) rs)"
    using Cons.IH f1(2) by blast
  moreover have "sk_sent k1 @ p1 @ x = sk_sent k @ pending @ csv_line (csv_cells (fe_gofmt F) columns r) @ x" for x
    using f1(3) by (metis append.assoc)
  ultimately show ?case by simp
qed simp

lemma jsonl_WriteRows_taken:
  assumes "jsonl_WriteRows F columns rs None k = (None, f', k')" and "live k"
  shows "f' = JsonlFormatter None \<and> live k' \<and> sk_sent k' = sk_sent k @ jsonl_text (fe_gofmt F) columns rs"
  using assms
proof (induction rs arbitrary: k)
  case (Cons r rs)
  obtain n e k1 where W: "limit_Write (fe_upload F) (jsonl_line (fe_gofmt F) columns r) k = ((n, e), k1)"
    by (metis prod.exhaust)
  with Cons.prems(1) have e: "e = None" by (auto split: option.splits)
  then have "live k1 \<and> sk_sent k1 = sk_sent k @ jsonl_line (fe_gofmt F) columns r"
    using W limit_Write_ok live_grown Cons.prems(2) by (metis live_def)
  then show ?case using Cons W e by (simp add: jsonl_text_def)
qed (simp add: jsonl_text_def)

lemma sheet_snoc:
  assumes "sheet X vss history" and "xl_CellName X (int (length history) + 1) = Inr name"
  shows "sheet X (vss @ [vs]) (history @ [(name, vs)])"
  using assms by (auto simp: sheet_def nth_append less_Suc_eq)

lemma xlsx_write_taken:
  assumes "xlsx_write F vs history n = (None, h, m)" and "sheet (fe_excelize F) vss history" and "n = int (length history) + 1"
  shows "sheet (fe_excelize F) (vss @ [vs]) h \<and> m = int (length h) + 1"
  using assms sheet_snoc [OF assms(2)]
  by (auto simp: xlsx_write_def split: sum.splits option.splits)

lemma xlsx_WriteRows_taken:
  assumes "xlsx_WriteRows F columns rs history n = (None, h, m)" and "sheet (fe_excelize F) vss history"
    and "n = int (length history) + 1"
  shows "sheet (fe_excelize F) (vss @ map (\<lambda>r. map (\<lambda>c. spreadsheetValue (fe_gofmt F) (cell r c)) columns) rs) h
    \<and> m = int (length h) + 1"
  using assms
proof (induction rs arbitrary: history n vss)
  case (Cons r rs)
  let ?vs = "map (\<lambda>c. spreadsheetValue (fe_gofmt F) (cell r c)) columns"
  obtain h1 m1 where W: "xlsx_write F ?vs history n = (None, h1, m1)"
    "xlsx_WriteRows F columns rs h1 m1 = (None, h, m)"
    using Cons.prems(1) by (auto split: prod.splits option.splits)
  then show ?case
    using Cons.IH [OF W(2), of "vss @ [?vs]"] xlsx_write_taken [OF W(1) Cons.prems(2,3)] by simp
qed simp

section \<open>The contract of a formatter\<close>

text \<open>
  \<open>good\<close> holds of the destination whatever fails.  In a session of header, rows and close that all
  succeed the destination ends up with the document.
\<close>

fun bodies :: "(row list \<Rightarrow> 's \<Rightarrow> goerror option \<times> 's) \<Rightarrow> row list list \<Rightarrow> 's \<Rightarrow> goerror option \<times> 's" where
  "bodies body [] s = (None, s)"
| "bodies body (rs # rss) s = (case body rs s of (Some e, s1) \<Rightarrow> (Some e, s1) | (None, s1) \<Rightarrow> bodies body rss s1)"

locale document_writer =
  fixes header :: "column list \<Rightarrow> 's \<Rightarrow> goerror option \<times> 's"
    and body :: "column list \<Rightarrow> row list \<Rightarrow> 's \<Rightarrow> goerror option \<times> 's"
    and finish :: "'s \<Rightarrow> goerror option \<times> 's"
    and holds :: "column list \<Rightarrow> bool \<Rightarrow> row list \<Rightarrow> 's \<Rightarrow> bool"
    and complete :: "column list \<Rightarrow> row list \<Rightarrow> 's \<Rightarrow> bool"
    and good :: "'s \<Rightarrow> bool"
  assumes header_holds: "header cs s = (None, s') \<Longrightarrow> holds cs False [] s \<Longrightarrow> holds cs True [] s'"
    and body_holds: "body cs rs s = (None, s') \<Longrightarrow> holds cs True xs s \<Longrightarrow> holds cs True (xs @ rs) s'"
    and finish_complete: "finish s = (None, s') \<Longrightarrow> holds cs True xs s \<Longrightarrow> complete cs xs s'"
    and header_good: "header cs s = (r, s') \<Longrightarrow> good s \<Longrightarrow> good s'"
    and body_good: "body cs rs s = (r, s') \<Longrightarrow> good s \<Longrightarrow> good s'"
    and finish_good: "finish s = (r, s') \<Longrightarrow> good s \<Longrightarrow> good s'"
begin

lemma bodies_holds:
  "bodies (body cs) rss s = (None, s') \<Longrightarrow> holds cs True xs s \<Longrightarrow> holds cs True (xs @ concat rss) s'"
proof (induction rss arbitrary: s xs)
  case (Cons rs rss)
  then obtain s1 where "body cs rs s = (None, s1)" "bodies (body cs) rss s1 = (None, s')"
    by (auto split: prod.splits option.splits)
  then show ?case using Cons.IH body_holds Cons.prems(2) by fastforce
qed simp

lemma bodies_good: "bodies (body cs) rss s = (r, s') \<Longrightarrow> good s \<Longrightarrow> good s'"
  by (induction rss arbitrary: s) (auto split: prod.splits option.splits dest: body_good)

lemma session:
  assumes "holds cs False [] s" and "header cs s = (None, s1)" and "bodies (body cs) rss s1 = (None, s2)"
    and "finish s2 = (None, s3)"
  shows "complete cs (concat rss) s3"
  using finish_complete [OF assms(4)] bodies_holds [OF assms(3) header_holds [OF assms(2,1)]] by simp

end

lemma fmt_WriteHeader_taken:
  assumes "fmt_WriteHeader F columns fk = (None, fk')" and "taken F columns False [] fk"
  shows "taken F columns True [] fk'"
proof -
  obtain f k where fk: "fk = (f, k)" by fastforce
  show ?thesis
  proof (cases f)
    case (CsvFormatter pending err)
    then show ?thesis
      using assms fk csv_Write_taken [of F "map col_Title columns" pending k "fst fk'" "snd fk'"]
      by (cases fk') (auto simp: fmt_WriteHeader_def csv_records_def)
  next
    case (JsonlFormatter err)
    then show ?thesis using assms fk by (auto simp: fmt_WriteHeader_def)
  next
    case (XlsxFormatter history n closed)
    then show ?thesis
      using assms fk xlsx_write_taken [of F "map (\<lambda>c. GString (col_Title c)) columns" history n _ _ "[]"]
      by (auto simp: fmt_WriteHeader_def sheet_rows_def split: prod.splits)
  qed
qed

lemma fmt_WriteRows_taken:
  assumes "fmt_WriteRows F columns rs fk = (None, fk')" and "taken F columns True xs fk"
  shows "taken F columns True (xs @ rs) fk'"
proof -
  obtain f k where fk: "fk = (f, k)" by fastforce
  show ?thesis
  proof (cases f)
    case (CsvFormatter pending err)
    have live: "live k" and err: "err = None"
      and old: "sk_sent k @ pending = csv_text (csv_records (fe_gofmt F) columns True xs)"
      using assms(2) fk CsvFormatter by simp_all
    obtain f' k' where fk': "fk' = (f', k')" by fastforce
    have W: "csv_WriteRows F columns rs pending None k = (None, f', k')"
      using assms(1) fk fk' CsvFormatter err by (simp add: fmt_WriteRows_def)
    obtain pending' where new: "f' = CsvFormatter pending' None" "live k'"
      "sk_sent k' @ pending' = sk_sent k @ pending @ csv_text (map (csv_cells (fe_gofmt F) columns) rs)"
      using csv_WriteRows_taken [OF W live] by blast
    have "sk_sent k' @ pending' = csv_text (csv_records (fe_gofmt F) columns True xs)
        @ csv_text (map (csv_cells (fe_gofmt F) columns) rs)"
      unfolding new(3) old [symmetric] by simp
    then show ?thesis using new(1,2) fk' by (simp add: csv_records_def)
  next
    case (JsonlFormatter err)
    then show ?thesis
      using assms fk jsonl_WriteRows_taken [of F columns rs k "fst fk'" "snd fk'"]
      by (cases fk') (auto simp: fmt_WriteRows_def jsonl_text_def)
  next
    case (XlsxFormatter history n closed)
    then show ?thesis
      using assms fk xlsx_WriteRows_taken [of F columns rs history n _ _ "sheet_rows (fe_gofmt F) columns True xs"]
      by (auto simp: fmt_WriteRows_def sheet_rows_def split: prod.splits)
  qed
qed

lemma fmt_Close_document:
  assumes "fmt_Close F fk = (None, fk')" and "taken F columns True xs fk"
  shows "document F columns xs fk'"
proof -
  obtain f k where fk: "fk = (f, k)" by fastforce
  show ?thesis
  proof (cases f)
    case (CsvFormatter pending err)
    then show ?thesis
      using assms fk limit_Write_ok [of "fe_upload F" pending k] live_grown [of k pending]
      by (auto simp: fmt_Close_def live_def split: if_splits prod.splits)
  next
    case (JsonlFormatter err)
    then show ?thesis using assms fk by (auto simp: fmt_Close_def)
  next
    case (XlsxFormatter history n closed)
    then show ?thesis
      using assms fk write_chunks_ok [of "fe_upload F" "fst (xl_Write (fe_excelize F) history)" k] live_grown [of k]
      by (auto simp: fmt_Close_def live_def split: option.splits prod.splits)
  qed
qed

text \<open>The destination stays well-formed and within its limit whatever fails, and a formatter keeps its format.\<close>

definition bounded :: "int \<Rightarrow> formatter \<times> sink \<Rightarrow> bool" where
  "bounded m fk \<longleftrightarrow> sink_ok (snd fk) \<and> sk_max (snd fk) = m"

fun format_of :: "formatter \<Rightarrow> string" where
  "format_of (CsvFormatter _ _) = FormatCSV"
| "format_of (JsonlFormatter _) = FormatJSONL"
| "format_of (XlsxFormatter _ _ _) = FormatXLSX"

definition steady :: "int \<Rightarrow> string \<Rightarrow> formatter \<times> sink \<Rightarrow> bool" where
  "steady m format fk \<longleftrightarrow> bounded m fk \<and> format_of (fst fk) = format"

lemma csv_Write_bounded:
  assumes "csv_Write F record pending err k = (r, fk')" and "sink_ok k"
  shows "bounded (sk_max k) fk' \<and> (\<exists>pending' err'. fst fk' = CsvFormatter pending' err')"
proof (cases err)
  case None
  obtain r1 p1 k1 where B: "buffer_write (fe_upload F) pending (csv_line record) k = ((r1, p1), k1)"
    by (metis prod.exhaust)
  have "sink_ok k1 \<and> sk_max k1 = sk_max k" using buffer_write_kept [OF B assms(2)] .
  moreover have "fk' = (CsvFormatter p1 r1, k1)" using assms(1) None B by (auto simp: csv_Write_def)
  ultimately show ?thesis by (simp add: bounded_def)
next
  case (Some e)
  then show ?thesis using assms by (auto simp: csv_Write_def bounded_def)
qed

lemma csv_WriteRows_bounded:
  assumes "csv_WriteRows F columns rs pending err k = (r, fk')" and "sink_ok k"
  shows "steady (sk_max k) FormatCSV fk'"
  using assms
proof (induction rs arbitrary: pending err k)
  case (Cons x rs)
  let ?rec = "map (\<lambda>c. scalarString (fe_gofmt F) (cell x c)) columns"
  obtain e f1 k1 where W: "csv_Write F ?rec pending err k = (e, f1, k1)" by (metis prod.exhaust)
  then obtain p1 e1 where "f1 = CsvFormatter p1 e1" and k1: "sink_ok k1" "sk_max k1 = sk_max k"
    using csv_Write_bounded [OF W Cons.prems(2)] by (auto simp: bounded_def)
  then show ?case using Cons.IH [of p1 e1 k1] Cons.prems(1) W by (cases e) (auto simp: bounded_def steady_def)
qed (auto simp: bounded_def steady_def)

lemma jsonl_WriteRows_bounded:
  assumes "jsonl_WriteRows F columns rs err k = (r, fk')" and "sink_ok k"
  shows "steady (sk_max k) FormatJSONL fk'"
  using assms
proof (induction rs arbitrary: err k)
  case (Cons x rs)
  obtain n e k1 where W: "limit_Write (fe_upload F) (jsonl_line (fe_gofmt F) columns x) k = ((n, e), k1)"
    by (metis prod.exhaust)
  then have "sink_ok k1 \<and> sk_max k1 = sk_max k" using limit_Write_kept Cons.prems(2) by blast
  then show ?case using Cons W by (cases err; cases e) (auto simp: bounded_def steady_def)
qed (auto simp: bounded_def steady_def)

lemma fmt_WriteHeader_steady: "fmt_WriteHeader F columns fk = (r, fk') \<Longrightarrow> steady m format fk \<Longrightarrow> steady m format fk'"
  by (auto simp: fmt_WriteHeader_def steady_def bounded_def split: formatter.splits prod.splits dest: csv_Write_bounded)

lemma fmt_WriteRows_steady: "fmt_WriteRows F columns rs fk = (r, fk') \<Longrightarrow> steady m format fk \<Longrightarrow> steady m format fk'"
  by (auto simp: fmt_WriteRows_def steady_def bounded_def split: formatter.splits prod.splits
      dest: csv_WriteRows_bounded jsonl_WriteRows_bounded)

lemma fmt_Close_steady: "fmt_Close F fk = (r, fk') \<Longrightarrow> steady m format fk \<Longrightarrow> steady m format fk'"
  by (auto simp: fmt_Close_def steady_def bounded_def split: formatter.splits prod.splits option.splits if_splits
      dest: limit_Write_kept write_chunks_kept)

interpretation fmt: document_writer "fmt_WriteHeader F" "fmt_WriteRows F" "fmt_Close F" "taken F" "document F" "steady m format"
  for F m format
  by unfold_locales
    (blast intro: fmt_WriteHeader_taken fmt_WriteRows_taken fmt_Close_document fmt_WriteHeader_steady
      fmt_WriteRows_steady fmt_Close_steady)+

lemma NewFormatter_taken:
  assumes "NewFormatter X format = Inr (f, ct)" and "live k" and "sk_sent k = []"
  shows "taken F columns False [] (f, k)"
  using assms
  by (auto simp: NewFormatter_def csv_records_def jsonl_text_def sheet_rows_def sheet_def split: if_splits option.splits)

lemma NewFormatter_format: "NewFormatter X format = Inr (f, ct) \<Longrightarrow> format_of f = format"
  by (auto simp: NewFormatter_def split: if_splits option.splits)

section \<open>Reading a CSV document back\<close>

text \<open>
  A reader of comma-separated values: a quoted field runs to the closing quote, a doubled quote inside
  it stands for one; any other field runs to the next comma or line feed.
\<close>

datatype csv_mode = FieldStart | Plain | Quoted | QuoteSeen

fun csv_read :: "csv_mode \<Rightarrow> string \<Rightarrow> string list \<Rightarrow> string \<Rightarrow> string list list option" where
  "csv_read mode field rec [] = (if mode = FieldStart \<and> rec = [] then Some [] else None)"
| "csv_read FieldStart field rec (c # cs) =
    (if c = CHR 0x22 then csv_read Quoted [] rec cs
     else if c = CHR '','' then csv_read FieldStart [] (rec @ [[]]) cs
     else if c = CHR 0x0A then map_option (Cons (rec @ [[]])) (csv_read FieldStart [] [] cs)
     else csv_read Plain [c] rec cs)"
| "csv_read Plain field rec (c # cs) =
    (if c = CHR '','' then csv_read FieldStart [] (rec @ [field]) cs
     else if c = CHR 0x0A then map_option (Cons (rec @ [field])) (csv_read FieldStart [] [] cs)
     else if c = CHR 0x22 then None
     else csv_read Plain (field @ [c]) rec cs)"
| "csv_read Quoted field rec (c # cs) =
    (if c = CHR 0x22 then csv_read QuoteSeen field rec cs else csv_read Quoted (field @ [c]) rec cs)"
| "csv_read QuoteSeen field rec (c # cs) =
    (if c = CHR 0x22 then csv_read Quoted (field @ [c]) rec cs
     else if c = CHR '','' then csv_read FieldStart [] (rec @ [field]) cs
     else if c = CHR 0x0A then map_option (Cons (rec @ [field])) (csv_read FieldStart [] [] cs)
     else None)"

abbreviation csv_quoted :: "string \<Rightarrow> string" where
  "csv_quoted s \<equiv> concat (map (\<lambda>c. if c = CHR 0x22 then [c, c] else [c]) s)"

definition plain_char :: "char \<Rightarrow> bool" where
  "plain_char c \<longleftrightarrow> c \<noteq> CHR 0x0A \<and> c \<noteq> CHR 0x0D \<and> c \<noteq> CHR 0x22 \<and> c \<noteq> CHR '',''"

lemma plain_field: "\<not> fieldNeedsQuotes s \<Longrightarrow> list_all plain_char s"
  by (auto simp: fieldNeedsQuotes_def plain_char_def list_all_iff list_ex_iff split: if_splits)

lemma csv_read_quoted:
  "csv_read Quoted field rec (csv_quoted s @ CHR 0x22 # rest) = csv_read QuoteSeen (field @ s) rec rest"
  by (induction s arbitrary: field) auto

lemma csv_read_plain:
  "list_all plain_char s \<Longrightarrow> csv_read Plain field rec (s @ rest) = csv_read Plain (field @ s) rec rest"
  by (induction s arbitrary: field) (auto simp: plain_char_def)

text \<open>After a whole field the reader stands before its separator.\<close>

lemma csv_read_field:
  "csv_read FieldStart [] rec (csv_field s @ CHR '','' # rest) = csv_read FieldStart [] (rec @ [s]) rest"
  "csv_read FieldStart [] rec (csv_field s @ CHR 0x0A # rest) = map_option (Cons (rec @ [s])) (csv_read FieldStart [] [] rest)"
proof -
  have both: "csv_read FieldStart [] rec (csv_field s @ CHR '','' # rest) = csv_read FieldStart [] (rec @ [s]) rest
    \<and> csv_read FieldStart [] rec (csv_field s @ CHR 0x0A # rest) = map_option (Cons (rec @ [s])) (csv_read FieldStart [] [] rest)"
  proof (cases "fieldNeedsQuotes s")
    case True
    then show ?thesis by (simp add: csv_field_def csv_read_quoted)
  next
    case False
    then have p: "list_all plain_char s" by (rule plain_field)
    show ?thesis
    proof (cases s)
      case (Cons c cs)
      then have "csv_read FieldStart [] rec (s @ x) = csv_read Plain s rec x" for x
        using p csv_read_plain [of cs "[c]" rec x] by (simp add: plain_char_def)
      then show ?thesis using False by (simp add: csv_field_def)
    qed (use False in \<open>simp add: csv_field_def\<close>)
  qed
  show "csv_read FieldStart [] rec (csv_field s @ CHR '','' # rest) = csv_read FieldStart [] (rec @ [s]) rest"
    using both by simp
  show "csv_read FieldStart [] rec (csv_field s @ CHR 0x0A # rest) = map_option (Cons (rec @ [s])) (csv_read FieldStart [] [] rest)"
    using both by simp
qed

lemma csv_read_record:
  "csv_read FieldStart [] acc (comma_separated (map csv_field (f # fs)) @ CHR 0x0A # rest)
    = map_option (Cons (acc @ f # fs)) (csv_read FieldStart [] [] rest)"
proof (induction fs arbitrary: f acc)
  case Nil
  then show ?case by (simp add: comma_separated_def csv_read_field)
next
  case (Cons g fs)
  have "comma_separated (map csv_field (f # g # fs)) @ CHR 0x0A # rest
      = csv_field f @ CHR '','' # comma_separated (map csv_field (g # fs)) @ CHR 0x0A # rest"
    by (simp add: comma_separated_def)
  then show ?case using Cons.IH [of "acc @ [f]" g] by (simp add: csv_read_field)
qed

lemma csv_read_text:
  "[] \<notin> set records \<Longrightarrow> csv_read FieldStart [] [] (csv_text records) = Some records"
proof (induction records)
  case (Cons r rs)
  then obtain f fs where "r = f # fs" by (cases r) auto
  then show ?case using Cons csv_read_record [of "[]" f fs "csv_text rs"] by (simp add: csv_line_def)
qed simp

section \<open>Whole exports\<close>

text \<open>A formatter from its construction to \<open>Close\<close>, over a destination that has taken nothing.\<close>

definition fresh_sink :: "int \<Rightarrow> sink" where
  "fresh_sink m = \<lparr>sk_max = m, sk_written = 0, sk_sent = [], sk_hashed = [], sk_closed = None\<rparr>"

definition fmt_session ::
  "fmt_env \<Rightarrow> string \<Rightarrow> column list \<Rightarrow> row list list \<Rightarrow> int \<Rightarrow> goerror option \<times> sink" where
  "fmt_session F format columns rss m =
    (case NewFormatter (fe_excelize F) format of
       Inl e \<Rightarrow> (Some e, fresh_sink m)
     | Inr (f, _) \<Rightarrow>
        (case fmt_WriteHeader F columns (f, fresh_sink m) of
           (Some e, fk1) \<Rightarrow> (Some e, snd fk1)
         | (None, fk1) \<Rightarrow>
            (case bodies (fmt_WriteRows F columns) rss fk1 of
               (Some e, fk2) \<Rightarrow> (Some e, snd fk2)
             | (None, fk2) \<Rightarrow> (case fmt_Close F fk2 of (r, fk3) \<Rightarrow> (r, snd fk3)))))"

lemma fresh_sink_live: "0 \<le> m \<Longrightarrow> live (fresh_sink m)" and fresh_sink_sent [simp]: "sk_sent (fresh_sink m) = []"
  by (simp_all add: live_def sink_ok_def fresh_sink_def)

lemma fmt_session_document:
  assumes "fmt_session F format columns rss m = (None, k)" and "0 \<le> m"
  obtains f where "document F columns (concat rss) (f, k)" "format_of f = format"
proof -
  obtain f0 ct fk1 fk2 fk3 where N: "NewFormatter (fe_excelize F) format = Inr (f0, ct)"
    and H: "fmt_WriteHeader F columns (f0, fresh_sink m) = (None, fk1)"
    and B: "bodies (fmt_WriteRows F columns) rss fk1 = (None, fk2)"
    and C: "fmt_Close F fk2 = (None, fk3)" and k: "snd fk3 = k"
    using assms(1) by (auto simp: fmt_session_def split: sum.splits prod.splits option.splits)
  have "document F columns (concat rss) fk3"
    by (rule fmt.session [OF _ H B C]) (simp add: NewFormatter_taken [OF N] fresh_sink_live [OF assms(2)])
  moreover have "steady m format fk3"
    using fmt.finish_good [OF C fmt.bodies_good [OF B fmt.header_good [OF H]]] NewFormatter_format [OF N] assms(2)
    by (simp add: steady_def bounded_def sink_ok_def fresh_sink_def)
  ultimately show ?thesis using that [of "fst fk3"] k by (cases fk3) (auto simp: steady_def)
qed

subsection \<open>Lines of JSON\<close>

text \<open>Values whose numbers, printed by tables or copied, bring no line feed along; strings may hold any byte.\<close>

abbreviation (input) LF :: char where "LF \<equiv> CHR 0x0A"

fun json_line_safe :: "json \<Rightarrow> bool" where
  "json_line_safe (JNum s) \<longleftrightarrow> LF \<notin> set s"
| "json_line_safe (JArr vs) \<longleftrightarrow> list_all json_line_safe vs"
| "json_line_safe (JObj ms) \<longleftrightarrow> list_all (\<lambda>m. json_line_safe (snd m)) ms"
| "json_line_safe _ \<longleftrightarrow> True"

fun line_safe :: "gvalue \<Rightarrow> bool" where
  "line_safe (GJsonNumber s) \<longleftrightarrow> LF \<notin> set s"
| "line_safe (GOther j) \<longleftrightarrow> json_line_safe j"
| "line_safe _ \<longleftrightarrow> True"

definition gofmt_ok :: "gofmt \<Rightarrow> bool" where
  "gofmt_ok G \<longleftrightarrow> (\<forall>f. LF \<notin> set (gf_json_float64 G f)) \<and> (\<forall>f. LF \<notin> set (gf_json_float32 G f))
    \<and> (\<forall>t. LF \<notin> set (gf_time G t)) \<and> (\<forall>b. LF \<notin> set (gf_base64 G b))"

lemma LF_char_of: "r < 256 \<Longrightarrow> r \<noteq> 10 \<Longrightarrow> LF \<noteq> char_of (r::nat)"
proof
  assume r: "r < 256" "r \<noteq> 10" "LF = char_of r"
  then have "of_char LF = (of_char (char_of r :: char) :: nat)" by (rule_tac arg_cong)
  with r(1,2) show False by simp
qed

lemma json_rune_line: "LF \<notin> set (json_rune r)"
proof -
  have "LF \<notin> set (EncodeRune r)" if "\<not> r < 128" using that EncodeRune_bytes [of LF r] by auto
  moreover have "LF \<noteq> hex_lower n" if "n < 16" for n
    using that by (auto simp: hex_lower_def LF_char_of)
  ultimately show ?thesis unfolding json_rune_def by (auto simp: LF_char_of)
qed

lemma json_quote_line: "LF \<notin> set (json_quote s)"
proof -
  have "LF \<notin> set (json_runes s)"
    by (induction s rule: json_runes.induct) (auto simp: json_rune_line split: prod.splits)
  then show ?thesis by (simp add: json_quote_def)
qed

lemma digits_line: "LF \<notin> set (digits n)"
  by (induction n rule: digits.induct) (subst digits.simps, auto simp: LF_char_of)

lemma FormatInt_line: "LF \<notin> set (FormatInt i)"
  by (simp add: FormatInt_def digits_line)

lemma comma_separated_line: "(\<And>x. x \<in> set xs \<Longrightarrow> LF \<notin> set x) \<Longrightarrow> LF \<notin> set (comma_separated xs)"
  by (auto simp: comma_separated_def split: list.splits)

lemma json_encode_line: "json_line_safe j \<Longrightarrow> LF \<notin> set (json_encode j)"
proof (induction j rule: json_encode.induct)
  case (5 vs)
  then show ?case using comma_separated_line [of "map json_encode vs"] by (auto simp: list_all_iff)
next
  case (6 ms)
  have "LF \<notin> set (comma_separated (map (\<lambda>m. json_quote (fst m) @ '':'' @ json_encode (snd m)) ms))"
    by (rule comma_separated_line) (use 6 in \<open>auto simp: list_all_iff json_quote_line\<close>)
  then show ?case by simp
qed (auto simp: json_quote_line)

lemma json_Marshal_line: "gofmt_ok G \<Longrightarrow> line_safe v \<Longrightarrow> LF \<notin> set (json_Marshal G v)"
  by (cases v) (auto simp: gofmt_ok_def json_quote_line FormatInt_line json_encode_line)

text \<open>The object of a row, without its line end.\<close>

definition jsonl_object :: "gofmt \<Rightarrow> column list \<Rightarrow> row \<Rightarrow> string" where
  "jsonl_object G columns r =
    ''{'' @ comma_separated (map (\<lambda>m. json_quote (fst m) @ '':'' @ json_Marshal G (snd m)) (selected_row columns r)) @ ''}''"

lemma jsonl_line_object: "jsonl_line G columns r = jsonl_object G columns r @ [LF]"
  by (simp add: jsonl_line_def jsonl_object_def)

lemma jsonl_object_line:
  assumes "gofmt_ok G" and "\<forall>m\<in>set r. line_safe (snd m)"
  shows "LF \<notin> set (jsonl_object G columns r)"
proof -
  have "line_safe (case map_of r k of Some v \<Rightarrow> v | None \<Rightarrow> GNil)" for k
    using assms(2) by (auto split: option.splits dest!: map_of_SomeD)
  then have "LF \<notin> set (json_quote (fst m) @ '':'' @ json_Marshal G (snd m))" if "m \<in> set (selected_row columns r)" for m
    using that json_Marshal_line [OF assms(1)] by (auto simp: selected_row_def json_quote_line)
  then have "LF \<notin> set (comma_separated (map (\<lambda>m. json_quote (fst m) @ '':'' @ json_Marshal G (snd m)) (selected_row columns r)))"
    by (intro comma_separated_line) auto
  then show ?thesis by (simp add: jsonl_object_def)
qed

lemma split_on_line: "x \<notin> set s \<Longrightarrow> split_on x (s @ x # t) = s # split_on x t"
  by (induction s) auto

lemma split_on_jsonl_text:
  assumes "gofmt_ok G" and "\<forall>r\<in>set rs. \<forall>m\<in>set r. line_safe (snd m)"
  shows "split_on LF (jsonl_text G columns rs) = map (jsonl_object G columns) rs @ [[]]"
  using assms(2)
  by (induction rs) (auto simp: jsonl_text_def jsonl_line_object split_on_line jsonl_object_line [OF assms(1)])

section \<open>Properties\<close>

definition demo_fmt :: fmt_env where
  "demo_fmt = \<lparr>fe_gofmt = \<lparr>gf_float64 = (\<lambda>_. []), gf_float32 = (\<lambda>_. []), gf_json_float64 = (\<lambda>_. []),
       gf_json_float32 = (\<lambda>_. []), gf_time = (\<lambda>_. []), gf_base64 = (\<lambda>s. [])\<rparr>,
     fe_excelize = \<lparr>xl_NewStreamWriter = None, xl_CellName = (\<lambda>i. Inr (CHR ''A'' # FormatInt i)),
       xl_SetRow = (\<lambda>_ _ _. None), xl_Flush = (\<lambda>_. None), xl_Write = (\<lambda>h. ([''zip''], None)), xl_Close = None\<rparr>,
     fe_upload = (\<lambda>_ _. None)\<rparr>"

definition demo_columns :: "column list" where
  "demo_columns = [\<lparr>col_Key = ''id'', col_Title = ''Id'', col_Type = ''int'', col_Format = [], col_Sensitive = False\<rparr>,
    \<lparr>col_Key = ''note'', col_Title = ''Note, free'', col_Type = ''string'', col_Format = [], col_Sensitive = False\<rparr>]"

definition demo_rows :: "row list" where
  "demo_rows = [[(''id'', GString ''7''), (''note'', GString ''a,b'')], [(''id'', GString ''8'')]]"

lemma demo_gofmt_ok: "gofmt_ok (fe_gofmt demo_fmt)"
  by (simp add: gofmt_ok_def demo_fmt_def)

lemmas fmt_eval = fmt_session_def NewFormatter_def fmt_WriteHeader_def fmt_WriteRows_def fmt_Close_def csv_Write_def
  buffer_write.simps buffer_size_def csv_line_def csv_field_def comma_separated_def fieldNeedsQuotes_def cell_def
  limit_Write_def multi_Write_def pipe_Write_def fresh_sink_def FormatCSV_def FormatJSONL_def FormatXLSX_def
  FormatInt_def digits.simps

lemma demo_csv_session: "fst (fmt_session demo_fmt FormatCSV demo_columns [demo_rows] 100) = None"
  by (simp add: fmt_eval demo_fmt_def demo_columns_def demo_rows_def)

definition demo_key :: "column list" where
  "demo_key = [\<lparr>col_Key = ''k'', col_Title = ''K'', col_Type = ''int'', col_Format = [], col_Sensitive = False\<rparr>]"

lemma demo_jsonl_session: "fst (fmt_session demo_fmt FormatJSONL demo_key [[[(''k'', GInt 7)]], [[]]] 100) = None"
  by (simp add: fmt_eval demo_fmt_def demo_key_def jsonl_line_def selected_row_def json_quote_def
      json_rune_def str_le_def EncodeRune_def RuneError_def hex_lower_def del: DecodeRune.simps)

text \<open>
  C20. CSV round trip.  When an export to CSV succeeds, from the header over any batches of rows to the close, a reader
  of the bytes the destination took gets back exactly the titles and then the cells of every row,
  in order, whatever commas, quotes, line breaks or leading spaces the values hold and however
  the buffer cut the text; and the hash has seen exactly these bytes.
\<close>

theorem csv_roundtrip:
  assumes "fmt_session F FormatCSV columns rss m = (None, k)" and "columns \<noteq> []" and "0 \<le> m"
  shows "csv_read FieldStart [] [] (sk_sent k)
      = Some (map col_Title columns # map (csv_cells (fe_gofmt F) columns) (concat rss))
    \<and> sk_hashed k = sk_sent k"
proof -
  obtain f where "document F columns (concat rss) (f, k)" "format_of f = FormatCSV"
    using fmt_session_document [OF assms(1,3)] .
  then have doc: "sk_sent k = csv_text (csv_records (fe_gofmt F) columns True (concat rss))" "live k"
    by (cases f; simp add: FormatCSV_def FormatJSONL_def FormatXLSX_def)+
  have "[] \<notin> set (csv_records (fe_gofmt F) columns True (concat rss))"
    using assms(2) by (auto simp: csv_records_def csv_cells_def)
  then show ?thesis
    using doc csv_read_text by (simp add: csv_records_def live_def sink_ok_def del: csv_text_append csv_text_simps)
qed

theorem csv_roundtrip_witness:
  "csv_read FieldStart [] [] (sk_sent (snd (fmt_session demo_fmt FormatCSV demo_columns [demo_rows] 100)))
    = Some [[''Id'', ''Note, free''], [''7'', ''a,b''], [''8'', []]]"
proof -
  have "fmt_session demo_fmt FormatCSV demo_columns [demo_rows] 100
      = (None, snd (fmt_session demo_fmt FormatCSV demo_columns [demo_rows] 100))"
    using demo_csv_session by (metis prod.collapse)
  from csv_roundtrip [OF this]
  have "csv_read FieldStart [] [] (sk_sent (snd (fmt_session demo_fmt FormatCSV demo_columns [demo_rows] 100)))
      = Some (map col_Title demo_columns # map (csv_cells (fe_gofmt demo_fmt) demo_columns) (concat [demo_rows]))"
    by (simp add: demo_columns_def)
  then show ?thesis
    by (simp add: demo_columns_def demo_rows_def csv_cells_def cell_def FormatInt_def digits.simps)
qed



end
