(* ===== verification/Export_Provider_Laws.thy ===== *)
theory Export_Provider_Laws
  imports Export_Provider
begin

text \<open>
  What the provider client promises: every page of a dataset reaches the consumer exactly once and
  in order, across retries; a broken stream is picked up again; connections only go to allowed
  hosts, one per instance; the dataset catalog counts what the instances offer.

  \<open>batch_source\<close> is the interface the export pipeline is verified against: the consumer's state
  changes only through its own calls.
\<close>

section \<open>Vocabulary\<close>

fun consume :: "'s receiver \<Rightarrow> stream_rows_response list \<Rightarrow> 's \<Rightarrow> goerror option \<times> 's" where
  "consume receive [] s = (None, s)"
| "consume receive (r # rs) s =
    (case receive (to_batch r) s of (Some e, s1) \<Rightarrow> (Some e, s1) | (None, s1) \<Rightarrow> consume receive rs s1)"

definition cursor_at :: "string \<Rightarrow> stream_rows_response list \<Rightarrow> nat \<Rightarrow> string" where
  "cursor_at start pages k = (case k of 0 \<Rightarrow> start | Suc n \<Rightarrow> rp_NextCursor (pages ! n))"

definition resumes :: "stream_env \<Rightarrow> string \<Rightarrow> stream_rows_response list \<Rightarrow> bool" where
  "resumes N start pages \<longleftrightarrow> pages \<noteq> []
    \<and> (\<forall>k<length pages. rp_Done (pages ! k) \<longleftrightarrow> Suc k = length pages)
    \<and> (\<forall>attempt request k stream err. k < length pages \<longrightarrow> rq_Cursor request = cursor_at start pages k
         \<longrightarrow> k = 0 \<or> rq_Cursor request \<noteq> [] \<longrightarrow> se_open N attempt request = Inr (stream, err)
         \<longrightarrow> (\<exists>m. stream = take m (drop k pages)))"

definition final_errors :: "stream_env \<Rightarrow> 's receiver \<Rightarrow> bool" where
  "final_errors N receive \<longleftrightarrow>
    (\<forall>b s e s'. receive b s = (Some e, s') \<longrightarrow> \<not> retryableStreamError (se_status_Code N) e)"

definition one_attempt ::
  "stream_env \<Rightarrow> 's receiver \<Rightarrow> nat \<Rightarrow> stream_rows_request \<Rightarrow> bool \<Rightarrow> 's
    \<Rightarrow> goerror option \<times> stream_rows_request \<times> bool \<times> 's" where
  "one_attempt N receive attempt request delivered s =
    (case se_open N attempt request of
       Inl e \<Rightarrow> (Some e, request, delivered, s)
     | Inr (stream, err) \<Rightarrow> receiveRows receive stream err request delivered s)"

definition at_page ::
  "'s receiver \<Rightarrow> string \<Rightarrow> stream_rows_response list \<Rightarrow> 's \<Rightarrow> nat \<Rightarrow> stream_rows_request \<Rightarrow> bool \<Rightarrow> 's \<Rightarrow> bool" where
  "at_page receive start pages s0 k request delivered s \<longleftrightarrow>
    consume receive (take k pages) s0 = (None, s) \<and> k < length pages
    \<and> rq_Cursor request = cursor_at start pages k \<and> delivered = (k \<noteq> 0)"

text \<open>An attempt that fails for a reason worth retrying, and one that delivers all that is left.\<close>

definition transient :: "stream_env \<Rightarrow> nat \<Rightarrow> bool" where
  "transient N attempt \<longleftrightarrow> se_wait N attempt = (\<lambda>_. None) \<and> (\<forall>request. case se_open N attempt request of
     Inl e \<Rightarrow> retryableStreamError (se_status_Code N) e
   | Inr (_, err) \<Rightarrow> errors_Is err IoEOF \<or> retryableStreamError (se_status_Code N) err)"

definition delivers :: "stream_env \<Rightarrow> string \<Rightarrow> stream_rows_response list \<Rightarrow> nat \<Rightarrow> bool" where
  "delivers N start pages attempt \<longleftrightarrow> (\<forall>request k. k < length pages \<longrightarrow> rq_Cursor request = cursor_at start pages k
     \<longrightarrow> (\<exists>err. se_open N attempt request = Inr (drop k pages, err)))"

definition accepting :: "'s receiver \<Rightarrow> bool" where
  "accepting receive \<longleftrightarrow> (\<forall>b s. fst (receive b s) = None)"

abbreviation called :: "'s receiver \<Rightarrow> 's \<Rightarrow> 's \<Rightarrow> bool" where
  "called receive \<equiv> (\<lambda>x y. \<exists>b e. receive b x = (e, y))\<^sup>*\<^sup>*"

abbreviation accepts :: "'s receiver \<Rightarrow> 's \<Rightarrow> 's \<Rightarrow> bool" where
  "accepts receive \<equiv> (\<lambda>x y. \<exists>b. receive b x = (None, y))\<^sup>*\<^sup>*"

definition served :: "stream_env \<Rightarrow> stream_request \<Rightarrow> retry_config \<Rightarrow> 's receiver \<Rightarrow> 's \<Rightarrow> goerror option \<times> 's" where
  "served N request retry receive s = (case streamRows N request retry receive s of ((_, r), s') \<Rightarrow> (r, s'))"

text \<open>The whole provider: choosing an instance feeds the consumer nothing.\<close>

definition provider_stream ::
  "'c provider_env \<Rightarrow> ('c \<Rightarrow> stream_env) \<Rightarrow> 'c grpc_provider \<Rightarrow> string \<Rightarrow> stream_request
    \<Rightarrow> 's receiver \<Rightarrow> 's \<Rightarrow> goerror option \<times> 's" where
  "provider_stream P rows p service request receive s =
    (case Stream P rows service request receive (p, s) of (r, _, s') \<Rightarrow> (r, s'))"

definition allowed_target :: "'c provider_env \<Rightarrow> string \<Rightarrow> bool" where
  "allowed_target P t \<longleftrightarrow> validateProviderTarget (pe_ToLower P) t (pc_AllowedDNSSuffixes (pe_config P)) = None"

definition connections_ok :: "'c provider_env \<Rightarrow> (string \<rightharpoonup> string \<times> 'c) \<Rightarrow> bool" where
  "connections_ok P m \<longleftrightarrow> (\<forall>i t c. m i = Some (t, c) \<longrightarrow> allowed_target P t)"

definition offers ::
  "(rune \<Rightarrow> rune) \<Rightarrow> metadata_parser \<Rightarrow> string \<Rightarrow> service_instance list \<Rightarrow> (string \<times> provider_dataset) list" where
  "offers ulow parse search instances = concat (map (\<lambda>x. case parse (si_Metadata x) of
     Inl _ \<Rightarrow> []
   | Inr ds \<Rightarrow> map (Pair (si_ServiceName x)) (filter (matches_search ulow search (si_ServiceName x)) ds)) instances)"

definition count_offer ::
  "string \<times> provider_dataset \<Rightarrow> (summary_key \<times> dataset_summary) list \<Rightarrow> (summary_key \<times> dataset_summary) list" where
  "count_offer x result = count_dataset (fst x) (snd x) result"

definition offer_key :: "string \<times> provider_dataset \<Rightarrow> summary_key" where
  "offer_key x = (fst x, pd_Code (snd x))"

definition tally :: "(string \<times> provider_dataset) list \<Rightarrow> (summary_key \<times> dataset_summary) list \<Rightarrow> bool" where
  "tally os result \<longleftrightarrow> distinct (map fst result) \<and> fst ` set result = offer_key ` set os
     \<and> (\<forall>r\<in>set result. (ds_ProviderService (snd r), ds_Code (snd r)) = fst r
         \<and> ds_HealthyInstances (snd r) = int (length (filter (\<lambda>x. offer_key x = fst r) os)))"

text \<open>A provider whose first stream breaks off after one of its two pages.\<close>

definition demo_pages :: "stream_rows_response list" where
  "demo_pages =
    [\<lparr>rp_Columns = [\<lparr>col_Key = ''k'', col_Title = ''K'', col_Type = ''string'', col_Format = [], col_Sensitive = False\<rparr>],
       rp_Rows = [[(''k'', GString ''v'')]], rp_NextCursor = ''c'', rp_SnapshotToken = ''s'',
       rp_EstimatedTotalRows = 2, rp_Done = False\<rparr>,
     \<lparr>rp_Columns = [], rp_Rows = [[(''k'', GString ''w'')]], rp_NextCursor = [], rp_SnapshotToken = ''s'',
       rp_EstimatedTotalRows = 2, rp_Done = True\<rparr>]"

definition demo_stream :: stream_env where
  "demo_stream = \<lparr>se_open = (\<lambda>n request.
       let rest = (if rq_Cursor request = [] then demo_pages else drop 1 demo_pages)
       in Inr (if n = 1 then take 1 rest else rest, IoEOF)),
     se_wait = (\<lambda>_ _. None), se_status_Code = (\<lambda>_. 2)\<rparr>"

definition demo_request :: stream_request where
  "demo_request = \<lparr>sq_TenantID = ''t'', sq_ApplicationID = ''a'', sq_DatasetCode = ''ds'', sq_QueryJSON = ''{}'',
     sq_Cursor = [], sq_SnapshotToken = [], sq_SelectedColumns = [], sq_BatchSize = 500\<rparr>"

definition demo_retry :: retry_config where
  "demo_retry = \<lparr>retry_MaxAttempts = 3, retry_InitialBackoff = 100, retry_MaxBackoff = 1000, retry_Methods = []\<rparr>"

definition demo_collect :: "batch list receiver" where
  "demo_collect b s = (None, s @ [b])"

definition demo_instance :: "string \<Rightarrow> service_instance" where
  "demo_instance i = \<lparr>si_InstanceId = i, si_ServiceName = ''ps'', si_Endpoint = ''grpc://x.svc:1'', si_Metadata = []\<rparr>"

definition demo_client :: provider_client_config where
  "demo_client = \<lparr>pc_PSK = [], pc_AllowedDNSSuffixes = [''.svc''], pc_Timeout = 1, pc_FailureCooldown = 1,
     pc_AllowInsecure = True, pc_Retry = demo_retry,
     pc_Breaker = \<lparr>brk_Enabled = False, brk_FailureThreshold = 0, brk_OpenTimeout = 0\<rparr>,
     pc_TLS = \<lparr>ctls_Enabled = False, ctls_AllowInsecure = True, ctls_ServerName = [], ctls_CAFile = [],
       ctls_CertFile = [], ctls_KeyFile = []\<rparr>\<rparr>"

definition demo_provider :: "string provider_env" where
  "demo_provider = \<lparr>pe_discovery = Some (Inr [demo_instance ''i1'', demo_instance ''i2'']), pe_static = (\<lambda>_. None),
     pe_dial = (\<lambda>_ target _. Inr target),
     pe_ParseMetadata = (\<lambda>_. Inr [\<lparr>pd_Code = ''ds'', pd_Title = ''D'', pd_Formats = [''csv''], pd_SupportsSnapshot = True\<rparr>]),
     pe_config = demo_client, pe_ToLower = id\<rparr>"

section \<open>Exactly-once delivery\<close>

text \<open>
  The provider's contract: the dataset is a sequence of pages, the last one and only it marked done,
  and a stream opened with the cursor after \<open>k\<close> pages delivers pages from there on, as many as it
  manages before it fails.  It is asked for the start, or for a cursor it handed out.
\<close>

lemma consume_append:
  "consume receive (xs @ ys) s = (case consume receive xs s of
     (Some e, s1) \<Rightarrow> (Some e, s1) | (None, s1) \<Rightarrow> consume receive ys s1)"
  by (induction xs arbitrary: s) (auto split: prod.splits option.splits)

lemma consume_snoc:
  assumes "consume receive (take k pages) s0 = (None, s)" and "k < length pages"
  shows "consume receive (take (Suc k) pages) s0 = receive (to_batch (pages ! k)) s"
  using assms by (auto simp: take_Suc_conv_app_nth consume_append split: prod.splits option.splits)

text \<open>
  One stream, opened after \<open>k\<close> accepted pages: it ends with every page accepted, or with the
  consumer's refusal of a page, or with its own error after some more pages, the cursor then
  standing after the last of them.
\<close>

lemma receiveRows_cases:
  assumes "receiveRows receive stream err request delivered s = (r, request', delivered', s')"
    and "consume receive (take k pages) s0 = (None, s)" and "k < length pages"
    and "drop k pages = stream @ t"
    and "\<forall>k<length pages. rp_Done (pages ! k) \<longleftrightarrow> Suc k = length pages"
    and "rq_Cursor request = cursor_at start pages k" and "delivered = (k \<noteq> 0)"
  obtains (complete) "r = None" "consume receive pages s0 = (None, s')"
  | (refused) e n where "r = Some e" "consume receive (take n pages) s0 = (Some e, s')" "n \<le> length pages"
      "\<exists>b x. receive b x = (Some e, s')"
  | (ended) n e where "r = Some e" "consume receive (take n pages) s0 = (None, s')" "n < length pages" "k \<le> n"
      "rq_Cursor request' = cursor_at start pages n" "delivered' = (n \<noteq> 0)"
  using assms
proof (induction stream arbitrary: k request delivered s thesis)
  case Nil
  show ?case by (rule Nil.prems(3) [of _ k]) (use Nil.prems in auto)
next
  case (Cons x stream)
  have x: "pages ! k = x" using Cons.prems(6,7) by (metis hd_append hd_drop_conv_nth list.sel(1) list.distinct(1))
  obtain r1 s1 where rec: "receive (to_batch x) s = (r1, s1)" by fastforce
  have step: "consume receive (take (Suc k) pages) s0 = (r1, s1)"
    using consume_snoc [OF Cons.prems(5,6)] x rec by simp
  show ?case
  proof (cases r1)
    case (Some e)
    then show ?thesis
      using Cons.prems(2) [of e "Suc k"] Cons.prems(4,6) rec step by auto
  next
    case None
    define request1 where "request1 = request\<lparr>rq_Cursor := rp_NextCursor x, rq_SnapshotToken := rp_SnapshotToken x\<rparr>"
    show ?thesis
    proof (cases "rp_Done x")
      case True
      then have "take (Suc k) pages = pages" using Cons.prems(6,8) x by auto
      then show ?thesis using Cons.prems(1,4) True None rec step by simp
    next
      case False
      have k: "Suc k < length pages" using False Cons.prems(6,8) x by (metis Suc_lessI)
      have rest: "drop (Suc k) pages = stream @ t" using Cons.prems(7) by (simp add: drop_Suc drop_tl)
      have run: "receiveRows receive stream err request1 True s1 = (r, request', delivered', s')"
        using Cons.prems(4) False None rec by (simp add: request1_def)
      show ?thesis
      proof (rule Cons.IH [OF _ _ _ run step [unfolded None] k rest Cons.prems(8)])
        show "rq_Cursor request1 = cursor_at start pages (Suc k)" by (simp add: request1_def cursor_at_def x)
        show "True = (Suc k \<noteq> 0)" by simp
      qed (use Cons.prems(1-3) in auto)
    qed
  qed
qed

text \<open>Where the consumer stands before an attempt: the first \<open>k\<close> pages accepted, the cursor after them.\<close>

lemma one_attempt_cases:
  assumes "resumes N start pages" and "at_page receive start pages s0 k request delivered s"
    and "k = 0 \<or> rq_Cursor request \<noteq> []"
    and "one_attempt N receive attempt request delivered s = (r, request', delivered', s')"
  obtains (complete) "r = None" "consume receive pages s0 = (None, s')"
  | (refused) e n where "r = Some e" "consume receive (take n pages) s0 = (Some e, s')" "n \<le> length pages"
      "\<exists>b x. receive b x = (Some e, s')"
  | (ended) n e where "r = Some e" "at_page receive start pages s0 n request' delivered' s'"
proof (cases "se_open N attempt request")
  case (Inl e)
  then show ?thesis using assms(2,4) by (intro ended [of e k]) (auto simp: one_attempt_def)
next
  case (Inr st)
  obtain stream err where st: "st = (stream, err)" by fastforce
  have k: "k < length pages" "rq_Cursor request = cursor_at start pages k" using assms(2) by (auto simp: at_page_def)
  obtain m where "stream = take m (drop k pages)"
    using assms(1,3) k Inr st unfolding resumes_def by blast
  then have d: "drop k pages = stream @ drop m (drop k pages)" by (metis append_take_drop_id)
  have dn: "\<forall>k<length pages. rp_Done (pages ! k) \<longleftrightarrow> Suc k = length pages"
    using assms(1) by (simp add: resumes_def)
  have R: "receiveRows receive stream err request delivered s = (r, request', delivered', s')"
    using assms(4) Inr st by (simp add: one_attempt_def)
  have s: "consume receive (take k pages) s0 = (None, s)" "delivered = (k \<noteq> 0)"
    using assms(2) by (auto simp: at_page_def)
  show ?thesis
  proof (rule receiveRows_cases [OF R s(1) k(1) d dn k(2) s(2)])
    fix n e
    assume "r = Some e" "consume receive (take n pages) s0 = (None, s')" "n < length pages"
      "rq_Cursor request' = cursor_at start pages n" "delivered' = (n \<noteq> 0)"
    then show ?thesis by (intro ended [of e n]) (simp_all add: at_page_def)
  qed (use complete refused in blast)+
qed

lemma stream_attempts_once:
  assumes "resumes N start pages" and "final_errors N receive"
    and "at_page receive start pages s0 k request delivered s" and "k = 0 \<or> rq_Cursor request \<noteq> []"
    and "stream_attempts N retry receive left attempt request delivered s = ((failed, r), s')"
  shows "(r = None \<and> consume receive pages s0 = (None, s'))
    \<or> (r \<noteq> None \<and> (\<exists>n\<le>length pages. snd (consume receive (take n pages) s0) = s'))"
  using assms(3-)
proof (induction left arbitrary: attempt request delivered s k)
  case (0 attempt request delivered s k)
  obtain r1 request1 delivered1 s1 where R:
    "one_attempt N receive attempt request delivered s = (r1, request1, delivered1, s1)" by (metis prod.collapse)
  note run = 0(3) [unfolded stream_attempts.simps [of _ _ _ 0] one_attempt_def [symmetric] R prod.case]
  from assms(1) 0(1,2) R show ?case
  proof (cases rule: one_attempt_cases)
    case (refused e n)
    with run show ?thesis by (auto split: if_splits intro!: exI [of _ n])
  next
    case (ended n e)
    with run show ?thesis by (auto simp: at_page_def split: if_splits intro!: exI [of _ n])
  qed (use run in simp)
next
  case (Suc left attempt request delivered s k)
  obtain r1 request1 delivered1 s1 where R:
    "one_attempt N receive attempt request delivered s = (r1, request1, delivered1, s1)" by (metis prod.collapse)
  note run = Suc.prems(3) [unfolded stream_attempts.simps [of _ _ _ "Suc left"] one_attempt_def [symmetric] R prod.case]
  from assms(1) Suc.prems(1,2) R show ?case
  proof (cases rule: one_attempt_cases)
    case (refused e n)
    then have "\<not> retryableStreamError (se_status_Code N) e" using assms(2) unfolding final_errors_def by blast
    with run refused show ?thesis by (auto intro!: exI [of _ n])
  next
    case (ended n e)
    have stop: ?thesis if "s' = s1" "r \<noteq> None" using that ended by (auto simp: at_page_def intro!: exI [of _ n])
    show ?thesis
    proof (cases "\<not> retryableStreamError (se_status_Code N) e \<or> (delivered1 \<and> rq_Cursor request1 = [])
        \<or> waitStreamRetry (se_wait N) retry attempt \<noteq> None")
      case True
      then have "s' = s1 \<and> r \<noteq> None" using run ended(1)
        by (auto split: if_splits option.splits) metis+
      then show ?thesis using stop by blast
    next
      case False
      then have "n = 0 \<or> rq_Cursor request1 \<noteq> []" using ended(2) by (auto simp: at_page_def)
      moreover have "stream_attempts N retry receive left (Suc attempt) request1 delivered1 s1 = ((failed, r), s')"
        using run ended(1) False by auto
      ultimately show ?thesis using Suc.IH [OF ended(2)] by blast
    qed
  qed (use run in simp)
qed

lemma demo_resumes: "resumes demo_stream [] demo_pages"
  unfolding resumes_def
proof (intro conjI allI impI)
  show "demo_pages \<noteq> []" by (simp add: demo_pages_def)
  show "rp_Done (demo_pages ! k) = (Suc k = length demo_pages)" if "k < length demo_pages" for k
    using that by (auto simp: demo_pages_def less_Suc_eq)
  show "\<exists>m. stream = take m (drop k demo_pages)"
    if "k < length demo_pages" "rq_Cursor request = cursor_at [] demo_pages k"
      "se_open demo_stream attempt request = Inr (stream, err)" for attempt request k stream err
  proof -
    have "drop k demo_pages = (if rq_Cursor request = [] then demo_pages else drop 1 demo_pages)"
      using that(1,2) by (auto simp: demo_pages_def cursor_at_def less_Suc_eq)
    then have "stream = take (if attempt = 1 then 1 else length (drop k demo_pages)) (drop k demo_pages)"
      using that(3) by (auto simp: demo_stream_def Let_def split: if_splits)
    then show ?thesis by blast
  qed
qed

lemma demo_cursor [simp]: "sq_Cursor demo_request = []"
  by (simp add: demo_request_def)

lemma demo_collect_simps [simp]: "demo_collect b s = (None, s @ [b])"
  by (simp add: demo_collect_def)

lemma demo_streamRows:
  "streamRows demo_stream demo_request demo_retry demo_collect [] = ((False, None), map to_batch demo_pages)"
  by (simp add: streamRows_def stream_attempts.simps demo_stream_def demo_retry_def demo_request_def stream_request_of_def
      demo_pages_def retryableStreamError_def waitStreamRetry_def)

lemma demo_final: "final_errors demo_stream demo_collect"
  by (simp add: final_errors_def)

text \<open>
  C37. Exactly-once delivery.  Against a provider that resumes at its cursors, and a consumer whose refusals
  are not retryable: when the stream succeeds the consumer has received every page of the dataset
  exactly once and in order; when it fails, exactly the first pages up to some point, none twice.
\<close>

theorem streamRows_once:
  assumes "resumes N (sq_Cursor request) pages" and "final_errors N receive"
    and "streamRows N request retry receive s = ((failed, r), s')"
  shows "(r = None \<and> consume receive pages s = (None, s'))
    \<or> (r \<noteq> None \<and> (\<exists>n\<le>length pages. snd (consume receive (take n pages) s) = s'))"
proof (rule stream_attempts_once [OF assms(1,2)])
  show "at_page receive (sq_Cursor request) pages s 0 (stream_request_of request) False s"
    using assms(1) by (simp add: at_page_def resumes_def stream_request_of_def cursor_at_def)
qed (use assms(3) in \<open>simp_all add: streamRows_def\<close>)

theorem streamRows_once_witness:
  "consume demo_collect demo_pages [] = (None, map to_batch demo_pages)"
  using streamRows_once [of demo_stream demo_request demo_pages demo_collect demo_retry "[]" False None "map to_batch demo_pages"]
  by (simp add: demo_resumes demo_final demo_streamRows)

section \<open>Recovery\<close>

lemma receiveRows_transient:
  assumes "accepting receive"
    and "receiveRows receive stream err request delivered s = (Some e, request', delivered', s')"
    and "errors_Is err IoEOF \<or> retryableStreamError code err"
  shows "retryableStreamError code e"
  using assms(2)
proof (induction stream arbitrary: request delivered s)
  case Nil
  then have "e = (if errors_Is err IoEOF then ErrProviderStreamIncomplete else err)" by simp
  then show ?case using assms(3) by (cases "errors_Is err IoEOF") (simp_all add: retryableStreamError_def)
next
  case (Cons x xs)
  obtain s1 where "receive (to_batch x) s = (None, s1)" using assms(1) unfolding accepting_def by (metis prod.collapse)
  with Cons show ?case by (auto simp: Let_def split: if_splits)
qed

lemma receiveRows_delivers:
  assumes "accepting receive" and "\<exists>x\<in>set stream. rp_Done x"
  shows "fst (receiveRows receive stream err request delivered s) = None"
  using assms(2)
proof (induction stream arbitrary: request delivered s)
  case (Cons x xs)
  obtain s1 where "receive (to_batch x) s = (None, s1)" using assms(1) unfolding accepting_def by (metis prod.collapse)
  with Cons show ?case by (auto simp: Let_def)
qed simp

lemma last_page_done:
  assumes "resumes N start pages" and "k < length pages"
  shows "\<exists>x\<in>set (drop k pages). rp_Done x"
proof
  have "last pages = pages ! (length pages - 1)" using assms(2) by (intro last_conv_nth) auto
  then show "rp_Done (last pages)" using assms unfolding resumes_def by simp
  show "last pages \<in> set (drop k pages)" using assms(2) by (metis last_drop last_in_set drop_eq_Nil not_le)
qed

lemma delivers_attempt:
  assumes "resumes N start pages" and "accepting receive" and "delivers N start pages attempt"
    and "at_page receive start pages s0 k request delivered s"
  shows "fst (one_attempt N receive attempt request delivered s) = None"
proof -
  have k: "k < length pages" "rq_Cursor request = cursor_at start pages k" using assms(4) by (auto simp: at_page_def)
  then obtain err where "se_open N attempt request = Inr (drop k pages, err)"
    using assms(3) unfolding delivers_def by blast
  then show ?thesis
    using receiveRows_delivers [OF assms(2) last_page_done [OF assms(1) k(1)]] by (simp add: one_attempt_def)
qed

lemma transient_attempt:
  assumes "accepting receive" and "transient N attempt"
    and "one_attempt N receive attempt request delivered s = (Some e, request', delivered', s')"
  shows "retryableStreamError (se_status_Code N) e \<and> waitStreamRetry (se_wait N) retry attempt = None"
proof -
  have w: "waitStreamRetry (se_wait N) retry attempt = None"
    using assms(2) by (simp add: transient_def waitStreamRetry_def)
  have t: "case se_open N attempt request of Inl e \<Rightarrow> retryableStreamError (se_status_Code N) e
    | Inr (_, err) \<Rightarrow> errors_Is err IoEOF \<or> retryableStreamError (se_status_Code N) err"
    using assms(2) by (simp add: transient_def)
  show ?thesis
  proof (cases "se_open N attempt request")
    case (Inl e')
    then show ?thesis using t w assms(3) by (simp add: one_attempt_def)
  next
    case (Inr st)
    then show ?thesis using t w assms(3) receiveRows_transient [OF assms(1)]
      by (cases st) (auto simp: one_attempt_def)
  qed
qed

lemma stream_attempts_recover:
  assumes "resumes N start pages" and "accepting receive"
    and "\<And>k. Suc k < length pages \<Longrightarrow> rp_NextCursor (pages ! k) \<noteq> []"
    and "\<And>i. attempt \<le> i \<Longrightarrow> i < good \<Longrightarrow> transient N i" and "delivers N start pages good"
    and "attempt \<le> good" and "good \<le> attempt + left"
    and "at_page receive start pages s0 k request delivered s"
  shows "fst (stream_attempts N retry receive left attempt request delivered s) = (False, None)"
  using assms(4,6-)
proof (induction left arbitrary: attempt request delivered s k)
  case (0 attempt request delivered s k)
  then have "fst (one_attempt N receive attempt request delivered s) = None"
    using delivers_attempt [OF assms(1,2,5)] by simp
  then show ?case by (auto simp: stream_attempts.simps [of _ _ _ 0] one_attempt_def [symmetric] split: prod.splits)
next
  case (Suc left attempt request delivered s k)
  obtain r request1 delivered1 s1 where R:
    "one_attempt N receive attempt request delivered s = (r, request1, delivered1, s1)" by (metis prod.collapse)
  note unfold = stream_attempts.simps [of N retry receive "Suc left" attempt request delivered s, folded one_attempt_def, unfolded R prod.case]
  show ?case
  proof (cases r)
    case None
    then show ?thesis by (simp add: unfold)
  next
    case (Some e)
    then have "attempt \<noteq> good" using delivers_attempt [OF assms(1,2,5)] Suc.prems(4) R by fastforce
    then have "transient N attempt" and lt: "Suc attempt \<le> good" using Suc.prems(1,2) by auto
    then have t: "retryableStreamError (se_status_Code N) e" "waitStreamRetry (se_wait N) retry attempt = None"
      using transient_attempt [OF assms(2)] R [unfolded Some] by blast+
    have "k = 0 \<or> rq_Cursor request \<noteq> []"
      using Suc.prems(4) assms(3) by (cases k) (auto simp: at_page_def cursor_at_def)
    from one_attempt_cases [OF assms(1) Suc.prems(4) this R] obtain n where
      n: "at_page receive start pages s0 n request1 delivered1 s1"
      using Some assms(2) unfolding accepting_def by (metis fst_conv option.distinct(1))
    moreover have "\<not> (delivered1 \<and> rq_Cursor request1 = [])"
      using n assms(3) by (cases n) (auto simp: at_page_def cursor_at_def)
    ultimately show ?thesis using Suc.IH [OF _ lt _ n] Suc.prems(1,3) t Some by (simp add: unfold)
  qed
qed



section \<open>Back-off\<close>

text \<open>
  The wait before a retry lies between the initial and the maximal back-off, as long as the doubled
  delay fits 63 bits.
\<close>

theorem stream_retry_delay_bounds:
  assumes "0 < retry_InitialBackoff retry" and "retry_InitialBackoff retry \<le> retry_MaxBackoff retry"
    and "retry_InitialBackoff retry * 2 ^ (attempt - 1) < 2 ^ 63"
  shows "retry_InitialBackoff retry \<le> stream_retry_delay retry attempt
    \<and> stream_retry_delay retry attempt \<le> retry_MaxBackoff retry"
proof -
  define x where "x = retry_InitialBackoff retry * 2 ^ (attempt - 1)"
  have "1 * retry_InitialBackoff retry \<le> 2 ^ (attempt - 1) * retry_InitialBackoff retry"
    using assms(1) by (intro mult_right_mono) auto
  then have x: "retry_InitialBackoff retry \<le> x" by (simp add: x_def mult.commute)
  have lt: "x < 2 ^ 63" using assms(3) unfolding x_def .
  have "i64 x = x" using assms(1) lt x by (intro i64_id) (simp add: in_i64_def)
  then have "stream_retry_delay retry attempt = (if retry_MaxBackoff retry < x then retry_MaxBackoff retry else x)"
    using assms(1,2) unfolding stream_retry_delay_def x_def [symmetric] by simp
  then show ?thesis using assms(1,2) x by auto
qed

theorem stream_retry_delay_bounds_witness:
  "100 \<le> stream_retry_delay demo_retry 3 \<and> stream_retry_delay demo_retry 3 \<le> 1000"
  using stream_retry_delay_bounds [of demo_retry 3] by (simp add: demo_retry_def)

section \<open>Feeding a consumer\<close>

text \<open>A consumer that is only ever asked in states with \<open>I\<close>.\<close>

definition guarded :: "('s \<Rightarrow> bool) \<Rightarrow> 's receiver \<Rightarrow> 's receiver" where
  "guarded I receive b s = (if I s then receive b s else (None, s))"

definition keeps :: "('s \<Rightarrow> bool) \<Rightarrow> 's receiver \<Rightarrow> bool" where
  "keeps I receive \<longleftrightarrow> (\<forall>b x e y. I x \<longrightarrow> receive b x = (e, y) \<longrightarrow> I y)"

locale batch_source =
  fixes stream :: "'s receiver \<Rightarrow> 's \<Rightarrow> goerror option \<times> 's" and worth_retry :: "goerror \<Rightarrow> bool"
  assumes fed: "stream receive s = (r, s') \<Longrightarrow> (\<lambda>x y. \<exists>b e. receive b x = (e, y))\<^sup>*\<^sup>* s s'"
    and accepted: "stream receive s = (None, s') \<Longrightarrow>
      (\<And>b x e y. receive b x = (Some e, y) \<Longrightarrow> \<not> worth_retry e) \<Longrightarrow> (\<lambda>x y. \<exists>b. receive b x = (None, y))\<^sup>*\<^sup>* s s'"
    and guarded_same: "keeps I receive \<Longrightarrow> I s \<Longrightarrow> stream (guarded I receive) s = stream receive s"
begin

lemma invariant:
  assumes "stream receive s = (r, s')" and "I s" and "\<And>b x e y. receive b x = (e, y) \<Longrightarrow> I x \<Longrightarrow> I y"
  shows "I s'"
  using fed [OF assms(1)] assms(2) by (induction rule: rtranclp_induct) (auto intro: assms(3))

text \<open>When no refusal in a state with \<open>I\<close> is worth a retry, a success came from accepted batches only.\<close>

lemma accepted_invariant:
  assumes "stream receive s = (None, s')" and "keeps I receive" and "I s"
    and final: "\<And>b x e y. I x \<Longrightarrow> receive b x = (Some e, y) \<Longrightarrow> \<not> worth_retry e"
    and "J s" and step: "\<And>b x y. I x \<Longrightarrow> receive b x = (None, y) \<Longrightarrow> J x \<Longrightarrow> J y"
  shows "J s'"
proof -
  have "stream (guarded I receive) s = (None, s')" using guarded_same [OF assms(2,3)] assms(1) by simp
  then have "(\<lambda>x y. \<exists>b. guarded I receive b x = (None, y))\<^sup>*\<^sup>* s s'"
    by (rule accepted) (auto simp: guarded_def dest: final split: if_splits)
  then show ?thesis
    using assms(5) by (induction rule: rtranclp_induct) (auto simp: guarded_def split: if_splits dest: step)
qed

end

lemma receiveRows_guarded:
  "keeps I receive \<Longrightarrow> I s \<Longrightarrow> receiveRows receive stream err request delivered s = (r, request', delivered', s') \<Longrightarrow>
    receiveRows (guarded I receive) stream err request delivered s = (r, request', delivered', s') \<and> I s'"
proof (induction stream arbitrary: request delivered s)
  case (Cons x xs)
  obtain e s1 where R: "receive (to_batch x) s = (e, s1)" by fastforce
  then have "I s1" "guarded I receive (to_batch x) s = (e, s1)"
    using Cons.prems(1,2) by (auto simp: keeps_def guarded_def)
  then show ?case using Cons R by (cases e) (auto simp: Let_def split: if_splits)
qed auto

lemma one_attempt_guarded:
  assumes "keeps I receive" and "I s" and "one_attempt N receive attempt request delivered s = (r, request', delivered', s')"
  shows "one_attempt N (guarded I receive) attempt request delivered s = (r, request', delivered', s') \<and> I s'"
  using assms receiveRows_guarded [OF assms(1,2)]
  by (auto simp: one_attempt_def split: sum.splits prod.splits)

lemma stream_attempts_guarded:
  "keeps I receive \<Longrightarrow> I s \<Longrightarrow> stream_attempts N retry (guarded I receive) left attempt request delivered s
    = stream_attempts N retry receive left attempt request delivered s"
proof (induction left arbitrary: attempt request delivered s)
  case (0 attempt request delivered s)
  obtain r1 request1 delivered1 s1 where R:
    "one_attempt N receive attempt request delivered s = (r1, request1, delivered1, s1)" by (metis prod.collapse)
  then show ?case
    using one_attempt_guarded [OF 0 R]
    by (simp add: stream_attempts.simps [of _ _ _ 0] one_attempt_def [symmetric] split: option.splits)
next
  case (Suc left attempt request delivered s)
  obtain r1 request1 delivered1 s1 where R:
    "one_attempt N receive attempt request delivered s = (r1, request1, delivered1, s1)" by (metis prod.collapse)
  then show ?case
    using one_attempt_guarded [OF Suc.prems R] Suc.IH [OF Suc.prems(1), of s1]
    by (simp add: stream_attempts.simps [of _ _ _ "Suc left"] one_attempt_def [symmetric] split: option.splits)
qed

lemma streamRows_guarded:
  "keeps I receive \<Longrightarrow> I s \<Longrightarrow> streamRows N request retry (guarded I receive) s = streamRows N request retry receive s"
  by (simp add: streamRows_def stream_attempts_guarded Let_def)

lemma consume_guarded:
  "keeps I receive \<Longrightarrow> I s \<Longrightarrow> consume (guarded I receive) pages s = consume receive pages s"
proof (induction pages arbitrary: s)
  case (Cons x xs)
  obtain e s1 where R: "receive (to_batch x) s = (e, s1)" by fastforce
  then have "I s1" "guarded I receive (to_batch x) s = (e, s1)"
    using Cons.prems by (auto simp: keeps_def guarded_def)
  then show ?case using Cons R by (cases e) auto
qed simp

lemma receiveRows_called:
  "receiveRows receive stream err request delivered s = (r, request', delivered', s') \<Longrightarrow> called receive s s'"
proof (induction stream arbitrary: request delivered s)
  case (Cons x xs)
  obtain e s1 where R: "receive (to_batch x) s = (e, s1)" by fastforce
  then have one: "called receive s s1" by blast
  show ?case
  proof (cases "e = None \<and> \<not> rp_Done x")
    case True
    then have "called receive s1 s'" using Cons R by (auto simp: Let_def)
    with one show ?thesis by (rule rtranclp_trans)
  next
    case False
    then have "s' = s1" using Cons.prems R by (auto simp: Let_def split: option.splits if_splits)
    with one show ?thesis by simp
  qed
qed simp

text \<open>Up to a refusal every call was accepted.\<close>

lemma receiveRows_accepts:
  "receiveRows receive stream err request delivered s = (r, request', delivered', s') \<Longrightarrow>
    accepts receive s s' \<or> (\<exists>b x e. receive b x = (Some e, s') \<and> r = Some e)"
proof (induction stream arbitrary: request delivered s)
  case (Cons x xs)
  obtain e s1 where R: "receive (to_batch x) s = (e, s1)" by fastforce
  show ?case
  proof (cases e)
    case None
    then have one: "accepts receive s s1" using R by blast
    show ?thesis
    proof (cases "rp_Done x")
      case True
      then show ?thesis using Cons.prems R None one by (auto simp: Let_def)
    next
      case False
      then have "accepts receive s1 s' \<or> (\<exists>b x e. receive b x = (Some e, s') \<and> r = Some e)"
        using Cons R None by (auto simp: Let_def)
      then show ?thesis using rtranclp_trans [OF one] by blast
    qed
  next
    case (Some e')
    then show ?thesis using Cons.prems R by auto
  qed
qed simp

lemma one_attempt_called:
  "one_attempt N receive attempt request delivered s = (r, request', delivered', s') \<Longrightarrow> called receive s s'"
  by (auto simp: one_attempt_def split: sum.splits prod.splits dest: receiveRows_called)

lemma one_attempt_accepts:
  assumes "one_attempt N receive attempt request delivered s = (r, request', delivered', s')"
  shows "accepts receive s s' \<or> (\<exists>b x e. receive b x = (Some e, s') \<and> r = Some e)"
proof (cases "se_open N attempt request")
  case (Inl e)
  then show ?thesis using assms by (auto simp: one_attempt_def)
next
  case (Inr st)
  obtain stream err where "st = (stream, err)" by fastforce
  with Inr assms have "receiveRows receive stream err request delivered s = (r, request', delivered', s')"
    by (simp add: one_attempt_def)
  then show ?thesis by (rule receiveRows_accepts)
qed

lemma stream_attempts_called:
  "stream_attempts N retry receive left attempt request delivered s = (r, s') \<Longrightarrow> called receive s s'"
proof (induction left arbitrary: attempt request delivered s)
  case (0 attempt request delivered s)
  obtain r1 request1 delivered1 s1 where R:
    "one_attempt N receive attempt request delivered s = (r1, request1, delivered1, s1)" by (metis prod.collapse)
  from 0 [unfolded stream_attempts.simps [of _ _ _ 0] one_attempt_def [symmetric] R prod.case]
  have "s' = s1" by (auto split: option.splits if_splits)
  then show ?case using one_attempt_called [OF R] by simp
next
  case (Suc left attempt request delivered s)
  obtain r1 request1 delivered1 s1 where R:
    "one_attempt N receive attempt request delivered s = (r1, request1, delivered1, s1)" by (metis prod.collapse)
  note run = Suc.prems [unfolded stream_attempts.simps [of _ _ _ "Suc left"] one_attempt_def [symmetric] R prod.case]
  consider "s' = s1" | "stream_attempts N retry receive left (Suc attempt) request1 delivered1 s1 = (r, s')"
    using run by (auto split: option.splits if_splits)
  then show ?case
    using one_attempt_called [OF R] Suc.IH rtranclp_trans [of _ s s1 s'] by cases blast+
qed

lemma stream_attempts_accepts:
  assumes "\<And>b x e y. receive b x = (Some e, y) \<Longrightarrow> \<not> retryableStreamError (se_status_Code N) e"
  shows "stream_attempts N retry receive left attempt request delivered s = ((f, None), s') \<Longrightarrow> accepts receive s s'"
proof (induction left arbitrary: attempt request delivered s)
  case (0 attempt request delivered s)
  obtain r1 request1 delivered1 s1 where R:
    "one_attempt N receive attempt request delivered s = (r1, request1, delivered1, s1)" by (metis prod.collapse)
  from 0 [unfolded stream_attempts.simps [of _ _ _ 0] one_attempt_def [symmetric] R prod.case]
  have "s' = s1" "r1 = None" by (auto split: option.splits if_splits)
  then show ?case using one_attempt_accepts [OF R] by auto
next
  case (Suc left attempt request delivered s)
  obtain r1 request1 delivered1 s1 where R:
    "one_attempt N receive attempt request delivered s = (r1, request1, delivered1, s1)" by (metis prod.collapse)
  note run = Suc.prems [unfolded stream_attempts.simps [of _ _ _ "Suc left"] one_attempt_def [symmetric] R prod.case]
  have first: "accepts receive s s1 \<or> (\<exists>b x e. receive b x = (Some e, s1) \<and> r1 = Some e)"
    using one_attempt_accepts [OF R] .
  show ?case
  proof (cases r1)
    case None
    then show ?thesis using run first by auto
  next
    case (Some e)
    then have "retryableStreamError (se_status_Code N) e"
      "stream_attempts N retry receive left (Suc attempt) request1 delivered1 s1 = ((f, None), s')"
      using run by (auto split: option.splits if_splits)
    then show ?thesis using first Some assms Suc.IH rtranclp_trans [of _ s s1 s'] by blast
  qed
qed

interpretation rows: batch_source "served N request retry" "retryableStreamError (se_status_Code N)"
  for N request retry
proof
  show "called receive s s'" if "served N request retry receive s = (r, s')" for receive :: "'a receiver" and s r s'
    using that by (auto simp: served_def streamRows_def Let_def split: prod.splits dest: stream_attempts_called)
  show "accepts receive s s'"
    if "served N request retry receive s = (None, s')"
      "\<And>b x e y. receive b x = (Some e, y) \<Longrightarrow> \<not> retryableStreamError (se_status_Code N) e"
    for receive :: "'a receiver" and s s'
    using that stream_attempts_accepts [of receive N]
    by (auto simp: served_def streamRows_def Let_def split: prod.splits)
  show "served N request retry (guarded I receive) s = served N request retry receive s"
    if "keeps I receive" "I s" for I and receive :: "'a receiver" and s
    by (simp add: served_def streamRows_guarded [OF that])
qed

text \<open>A provider's answers count as retryable when they do for some connection.\<close>

definition worth_retry :: "('c \<Rightarrow> stream_env) \<Rightarrow> goerror \<Rightarrow> bool" where
  "worth_retry streams e \<longleftrightarrow> (\<exists>c. retryableStreamError (se_status_Code (streams c)) e)"

interpretation provider: batch_source "provider_stream P streams p service request" "worth_retry streams"
  for P streams p service request
proof
  show "called receive s s'" if "provider_stream P streams p service request receive s = (r, s')"
    for receive :: "'b receiver" and s r s'
    using that
    by (auto simp: provider_stream_def Stream_def streamRows_def Let_def split: prod.splits sum.splits option.splits
        dest: stream_attempts_called)
  show "accepts receive s s'"
    if "provider_stream P streams p service request receive s = (None, s')"
      "\<And>b x e y. receive b x = (Some e, y) \<Longrightarrow> \<not> worth_retry streams e"
    for receive :: "'b receiver" and s s'
    using that unfolding worth_retry_def
    by (auto simp: provider_stream_def Stream_def streamRows_def Let_def split: prod.splits sum.splits option.splits
        elim!: stream_attempts_accepts [rotated])
  show "provider_stream P streams p service request (guarded I receive) s
      = provider_stream P streams p service request receive s"
    if "keeps I receive" "I s" for I and receive :: "'b receiver" and s
    by (auto simp: provider_stream_def Stream_def streamRows_guarded [OF that] split: prod.splits sum.splits)
qed

text \<open>Against a provider that resumes, a success has fed the consumer every page once.\<close>

lemma streamRows_pages:
  assumes "resumes N (sq_Cursor request) pages" and "keeps I receive" and "I s"
    and final: "\<And>b x e y. I x \<Longrightarrow> receive b x = (Some e, y) \<Longrightarrow> \<not> retryableStreamError (se_status_Code N) e"
    and "streamRows N request retry receive s = ((failed, None), s')"
  shows "consume receive pages s = (None, s')"
proof -
  have "final_errors N (guarded I receive)"
    by (auto simp: final_errors_def guarded_def dest: final split: if_splits)
  moreover have "at_page (guarded I receive) (sq_Cursor request) pages s 0 (stream_request_of request) False s"
    using assms(1) by (simp add: at_page_def resumes_def stream_request_of_def cursor_at_def)
  ultimately have "consume (guarded I receive) pages s = (None, s')"
    using stream_attempts_once [OF assms(1)] assms(5) streamRows_guarded [OF assms(2,3), of N request retry]
    by (fastforce simp: streamRows_def)
  then show ?thesis using consume_guarded [OF assms(2,3)] by simp
qed

section \<open>Connections\<close>

lemma connections_ok_set: "connections_ok P m \<Longrightarrow> allowed_target P t \<Longrightarrow> connections_ok P (m(i \<mapsto> (t, c)))"
  by (auto simp: connections_ok_def)

lemma connections_ok_drop: "connections_ok P m \<Longrightarrow> connections_ok P (m(i := None))"
  by (auto simp: connections_ok_def)

lemma client_connections_ok:
  assumes "connections_ok P (gp_connections p)" and "client P service dataset p = (r, p')"
  shows "connections_ok P (gp_connections p')"
  using assms connections_ok_drop [OF assms(1)]
  by (auto simp: client_def allowed_target_def [symmetric] Let_def
      split: option.splits sum.splits if_splits prod.splits intro: connections_ok_set)

lemma demo_target: "allowed_target demo_provider ''x.svc:1''"
proof -
  have "EqualFold ''x.svc'' ''localhost'' = False"
    by (simp add: EqualFold_def runes_ascii is_ascii_def)
  moreover have "ToLower id ''x.svc'' = ''x.svc''" "ToLower id ''.svc'' = ''.svc''"
    by (rule ToLower_lower; simp)+
  moreover have "TrimSpace ''.svc'' = ''.svc''" by (rule TrimSpace_visible; simp add: visible_def)
  moreover have "SplitHostPort (TrimPrefix ''x.svc:1'' ''dns:///'') = Some (''x.svc'', ''1'')"
    by (simp add: SplitHostPort_def last_index_def TrimPrefix_def HasPrefix_def)
  moreover have "\<not> ParseIP ''x.svc''" by (simp add: ParseIP_def is_ipv4_def)
  ultimately show ?thesis
    by (simp add: allowed_target_def demo_provider_def demo_client_def validateProviderTarget_def
        TrimSuffix_def HasSuffix_def TrimPrefix_def HasPrefix_def)
qed



section \<open>Dataset summaries\<close>

lemma count_instance_fold:
  "count_instance ulow search service ds result =
    fold count_offer (map (Pair service) (filter (matches_search ulow search service) ds)) result"
  by (induction ds arbitrary: result) (simp_all add: count_offer_def)

lemma count_instances_fold:
  "count_instances ulow parse search xs result = fold count_offer (offers ulow parse search xs) result"
  by (induction xs arbitrary: result) (auto simp: offers_def count_instance_fold split: sum.splits)

lemma tally_step:
  assumes "tally os result" and "length os < 2147483647"
  shows "tally (os @ [x]) (count_offer x result)"
proof -
  define k where "k = offer_key x"
  define n where "n = length (filter (\<lambda>y. offer_key y = k) os)"
  have n: "int n + 1 < 2147483648" using assms(2) length_filter_le [of "\<lambda>y. offer_key y = k" os] unfolding n_def by linarith
  have i: "i32 (int n + 1) = int n + 1" using n by (intro i32_id) (simp add: in_i32_def)
  obtain v where v: "count_offer x result = (k, v) # filter (\<lambda>y. fst y \<noteq> k) result"
    "(ds_ProviderService v, ds_Code v) = k" "ds_HealthyInstances v = int n + 1"
  proof (cases "map_of result k")
    case None
    then have "k \<notin> fst ` set result" by (simp add: map_of_eq_None_iff)
    then have "n = 0" using assms(1) by (force simp: tally_def n_def filter_empty_conv)
    then show ?thesis using that None i
      by (simp add: count_offer_def count_dataset_def Let_def k_def offer_key_def)
  next
    case (Some w)
    then have "(k, w) \<in> set result" by (rule map_of_SomeD)
    then have w: "(ds_ProviderService w, ds_Code w) = k" "ds_HealthyInstances w = int n"
      using assms(1) unfolding tally_def n_def by force+
    have "fst (k, w) \<in> offer_key ` set os"
      using assms(1) imageI [OF \<open>(k, w) \<in> set result\<close>, of fst] by (simp add: tally_def)
    then obtain y where "y \<in> set os" "offer_key y = k" by auto
    then have "n \<noteq> 0" by (auto simp: n_def filter_empty_conv)
    then show ?thesis using that Some w i
      by (simp add: count_offer_def count_dataset_def Let_def k_def offer_key_def)
  qed
  have "distinct (map fst (count_offer x result))"
    using assms(1) by (auto simp: v tally_def distinct_map inj_on_def)
  moreover have "fst ` set (count_offer x result) = offer_key ` set (os @ [x])"
  proof -
    have "fst ` set (filter (\<lambda>y. fst y \<noteq> k) result) = fst ` set result - {k}" by auto
    then show ?thesis using assms(1) by (simp add: v tally_def k_def)
  qed
  moreover have "\<forall>r\<in>set (count_offer x result). (ds_ProviderService (snd r), ds_Code (snd r)) = fst r
      \<and> ds_HealthyInstances (snd r) = int (length (filter (\<lambda>y. offer_key y = fst r) (os @ [x])))"
    using assms(1) v(2,3) by (auto simp: v(1) tally_def k_def [symmetric] n_def)
  ultimately show ?thesis by (simp add: tally_def)
qed

lemma tally_fold:
  assumes "length os < 2147483648"
  shows "tally os (fold count_offer os [])"
  using assms
proof (induction os rule: rev_induct)
  case Nil
  then show ?case by (simp add: tally_def)
next
  case (snoc x xs)
  then show ?case using tally_step [of xs "fold count_offer xs []" x] by simp
qed

lemma str_le_Compare: "str_le s t \<longleftrightarrow> strings_Compare s t \<le> 0"
  by (simp add: str_le_def)

lemma summary_le_iff:
  "summary_le a b \<longleftrightarrow> (if ds_ProviderService a = ds_ProviderService b then str_le (ds_Code a) (ds_Code b)
     else str_le (ds_ProviderService a) (ds_ProviderService b))"
  by (simp add: summary_le_def str_le_Compare)

lemma summary_le_total: "summary_le a b \<or> summary_le b a"
  using str_le_total by (auto simp: summary_le_iff)

lemma summary_le_trans: "summary_le a b \<Longrightarrow> summary_le b c \<Longrightarrow> summary_le a c"
  unfolding summary_le_iff by (metis str_le_trans str_le_antisym)

text \<open>
  The dataset catalog lists each offered dataset of each service exactly once, sorted by service and
  code, with the number of instances that offer it and match the search.
\<close>

theorem summarizeDatasets_ok:
  assumes "os = offers ulow parse (ToLower ulow (TrimSpace search)) instances" and "length os < 2147483648"
    and "vs = summarizeDatasets ulow parse instances search"
  shows "sorted_wrt summary_le vs \<and> distinct (map (\<lambda>v. (ds_ProviderService v, ds_Code v)) vs)
    \<and> (\<lambda>v. (ds_ProviderService v, ds_Code v)) ` set vs = offer_key ` set os
    \<and> (\<forall>v\<in>set vs. ds_HealthyInstances v
         = int (length (filter (\<lambda>x. offer_key x = (ds_ProviderService v, ds_Code v)) os)))"
proof -
  define result where "result = fold count_offer os []"
  have t: "tally os result" unfolding result_def by (rule tally_fold [OF assms(2)])
  have vs: "vs = sort_by summary_le (map snd result)"
    by (simp add: assms(1,3) summarizeDatasets_def count_instances_fold result_def)
  have key: "(ds_ProviderService (snd x), ds_Code (snd x)) = fst x" if "x \<in> set result" for x
    using t that by (auto simp: tally_def)
  have img: "(\<lambda>v. (ds_ProviderService v, ds_Code v)) ` set vs = fst ` set result"
    unfolding vs set_sort_by set_map image_image using key by (intro image_cong) auto
  have "map (\<lambda>v. (ds_ProviderService v, ds_Code v)) (map snd result) = map fst result"
    using key by simp
  then have "distinct (map (\<lambda>v. (ds_ProviderService v, ds_Code v)) (map snd result))"
    using t unfolding tally_def by argo
  then have "distinct (map (\<lambda>v. (ds_ProviderService v, ds_Code v)) vs)"
    unfolding vs distinct_map [where f = "\<lambda>v. (ds_ProviderService v, ds_Code v)"] distinct_sort_by set_sort_by .
  moreover have "sorted_wrt summary_le vs"
    unfolding vs by (rule sorted_sort_by [OF summary_le_total summary_le_trans])
  moreover have "ds_HealthyInstances v
      = int (length (filter (\<lambda>x. offer_key x = (ds_ProviderService v, ds_Code v)) os))" if v: "v \<in> set vs" for v
  proof -
    obtain x where x: "x \<in> set result" "v = snd x" using v by (auto simp: vs)
    then show ?thesis using t key [OF x(1)] unfolding tally_def by simp
  qed
  ultimately show ?thesis using img t by (simp add: tally_def)
qed

theorem summarizeDatasets_ok_witness:
  "distinct (map (\<lambda>v. (ds_ProviderService v, ds_Code v))
     (summarizeDatasets id (pe_ParseMetadata demo_provider) [demo_instance ''i1'', demo_instance ''i2''] []))"
proof -
  have "length (offers id (pe_ParseMetadata demo_provider) (ToLower id (TrimSpace []))
      [demo_instance ''i1'', demo_instance ''i2'']) < 2147483648"
    by (simp add: offers_def demo_provider_def)
  from summarizeDatasets_ok [OF refl this refl] show ?thesis by blast
qed

section \<open>Pages of the catalog\<close>

lemma ListDatasets_page:
  assumes "pe_discovery P = Some (Inr instances)" and "1 \<le> page" and "1 \<le> n" and "n \<le> 100"
    and "page * n < 2147483648" and "vs = summarizeDatasets (pe_ToLower P) (pe_ParseMetadata P) instances search"
  shows "ListDatasets P search page n
    = Inr (take (nat n) (drop (nat ((page - 1) * n)) vs), int (length vs))"
proof -
  have nonneg: "0 \<le> (page - 1) * n" using assms(2,3) by simp
  have le: "(page - 1) * n + n = page * n" by (simp add: algebra_simps)
  have "page * 1 \<le> page * n" using assms(2,3) by (intro mult_left_mono) auto
  then have "page < 2147483648" using assms(5) by linarith
  then have "i32 (page - 1) = page - 1" using assms(2) by (intro i32_id) (simp add: in_i32_def)
  moreover have "i32 ((page - 1) * n) = (page - 1) * n"
    using nonneg le assms(3,5) by (intro i32_id) (auto simp: in_i32_def)
  ultimately have start: "i32 (i32 (page - 1) * n) = (page - 1) * n" by simp
  have norm: "normalizeCatalogPage page n = (page, n)"
    using assms(2-4) by (simp add: normalizeCatalogPage_def)
  define st where "st = (page - 1) * n"
  have "drop (nat st) (take (nat (min (st + n) (int (length vs)))) vs) = take (nat n) (drop (nat st) vs)"
    if "st < int (length vs)"
  proof -
    have "nat (min (st + n) (int (length vs))) = min (nat st + nat n) (length vs)"
      using nonneg assms(3) unfolding st_def [symmetric] by linarith
    then show ?thesis by (auto simp: drop_take min_def)
  qed
  then show ?thesis
    using assms(1,6) nonneg
    by (simp add: ListDatasets_def Let_def norm start st_def [symmetric])
qed

text \<open>
  A page of the catalog is the corresponding slice of the summaries, with the full count, as long as
  the end of the page fits 32 bits.
\<close>

theorem ListDatasets_pages:
  assumes "pe_discovery P = Some (Inr instances)" and "1 \<le> page" and "1 \<le> n" and "n \<le> 100"
    and "page * n < 2147483648" and "vs = summarizeDatasets (pe_ToLower P) (pe_ParseMetadata P) instances search"
  shows "ListDatasets P search page n
    = Inr (take (nat n) (drop (nat ((page - 1) * n)) vs), int (length vs))"
  using assms by (rule ListDatasets_page)

theorem ListDatasets_pages_witness:
  "\<exists>vs. ListDatasets demo_provider [] 2 10 = Inr (take 10 (drop 10 vs), int (length vs))"
  using ListDatasets_pages [of demo_provider "[demo_instance ''i1'', demo_instance ''i2'']" 2 10 _ "[]", OF _ _ _ _ _ refl]
  by (auto simp: demo_provider_def)



end
