(* ===== verification/Demo_Instance.thy ===== *)
theory Demo_Instance
  imports Export_Service "HOL-Library.AList"
begin

text \<open>
  One concrete deployment: a bucket that is an association list, a clock that counts, a database
  without faults, a user of tenant \<open>t\<close>.  It instantiates every parameter of the model, so that each
  theorem with hypotheses can be applied to a run.
\<close>

definition demo_lib :: golib where
  "demo_lib = \<lparr>unicode_ToLower = id, ParseFloat = (\<lambda>_. Some (0, 0)), Parse_RFC3339 = (\<lambda>_. True),
     Format_date = (\<lambda>_. ''2024/01/01'')\<rparr>"

type_synonym bucket = "(string \<times> string) list"

definition demo_minio :: "bucket minio" where
  "demo_minio = \<lparr>mc_read = (\<lambda>_ _ _ _. None),
     mc_finish = (\<lambda>key content _ b. (Inr (int (length content)), AList.update key content b)),
     mc_abort = (\<lambda>_ _ e b. (e, b)),
     mc_RemoveObject = (\<lambda>key b. (None, AList.delete key b)),
     mc_PresignedGetObject = (\<lambda>key _ _. Inr (''https://s3/'' @ key))\<rparr>"

definition demo_storage :: "bucket s3" where
  "demo_storage = \<lparr>s3_client = demo_minio, s3_presignClient = demo_minio,
     s3_cfg = \<lparr>os_Enabled = True, os_Endpoint = ''s3'', os_PresignEndpoint = [], os_AccessKey = ''k'',
       os_SecretKey = ''s'', os_Bucket = ''b'', os_Region = [], os_UseSSL = True, os_PresignUseSSL = True,
       os_PresignTTL = 50\<rparr>\<rparr>"

definition demo_service :: "bucket service" where
  "demo_service = NewService demo_lib demo_storage 100 50"

definition demo_env :: env where
  "demo_env = \<lparr>clock = int, uuid = (\<lambda>n. CHR ''e'' # replicate n CHR ''x''), sql_faults = (\<lambda>_. None),
     others = (\<lambda>_ d. d), db_enabled = True, seal = (\<lambda>e. Inr (env_EventID e))\<rparr>"

definition demo_user :: principal where
  "demo_user = \<lparr>p_ID = ''u'', p_Type = TypeUser, p_TenantID = ''t''\<rparr>"

definition demo_job :: job where
  "demo_job = zero_job\<lparr>ID := ''j'', TenantID := ''t'', ApplicationID := ''a'', Format := ''csv'',
     IdempotencyKey := ''k'', Status := ''queued'', Version := 1, ObjectKey := ''t/a/j.csv''\<rparr>"

definition demo_world :: "job list \<Rightarrow> bucket world" where
  "demo_world js = \<lparr>w_db = \<lparr>jobs = js, outbox = []\<rparr>, w_objs = [], w_ticks = 0, w_stmts = 0, w_uuids = 0\<rparr>"


definition demo_input :: create_input where
  "demo_input = \<lparr>ci_TenantID = ''t'', ci_ApplicationID = ''a'', ci_DatasetCode = ''ds'', ci_ProviderService = ''ps'',
     ci_Format = ''csv'', ci_Filename = [], ci_QueryJSON = [], ci_SelectedColumnsJSON = [],
     ci_IdempotencyKey = ''k'', ci_ActorID = []\<rparr>"

definition demo_created :: job where
  "demo_created = demo_job\<lparr>DatasetCode := ''ds'', ProviderService := ''ps'', QueryJSON := ''{}'',
     SelectedColumnsJSON := ''[]''\<rparr>"

definition demo_failed :: job where
  "demo_failed = demo_job\<lparr>Status := ''failed'', CompletedAt := Some 3\<rparr>"

definition demo_done :: job where
  "demo_done = demo_job\<lparr>Status := ''succeeded'', CompletedAt := Some 3, ExpiresAt := Some 103\<rparr>"

definition demo_filter :: list_filter where
  "demo_filter = \<lparr>lf_TenantID = ''t'', lf_ApplicationID = ''a'', lf_Status = [], lf_DatasetCode = [],
     lf_CreatedFrom = None, lf_CreatedTo = None, lf_Page = 1, lf_PageSize = 20\<rparr>"

lemma demo_normalize [simp]:
  "normalize ''t'' = ''t''" "normalize ''a'' = ''a''" "normalize ''j'' = ''j''" "normalize ''k'' = ''k''" "normalize ''r'' = ''r''"
  "normalize ''x'' = ''x''"
  by (rule normalize_visible; simp add: visible_def)+

lemmas demo_defs = demo_env_def demo_service_def NewService_def demo_user_def allowAllApplications_def demo_world_def

lemma demo_env_simps [simp]:
  "clock demo_env = int" "uuid demo_env n = CHR ''e'' # replicate n CHR ''x''" "others demo_env n d = d"
  "seal demo_env ev = Inr (env_EventID ev)"
  by (simp_all add: demo_env_def)

lemma demo_user_simps [simp]: "p_ID demo_user = ''u''"
  by (simp add: demo_user_def)

lemma demo_calm [simp]: "calm demo_env" by (simp add: calm_def demo_env_def)

lemma demo_table_ok [simp]: "table_ok [demo_job]" "table_ok [demo_job\<lparr>Status := ''failed''\<rparr>]"
  by (simp_all add: table_ok_def row_check_def demo_job_def zero_job_def status_defs format_defs)

lemma demo_scope [simp]: "authorizeScope (applications demo_service) (Some demo_user) ''t'' ''a'' = Inr ''u''"
  by (simp add: authorizeScope_def authorize_def demo_defs)

lemmas service_eval = now_def new_uuid_def Within_calm sql_tx_calm sql_auto_calm addEvent_def
  jobChangedEvent_def repo_AddOutbox_def stmt_AddOutbox_def exec_update_def update_where_def affected_def
  exec_insert_def select_one_def optimistic_def table_ok_def row_check_def idempotency_unique_def
  job_at_def lookup_job_def demo_world_def demo_job_def zero_job_def status_defs format_defs

lemma demo_Get:
  "Get demo_service demo_env (Some demo_user) ''t'' ''a'' ''j'' (demo_world [demo_job]) =
    (Inr demo_job, (demo_world [demo_job])\<lparr>w_stmts := 1\<rparr>)"
  by (simp add: Get_def repo_Get_def stmt_Get_def service_eval)

lemma demo_Cancel:
  "fst (Cancel demo_service demo_env (Some demo_user) ''t'' ''a'' ''j'' 1 (demo_world [demo_job]))
    = Inr (set_Cancel ''u'' 0 demo_job)"
  by (simp add: Cancel_def cancel_tx_def repo_Cancel_def stmt_Cancel_def Get_def repo_Get_def stmt_Get_def
      service_eval)

lemma demo_input_simps [simp]:
  "ci_TenantID demo_input = ''t''" "ci_ApplicationID demo_input = ''a''" "ci_DatasetCode demo_input = ''ds''"
  "ci_ProviderService demo_input = ''ps''" "ci_Format demo_input = ''csv''" "ci_QueryJSON demo_input = []"
  "ci_SelectedColumnsJSON demo_input = []" "ci_IdempotencyKey demo_input = ''k''"
  by (simp_all add: demo_input_def)

lemma demo_world_simps [simp]:
  "jobs (w_db (demo_world js)) = js" "outbox (w_db (demo_world js)) = []" "w_ticks (demo_world js) = 0"
  "w_stmts (demo_world js) = 0" "w_uuids (demo_world js) = 0" "w_objs (demo_world js) = []"
  by (simp_all add: demo_world_def)

lemma demo_normalize_input [simp]: "normalize_input demo_lib demo_input = demo_input"
proof -
  have "normalize ''ds'' = ''ds''" "normalize ''ps'' = ''ps''" "normalize ''csv'' = ''csv''"
    by (rule normalize_visible; simp add: visible_def)+
  moreover have "ToLower id ''ds'' = ''ds''" "ToLower id ''ps'' = ''ps''" "ToLower id ''csv'' = ''csv''"
    by (rule ToLower_lower; simp)+
  ultimately show ?thesis by (simp add: normalize_input_def demo_input_def demo_lib_def)
qed

lemma demo_service_simps [simp]: "sv_lib demo_service = demo_lib" "catalog demo_service = None"
  by (simp_all add: demo_service_def NewService_def)

lemma demo_not_refused: "create_refused demo_service (Some demo_user) demo_input = None"
proof -
  have "\<not> input_invalid demo_input"
    by (simp add: input_invalid_def codePattern_def lower_letter_def code_char_def validFormat_def format_defs)
  then show ?thesis
    by (simp add: create_refused_def validJSONObject_def validStringArray_def validateDataset_def)
qed

lemma demo_Create:
  "\<exists>w'. Create demo_service demo_env (Some demo_user) demo_input (demo_world [])
    = ((created_job demo_service demo_env demo_input ''u'' (demo_world []), False, None), w')"
proof -
  obtain r w' where C: "Create demo_service demo_env (Some demo_user) demo_input (demo_world []) = (r, w')"
    by fastforce
  then show ?thesis
  proof (cases rule: Create_elim)
    case (ran actor err v created)
    then have "actor = ''u''" by simp
    moreover have "table_ok [created_job demo_service demo_env demo_input ''u'' (demo_world [])]"
      by (simp add: table_ok_def row_check_def new_job_def zero_job_def status_defs format_defs)
    ultimately show ?thesis using C ran
      by (auto simp: create_tx_def repo_Create_def stmt_by_key_def select_one_def Within_calm sql_tx_calm
          addEvent_def new_uuid_def jobChangedEvent_def repo_AddOutbox_def stmt_AddOutbox_def exec_insert_def
          demo_world_def)
  qed (simp add: demo_not_refused)
qed

lemma demo_not_differs: "\<not> differs demo_input demo_created"
  by (simp add: differs_def demo_created_def demo_job_def zero_job_def defaultJSON_def)

lemma demo_created_ok [simp]: "table_ok [demo_created]"
  by (simp add: demo_created_def service_eval)

lemma demo_Retry:
  "\<exists>v w'. Retry demo_service demo_env (Some demo_user) ''t'' ''a'' ''j'' 1 ''r'' (demo_world [demo_failed])
    = (Inr (v, False), w')"
  by (simp add: Retry_def retry_tx_def repo_Retry_def stmt_Retry_def Get_def repo_Get_def stmt_Get_def demo_failed_def
      service_eval)

lemma demo_Download:
  "\<exists>w'. CreateDownloadURL demo_service demo_env (Some demo_user) ''t'' ''a'' ''j'' 10 (demo_world [demo_done])
    = (Inr (''https://s3/t/a/j.csv'', 10, demo_done), w') \<and> w_objs w' = []"
  by (simp add: CreateDownloadURL_def Get_def repo_Get_def stmt_Get_def demo_done_def service_eval
      download_ttl_def demo_service_def NewService_def s3_PresignDownload_def s3_Enabled_def demo_storage_def
      demo_minio_def authorizeScope_def authorize_def demo_user_def allowAllApplications_def)

lemma demo_failed_ok [simp]: "table_ok [demo_failed]" "table_ok [demo_done]"
  by (simp_all add: demo_failed_def demo_done_def service_eval)

lemma demo_filter_simps [simp]: "lf_TenantID demo_filter = ''t''" "lf_ApplicationID demo_filter = ''a''"
  by (simp_all add: demo_filter_def)

end
