(* ===== verification/Export_Service_Laws.thy ===== *)
theory Export_Service_Laws
  imports Demo_Instance
begin

text \<open>
  What the job API promises: who may act, what each operation does to the store when it succeeds,
  what it leaves alone when it does not, and what it returns when nothing fails.
\<close>

section \<open>Vocabulary\<close>

text \<open>Who may act in a tenant's application.\<close>

definition may_act :: "'o service \<Rightarrow> principal option \<Rightarrow> string \<Rightarrow> string \<Rightarrow> bool" where
  "may_act S ctx t a \<longleftrightarrow>
    (\<exists>p. ctx = Some p \<and> (p_Type p \<in> {TypeServiceAccount, TypeSystem} \<or> p_TenantID p = t))
    \<and> t \<noteq> [] \<and> a \<noteq> [] \<and> applications S t a = None"

text \<open>What one committed, announced update of a job does to the store.\<close>

definition committed_update ::
  "(envelope \<Rightarrow> string result) \<Rightarrow> string \<Rightarrow> job \<Rightarrow> job \<Rightarrow> job \<Rightarrow> db \<Rightarrow> db \<Rightarrow> bool" where
  "committed_update sl change ev j j' d d' \<longleftrightarrow>
    lookup_job d (TenantID j) (ApplicationID j) (ID j) = Some j
    \<and> lookup_job d' (TenantID j) (ApplicationID j) (ID j) = Some j'
    \<and> (\<forall>x y z. (x, y, z) \<noteq> (TenantID j, ApplicationID j, ID j) \<longrightarrow> lookup_job d' x y z = lookup_job d x y z)
    \<and> (\<exists>row. outbox d' = outbox d @ [row] \<and> oe_Subject (or_event row) = event_subject change
         \<and> (\<exists>actor at. sl (event_envelope (oe_ID (or_event row)) ev change actor at)
              = Inr (oe_Envelope (or_event row))))"

text \<open>What the progress statements assume of events: the encoder accepts them and the next
  identifier is new.\<close>

definition announces :: "env \<Rightarrow> 'o world \<Rightarrow> bool" where
  "announces E w \<longleftrightarrow> (\<forall>ev. \<exists>b. seal E ev = Inr b)
     \<and> uuid E (w_uuids w) \<notin> (\<lambda>r. oe_ID (or_event r)) ` set (outbox (w_db w))"

definition request_key :: "'o service \<Rightarrow> create_input \<Rightarrow> string \<times> string \<times> string" where
  "request_key S input = (normalize (ci_TenantID input), normalize (ci_ApplicationID input), normalize (ci_IdempotencyKey input))"

text \<open>A byte that may occur in a file name.\<close>

definition filename_byte :: "char \<Rightarrow> bool" where
  "filename_byte c \<longleftrightarrow> 32 \<le> (byte c :: nat) \<and> c \<notin> set (''/:*?<>|'' @ [CHR 0x22, CHR 0x5C])"

text \<open>The field that governs a member of the query: the last one declared under its key.\<close>

definition declared :: "query_field list \<Rightarrow> string \<Rightarrow> query_field option" where
  "declared fs k = (if k = [] then None
     else map_option (\<lambda>f. f\<lparr>qf_Key := k\<rparr>) (find (\<lambda>f. normalize (qf_Key f) = k) (rev fs)))"

definition required_present :: "(string \<times> json) list \<Rightarrow> query_field list \<Rightarrow> bool" where
  "required_present values fs \<longleftrightarrow>
    (\<forall>f\<in>set fs. normalize (qf_Key f) \<noteq> [] \<and> qf_Required f \<longrightarrow> normalize (qf_Key f) \<in> fst ` set values)"

definition query_members :: "string \<Rightarrow> (string \<times> json) list option" where
  "query_members raw = (if normalize raw = [] then Some [] else Unmarshal_map_raw raw)"

definition query_accepted :: "golib \<Rightarrow> query_field list \<Rightarrow> (string \<times> json) list \<Rightarrow> bool" where
  "query_accepted lib fs values \<longleftrightarrow> required_present values fs
     \<and> (\<forall>(k, v)\<in>set values. \<exists>f. declared fs k = Some f \<and> validateQueryValue lib v f = None)"

definition selected_columns :: "string \<Rightarrow> string list option" where
  "selected_columns raw = (if normalize raw = [] then Some [] else Unmarshal_strings raw)"

definition listing :: "list_filter \<Rightarrow> db \<Rightarrow> job list" where
  "listing f d = sort_by newest_first (filter (list_where f) (jobs d))"

lemma authorizeScope_iff:
  "(\<exists>actor. authorizeScope (applications S) ctx t a = Inr actor) \<longleftrightarrow>
    may_act S ctx (normalize t) (normalize a)"
  by (cases ctx)
    (auto simp: may_act_def authorizeScope_def authorize_def Let_def split: if_splits option.splits)

lemma authorizeScope_may_act:
  "authorizeScope (applications S) ctx t a = Inr actor \<Longrightarrow> may_act S ctx (normalize t) (normalize a)"
  using authorizeScope_iff by blast

lemma authorizeScope_denied:
  "\<not> may_act S ctx (normalize t) (normalize a) \<Longrightarrow> \<exists>e. authorizeScope (applications S) ctx t a = Inl e"
  using authorizeScope_iff by (metis sum.exhaust_sel)

lemma repo_Get_found:
  "repo_Get E t a i w = (Inr j, w') \<Longrightarrow> lookup_job (w_db w') t a i = Some j"
  by (auto simp: repo_Get_def stmt_Get_def select_one_def lookup_job_def
      split: prod.splits sum.splits option.splits dest!: sql_auto_Inr)

lemma Get_found:
  assumes "Get S E ctx t a i w = (Inr j, w')"
  shows "may_act S ctx (normalize t) (normalize a)
    \<and> lookup_job (w_db w') (normalize t) (normalize a) (normalize i) = Some j"
  using assms
  by (auto simp: Get_def split: sum.splits prod.splits dest: repo_Get_found authorizeScope_may_act)

lemma lookup_job_ids: "lookup_job d t a i = Some j \<Longrightarrow> TenantID j = t \<and> ApplicationID j = a \<and> ID j = i"
  by (drule lookup_jobD) (simp add: job_at_def)

lemma demo_may_act: "may_act demo_service (Some demo_user) ''t'' ''a''"
  by (simp add: may_act_def demo_defs)

lemma demo_announces: "announces demo_env (demo_world js)"
  by (simp add: announces_def demo_world_def)

lemma demo_created_key: "demo_created \<in> set (jobs (w_db (demo_world [demo_created])))"
  "idempotency_unique demo_created = request_key demo_service demo_input"
  by (simp_all add: idempotency_unique_def request_key_def demo_created_def demo_job_def)

text \<open>
  C22. A caller without authority in the scope it names (no principal, a user of another tenant, an
  application not granted to the tenant) is refused by every operation of the job API, and the
  refusal touches nothing: no statement is sent, no clock read, no row or object changed.
\<close>

theorem denied_no_effect:
  assumes "\<not> may_act S ctx (normalize t) (normalize a)"
  shows "(\<exists>e. Get S E ctx t a i w = (Inl e, w)) \<and> (\<exists>e. Cancel S E ctx t a i expected w = (Inl e, w))
    \<and> (\<exists>e. Retry S E ctx t a i expected key w = (Inl e, w))
    \<and> (\<exists>e. CreateDownloadURL S E ctx t a i ttl w = (Inl e, w))
    \<and> (\<exists>e. List S E ctx (f\<lparr>lf_TenantID := t, lf_ApplicationID := a\<rparr>) w = (Inl e, w))
    \<and> (\<exists>e. Create S E ctx (input\<lparr>ci_TenantID := t, ci_ApplicationID := a\<rparr>) w = ((zero_job, False, Some e), w))"
proof -
  obtain e where "authorizeScope (applications S) ctx t a = Inl e" using authorizeScope_denied [OF assms] by blast
  then show ?thesis
    by (simp add: Get_def Cancel_def Retry_def CreateDownloadURL_def List_def Create_def)
qed

theorem denied_no_effect_witness:
  "\<exists>e. Cancel demo_service demo_env (Some demo_user) ''x'' ''a'' ''j'' 1 (demo_world [demo_job])
    = (Inl e, demo_world [demo_job])"
  using denied_no_effect [of demo_service "Some demo_user" "''x''" "''a''"]
  by (simp add: may_act_def demo_user_def)

lemma Get_scope: "Get S E ctx t a i w = (Inr j, w') \<Longrightarrow> may_act S ctx (TenantID j) (ApplicationID j)"
  using Get_found lookup_job_ids by metis

lemma stmt_Select_where:
  "stmt_Select f d = Inr (xs, d') \<Longrightarrow> x \<in> set xs \<Longrightarrow> x \<in> set (jobs d) \<and> list_where f x"
  by (auto simp: stmt_Select_def split: if_splits dest!: in_set_takeD in_set_dropD)

lemma repo_List_where:
  "repo_List E f w = (Inr pg, w') \<Longrightarrow> x \<in> set (pg_Items pg) \<Longrightarrow> list_where f x"
  by (auto simp: repo_List_def split: sum.splits prod.splits dest!: sql_auto_Inr dest: stmt_Select_where)

lemma List_scope:
  assumes "List S E ctx f w = (Inr pg, w')" and "x \<in> set (pg_Items pg)"
  shows "TenantID x = normalize (lf_TenantID f) \<and> ApplicationID x = normalize (lf_ApplicationID f)
    \<and> may_act S ctx (TenantID x) (ApplicationID x)"
  using assms
  by (auto simp: List_def normalize_filter_def Let_def list_where_def split: sum.splits prod.splits
      dest!: repo_List_where authorizeScope_may_act)



section \<open>Cancel\<close>

lemma announced_outbox:
  "announced sl j change d d' \<Longrightarrow> \<exists>row. outbox d' = outbox d @ [row] \<and> jobs d' = jobs d
     \<and> oe_Subject (or_event row) = event_subject change \<and> or_published_at row = None
     \<and> oe_ID (or_event row) \<notin> (\<lambda>r. oe_ID (or_event r)) ` set (outbox d)
     \<and> (\<exists>actor at. sl (event_envelope (oe_ID (or_event row)) j change actor at) = Inr (oe_Envelope (or_event row)))"
  by (force simp: announced_def stmt_AddOutbox_def split: if_splits dest: jobChangedEvent_InrD)

lemma lookup_job_jobs: "jobs d' = jobs d \<Longrightarrow> lookup_job d' = lookup_job d"
  by (intro ext) (simp add: lookup_job_def)

context keyed_update
begin

lemma announced_hit:
  assumes "st d = Inr (n, d1)" and "n \<noteq> 0" and "table_ok (jobs d)" and "announced sl ev change d1 d2"
  obtains j where "guard j" "TenantID j = t" "ApplicationID j = a" "ID j = i"
    "committed_update sl change ev j (eff j) d d2"
proof -
  obtain j where j: "lookup_job d t a i = Some j" "guard j" "lookup_job d1 t a i = Some (eff j)"
    using hit [OF assms(3,1,2)] .
  have ids: "TenantID j = t \<and> ApplicationID j = a \<and> ID j = i"
    using lookup_jobD [OF j(1)] by (simp add: job_at_def)
  obtain row where row: "outbox d2 = outbox d1 @ [row]" "jobs d2 = jobs d1"
    "oe_Subject (or_event row) = event_subject change"
    "\<exists>actor at. sl (event_envelope (oe_ID (or_event row)) ev change actor at) = Inr (oe_Envelope (or_event row))"
    using announced_outbox [OF assms(4)] by blast
  have "committed_update sl change ev j (eff j) d d2"
    unfolding committed_update_def lookup_job_jobs [OF row(2)]
    using j ids row(1,3,4) frame [OF assms(1)] outbox_same [OF assms(1)] by auto
  with j(2) ids that show ?thesis by blast
qed

end

lemma Get_db: "Get S E ctx t a i w = (Inr j, w') \<Longrightarrow> w_db w' = others E (w_stmts w) (w_db w)"
  by (auto simp: Get_def repo_Get_def stmt_Get_def split: sum.splits prod.splits
      dest!: sql_auto_Inr select_one_same)

text \<open>
  C26. A cancel that succeeds found the job at exactly the version the caller named, queued or running,
  and committed in one transaction its cancellation at the next version and exactly one
  \<open>canceled\<close> event, with every other job as it was; the job returned is the one then stored.  Other
  replicas may commit before the transaction and before the final read.
\<close>

theorem Cancel_effect:
  fixes w w' :: "'o world"
  assumes "Cancel S E ctx t a i expected w = (Inr v, w')"
    and "table_ok (jobs (others E (w_stmts w) (w_db w)))"
  shows "\<exists>j d actor n. may_act S ctx (TenantID j) (ApplicationID j) \<and> TenantID j = normalize t
    \<and> ApplicationID j = normalize a \<and> ID j = normalize i
    \<and> Version j = expected \<and> Status j \<in> {StatusQueued, StatusRunning}
    \<and> committed_update (seal E) ''canceled'' (canceled_job t a i expected actor (clock E (w_ticks w))) j
        (set_Cancel actor (clock E (w_ticks w)) j) (others E (w_stmts w) (w_db w)) d
    \<and> w_db w' = others E n d \<and> lookup_job (w_db w') (TenantID j) (ApplicationID j) (ID j) = Some v"
  using assms(1)
proof (cases rule: Cancel_elim)
  case (committed actor u w1)
  obtain w0 w2 :: "'o world" where tx: "cancel_tx E t a i expected actor (clock E (w_ticks w)) w0 = ((None, u), w2)"
    "w_db w1 = w_db w2" "w_db w0 = others E (w_stmts (tick w)) (w_db (tick w))"
    using Within_commit [OF committed(3)] .
  note db0 = tx(3) [simplified]
  obtain n d1 where st: "n \<noteq> 0"
    "stmt_Cancel (normalize t) (normalize a) (normalize i) expected actor (clock E (w_ticks w)) (w_db w0) = Inr (n, d1)"
    "announced (seal E) (canceled_job t a i expected actor (clock E (w_ticks w))) ''canceled'' d1 (w_db w2)"
    using cancel_tx_ok [OF tx(1)] .
  obtain j where j: "Version j = expected \<and> Status j \<in> {StatusQueued, StatusRunning}"
    "TenantID j = normalize t" "ApplicationID j = normalize a" "ID j = normalize i"
    "committed_update (seal E) ''canceled'' (canceled_job t a i expected actor (clock E (w_ticks w))) j
       (set_Cancel actor (clock E (w_ticks w)) j) (w_db w0) (w_db w2)"
    using cancel.announced_hit [OF st(2,1) _ st(3)] assms(2) db0 by metis
  show ?thesis
    using j Get_db [OF committed(4)] Get_found [OF committed(4)] tx(2) db0 by metis
qed auto

theorem Cancel_effect_witness:
  "\<exists>d ev. committed_update (seal demo_env) ''canceled'' ev demo_job (set_Cancel ''u'' 0 demo_job)
    (w_db (demo_world [demo_job])) d"
proof -
  obtain w' where "Cancel demo_service demo_env (Some demo_user) ''t'' ''a'' ''j'' 1 (demo_world [demo_job])
      = (Inr (set_Cancel ''u'' 0 demo_job), w')"
    using demo_Cancel by (metis prod.collapse)
  from Cancel_effect [OF this] obtain j d actor n where
    "TenantID j = ''t''" "ApplicationID j = ''a''" "ID j = ''j''"
    "committed_update (seal demo_env) ''canceled'' (canceled_job ''t'' ''a'' ''j'' 1 actor 0) j (set_Cancel actor 0 j)
       (w_db (demo_world [demo_job])) d" "lookup_job (w_db w') ''t'' ''a'' ''j'' = Some (set_Cancel ''u'' 0 demo_job)"
    "w_db w' = d"
    by (auto simp: demo_world_def)
  moreover from this have "j = demo_job" "set_Cancel actor 0 j = set_Cancel ''u'' 0 demo_job"
    by (auto simp: committed_update_def demo_world_def lookup_job_def job_at_def demo_job_def)
  ultimately show ?thesis by metis
qed

section \<open>Without faults\<close>

lemma addEvent_calm:
  assumes "calm E" and "announces E w"
  shows "\<exists>w'. addEvent E j change actor at w = (None, w') \<and> jobs (w_db w') = jobs (w_db w)
    \<and> w_stmts w' = Suc (w_stmts w)"
proof -
  obtain b where "seal E (event_envelope (uuid E (w_uuids w)) j change actor at) = Inr b"
    using assms(2) unfolding announces_def by blast
  with assms show ?thesis
    by (auto simp: addEvent_def new_uuid_def jobChangedEvent_def repo_AddOutbox_def sql_tx_calm
        stmt_AddOutbox_def announces_def)
qed

lemma repo_Get_calm:
  "calm E \<Longrightarrow> repo_Get E t a i w = ((case lookup_job (w_db w) t a i of
      None \<Rightarrow> Inl ErrNotFound | Some j \<Rightarrow> Inr j), w\<lparr>w_stmts := Suc (w_stmts w)\<rparr>)"
  by (simp add: repo_Get_def calm_simps stmt_Get_def select_one_def lookup_job_def notFound_def
      split: option.splits)

lemma Get_calm:
  assumes "calm E" and "authorizeScope (applications S) ctx t a = Inr actor"
  shows "Get S E ctx t a i w = ((case lookup_job (w_db w) (normalize t) (normalize a) (normalize i) of
      None \<Rightarrow> Inl (app_NotFound ''export job not found'') | Some j \<Rightarrow> Inr j), w\<lparr>w_stmts := Suc (w_stmts w)\<rparr>)"
  using assms by (simp add: Get_def repo_Get_calm translate_def split: option.splits)

lemma authorizeScope_actor:
  "may_act S (Some p) (normalize t) (normalize a) \<Longrightarrow> authorizeScope (applications S) (Some p) t a = Inr (p_ID p)"
  by (auto simp: may_act_def authorizeScope_def authorize_def Let_def)

text \<open>
  Without faults the outcome of a cancel is decided by the row: with the named version and a
  cancellable status the canceled job comes back; otherwise (a stale version, a finished job, no
  such job) the answer is the conflict error and the database is untouched.
\<close>

theorem Cancel_calm:
  assumes "calm E" and "table_ok (jobs (w_db w))" and "may_act S (Some p) (normalize t) (normalize a)"
    and "1 \<le> expected" and "announces E w"
    and "lookup_job (w_db w) (normalize t) (normalize a) (normalize i) = r"
  shows "if \<exists>j. r = Some j \<and> Version j = expected \<and> Status j \<in> {StatusQueued, StatusRunning}
    then fst (Cancel S E (Some p) t a i expected w) = Inr (set_Cancel (p_ID p) (clock E (w_ticks w)) (the r))
    else \<exists>w'. Cancel S E (Some p) t a i expected w =
      (Inl (app_Conflict ''export job version or state changed'' (Some ErrStaleVersion)), w') \<and> w_db w' = w_db w"
proof -
  define at where "at = clock E (w_ticks w)"
  define w0 where "w0 = (tick w)\<lparr>w_stmts := Suc (w_stmts w)\<rparr>"
  have db0: "w_db w0 = w_db w" "announces E w0" using assms(5) by (auto simp: w0_def announces_def)
  note auth = authorizeScope_actor [OF assms(3)]
  show ?thesis
  proof (cases "\<exists>j. r = Some j \<and> Version j = expected \<and> Status j \<in> {StatusQueued, StatusRunning}")
    case True
    then obtain j where j: "r = Some j" "Version j = expected \<and> Status j \<in> {StatusQueued, StatusRunning}"
      by blast
    obtain n d where st: "stmt_Cancel (normalize t) (normalize a) (normalize i) expected (p_ID p) at (w_db w0) = Inr (Suc n, d)"
      "lookup_job d (normalize t) (normalize a) (normalize i) = Some (set_Cancel (p_ID p) at j)"
      using cancel.accepted_hit [of "w_db w0"] j assms(2,6) db0(1) by metis
    define w1 where "w1 = w0\<lparr>w_stmts := Suc (w_stmts w0), w_db := d\<rparr>"
    have "announces E w1"
      using db0(2) cancel.outbox_same [OF st(1)] by (simp add: announces_def w1_def w0_def)
    then obtain w2 where w2: "addEvent E (canceled_job t a i expected (p_ID p) at) ''canceled'' (p_ID p) at w1 = (None, w2)"
      "jobs (w_db w2) = jobs (w_db w1)" using addEvent_calm [OF assms(1)] by blast
    have "cancel_tx E t a i expected (p_ID p) at w0 = ((None, ()), w2)"
      using st(1) w2(1) assms(1)
      by (simp add: cancel_tx_def repo_Cancel_def sql_tx_calm optimistic_def w1_def)
    then have "fst (Cancel S E (Some p) t a i expected w) = Inr (set_Cancel (p_ID p) at j)"
      using st(2) w2(2) assms(1,4) auth lookup_job_jobs [OF w2(2)]
      by (simp add: Cancel_def now_def Within_calm Get_calm w0_def w1_def at_def)
    with True j show ?thesis by (simp add: at_def)
  next
    case False
    then have "stmt_Cancel (normalize t) (normalize a) (normalize i) expected (p_ID p) at (w_db w0) = Inr (0, w_db w0)"
      using assms(2,6) db0(1) by (intro cancel.accepted_miss) auto
    then have "\<exists>w2. cancel_tx E t a i expected (p_ID p) at w0 = ((Some ErrStaleVersion, ()), w2)"
      using assms(1) by (simp add: cancel_tx_def repo_Cancel_def sql_tx_calm optimistic_def)
    then show ?thesis using False assms(1,4) auth
      by (auto simp: Cancel_def now_def Within_calm translate_def w0_def at_def)
  qed
qed

theorem Cancel_calm_witness:
  "\<exists>w'. Cancel demo_service demo_env (Some demo_user) ''t'' ''a'' ''j'' 7 (demo_world [demo_job]) =
    (Inl (app_Conflict ''export job version or state changed'' (Some ErrStaleVersion)), w')
    \<and> w_db w' = w_db (demo_world [demo_job])"
  using Cancel_calm [of demo_env "demo_world [demo_job]" demo_service demo_user "''t''" "''a''" 7 "''j''" "Some demo_job"]
  by (simp add: demo_may_act demo_announces) (simp add: service_eval)

section \<open>Create\<close>

lemma create_tx_ok:
  fixes w w' :: "'o world"
  assumes "create_tx E input v actor at w = ((None, v', created), w')"
  shows "if created then v' = v \<and> (\<exists>n d1. exec_insert v' (w_db w) = Inr (n, d1)
        \<and> announced (seal E) v' ''requested'' d1 (w_db w'))
    else w_db w' = w_db w \<and> \<not> differs input v'
      \<and> stmt_by_key (TenantID v) (ApplicationID v) (IdempotencyKey v) (w_db w) = Inr (v', w_db w)"
proof -
  obtain v1 c e and w1 :: "'o world" where c: "repo_Create E v w = ((v1, c, e), w1)" by (metis prod.collapse)
  with assms have e: "e = None" by (auto simp: create_tx_def split: option.splits)
  note C = repo_Create_ok [OF c [unfolded e]]
  show ?thesis
  proof (cases c)
    case True
    with c e assms have "addEvent E v1 ''requested'' actor at w1 = (None, w')" "v' = v1" "created"
      by (auto simp: create_tx_def split: prod.splits)
    with True C show ?thesis by (auto dest: addEvent_announced)
  next
    case False
    with c e assms have "w' = w1" "v' = v1" "\<not> created" "\<not> differs input v1"
      by (auto simp: create_tx_def split: if_splits)
    with False C show ?thesis by auto
  qed
qed

lemma exec_insert_outbox: "exec_insert v d = Inr (n, d') \<Longrightarrow> outbox d' = outbox d"
  by (auto simp: exec_insert_def Let_def split: if_splits)

lemma authorizeScope_actor_of:
  "authorizeScope verify ctx t a = Inr actor \<Longrightarrow> \<exists>p. ctx = Some p \<and> actor = p_ID p"
  by (auto simp: authorizeScope_def authorize_def Let_def split: option.splits if_splits sum.splits)

lemma table_ok_snoc:
  assumes "table_ok (rs @ [v])" and "j \<in> set rs"
  shows "idempotency_unique j \<noteq> idempotency_unique v"
proof
  assume eq: "idempotency_unique j = idempotency_unique v"
  have "idempotency_unique v \<notin> idempotency_unique ` set rs" using assms(1) by (simp add: table_ok_def)
  with eq assms(2) show False by (metis imageI)
qed



text \<open>The same request again: the stored job is returned and nothing changes.\<close>

lemma stmt_by_key_hit:
  assumes "table_ok (jobs d)" and "v \<in> set (jobs d)"
  shows "stmt_by_key (TenantID v) (ApplicationID v) (IdempotencyKey v) d = Inr (v, d)"
proof -
  have "find (\<lambda>j. TenantID j = TenantID v \<and> ApplicationID j = ApplicationID v
      \<and> IdempotencyKey j = IdempotencyKey v) (jobs d) = Some v"
    using assms by (intro find_key_unique [where key = idempotency_unique and k = "idempotency_unique v"])
      (auto simp: table_ok_def idempotency_unique_def)
  then show ?thesis by (simp add: stmt_by_key_def select_one_def)
qed

text \<open>
  Idempotence of create: when a job already holds the request's key, nothing is written; the stored
  job is returned, marked as reused, and with the conflict error exactly when dataset, provider,
  format, query or columns differ from the request's.
\<close>

theorem Create_replay:
  fixes w :: "'o world"
  assumes "calm E" and "table_ok (jobs (w_db w))" and "create_refused S ctx input = None"
    and "v \<in> set (jobs (w_db w))" and "idempotency_unique v = request_key S input"
  shows "\<exists>w'. w_db w' = w_db w \<and> Create S E ctx input w =
    (if differs (normalize_input (sv_lib S) input) v
     then ((v, True, Some (app_Conflict ''idempotency key was reused with different export parameters'' (Some ErrConflict))), w')
     else ((v, True, None), w'))"
proof -
  obtain actor where auth:
    "authorizeScope (applications S) ctx (ci_TenantID input) (ci_ApplicationID input) = Inr actor"
    using assms(3) by (auto simp: create_refused_def split: sum.splits)
  define c where "c = created_job S E input actor w"
  have key: "TenantID c = TenantID v" "ApplicationID c = ApplicationID v" "IdempotencyKey c = IdempotencyKey v"
    using assms(5) by (auto simp: c_def new_job_def normalize_input_def request_key_def idempotency_unique_def)
  have create: "repo_Create E c x = ((v, False, None), x\<lparr>w_stmts := Suc (w_stmts x)\<rparr>)"
    if "w_db x = w_db w" for x :: "'o world"
    using stmt_by_key_hit [OF assms(2,4)] assms(1) that
    by (simp add: repo_Create_def sql_tx_calm key)
  show ?thesis using assms(1,3) auth
    by (auto simp: Create_def create_refused_def Let_def now_def new_uuid_def Within_calm create_tx_def
        c_def [symmetric] create translate_def split: if_splits)
qed

theorem Create_replay_witness:
  "\<exists>w'. w_db w' = w_db (demo_world [demo_created]) \<and>
    Create demo_service demo_env (Some demo_user) demo_input (demo_world [demo_created]) = ((demo_created, True, None), w')"
  using Create_replay [of demo_env "demo_world [demo_created]" demo_service "Some demo_user" demo_input demo_created]
  by (simp add: demo_not_refused demo_not_differs demo_created_key)

section \<open>Retry\<close>

lemma repo_Get_at: "repo_Get E t a i w = (Inr j, w') \<Longrightarrow> TenantID j = t \<and> ApplicationID j = a \<and> ID j = i"
  by (drule repo_Get_found) (rule lookup_job_ids)



section \<open>Downloads\<close>

lemma download_ttl_bounds:
  "download_ttl limit remaining ttl \<le> limit" "download_ttl limit remaining ttl \<le> remaining"
  "0 < limit \<Longrightarrow> 0 < remaining \<Longrightarrow> 0 < download_ttl limit remaining ttl"
  by (auto simp: download_ttl_def Let_def)



lemma filename_rune_bytes:
  assumes "c \<in> set (strings_Map filename_rune s)" and "CHR 0x5C \<notin> set s"
  shows "filename_byte c"
proof (cases "byte c < (128::nat)")
  case True
  then obtain r where r: "r \<in> set (runes s)" "filename_rune r = byte c"
    using strings_Map_low assms(1) by blast
  show ?thesis
  proof (cases "r < 32 \<or> r \<in> byte ` set (''/:*?'' @ [CHR 0x22] @ ''<>|'')")
    case True
    then have "byte c = byte (CHR ''_'')" using r(2) unfolding filename_rune_def by presburger
    then have "c = CHR ''_''" unfolding of_char_eq_iff .
    then show ?thesis by (simp add: filename_byte_def)
  next
    case False
    then have "r = byte c" using r(2) unfolding filename_rune_def by presburger
    moreover have "c \<noteq> CHR 0x5C"
      using runes_low [OF r(1)] assms(2) True \<open>r = byte c\<close> by auto
    ultimately show ?thesis using False by (auto simp: filename_byte_def)
  qed
next
  case False
  then show ?thesis by (auto simp: filename_byte_def)
qed

lemma code_char_filename: "code_char c \<Longrightarrow> filename_byte c"
  by (auto simp: code_char_def lower_letter_def is_digit_def filename_byte_def)

lemma codePattern_filename: "codePattern s \<Longrightarrow> c \<in> set s \<Longrightarrow> filename_byte c"
  by (cases s) (auto simp: codePattern_def list_all_iff intro!: code_char_filename, auto simp: code_char_def)

lemma format_ext: "validFormat f \<Longrightarrow> length ('' .'' @ f) \<le> 8 \<and> (\<forall>c\<in>set f. filename_byte c)"
  by (auto simp: validFormat_def format_defs filename_byte_def)

text \<open>
  The stored file name is at most 240 bytes, ends in the format's extension (up to case), and
  contains no control byte, no path separator of either platform and none of the characters
  reserved in file names, whatever the caller sent.
\<close>

theorem safeFilename_ok:
  assumes "codePattern dataset" and "validFormat format"
  shows "length (safeFilename lib value dataset format) \<le> 240
    \<and> list_all filename_byte (safeFilename lib value dataset format)
    \<and> (HasSuffix (safeFilename lib value dataset format) (''.'' @ format)
       \<or> HasSuffix (ToLower (unicode_ToLower lib) (safeFilename lib value dataset format)) (''.'' @ format))"
proof -
  define base0 where "base0 = filepath_Base (map (\<lambda>c. if c = CHR 0x5C then CHR ''/'' else c) (normalize value))"
  define base1 where "base1 = strings_Map filename_rune base0"
  define base2 where "base2 = (if base1 = [] \<or> base1 = ''.'' then dataset else base1)"
  define ext where "ext = ''.'' @ format"
  define base3 where "base3 = (if HasSuffix (ToLower (unicode_ToLower lib) base2) ext then base2 else base2 @ ext)"
  have res: "safeFilename lib value dataset format = (if 240 < length base3 then take (240 - length ext) base3 @ ext else base3)"
    by (simp add: safeFilename_def Let_def base0_def base1_def base2_def base3_def ext_def)
  have "CHR 0x5C \<notin> set base0" by (auto simp: base0_def dest!: filepath_Base_set)
  then have "list_all filename_byte base2"
    using assms(1) filename_rune_bytes codePattern_filename by (auto simp: base2_def base1_def list_all_iff)
  moreover have "list_all filename_byte ext" "length ext \<le> 240"
    using format_ext [OF assms(2)] by (auto simp: ext_def list_all_iff filename_byte_def)
  ultimately show ?thesis
    unfolding res ext_def [symmetric]
    by (auto simp: base3_def list_all_iff HasSuffix_iff dest: in_set_takeD)
qed

theorem safeFilename_ok_witness:
  "length (safeFilename demo_lib ''../../etc/passwd'' ''ds'' ''csv'') \<le> 240
    \<and> list_all filename_byte (safeFilename demo_lib ''../../etc/passwd'' ''ds'' ''csv'')"
  using safeFilename_ok [of "''ds''" "''csv''" demo_lib "''../../etc/passwd''"]
  by (simp add: codePattern_def lower_letter_def code_char_def validFormat_def format_defs)

section \<open>Validation against the descriptor\<close>

lemma contains_iff: "contains vs x \<longleftrightarrow> x \<in> set vs"
  by (auto simp: contains_def list_ex_iff)

lemma selected_loop_iff:
  "selected_loop av seen sel = None \<longleftrightarrow> distinct sel \<and> set sel \<subseteq> av \<and> set sel \<inter> seen = {}"
  by (induction sel arbitrary: seen) auto

lemma find_append: "find P (xs @ ys) = (case find P xs of None \<Rightarrow> find P ys | Some x \<Rightarrow> Some x)"
  by (induction xs) auto

lemma declared_Cons:
  "declared (f # fs) k = (case declared fs k of Some x \<Rightarrow> Some x
     | None \<Rightarrow> if k \<noteq> [] \<and> normalize (qf_Key f) = k then Some (f\<lparr>qf_Key := k\<rparr>) else None)"
  by (auto simp: declared_def find_append split: option.splits)

lemma query_fields_loop_iff:
  "query_fields_loop av values fs =
    (if required_present values fs then Inr (\<lambda>k. case declared fs k of Some f \<Rightarrow> Some f | None \<Rightarrow> av k)
     else Inl (app_Invalid ''query_json is missing a required field'' None))"
proof (induction fs arbitrary: av)
  case Nil
  show ?case by (simp add: required_present_def declared_def fun_eq_iff)
next
  case (Cons f fs)
  have miss: "map_of values k = None \<longleftrightarrow> k \<notin> fst ` set values" for k by (rule map_of_eq_None_iff)
  show ?case
    by (auto simp: Let_def Cons.IH required_present_def miss declared_Cons fun_eq_iff split: option.splits)
qed

lemma query_values_loop_iff:
  "query_values_loop lib av vs = None \<longleftrightarrow>
    (\<forall>(k, v)\<in>set vs. \<exists>f. av k = Some f \<and> validateQueryValue lib v f = None)"
  by (induction lib av vs rule: query_values_loop.induct) (auto split: option.splits)

lemma validateQuery_iff:
  "validateQuery lib raw fs = None \<longleftrightarrow> (\<exists>values. query_members raw = Some values \<and> query_accepted lib fs values)"
  by (auto simp: validateQuery_def query_members_def query_fields_loop_iff query_values_loop_iff query_accepted_def
      split: option.splits)

text \<open>
  C35. A request passes the dataset check exactly when there is no catalog, or the described dataset has
  the requested code and offers the format, every required query field is present, every member
  of the query is a declared field with a value of its type, and the selected columns are distinct
  columns of the dataset.
\<close>

theorem validateDataset_iff:
  "validateDataset S input = None \<longleftrightarrow>
    (case catalog S of None \<Rightarrow> True | Some describe \<Rightarrow>
      \<exists>d values cols. describe (ci_TenantID input) (ci_ApplicationID input) (ci_ProviderService input)
          (ci_DatasetCode input) = Inr d
        \<and> dd_Code d = ci_DatasetCode input \<and> ci_Format input \<in> set (dd_Formats d)
        \<and> query_members (ci_QueryJSON input) = Some values \<and> query_accepted (sv_lib S) (dd_QueryFields d) values
        \<and> selected_columns (ci_SelectedColumnsJSON input) = Some cols
        \<and> distinct cols \<and> set cols \<subseteq> col_Key ` set (dd_Columns d))"
proof (cases "catalog S")
  case (Some describe)
  show ?thesis
  proof (cases "describe (ci_TenantID input) (ci_ApplicationID input) (ci_ProviderService input) (ci_DatasetCode input)")
    case (Inr d)
    have v: "validateQuery (sv_lib S) (ci_QueryJSON input) (dd_QueryFields d) = None \<longleftrightarrow>
       (\<exists>values. query_members (ci_QueryJSON input) = Some values \<and> query_accepted (sv_lib S) (dd_QueryFields d) values)"
      by (rule validateQuery_iff)
    show ?thesis using Some Inr v
      by (auto simp: validateDataset_def contains_iff selected_columns_def selected_loop_iff split: option.splits)
  qed (simp add: Some validateDataset_def)
qed (simp add: validateDataset_def)

section \<open>Listing\<close>

lemma newest_first_total: "newest_first x y \<or> newest_first y x"
  using str_le_total by (auto simp: newest_first_def)

lemma newest_first_trans: "newest_first x y \<Longrightarrow> newest_first y z \<Longrightarrow> newest_first x z"
  using str_le_trans by (auto simp: newest_first_def)

lemma listing_sorted: "sorted_wrt newest_first (listing f d)"
  unfolding listing_def by (rule sorted_sort_by [OF newest_first_total newest_first_trans])

lemma listing_distinct: "table_ok (jobs d) \<Longrightarrow> distinct (listing f d)"
  by (auto simp: listing_def table_ok_def distinct_map)

lemma normalize_filter_where:
  "list_where (normalize_filter lib (f\<lparr>lf_Page := p, lf_PageSize := s\<rparr>)) = list_where (normalize_filter lib f)"
  by (auto simp: fun_eq_iff list_where_def normalize_filter_def Let_def)

lemma repo_List_calm:
  assumes "calm E" and "0 \<le> lf_PageSize f"
  shows "repo_List E f w =
    (if list_offset f < 0 then (Inl (Opaque ''OFFSET must not be negative''), w\<lparr>w_stmts := Suc (Suc (w_stmts w))\<rparr>)
     else (Inr \<lparr>pg_Items = take (nat (lf_PageSize f)) (drop (nat (list_offset f)) (listing f (w_db w))),
                 pg_Total = int (length (listing f (w_db w)))\<rparr>, w\<lparr>w_stmts := Suc (Suc (w_stmts w))\<rparr>))"
  using assms by (simp add: repo_List_def calm_simps stmt_Count_def stmt_Select_def listing_def)

lemma List_calm:
  assumes "calm E" and "may_act S ctx (normalize (lf_TenantID f)) (normalize (lf_ApplicationID f))"
    and "1 \<le> lf_PageSize f" and "lf_PageSize f \<le> 200" and "1 \<le> lf_Page f" and "lf_Page f < 2147483648"
    and "(lf_Page f - 1) * lf_PageSize f < 2147483648"
  shows "\<exists>w'. List S E ctx f w = (Inr \<lparr>pg_Items = take (nat (lf_PageSize f))
      (drop (nat ((lf_Page f - 1) * lf_PageSize f)) (listing (normalize_filter (sv_lib S) f) (w_db w))),
      pg_Total = int (length (listing (normalize_filter (sv_lib S) f) (w_db w)))\<rparr>, w') \<and> w_db w' = w_db w"
proof -
  obtain actor where auth: "authorizeScope (applications S) ctx (lf_TenantID f) (lf_ApplicationID f) = Inr actor"
    using assms(2) authorizeScope_iff by blast
  have n: "lf_Page (normalize_filter (sv_lib S) f) = lf_Page f" "lf_PageSize (normalize_filter (sv_lib S) f) = lf_PageSize f"
    using assms(3-5) by (auto simp: normalize_filter_def Let_def)
  have nonneg: "0 \<le> (lf_Page f - 1) * lf_PageSize f" using assms(3,5) by simp
  have off: "list_offset (normalize_filter (sv_lib S) f) = (lf_Page f - 1) * lf_PageSize f"
  proof -
    have "i32 (lf_Page f - 1) = lf_Page f - 1" using assms(5,6) by (intro i32_id) (simp add: in_i32_def)
    moreover have "in_i32 ((lf_Page f - 1) * lf_PageSize f)"
      unfolding in_i32_def using nonneg assms(7) by auto
    ultimately show ?thesis unfolding list_offset_def n by (simp only: i32_id)
  qed
  show ?thesis using assms(1,3) auth nonneg by (simp add: List_def repo_List_calm n off)
qed

lemma concat_pages:
  "concat (map (\<lambda>p. take (nat s) (drop (nat ((p - 1) * s)) xs)) [1..int k]) = take (k * nat s) xs"
  if "0 \<le> s"
proof (induction k)
  case (Suc k)
  have up: "[1..int (Suc k)] = [1..int k] @ [int (Suc k)]" by (simp add: upto_rec2)
  have "nat ((int (Suc k) - 1) * s) = k * nat s" using that by (simp add: nat_mult_distrib)
  then show ?case unfolding up using Suc take_add [of "k * nat s" "nat s" xs] by (simp add: add.commute)
qed simp

text \<open>
  C36. Listing: as long as the offset fits 32 bits, the first \<open>k\<close> pages of any size put together are the first rows of
  one listing that holds exactly the jobs of the filter, newest first, none twice and none
  missing; every page reports the full count.
\<close>

theorem List_pages:
  assumes "calm E" and "table_ok (jobs (w_db w))"
    and "may_act S ctx (normalize (lf_TenantID f)) (normalize (lf_ApplicationID f))"
    and "1 \<le> s" and "s \<le> 200" and "int k * s < 2147483648"
    and "pages = map (\<lambda>p. projr (fst (List S E ctx (f\<lparr>lf_Page := p, lf_PageSize := s\<rparr>) w))) [1..int k]"
    and "rows = listing (normalize_filter (sv_lib S) f) (w_db w)"
  shows "concat (map pg_Items pages) = take (k * nat s) rows
    \<and> (\<forall>pg\<in>set pages. pg_Total pg = int (length rows))
    \<and> sorted_wrt newest_first rows \<and> distinct rows
    \<and> set rows = {j \<in> set (jobs (w_db w)). list_where (normalize_filter (sv_lib S) f) j}"
proof -
  have L: "listing (normalize_filter (sv_lib S) (f\<lparr>lf_Page := p, lf_PageSize := s\<rparr>)) (w_db w) = rows" for p
    by (simp add: assms(8) listing_def normalize_filter_where)
  have page: "projr (fst (List S E ctx (f\<lparr>lf_Page := p, lf_PageSize := s\<rparr>) w)) =
      \<lparr>pg_Items = take (nat s) (drop (nat ((p - 1) * s)) rows), pg_Total = int (length rows)\<rparr>"
    if "1 \<le> p" "p \<le> int k" for p
  proof -
    have "(p - 1) * s \<le> int k * s" using that assms(4) by (intro mult_right_mono) auto
    then have "(p - 1) * s < 2147483648" using assms(6) by linarith
    moreover have "p \<le> int k * s" using that assms(4)
      by (metis dual_order.trans mult.commute mult_left_mono mult.right_neutral of_nat_0_le_iff)
    ultimately show ?thesis
      using List_calm [OF assms(1), of S ctx "f\<lparr>lf_Page := p, lf_PageSize := s\<rparr>" w] assms(3-6) that
      by (auto simp: L)
  qed
  have pages: "pages = map (\<lambda>p. \<lparr>pg_Items = take (nat s) (drop (nat ((p - 1) * s)) rows),
      pg_Total = int (length rows)\<rparr>) [1..int k]"
    unfolding assms(7) by (rule map_cong [OF refl]) (use page in auto)
  then show ?thesis
    using assms(2,4) concat_pages [of s rows k] listing_sorted listing_distinct
    by (auto simp: comp_def assms(8)) (auto simp: listing_def)
qed

theorem List_pages_witness:
  "pg_Items (projr (fst (List demo_service demo_env (Some demo_user) (demo_filter\<lparr>lf_Page := 1, lf_PageSize := 5\<rparr>)
      (demo_world [demo_job])))) = take 5 (listing (normalize_filter demo_lib demo_filter) (w_db (demo_world [demo_job])))"
  using List_pages [of demo_env "demo_world [demo_job]" demo_service "Some demo_user" demo_filter 5 1, OF _ _ _ _ _ _ refl refl]
  by (simp add: demo_may_act)

text \<open>
  A page number whose offset does not fit 32 bits makes the offset wrap; when it wraps below zero the
  listing answers with the internal error instead of an empty page.
\<close>

theorem List_overflow:
  assumes "calm E" and "may_act S ctx (normalize (lf_TenantID f)) (normalize (lf_ApplicationID f))"
    and "list_offset (normalize_filter (sv_lib S) f) < 0"
  shows "\<exists>e w'. List S E ctx f w = (Inl e, w') \<and> app_code e = Some CodeInternal"
proof -
  obtain actor where auth: "authorizeScope (applications S) ctx (lf_TenantID f) (lf_ApplicationID f) = Inr actor"
    using assms(2) authorizeScope_iff by blast
  have "0 \<le> lf_PageSize (normalize_filter (sv_lib S) f)" by (simp add: normalize_filter_def Let_def)
  then show ?thesis using assms(1,3) auth by (simp add: List_def repo_List_calm translate_def)
qed

theorem List_overflow_witness:
  "\<exists>e w'. List demo_service demo_env (Some demo_user) (demo_filter\<lparr>lf_Page := 2147483647, lf_PageSize := 200\<rparr>)
    (demo_world []) = (Inl e, w') \<and> app_code e = Some CodeInternal"
  by (rule List_overflow) (simp_all add: demo_may_act list_offset_def normalize_filter_def i32_def)

end
