(* ===== verification/Export_Pipeline.thy ===== *)
theory Export_Pipeline
  imports Export_Formatter_Laws Export_Provider_Laws Export_Service_Laws
begin

text \<open>
  \<open>internal/export/pipeline.go\<close>: rows stream from the provider through the formatter into the upload.

  The two goroutines meet in the pipe: the producer writes, the upload reads.  What they do to each
  other is in the destination (\<open>sk_closed\<close>, the error the upload closed the pipe with) and in how the
  producer ends; which of two errors the group reports first is the parameter \<open>pl_producer_first\<close>.
\<close>

section \<open>Model\<close>

record progress =
  pr_Rows :: int
  pr_Bytes :: int
  pr_EstimatedRows :: int
  pr_Checkpoint :: bool

record pipeline_result =
  plr_Rows :: int
  plr_Bytes :: int
  plr_Checksum :: string
  plr_ContentType :: string

record ('c, 'o) pipeline =
  pl_provider :: "'c provider_env"
  pl_streams :: "'c \<Rightarrow> stream_env"
  pl_storage :: "'o s3"
  pl_batchSize :: int
  pl_maxRows :: int
  pl_maxBytes :: int
  pl_progressEvery :: int
  pl_gofmt :: gofmt
  pl_excelize :: excelize
  pl_sha256 :: "string \<Rightarrow> string"
  pl_producer_first :: bool

type_synonym 'o progress_fn = "progress \<Rightarrow> 'o world \<Rightarrow> goerror option \<times> 'o world"

definition contentTypeFor :: "string \<Rightarrow> string" where
  "contentTypeFor format =
    (if format = FormatCSV then ''text/csv; charset=utf-8''
     else if format = FormatJSONL then ''application/x-ndjson''
     else if format = FormatXLSX then ''application/vnd.openxmlformats-officedocument.spreadsheetml.sheet''
     else ''application/octet-stream'')"

definition hex_EncodeToString :: "string \<Rightarrow> string" where
  "hex_EncodeToString s = concat (map (\<lambda>c. [hex_lower (byte c div 16), hex_lower (byte c mod 16)]) s)"

text \<open>The variables the producer's closure captures, and the process around it.\<close>

record 'o run_state =
  rs_columns :: "column list"
  rs_wroteHeader :: bool
  rs_lastReported :: int
  rs_rows :: int
  rs_out :: "formatter \<times> sink"
  rs_world :: "'o world"

definition write_header :: "fmt_env \<Rightarrow> batch \<Rightarrow> 'o run_state \<Rightarrow> goerror option \<times> 'o run_state" where
  "write_header F b s =
    (if rs_wroteHeader s then (None, s)
     else let s1 = s\<lparr>rs_columns := bt_Columns b\<rparr>
       in if bt_Columns b = [] then (Some ErrNoColumns, s1)
          else case fmt_WriteHeader F (bt_Columns b) (rs_out s1) of
            (Some e, out) \<Rightarrow> (Some e, s1\<lparr>rs_out := out\<rparr>)
          | (None, out) \<Rightarrow> (None, s1\<lparr>rs_out := out, rs_wroteHeader := True\<rparr>))"

definition report :: "int \<Rightarrow> 'o progress_fn option \<Rightarrow> batch \<Rightarrow> 'o run_state \<Rightarrow> goerror option \<times> 'o run_state" where
  "report every onProgress b s =
    (case onProgress of
       None \<Rightarrow> (None, s)
     | Some f \<Rightarrow>
        (let checkpoint = (every \<le> i64 (rs_rows s - rs_lastReported s) \<or> bt_Done b)
         in case f \<lparr>pr_Rows = rs_rows s, pr_Bytes = sk_written (snd (rs_out s)),
                    pr_EstimatedRows = bt_EstimatedTotalRows b, pr_Checkpoint = checkpoint\<rparr> (rs_world s) of
              (Some e, w) \<Rightarrow> (Some e, s\<lparr>rs_world := w\<rparr>)
            | (None, w) \<Rightarrow> (None, s\<lparr>rs_world := w, rs_lastReported := (if checkpoint then rs_rows s else rs_lastReported s)\<rparr>)))"

definition run_receive ::
  "fmt_env \<Rightarrow> int \<Rightarrow> int \<Rightarrow> 'o progress_fn option \<Rightarrow> batch \<Rightarrow> 'o run_state \<Rightarrow> goerror option \<times> 'o run_state" where
  "run_receive F maxRows every onProgress b s =
    (case write_header F b s of
       (Some e, s1) \<Rightarrow> (Some e, s1)
     | (None, s1) \<Rightarrow>
        if maxRows < i64 (rs_rows s1 + int (length (bt_Rows b))) then (Some ErrRowLimitExceeded, s1)
        else case fmt_WriteRows F (rs_columns s1) (bt_Rows b) (rs_out s1) of
          (Some e, out) \<Rightarrow> (Some e, s1\<lparr>rs_out := out\<rparr>)
        | (None, out) \<Rightarrow>
           report every onProgress b
             (s1\<lparr>rs_out := out, rs_rows := i64 (rs_rows s1 + int (length (bt_Rows b)))\<rparr>))"

definition run_env :: "('c, 'o) pipeline \<Rightarrow> string \<Rightarrow> 'o \<Rightarrow> fmt_env" where
  "run_env PL key bk = \<lparr>fe_gofmt = pl_gofmt PL, fe_excelize = pl_excelize PL,
     fe_upload = (\<lambda>sent chunk. s3_Put_read (pl_storage PL) key sent chunk bk)\<rparr>"

definition run_request :: "('c, 'o) pipeline \<Rightarrow> job \<Rightarrow> string list \<Rightarrow> stream_request" where
  "run_request PL job selected = \<lparr>sq_TenantID = TenantID job, sq_ApplicationID = ApplicationID job,
     sq_DatasetCode = DatasetCode job, sq_QueryJSON = QueryJSON job, sq_Cursor = [], sq_SnapshotToken = [],
     sq_SelectedColumns = selected, sq_BatchSize = pl_batchSize PL\<rparr>"

text \<open>The producing goroutine: its error, the provider, and its variables in the end.\<close>

definition start_state :: "formatter \<Rightarrow> int \<Rightarrow> 'o world \<Rightarrow> 'o run_state" where
  "start_state f m w = \<lparr>rs_columns = [], rs_wroteHeader = False, rs_lastReported = 0, rs_rows = 0,
     rs_out = (f, fresh_sink m), rs_world = w\<rparr>"

definition close_out :: "fmt_env \<Rightarrow> 'o run_state \<Rightarrow> goerror option \<times> 'o run_state" where
  "close_out F s = (case fmt_Close F (rs_out s) of (r, out) \<Rightarrow> (r, s\<lparr>rs_out := out\<rparr>))"

definition produce ::
  "('c, 'o) pipeline \<Rightarrow> job \<Rightarrow> string list \<Rightarrow> 'o progress_fn option \<Rightarrow> 'c grpc_provider \<times> 'o world
    \<Rightarrow> goerror option \<times> 'c grpc_provider \<times> 'o run_state" where
  "produce PL job selected onProgress pw =
    (case pw of (p, w) \<Rightarrow>
      (let F = run_env PL (ObjectKey job) (w_objs w)
       in case NewFormatter (pl_excelize PL) (Format job) of
            Inl e \<Rightarrow> (Some e, p, start_state (JsonlFormatter None) (pl_maxBytes PL) w)
          | Inr (f, _) \<Rightarrow>
             (case Stream (pl_provider PL) (pl_streams PL) (ProviderService job) (run_request PL job selected)
                     (run_receive F (pl_maxRows PL) (pl_progressEvery PL) onProgress)
                     (p, start_state f (pl_maxBytes PL) w) of
                (Some e, p1, s) \<Rightarrow> (Some e, p1, snd (close_out F s))
              | (None, p1, s) \<Rightarrow>
                  if \<not> rs_wroteHeader s then (Some ErrNoColumns, p1, snd (close_out F s))
                  else (case close_out F s of (r, s1) \<Rightarrow> (r, p1, s1)))))"

text \<open>The uploading goroutine: the stored size, or its error, and the bucket.\<close>

definition put_result :: "('c, 'o) pipeline \<Rightarrow> job \<Rightarrow> goerror option \<Rightarrow> sink \<Rightarrow> 'o \<Rightarrow> int result \<times> 'o" where
  "put_result PL job produced k bk =
    (case sk_closed k of
       Some e \<Rightarrow> (Inl e, snd (s3_Put_abort (pl_storage PL) (ObjectKey job) (sk_sent k) e bk))
     | None \<Rightarrow>
        (case produced of
           None \<Rightarrow> s3_Put_finish (pl_storage PL) (ObjectKey job) (sk_sent k) (contentTypeFor (Format job)) bk
         | Some e \<Rightarrow> (case s3_Put_abort (pl_storage PL) (ObjectKey job) (sk_sent k) e bk of (e', bk') \<Rightarrow> (Inl e', bk'))))"

text \<open>\<open>errgroup\<close>: the first of the two errors.\<close>

definition group_Wait :: "bool \<Rightarrow> goerror option \<Rightarrow> goerror option \<Rightarrow> goerror option" where
  "group_Wait producer_first producer uploader =
    (case producer of
       None \<Rightarrow> uploader
     | Some e \<Rightarrow> if producer_first \<or> uploader = None then Some e else uploader)"

definition Run ::
  "('c, 'o) pipeline \<Rightarrow> job \<Rightarrow> string list \<Rightarrow> 'o progress_fn option \<Rightarrow> 'c grpc_provider \<times> 'o world
    \<Rightarrow> pipeline_result result \<times> 'c grpc_provider \<times> 'o world" where
  "Run PL job selected onProgress pw =
    (case produce PL job selected onProgress pw of
       (produced, p, s) \<Rightarrow>
        (let k = snd (rs_out s) in
         case put_result PL job produced k (w_objs (rs_world s)) of
           (stored, bk) \<Rightarrow>
            (let w = (rs_world s)\<lparr>w_objs := bk\<rparr> in
             case group_Wait (pl_producer_first PL) produced (case stored of Inl e \<Rightarrow> Some e | Inr _ \<Rightarrow> None) of
               Some e \<Rightarrow> (Inl e, p, w)
             | None \<Rightarrow>
                (case stored of
                   Inl e \<Rightarrow> (Inl e, p, w)
                 | Inr n \<Rightarrow>
                    if n \<noteq> sk_written k
                    then (Inl (Opaque (''stored size '' @ FormatInt n @ '' differs from streamed size '' @ FormatInt (sk_written k))), p, w)
                    else (Inr \<lparr>plr_Rows = rs_rows s, plr_Bytes = sk_written k,
                                plr_Checksum = hex_EncodeToString (pl_sha256 PL (sk_hashed k)),
                                plr_ContentType = contentTypeFor (Format job)\<rparr>, p, w)))))"

end
