(* ===== verification/Http_Middleware.thy ===== *)
theory Http_Middleware
  imports App_Auth App_Health Observability Export_Pipeline
begin

text \<open>
  \<open>internal/transport/http/middleware.go\<close> and \<open>response.go\<close>, with the request ids of \<open>internal/requestid\<close>, the
  limiter of \<open>internal/ratelimit\<close> and the chain that \<open>server.go\<close> puts in front of every API handler.

  A handler maps a request context, the state of Redis (the limiter and the idempotency records) and of the metrics, and
  the rest of the world; a middleware maps the handler behind it, which it runs where the code calls
  \<open>c.Next()\<close>, to a handler.  Every path that does not call \<open>Next\<close> aborts the request, so the handlers
  behind it are not run.  A handler that panics leaves the context marked; what a middleware does after \<open>Next\<close>
  is skipped until \<open>Recovery\<close> answers.  Tracing and logging do not change what
  is modelled and are left out of the chain.
\<close>

section \<open>Requests and responses\<close>

record export_job_body =
  jb_ID :: string
  jb_TenantID :: string
  jb_ApplicationID :: string
  jb_DatasetCode :: string
  jb_ProviderService :: string
  jb_Format :: string
  jb_Filename :: string
  jb_Query :: string
  jb_SelectedColumns :: "string list option"
  jb_Status :: string
  jb_RowsExported :: int
  jb_BytesWritten :: int
  jb_ProgressPercent :: int
  jb_ObjectKey :: string
  jb_ContentType :: string
  jb_Checksum :: string
  jb_ErrorCode :: string
  jb_ErrorMessage :: string
  jb_StartedAt :: "time option"
  jb_CompletedAt :: "time option"
  jb_ExpiresAt :: "time option"
  jb_Version :: int
  jb_CreatedAt :: time
  jb_UpdatedAt :: time
  jb_CreatedBy :: string
  jb_UpdatedBy :: string

record export_download_body =
  db_URL :: string
  db_ExpiresAt :: time
  db_Filename :: string
  db_ContentType :: string
  db_Checksum :: string

record build_info =
  bi_Version :: string
  bi_Commit :: string
  bi_BuildTime :: string
  bi_StartedAt :: time
  bi_Uptime :: string

datatype http_body =
    NoBody
  | JobBody export_job_body
  | MutationBody export_job_body bool
  | PageBody "export_job_body list" int int int
  | DownloadBody export_download_body
  | DatasetPageBody "dataset_summary list" int int int
  | DescriptorBody dataset_descriptor
  | StatusBody health_status
  | MeBody "string option"
  | VersionBody build_info

record response =
  rsp_Code :: int
  rsp_Message :: string
  rsp_Body :: http_body
  rsp_RequestID :: string

text \<open>
  The \<open>gin.Context\<close>: the request (a header that is missing reads as empty, the body may fail to be read),
  the keys and context values the middlewares set, and the response so far.
\<close>

record gin =
  gn_Method :: string
  gn_FullPath :: string
  gn_ClientIP :: string
  gn_GetHeader :: "string \<Rightarrow> string"
  gn_ContentLength :: int
  gn_TLS :: bool
  gn_ReadBody :: "string result"
  gn_request_id :: string
  gn_subject :: "string option"
  gn_environment :: string
  gn_idempotency_key :: "string option"
  gn_principal :: "principal option"
  gn_credential :: "string option"
  gn_Header :: "(string \<times> string) list"
  gn_Status :: int
  gn_response :: "response option"
  gn_aborted :: bool
  gn_panic :: bool

type_synonym ('r, 'w) handler = "gin \<times> 'r \<times> 'w \<Rightarrow> gin \<times> 'r \<times> 'w"

definition set_Header :: "string \<Rightarrow> string \<Rightarrow> gin \<Rightarrow> gin" where
  "set_Header k v c = c\<lparr>gn_Header := (k, v) # filter (\<lambda>h. fst h \<noteq> k) (gn_Header c)\<rparr>"

definition AbortWithStatusJSON :: "int \<Rightarrow> response \<Rightarrow> gin \<Rightarrow> gin" where
  "AbortWithStatusJSON status r c = c\<lparr>gn_aborted := True, gn_Status := status, gn_response := Some r\<rparr>"

definition http_OK :: "gin \<Rightarrow> http_body \<Rightarrow> gin" where
  "http_OK c body = c\<lparr>gn_Status := 200,
     gn_response := Some \<lparr>rsp_Code = CodeOK, rsp_Message = ''success'', rsp_Body = body, rsp_RequestID = gn_request_id c\<rparr>\<rparr>"

definition http_Fail :: "gin \<Rightarrow> goerror \<Rightarrow> gin" where
  "http_Fail c err =
    (case (case errors_As_App err of
             Some a \<Rightarrow> a
           | None \<Rightarrow> (CodeInternal, ''internal server error'', 500, Some err)) of
       (code, message, status, _) \<Rightarrow>
         AbortWithStatusJSON status \<lparr>rsp_Code = code, rsp_Message = message, rsp_Body = NoBody, rsp_RequestID = gn_request_id c\<rparr> c)"

definition abort_response :: "int \<Rightarrow> int \<Rightarrow> string \<Rightarrow> gin \<Rightarrow> gin" where
  "abort_response status code message c =
    AbortWithStatusJSON status \<lparr>rsp_Code = code, rsp_Message = message, rsp_Body = NoBody, rsp_RequestID = gn_request_id c\<rparr> c"

section \<open>Request ids\<close>

definition allowedCharacter :: "rune \<Rightarrow> bool" where
  "allowedCharacter r \<longleftrightarrow> 97 \<le> r \<and> r \<le> 122 \<or> 65 \<le> r \<and> r \<le> 90 \<or> 48 \<le> r \<and> r \<le> 57 \<or> r = 45 \<or> r = 95 \<or> r = 46"

definition requestid_Valid :: "string \<Rightarrow> bool" where
  "requestid_Valid value =
    (if value = [] \<or> 128 < length value then False else list_all allowedCharacter (runes value))"

definition requestid_Generate :: "string result \<Rightarrow> time \<Rightarrow> string" where
  "requestid_Generate rand at =
    (case rand of Inl _ \<Rightarrow> ''fallback-'' @ FormatInt at | Inr value \<Rightarrow> hex_EncodeToString value)"

definition RequestID :: "string \<Rightarrow> ('r, 'w) handler \<Rightarrow> ('r, 'w) handler" where
  "RequestID generated next x =
    (case x of (c, rw) \<Rightarrow>
      (let header = gn_GetHeader c ''X-Request-ID'';
           i = (if requestid_Valid header then header else generated)
       in next (set_Header ''X-Request-ID'' i (c\<lparr>gn_request_id := i\<rparr>), rw)))"

definition Environment :: "string \<Rightarrow> ('r, 'w) handler \<Rightarrow> ('r, 'w) handler" where
  "Environment profile next x = (case x of (c, rw) \<Rightarrow> next (c\<lparr>gn_environment := profile\<rparr>, rw))"

section \<open>Idempotency\<close>

text \<open>The key's validity, the manager and its decisions are the platform library's.\<close>

definition IdempotencyKey :: "(string \<Rightarrow> bool) \<Rightarrow> ('r, 'w) handler \<Rightarrow> ('r, 'w) handler" where
  "IdempotencyKey valid next x =
    (case x of (c, rw) \<Rightarrow>
      (let key = gn_GetHeader c ''Idempotency-Key''
       in if key = [] then next x
          else if \<not> valid key then (http_Fail c (app_Invalid ''invalid Idempotency-Key'' None), rw)
          else next (set_Header ''Idempotency-Key'' key (c\<lparr>gn_idempotency_key := Some key\<rparr>), rw)))"

datatype idem_state = StateAcquired | StateProcessing | StateCompleted | StateFailed | StateConflict | StateUnknown

record idem_failure =
  fl_Code :: int
  fl_Message :: string
  fl_HTTPStatus :: int

record decision =
  dc_State :: idem_state
  dc_Owner :: string
  dc_Response :: "response result"
  dc_Failure :: idem_failure

record 'r idem_manager =
  im_Enabled :: bool
  im_Begin :: "string \<Rightarrow> string \<Rightarrow> 'r \<Rightarrow> decision result \<times> 'r"
  im_Complete :: "string \<Rightarrow> string \<Rightarrow> response \<Rightarrow> 'r \<Rightarrow> goerror option \<times> 'r"
  im_Fail :: "string \<Rightarrow> string \<Rightarrow> idem_failure \<Rightarrow> 'r \<Rightarrow> goerror option \<times> 'r"

definition idempotencyFingerprint :: "(string \<Rightarrow> string) \<Rightarrow> gin \<Rightarrow> string result" where
  "idempotencyFingerprint sha256 c =
    (case gn_ReadBody c of
       Inl e \<Rightarrow> Inl e
     | Inr body \<Rightarrow>
        Inr (hex_EncodeToString (sha256
          ((case gn_subject c of None \<Rightarrow> ''<nil>'' | Some s \<Rightarrow> s)
           @ [CHR 0x00] @ gn_Method c @ [CHR 0x00] @ gn_FullPath c @ [CHR 0x00] @ body))))"

text \<open>What is recorded once the handler has answered; an answer that is not a response is only logged.  After a panic
  nothing is recorded.\<close>

definition persist_result :: "'r idem_manager \<Rightarrow> string \<Rightarrow> string \<Rightarrow> gin \<times> 'r \<times> 'w \<Rightarrow> gin \<times> 'r \<times> 'w" where
  "persist_result manager key owner y =
    (case y of (c, r, w) \<Rightarrow>
      if gn_panic c then (c, r, w)
      else (case gn_response c of
         None \<Rightarrow> (c, r, w)
       | Some response \<Rightarrow>
          if 400 \<le> gn_Status c
          then (c, snd (im_Fail manager key owner \<lparr>fl_Code = rsp_Code response, fl_Message = rsp_Message response,
                  fl_HTTPStatus = gn_Status c\<rparr> r), w)
          else (c, snd (im_Complete manager key owner (response\<lparr>rsp_RequestID := []\<rparr>) r), w)))"

text \<open>The answer to a request whose key has not been acquired by it.\<close>

definition idempotent_reply :: "decision \<Rightarrow> gin \<Rightarrow> gin" where
  "idempotent_reply d c =
    (case dc_State d of
       StateCompleted \<Rightarrow>
         (case dc_Response d of
            Inl e \<Rightarrow> http_Fail c (app_Unavailable ''idempotency response is unavailable'' (Some e))
          | Inr response \<Rightarrow> AbortWithStatusJSON 200 (response\<lparr>rsp_RequestID := gn_request_id c\<rparr>) c)
     | StateFailed \<Rightarrow>
         abort_response (fl_HTTPStatus (dc_Failure d)) (fl_Code (dc_Failure d)) (fl_Message (dc_Failure d)) c
     | StateProcessing \<Rightarrow> http_Fail c app_RequestInProgress
     | StateConflict \<Rightarrow> http_Fail c (app_Conflict ''idempotency key belongs to a different request'' None)
     | StateUnknown \<Rightarrow> http_Fail c (app_Unavailable ''idempotency state is invalid'' None)
     | StateAcquired \<Rightarrow> c)"

definition IdempotencyExecution ::
  "'r idem_manager option \<Rightarrow> (string \<Rightarrow> string) \<Rightarrow> string list \<Rightarrow> ('r, 'w) handler \<Rightarrow> ('r, 'w) handler" where
  "IdempotencyExecution manager sha256 paths next x =
    (case x of (c, r, w) \<Rightarrow>
      (case (gn_idempotency_key c, manager) of
         (Some key, Some m) \<Rightarrow>
          if \<not> im_Enabled m \<or> gn_Method c \<noteq> ''POST'' \<or> \<not> MatchesAny (gn_FullPath c) paths then next x
          else (case idempotencyFingerprint sha256 c of
             Inl e \<Rightarrow> (http_Fail c (app_Invalid ''read idempotent request'' (Some e)), r, w)
           | Inr fingerprint \<Rightarrow>
              (case im_Begin m key fingerprint r of
                 (Inl e, r1) \<Rightarrow> (http_Fail c (app_Unavailable ''idempotency is unavailable'' (Some e)), r1, w)
               | (Inr d, r1) \<Rightarrow>
                  if dc_State d \<noteq> StateAcquired then (idempotent_reply d c, r1, w)
                  else persist_result m key (dc_Owner d) (next (c, r1, w))))
       | _ \<Rightarrow> next x))"

section \<open>Panics and metrics\<close>

definition Recovery :: "('r, 'w) handler \<Rightarrow> ('r, 'w) handler" where
  "Recovery next x =
    (case next x of (c, rw) \<Rightarrow>
      if gn_panic c then (abort_response 500 CodeInternal ''internal server error'' (c\<lparr>gn_panic := False\<rparr>), rw) else (c, rw))"

text \<open>The time from the arrival to the answer is the environment's.\<close>

definition observe_http :: "'r meter \<Rightarrow> duration \<Rightarrow> gin \<Rightarrow> 'r \<Rightarrow> 'r result" where
  "observe_http K elapsed c r =
    (if \<not> mt_enabled (mr_metrics K) then Inr r
     else let route = (if gn_FullPath c = [] then ''unmatched'' else gn_FullPath c)
       in count_and_time (mr_sample K) (HTTPRequests (mr_metrics K)) [gn_Method c, route, FormatInt (gn_Status c)]
            (HTTPDuration (mr_metrics K)) [gn_Method c, route] elapsed r)"

definition HTTPMetrics :: "'r meter \<Rightarrow> duration \<Rightarrow> ('r, 'w) handler \<Rightarrow> ('r, 'w) handler" where
  "HTTPMetrics K elapsed next x =
    (case next x of (c, r, w) \<Rightarrow>
      if gn_panic c then (c, r, w)
      else case observe_http K elapsed c r of
        Inl p \<Rightarrow> (c\<lparr>gn_panic := True\<rparr>, r, w)
      | Inr r1 \<Rightarrow> (c, r1, w))"

section \<open>Limits, headers and origins\<close>

text \<open>Whether the deadline has passed when the handler returns is the environment's choice.\<close>

definition Timeout :: "bool \<Rightarrow> ('r, 'w) handler \<Rightarrow> ('r, 'w) handler" where
  "Timeout expired next x =
    (case next x of (c, rw) \<Rightarrow>
      if \<not> gn_panic c \<and> expired \<and> gn_response c = None then (http_Fail c app_RequestTimeout, rw) else (c, rw))"

definition MaxBody :: "int \<Rightarrow> ('r, 'w) handler \<Rightarrow> ('r, 'w) handler" where
  "MaxBody limit next x =
    (case x of (c, rw) \<Rightarrow>
      next (c\<lparr>gn_ReadBody := (case gn_ReadBody c of
          Inl e \<Rightarrow> Inl e
        | Inr body \<Rightarrow> if limit < int (length body) then Inl (Opaque ''http: request body too large'') else Inr body)\<rparr>, rw))"

definition RequireJSON :: "(string \<Rightarrow> string result) \<Rightarrow> ('r, 'w) handler \<Rightarrow> ('r, 'w) handler" where
  "RequireJSON parseMediaType next x =
    (case x of (c, rw) \<Rightarrow>
      if gn_Method c = ''POST'' \<and> gn_ContentLength c \<noteq> 0
         \<and> parseMediaType (gn_GetHeader c ''Content-Type'') \<noteq> Inr ''application/json''
      then (abort_response 415 CodeInvalidArgument ''content type must be application/json'' c, rw)
      else next x)"

definition security_headers :: "gin \<Rightarrow> gin" where
  "security_headers c =
    (let c1 = set_Header ''Cache-Control'' ''no-store''
          (set_Header ''Content-Security-Policy'' (''default-src '' @ [CHR 0x27] @ ''none'' @ [CHR 0x27]
              @ ''; frame-ancestors '' @ [CHR 0x27] @ ''none'' @ [CHR 0x27])
          (set_Header ''Referrer-Policy'' ''no-referrer''
          (set_Header ''X-Frame-Options'' ''DENY''
          (set_Header ''X-Content-Type-Options'' ''nosniff'' c))))
     in if gn_TLS c then set_Header ''Strict-Transport-Security'' ''max-age=31536000; includeSubDomains'' c1 else c1)"

definition SecurityHeaders :: "('r, 'w) handler \<Rightarrow> ('r, 'w) handler" where
  "SecurityHeaders next x = (case x of (c, rw) \<Rightarrow> next (security_headers c, rw))"

fun strings_Join :: "string list \<Rightarrow> string \<Rightarrow> string" where
  "strings_Join [] sep = []"
| "strings_Join [s] sep = s"
| "strings_Join (s # t # ts) sep = s @ sep @ strings_Join (t # ts) sep"

definition cors_headers :: "cors_config \<Rightarrow> string \<Rightarrow> gin \<Rightarrow> gin" where
  "cors_headers cfg origin c =
    set_Header ''Access-Control-Max-Age'' (FormatInt (go_div (cors_MaxAge cfg) 1000000000))
     (set_Header ''Access-Control-Expose-Headers'' (strings_Join (cors_ExposedHeaders cfg) '', '')
     (set_Header ''Access-Control-Allow-Headers'' (strings_Join (cors_AllowedHeaders cfg) '', '')
     (set_Header ''Access-Control-Allow-Methods'' ''POST, GET, OPTIONS''
     (set_Header ''Vary'' ''Origin''
     (set_Header ''Access-Control-Allow-Origin'' origin c)))))"

definition CORS :: "cors_config \<Rightarrow> ('r, 'w) handler \<Rightarrow> ('r, 'w) handler" where
  "CORS cfg next x =
    (case x of (c, rw) \<Rightarrow>
      if \<not> cors_Enabled cfg then next x
      else let origin = gn_GetHeader c ''Origin''
        in if origin = [] then next x
           else if origin \<notin> set (cors_AllowedOrigins cfg)
           then (abort_response 403 CodeForbidden ''origin is not allowed'' c, rw)
           else let c1 = cors_headers cfg origin c
             in if gn_Method c = ''OPTIONS'' then (c1\<lparr>gn_aborted := True, gn_Status := 204\<rparr>, rw)
                else next (c1, rw))"

section \<open>Rate limits\<close>

record limit_result =
  lr_Allowed :: bool
  lr_Limit :: int
  lr_Remaining :: int
  lr_RetryAfter :: duration

record 'r limiter =
  lm_enabled :: bool
  lm_failOpen :: bool
  lm_backend :: "(string \<Rightarrow> rate_limit_rule_config \<Rightarrow> 'r \<Rightarrow> (int \<times> int \<times> duration) result \<times> 'r) option"

definition limiter_New ::
  "(string \<Rightarrow> rate_limit_rule_config \<Rightarrow> 'r \<Rightarrow> (int \<times> int \<times> duration) result \<times> 'r) option \<Rightarrow> config \<Rightarrow> 'r limiter" where
  "limiter_New redis cfg = \<lparr>lm_enabled = rl_Enabled (c_RateLimit cfg), lm_failOpen = rl_FailOpen (c_RateLimit cfg),
     lm_backend = redis\<rparr>"

definition limiter_Allow ::
  "'r limiter \<Rightarrow> string \<Rightarrow> rate_limit_rule_config \<Rightarrow> 'r \<Rightarrow> limit_result result \<times> 'r" where
  "limiter_Allow l key rule r =
    (if \<not> lm_enabled l then (Inr \<lparr>lr_Allowed = True, lr_Limit = 0, lr_Remaining = 0, lr_RetryAfter = 0\<rparr>, r)
     else case lm_backend l of
       None \<Rightarrow> (Inl (Opaque ''redis rate limiter is unavailable''), r)
     | Some allow \<Rightarrow>
        (case allow key rule r of
           (Inl e, r1) \<Rightarrow> (Inl (Wrap ''check redis rate limit: '' e []), r1)
         | (Inr (allowed, remaining, retryAfter), r1) \<Rightarrow>
            (Inr \<lparr>lr_Allowed = 0 < allowed, lr_Limit = rule_Burst rule, lr_Remaining = remaining,
               lr_RetryAfter = retryAfter\<rparr>, r1)))"

text \<open>\<open>Duration.Round\<close>: to the nearest multiple, halves away from zero.\<close>

definition Duration_Round :: "duration \<Rightarrow> duration \<Rightarrow> duration" where
  "Duration_Round d m =
    (if m \<le> 0 then d
     else let rem = \<bar>d\<bar> mod m
       in if d < 0 then (if rem + rem < m then d + rem else d - m + rem)
          else (if rem + rem < m then d - rem else d + m - rem))"

definition RateLimit ::
  "'r limiter \<Rightarrow> rate_limit_rule_config \<Rightarrow> string \<Rightarrow> (gin \<Rightarrow> string) \<Rightarrow> ('r, 'w) handler \<Rightarrow> ('r, 'w) handler" where
  "RateLimit l rule dimension keyFunc next x =
    (case x of (c, r, w) \<Rightarrow>
      if \<not> lm_enabled l then next x
      else let key = keyFunc c
        in if key = [] then next x
           else case limiter_Allow l (''rate:'' @ dimension @ '':'' @ key) rule r of
             (Inl e, r1) \<Rightarrow>
               if lm_failOpen l then next (c, r1, w)
               else (http_Fail c (app_Unavailable ''rate limiter unavailable'' (Some e)), r1, w)
           | (Inr result, r1) \<Rightarrow>
               (let c1 = set_Header ''X-RateLimit-Remaining'' (FormatInt (lr_Remaining result))
                     (set_Header ''X-RateLimit-Limit'' (FormatInt (lr_Limit result)) c)
                in if \<not> lr_Allowed result
                   then let retry = max 1 (go_div (Duration_Round (lr_RetryAfter result) 1000000000) 1000000000)
                     in (http_Fail (set_Header ''Retry-After'' (FormatInt retry) c1) app_TooManyRequests, r1, w)
                   else next (c1, r1, w)))"

section \<open>Authentication and authorization\<close>

definition JWT :: "jwtlib \<Rightarrow> auth_service \<Rightarrow> time \<Rightarrow> ('r, 'w) handler \<Rightarrow> ('r, 'w) handler" where
  "JWT L service at next x =
    (case x of (c, rw) \<Rightarrow>
      (let header = gn_GetHeader c ''Authorization''
       in case Cut header (CHR '' '') of
            (scheme, raw, ok) \<Rightarrow>
              if \<not> ok \<or> \<not> EqualFold scheme ''Bearer'' \<or> raw = []
              then (http_Fail c (app_Unauthorized ''missing bearer token''), rw)
              else case auth_Verify L service at raw of
                Inl e \<Rightarrow> (http_Fail c (app_Unauthorized ''invalid or expired token''), rw)
              | Inr identity \<Rightarrow>
                 next (c\<lparr>gn_subject := Some (p_ID identity), gn_principal := Some identity, gn_credential := Some header\<rparr>, rw)))"

definition psk_principal :: principal where
  "psk_principal = \<lparr>p_ID = ''data-export-service:psk'', p_Type = TypeServiceAccount, p_TenantID = []\<rparr>"

definition Authentication :: "jwtlib \<Rightarrow> auth_service \<Rightarrow> time \<Rightarrow> auth_config \<Rightarrow> ('r, 'w) handler \<Rightarrow> ('r, 'w) handler" where
  "Authentication L service at cfg next x =
    (case x of (c, rw) \<Rightarrow>
      if psk_Enabled (auth_PSK cfg) \<and> MatchesAny (gn_FullPath c) (psk_HTTPPaths (auth_PSK cfg))
      then (if \<not> VerifyPSK (gn_GetHeader c ''Authorization'') (psk_Key (auth_PSK cfg))
            then (http_Fail c (app_Unauthorized ''missing or invalid PSK''), rw)
            else next (c\<lparr>gn_subject := Some ''psk'', gn_principal := Some psk_principal,
                   gn_credential := Some (gn_GetHeader c ''Authorization'')\<rparr>, rw))
      else if MatchesAny (gn_FullPath c) (auth_SkipHTTPPaths cfg) then next x
      else JWT L service at next x)"

record requirement =
  rq_Resource :: string
  rq_Action :: string

text \<open>All requirements have the principal's scope.\<close>

definition export_requirements :: "(string \<times> requirement) list" where
  "export_requirements =
    [(''/api/v1/exports/datasets/list'', \<lparr>rq_Resource = ''export.dataset'', rq_Action = ''list''\<rparr>),
     (''/api/v1/exports/datasets/describe'', \<lparr>rq_Resource = ''export.dataset'', rq_Action = ''read''\<rparr>),
     (''/api/v1/exports/create'', \<lparr>rq_Resource = ''export.job'', rq_Action = ''create''\<rparr>),
     (''/api/v1/exports/get'', \<lparr>rq_Resource = ''export.job'', rq_Action = ''read''\<rparr>),
     (''/api/v1/exports/list'', \<lparr>rq_Resource = ''export.job'', rq_Action = ''list''\<rparr>),
     (''/api/v1/exports/cancel'', \<lparr>rq_Resource = ''export.job'', rq_Action = ''cancel''\<rparr>),
     (''/api/v1/exports/retry'', \<lparr>rq_Resource = ''export.job'', rq_Action = ''retry''\<rparr>),
     (''/api/v1/exports/download'', \<lparr>rq_Resource = ''export.job'', rq_Action = ''download''\<rparr>)]"

definition exportHTTPRequirement :: "string \<Rightarrow> requirement option" where
  "exportHTTPRequirement route = map_of export_requirements route"

text \<open>The platform's authorizer decides for the principal and credential of the request; an error may say
  that no decision could be had.\<close>

record authorizer =
  az_Enforce :: "principal option \<Rightarrow> string option \<Rightarrow> requirement \<Rightarrow> goerror option"
  az_DecisionUnavailable :: "goerror \<Rightarrow> bool"

definition Authorization :: "bool \<Rightarrow> authorizer \<Rightarrow> ('r, 'w) handler \<Rightarrow> ('r, 'w) handler" where
  "Authorization enabled az next x =
    (case x of (c, rw) \<Rightarrow>
      (case exportHTTPRequirement (gn_FullPath c) of
         None \<Rightarrow> next x
       | Some requirement \<Rightarrow>
          if \<not> enabled then next x
          else case az_Enforce az (gn_principal c) (gn_credential c) requirement of
            None \<Rightarrow> next x
          | Some e \<Rightarrow>
             if az_DecisionUnavailable az e
             then (http_Fail c (app_Unavailable ''authorization decision is unavailable'' (Some e)), rw)
             else (http_Fail c (app_Forbidden ''permission denied''), rw)))"

section \<open>The chain\<close>

text \<open>What the server is built with, and what the environment decides for one request.\<close>

record 'r server =
  sv_cfg :: config
  sv_jwt :: jwtlib
  sv_auth :: auth_service
  sv_authorizer :: authorizer
  sv_limiter :: "'r limiter"
  sv_idempotency :: "'r idem_manager option"
  sv_idempotencyValid :: "string \<Rightarrow> bool"
  sv_ParseMediaType :: "string \<Rightarrow> string result"
  sv_sha256 :: "string \<Rightarrow> string"
  sv_meter :: "'r meter"

record arrival =
  ar_generated :: string
  ar_at :: time
  ar_expired :: bool
  ar_elapsed :: duration

definition router_chain :: "'r server \<Rightarrow> arrival \<Rightarrow> ('r, 'w) handler \<Rightarrow> ('r, 'w) handler" where
  "router_chain V a h =
    RequestID (ar_generated a)
     (IdempotencyKey (sv_idempotencyValid V)
     (Environment (rt_ActiveProfile (c_Runtime (sv_cfg V)))
     (Recovery
     (HTTPMetrics (sv_meter V) (ar_elapsed a)
     (SecurityHeaders
     (CORS (http_CORS (c_HTTP (sv_cfg V)))
     (MaxBody (http_MaxBodyBytes (c_HTTP (sv_cfg V)))
     (Timeout (ar_expired a)
     (RequireJSON (sv_ParseMediaType V) h)))))))))"

definition subject_key :: "gin \<Rightarrow> string" where
  "subject_key c = (case gn_subject c of None \<Rightarrow> [] | Some s \<Rightarrow> s)"

definition api_chain :: "'r server \<Rightarrow> arrival \<Rightarrow> ('r, 'w) handler \<Rightarrow> ('r, 'w) handler" where
  "api_chain V a h =
    (let cfg = sv_cfg V
     in RateLimit (sv_limiter V) (rl_IP (c_RateLimit cfg)) ''ip'' gn_ClientIP
         (RateLimit (sv_limiter V) (rl_API (c_RateLimit cfg)) ''api'' gn_FullPath
         (Authentication (sv_jwt V) (sv_auth V) (ar_at a) (c_Auth cfg)
         (Authorization (authz_Enabled (c_Authorization cfg)) (sv_authorizer V)
         (RateLimit (sv_limiter V) (rl_User (c_RateLimit cfg)) ''user'' subject_key
         (IdempotencyExecution (sv_idempotency V) (sv_sha256 V) (idem_HTTPPaths (c_Idempotency cfg)) h))))))"

end
