(* ===== verification/Export_Catalog.thy ===== *)
theory Export_Catalog
  imports Export_Service_Laws Export_Provider_Laws
begin

text \<open>
  \<open>internal/export/catalog.go\<close>: the dataset catalog of the API, a guarded front of a
  \<open>CatalogProvider\<close>.  The provider is given by its two operations; a provider's internal state
  does not show in its answers here.
\<close>

record catalog_provider =
  cp_ListDatasets :: "string \<Rightarrow> int \<Rightarrow> int \<Rightarrow> (dataset_summary list \<times> int) result"
  cp_DescribeDataset :: describer

record catalog =
  cat_provider :: catalog_provider
  cat_applications :: verifier

definition NewRuntimeCatalog :: "catalog_provider \<Rightarrow> verifier option \<Rightarrow> catalog result" where
  "NewRuntimeCatalog provider apps =
    (case apps of
       None \<Rightarrow> Inl (Opaque ''application verifier is required'')
     | Some v \<Rightarrow> Inr \<lparr>cat_provider = provider, cat_applications = v\<rparr>)"

definition verifyCatalogScope :: "verifier \<Rightarrow> principal option \<Rightarrow> string \<Rightarrow> string \<Rightarrow> goerror option" where
  "verifyCatalogScope verify ctx tenantID applicationID =
    (case authorize ctx tenantID of
       Inl e \<Rightarrow> Some e
     | Inr _ \<Rightarrow>
        (let t = normalize tenantID; a = normalize applicationID
         in if t = [] \<or> a = [] then Some (app_Invalid ''tenant_id and application_id are required'' None)
            else case verify t a of
              Some e \<Rightarrow> if errors_Is e ErrNotGranted
                        then Some (app_New CodeForbidden ''application access denied'' 403 (Some e))
                        else Some (app_Unavailable ''application authorization unavailable'' (Some e))
            | None \<Rightarrow> None))"

text \<open>The failure of a provider; its panic goes through.\<close>

definition provider_failed :: "string \<Rightarrow> goerror \<Rightarrow> goerror" where
  "provider_failed message e = (if is_panic e then e else app_Unavailable message (Some e))"

definition catalog_List ::
  "catalog \<Rightarrow> principal option \<Rightarrow> string \<Rightarrow> string \<Rightarrow> string \<Rightarrow> int \<Rightarrow> int
    \<Rightarrow> (dataset_summary list \<times> int \<times> int \<times> int) result" where
  "catalog_List c ctx tenantID applicationID search page0 pageSize0 =
    (case verifyCatalogScope (cat_applications c) ctx tenantID applicationID of
       Some e \<Rightarrow> Inl e
     | None \<Rightarrow>
        (case normalizeCatalogPage page0 pageSize0 of (page, pageSize) \<Rightarrow>
          (case cp_ListDatasets (cat_provider c) (TrimSpace search) page pageSize of
             Inl e \<Rightarrow> Inl (provider_failed ''export dataset catalog is unavailable'' e)
           | Inr (vs, count) \<Rightarrow> Inr (vs, count, page, pageSize))))"

definition catalog_Describe ::
  "(rune \<Rightarrow> rune) \<Rightarrow> catalog \<Rightarrow> principal option \<Rightarrow> string \<Rightarrow> string \<Rightarrow> string \<Rightarrow> string
    \<Rightarrow> dataset_descriptor result" where
  "catalog_Describe ulow c ctx tenantID applicationID service0 dataset0 =
    (case verifyCatalogScope (cat_applications c) ctx tenantID applicationID of
       Some e \<Rightarrow> Inl e
     | None \<Rightarrow>
        (let service = ToLower ulow (normalize service0); dataset = ToLower ulow (normalize dataset0)
         in if \<not> codePattern service \<or> \<not> codePattern dataset
            then Inl (app_Invalid ''provider_service and dataset_code are required'' None)
            else case cp_DescribeDataset (cat_provider c) (normalize tenantID) (normalize applicationID) service dataset of
              Inl e \<Rightarrow> Inl (provider_failed ''export dataset descriptor is unavailable'' e)
            | Inr value \<Rightarrow> Inr value))"

section \<open>Laws\<close>

lemma normalizeCatalogPage_idem:
  "normalizeCatalogPage page n = (p, s) \<Longrightarrow> normalizeCatalogPage p s = (p, s) \<and> 1 \<le> p \<and> 1 \<le> s \<and> s \<le> 100"
  by (auto simp: normalizeCatalogPage_def split: if_splits)

text \<open>
  The catalog guards its two operations with the same decision the job API makes: a scope is refused
  with the same error, and open to the same callers.
\<close>

theorem catalog_scope_agrees:
  "verifyCatalogScope verify ctx t a = (case authorizeScope verify ctx t a of Inl e \<Rightarrow> Some e | Inr _ \<Rightarrow> None)"
  by (auto simp: verifyCatalogScope_def authorizeScope_def Let_def split: sum.splits option.splits)

text \<open>
  The catalog in front of the gRPC provider: for a caller who may act in the scope, a page is the slice of
  the registered datasets that the normalized page names, with the full count; the page and size
  reported are the ones used.
\<close>

theorem catalog_List_page:
  assumes "c = \<lparr>cat_provider = \<lparr>cp_ListDatasets = ListDatasets P, cp_DescribeDataset = describe\<rparr>, cat_applications = applications S\<rparr>"
    and "may_act S ctx (normalize t) (normalize a)" and "pe_discovery P = Some (Inr instances)"
    and "normalizeCatalogPage page n = (p, s)" and "p * s < 2147483648"
    and "vs = summarizeDatasets (pe_ToLower P) (pe_ParseMetadata P) instances (TrimSpace search)"
  shows "catalog_List c ctx t a search page n
    = Inr (take (nat s) (drop (nat ((p - 1) * s)) vs), int (length vs), p, s)"
proof -
  obtain actor where auth: "authorizeScope (applications S) ctx t a = Inr actor"
    using assms(2) authorizeScope_iff by blast
  have v: "verifyCatalogScope (applications S) ctx t a = None"
    using auth by (auto simp: verifyCatalogScope_def authorizeScope_def Let_def split: sum.splits option.splits if_splits)
  have ps: "1 \<le> p" "1 \<le> s" "s \<le> 100" using normalizeCatalogPage_idem [OF assms(4)] by auto
  have "ListDatasets P (TrimSpace search) p s = Inr (take (nat s) (drop (nat ((p - 1) * s)) vs), int (length vs))"
    by (rule ListDatasets_page [OF assms(3) ps assms(5,6)])
  then show ?thesis using v assms(4) by (simp add: catalog_List_def assms(1))
qed

theorem catalog_List_page_witness:
  "\<exists>vs. catalog_List \<lparr>cat_provider = \<lparr>cp_ListDatasets = ListDatasets demo_provider, cp_DescribeDataset = (\<lambda>_ _ _ _. Inl ErrNotFound)\<rparr>,
      cat_applications = applications demo_service\<rparr> (Some demo_user) ''t'' ''a'' [] 0 0
    = Inr (take 20 vs, int (length vs), 1, 20)"
proof -
  have d: "pe_discovery demo_provider = Some (Inr [demo_instance ''i1'', demo_instance ''i2''])"
    by (simp add: demo_provider_def)
  show ?thesis
    using catalog_List_page [of _ demo_provider "\<lambda>_ _ _ _. Inl ErrNotFound" demo_service "Some demo_user" "''t''" "''a''"
        _ 0 0 1 20 _ "[]", OF refl _ d _ _ refl]
    by (auto simp: demo_may_act normalizeCatalogPage_def)
qed

end
