(* ===== verification/Http_Handler.thy ===== *)
theory Http_Handler
  imports Http_Middleware Export_Catalog
begin

text \<open>
  \<open>internal/transport/http/handler.go\<close>: the handlers of the API and its routes in \<open>server.go\<close>.  Decoding a
  request's JSON into the struct of its route is \<open>ShouldBindJSON\<close>, given per route; \<open>Http_Json\<close> has the decoders.
\<close>

section \<open>Requests\<close>

text \<open>A list that is missing in the request is a nil slice, \<open>None\<close>; a missing query is an empty raw message.\<close>

record create_export_request =
  cer_TenantID :: string
  cer_ApplicationID :: string
  cer_DatasetCode :: string
  cer_ProviderService :: string
  cer_Format :: string
  cer_Filename :: string
  cer_Query :: string
  cer_SelectedColumns :: "string list option"
  cer_IdempotencyKey :: string

record list_datasets_request =
  ldr_TenantID :: string
  ldr_ApplicationID :: string
  ldr_Search :: string
  ldr_Page :: int
  ldr_PageSize :: int

record describe_dataset_request =
  ddr_TenantID :: string
  ddr_ApplicationID :: string
  ddr_ProviderService :: string
  ddr_DatasetCode :: string

record get_export_request =
  ger_TenantID :: string
  ger_ApplicationID :: string
  ger_ID :: string

record list_exports_request =
  ler_TenantID :: string
  ler_ApplicationID :: string
  ler_Status :: string
  ler_DatasetCode :: string
  ler_CreatedFrom :: "time option"
  ler_CreatedTo :: "time option"
  ler_Page :: int
  ler_PageSize :: int

record versioned_export_request =
  ver_TenantID :: string
  ver_ApplicationID :: string
  ver_ID :: string
  ver_Version :: int

record retry_export_request =
  rer_TenantID :: string
  rer_ApplicationID :: string
  rer_ID :: string
  rer_Version :: int
  rer_IdempotencyKey :: string

record download_export_request =
  der_TenantID :: string
  der_ApplicationID :: string
  der_ID :: string
  der_TTLSeconds :: int

text \<open>\<open>internal/buildinfo\<close>: the variables the linker sets, and the start of the process.\<close>

record build =
  bd_Version :: string
  bd_Commit :: string
  bd_BuildTime :: string
  bd_startedAt :: time

record 'o http_api =
  ha_exports :: "'o service"
  ha_catalog :: catalog
  ha_health :: health_service
  ha_env :: env
  ha_latency :: string
  ha_db_first :: bool
  ha_build :: build
  ha_now :: time
  bind_create :: "string \<Rightarrow> create_export_request result"
  bind_list_datasets :: "string \<Rightarrow> list_datasets_request result"
  bind_describe :: "string \<Rightarrow> describe_dataset_request result"
  bind_get :: "string \<Rightarrow> get_export_request result"
  bind_list :: "string \<Rightarrow> list_exports_request result"
  bind_versioned :: "string \<Rightarrow> versioned_export_request result"
  bind_retry :: "string \<Rightarrow> retry_export_request result"
  bind_download :: "string \<Rightarrow> download_export_request result"

definition bind :: "(string \<Rightarrow> 'q result) \<Rightarrow> gin \<Rightarrow> 'q result" where
  "bind decode c =
    (case gn_ReadBody c of
       Inl e \<Rightarrow> Inl (app_Invalid ''invalid JSON request'' (Some e))
     | Inr body \<Rightarrow>
        (case decode body of
           Inl e \<Rightarrow> Inl (app_Invalid ''invalid JSON request'' (Some e))
         | Inr r \<Rightarrow> Inr r))"

text \<open>
  A handler that binds its request, runs an operation on the world and answers with its result or its error; it panics with
  its operation.
\<close>

definition answer ::
  "(string \<Rightarrow> 'q result) \<Rightarrow> ('q \<Rightarrow> gin \<Rightarrow> 'w \<Rightarrow> http_body result \<times> 'w) \<Rightarrow> ('r, 'w) handler" where
  "answer decode act x =
    (case x of (c, r, w) \<Rightarrow>
      (case bind decode c of
         Inl e \<Rightarrow> (http_Fail c e, r, w)
       | Inr q \<Rightarrow>
          (case act q c w of
             (Inl e, w1) \<Rightarrow> (if is_panic e then c\<lparr>gn_panic := True\<rparr> else http_Fail c e, r, w1)
           | (Inr body, w1) \<Rightarrow> (http_OK c body, r, w1))))"

section \<open>Bodies\<close>

definition rawObject :: "string \<Rightarrow> string" where
  "rawObject value =
    (if value \<noteq> [] \<and> json_Valid value
     then (if hd value = CHR 0x22
           then (case json_parse value of
                   Some (JStr legacy) \<Rightarrow> if json_Valid legacy then legacy else value
                 | _ \<Rightarrow> value)
           else value)
     else ''{}'')"

text \<open>
  \<open>json.Unmarshal\<close> into an empty \<open>[]string\<close> whose error is ignored: an element that is no string leaves an
  empty one, \<open>null\<close> makes the slice nil.
\<close>

definition columns_of :: "string \<Rightarrow> string list option" where
  "columns_of s =
    (case json_parse s of
       Some (JArr vs) \<Rightarrow> Some (map (\<lambda>v. case v of JStr t \<Rightarrow> t | _ \<Rightarrow> []) vs)
     | Some JNull \<Rightarrow> None
     | _ \<Rightarrow> Some [])"

definition exportJobBody :: "job \<Rightarrow> export_job_body" where
  "exportJobBody v = \<lparr>jb_ID = ID v, jb_TenantID = TenantID v, jb_ApplicationID = ApplicationID v, jb_DatasetCode = DatasetCode v,
     jb_ProviderService = ProviderService v, jb_Format = Format v, jb_Filename = Filename v, jb_Query = rawObject (QueryJSON v),
     jb_SelectedColumns = columns_of (SelectedColumnsJSON v), jb_Status = Status v, jb_RowsExported = RowsExported v,
     jb_BytesWritten = BytesWritten v, jb_ProgressPercent = ProgressPercent v, jb_ObjectKey = ObjectKey v,
     jb_ContentType = ContentType v, jb_Checksum = Checksum v, jb_ErrorCode = ErrorCode v, jb_ErrorMessage = ErrorMessage v,
     jb_StartedAt = StartedAt v, jb_CompletedAt = CompletedAt v, jb_ExpiresAt = ExpiresAt v, jb_Version = Version v,
     jb_CreatedAt = CreatedAt v, jb_UpdatedAt = UpdatedAt v, jb_CreatedBy = CreatedBy v, jb_UpdatedBy = UpdatedBy v\<rparr>"

definition marshal_strings :: "string list option \<Rightarrow> string" where
  "marshal_strings vs = (case vs of None \<Rightarrow> ''null'' | Some xs \<Rightarrow> json_encode (JArr (map JStr xs)))"

section \<open>Handlers\<close>

definition Live :: "('r, 'w) handler" where
  "Live x = (case x of (c, rw) \<Rightarrow> (http_OK c (StatusBody health_Live), rw))"

definition Ready :: "'o http_api \<Rightarrow> ('r, 'w) handler" where
  "Ready H x =
    (case x of (c, rw) \<Rightarrow>
      (case health_Ready (ha_health H) (ha_latency H) (ha_db_first H) of
         (status, ready) \<Rightarrow>
           if \<not> ready
           then (c\<lparr>gn_Status := 503, gn_response := Some \<lparr>rsp_Code = CodeDependencyUnavailable, rsp_Message = ''service is not ready'',
                   rsp_Body = StatusBody status, rsp_RequestID = gn_request_id c\<rparr>\<rparr>, rw)
           else (http_OK c (StatusBody status), rw)))"

text \<open>\<open>Duration.String\<close> for whole seconds, which are all the version route prints.\<close>

definition Duration_String :: "duration \<Rightarrow> string" where
  "Duration_String d =
    (let s = \<bar>d\<bar> div 1000000000; sign = (if d < 0 then ''-'' else []);
         seconds = FormatInt (s mod 60) @ ''s''; minutes = FormatInt (s div 60 mod 60) @ ''m'' @ seconds
     in sign @ (if s < 60 then seconds else if s < 3600 then minutes else FormatInt (s div 3600) @ ''h'' @ minutes))"

definition buildinfo_Current :: "build \<Rightarrow> time \<Rightarrow> build_info" where
  "buildinfo_Current b at = \<lparr>bi_Version = bd_Version b, bi_Commit = bd_Commit b, bi_BuildTime = bd_BuildTime b,
     bi_StartedAt = bd_startedAt b, bi_Uptime = Duration_String (Duration_Round (at - bd_startedAt b) 1000000000)\<rparr>"

definition http_Version :: "'o http_api \<Rightarrow> ('r, 'w) handler" where
  "http_Version H x = (case x of (c, rw) \<Rightarrow> (http_OK c (VersionBody (buildinfo_Current (ha_build H) (ha_now H))), rw))"

definition Me :: "('r, 'w) handler" where
  "Me x = (case x of (c, rw) \<Rightarrow> (http_OK c (MeBody (gn_subject c)), rw))"

definition ListExportDatasets :: "'o http_api \<Rightarrow> ('r, 'o world) handler" where
  "ListExportDatasets H = answer (bind_list_datasets H) (\<lambda>q c w.
     (case catalog_List (ha_catalog H) (gn_principal c) (ldr_TenantID q) (ldr_ApplicationID q) (ldr_Search q) (ldr_Page q) (ldr_PageSize q) of
        Inl e \<Rightarrow> Inl e
      | Inr (items, count, page, pageSize) \<Rightarrow> Inr (DatasetPageBody items count page pageSize), w))"

definition DescribeExportDataset :: "'o http_api \<Rightarrow> ('r, 'o world) handler" where
  "DescribeExportDataset H = answer (bind_describe H) (\<lambda>q c w.
     (case catalog_Describe (unicode_ToLower (sv_lib (ha_exports H))) (ha_catalog H) (gn_principal c) (ddr_TenantID q)
             (ddr_ApplicationID q) (ddr_ProviderService q) (ddr_DatasetCode q) of
        Inl e \<Rightarrow> Inl e
      | Inr value \<Rightarrow> Inr (DescriptorBody value), w))"

definition create_input_of :: "create_export_request \<Rightarrow> create_input" where
  "create_input_of q = \<lparr>ci_TenantID = cer_TenantID q, ci_ApplicationID = cer_ApplicationID q, ci_DatasetCode = cer_DatasetCode q,
     ci_ProviderService = cer_ProviderService q, ci_Format = cer_Format q, ci_Filename = cer_Filename q,
     ci_QueryJSON = rawObject (cer_Query q), ci_SelectedColumnsJSON = marshal_strings (cer_SelectedColumns q),
     ci_IdempotencyKey = cer_IdempotencyKey q, ci_ActorID = []\<rparr>"

definition CreateExport :: "'o http_api \<Rightarrow> ('r, 'o world) handler" where
  "CreateExport H = answer (bind_create H) (\<lambda>q c w.
     case Create (ha_exports H) (ha_env H) (gn_principal c) (create_input_of q) w of
       ((value, duplicate, err), w1) \<Rightarrow>
         (case err of Some e \<Rightarrow> Inl e | None \<Rightarrow> Inr (MutationBody (exportJobBody value) duplicate), w1))"

definition GetExport :: "'o http_api \<Rightarrow> ('r, 'o world) handler" where
  "GetExport H = answer (bind_get H) (\<lambda>q c w.
     case Get (ha_exports H) (ha_env H) (gn_principal c) (ger_TenantID q) (ger_ApplicationID q) (ger_ID q) w of
       (v, w1) \<Rightarrow> (case v of Inl e \<Rightarrow> Inl e | Inr value \<Rightarrow> Inr (JobBody (exportJobBody value)), w1))"

definition list_filter_of :: "list_exports_request \<Rightarrow> list_filter" where
  "list_filter_of q = \<lparr>lf_TenantID = ler_TenantID q, lf_ApplicationID = ler_ApplicationID q, lf_Status = ler_Status q,
     lf_DatasetCode = ler_DatasetCode q, lf_CreatedFrom = ler_CreatedFrom q, lf_CreatedTo = ler_CreatedTo q,
     lf_Page = ler_Page q, lf_PageSize = ler_PageSize q\<rparr>"

definition ListExports :: "'o http_api \<Rightarrow> ('r, 'o world) handler" where
  "ListExports H = answer (bind_list H) (\<lambda>q c w.
     case List (ha_exports H) (ha_env H) (gn_principal c) (list_filter_of q) w of
       (v, w1) \<Rightarrow>
         (case v of
            Inl e \<Rightarrow> Inl e
          | Inr value \<Rightarrow>
             (let page = (if ler_Page q < 1 then 1 else ler_Page q);
                  pageSize = (if ler_PageSize q < 1 then 20 else ler_PageSize q);
                  pageSize = (if 200 < pageSize then 200 else pageSize)
              in Inr (PageBody (map exportJobBody (pg_Items value)) (pg_Total value) page pageSize)), w1))"

definition CancelExport :: "'o http_api \<Rightarrow> ('r, 'o world) handler" where
  "CancelExport H = answer (bind_versioned H) (\<lambda>q c w.
     case Cancel (ha_exports H) (ha_env H) (gn_principal c) (ver_TenantID q) (ver_ApplicationID q) (ver_ID q) (ver_Version q) w of
       (v, w1) \<Rightarrow> (case v of Inl e \<Rightarrow> Inl e | Inr value \<Rightarrow> Inr (JobBody (exportJobBody value)), w1))"

definition RetryExport :: "'o http_api \<Rightarrow> ('r, 'o world) handler" where
  "RetryExport H = answer (bind_retry H) (\<lambda>q c w.
     case Retry (ha_exports H) (ha_env H) (gn_principal c) (rer_TenantID q) (rer_ApplicationID q) (rer_ID q) (rer_Version q)
            (rer_IdempotencyKey q) w of
       (v, w1) \<Rightarrow>
         (case v of Inl e \<Rightarrow> Inl e | Inr (value, duplicate) \<Rightarrow> Inr (MutationBody (exportJobBody value) duplicate), w1))"

definition DownloadExport :: "'o http_api \<Rightarrow> ('r, 'o world) handler" where
  "DownloadExport H = answer (bind_download H) (\<lambda>q c w.
     case CreateDownloadURL (ha_exports H) (ha_env H) (gn_principal c) (der_TenantID q) (der_ApplicationID q) (der_ID q)
            (der_TTLSeconds q * 1000000000) w of
       (v, w1) \<Rightarrow>
         (case v of
            Inl e \<Rightarrow> Inl e
          | Inr (url, expires, job) \<Rightarrow>
             Inr (DownloadBody \<lparr>db_URL = url, db_ExpiresAt = expires, db_Filename = Filename job,
               db_ContentType = ContentType job, db_Checksum = Checksum job\<rparr>), w1))"

text \<open>The routes of the group \<open>/api/v1\<close>, all \<open>POST\<close>, and how a request to one of them is served.\<close>

definition api_routes :: "'o http_api \<Rightarrow> (string \<times> ('r, 'o world) handler) list" where
  "api_routes H =
    [(''/api/v1/version'', http_Version H),
     (''/api/v1/me'', Me),
     (''/api/v1/exports/create'', CreateExport H),
     (''/api/v1/exports/datasets/list'', ListExportDatasets H),
     (''/api/v1/exports/datasets/describe'', DescribeExportDataset H),
     (''/api/v1/exports/get'', GetExport H),
     (''/api/v1/exports/list'', ListExports H),
     (''/api/v1/exports/cancel'', CancelExport H),
     (''/api/v1/exports/retry'', RetryExport H),
     (''/api/v1/exports/download'', DownloadExport H)]"

definition serve :: "'r server \<Rightarrow> arrival \<Rightarrow> ('r, 'w) handler \<Rightarrow> ('r, 'w) handler" where
  "serve V a h = router_chain V a (api_chain V a h)"

end
