(* ===== verification/Http_Laws.thy ===== *)
theory Http_Laws
  imports Http_Handler
begin

text \<open>
  What the chain in front of a handler promises.  A middleware is a guard: on a given request it
  either answers by itself, whatever the handler behind it is and leaving the world alone, or
  it runs that handler once, on a request it has admitted, and passes on the world the handler left.
  Guards compose, so the whole chain is one; what it admits is an identified and permitted caller.
\<close>

section \<open>Guards\<close>

definition world_of :: "gin \<times> 'r \<times> 'w \<Rightarrow> 'w" where
  "world_of y = snd (snd y)"

lemma world_of_simp [simp]: "world_of (c, r, w) = w"
  by (simp add: world_of_def)

text \<open>
  What is done to the outcome of the next handler: the world stays as that handler left it, and, unless the middleware recovers,
  nothing is done after a panic.
\<close>

definition passes_on :: "bool \<Rightarrow> (gin \<times> 'r \<times> 'w \<Rightarrow> gin \<times> 'r \<times> 'w) \<Rightarrow> bool" where
  "passes_on unwinds post \<longleftrightarrow> (\<forall>y. world_of (post y) = world_of y) \<and> (unwinds \<longrightarrow> (\<forall>y. gn_panic (fst y) \<longrightarrow> post y = y))"

lemma passes_on_id [simp]: "passes_on u (\<lambda>y. y)" "passes_on u id"
  by (simp_all add: passes_on_def)

lemma passes_on_comp: "passes_on u p1 \<Longrightarrow> passes_on u p2 \<Longrightarrow> passes_on u (p1 \<circ> p2)"
  unfolding passes_on_def comp_def by (simp del: split_paired_All)

lemma passes_onD: "passes_on u post \<Longrightarrow> world_of (post y) = world_of y"
  unfolding passes_on_def by blast

lemma passes_on_panic: "passes_on True post \<Longrightarrow> gn_panic (fst y) \<Longrightarrow> post y = y"
  unfolding passes_on_def by blast

lemma passes_on_weaken: "passes_on u post \<Longrightarrow> (v \<longrightarrow> u) \<Longrightarrow> passes_on v post"
  unfolding passes_on_def by blast

locale guard =
  fixes mw :: "('r, 'w) handler \<Rightarrow> ('r, 'w) handler" and admits :: "gin \<Rightarrow> gin \<Rightarrow> bool" and unwinds :: bool
  assumes guards: "(\<exists>y. (\<forall>h. mw h (c, r, w) = y) \<and> world_of y = w)
    \<or> (\<exists>c1 r1 post. admits c c1 \<and> (\<forall>h. mw h (c, r, w) = post (h (c1, r1, w))) \<and> passes_on unwinds post)"
begin

lemma guarded:
  obtains (stopped) y where "\<And>h. mw h (c, r, w) = y" "world_of y = w"
    | (passed) c1 r1 post where "admits c c1" "\<And>h. mw h (c, r, w) = post (h (c1, r1, w))" "passes_on unwinds post"
  using guards [of c r w] by blast

text \<open>The world changes only through the handler, on an admitted request.\<close>

lemma world_changes:
  assumes "mw h (c, r, w) = (c', r', w')"
  shows "w' = w \<or> (\<exists>c1 r1. admits c c1 \<and> world_of (h (c1, r1, w)) = w')"
proof (rule guarded [of c r w])
  show ?thesis if "\<And>h. mw h (c, r, w) = y" "world_of y = w" for y
    using that(1) [of h] that(2) assms by auto
  show ?thesis if "admits c c1" "\<And>h. mw h (c, r, w) = post (h (c1, r1, w))" "passes_on unwinds post" for c1 r1 post
    using that(1) that(2) [of h] passes_onD [OF that(3), of "h (c1, r1, w)"] assms by (metis world_of_simp)
qed

text \<open>When the handler panics on a request that was admitted, the middleware that unwinds gives its outcome unchanged.\<close>

lemma unwound:
  assumes unwinds
  shows "(\<exists>y. \<forall>h. mw h (c, r, w) = y)
    \<or> (\<exists>c1 r1. admits c c1 \<and> (\<forall>h. gn_panic (fst (h (c1, r1, w))) \<longrightarrow> mw h (c, r, w) = h (c1, r1, w)))"
proof (rule guarded [of c r w])
  show ?thesis if "\<And>h. mw h (c, r, w) = y" "world_of y = w" for y
    using that by blast
  show ?thesis if "admits c c1" "\<And>h. mw h (c, r, w) = post (h (c1, r1, w))" "passes_on unwinds post" for c1 r1 post
    using that(1) passes_on_panic [OF passes_on_weaken [OF that(3)]] assms unfolding that(2) by blast
qed

end

locale guard_pair = outer: guard outer_mw outer_admits unwinds + inner: guard inner_mw inner_admits unwinds
  for outer_mw :: "('r, 'w) handler \<Rightarrow> ('r, 'w) handler" and outer_admits
    and inner_mw :: "('r, 'w) handler \<Rightarrow> ('r, 'w) handler" and inner_admits and unwinds
begin

sublocale both: guard "\<lambda>h. outer_mw (inner_mw h)" "outer_admits OO inner_admits" unwinds
proof
  fix c r and w :: 'w
  let ?goal = "(\<exists>y. (\<forall>h. outer_mw (inner_mw h) (c, r, w) = y) \<and> world_of y = w)
    \<or> (\<exists>c1 r1 post. (outer_admits OO inner_admits) c c1 \<and> (\<forall>h. outer_mw (inner_mw h) (c, r, w) = post (h (c1, r1, w)))
        \<and> passes_on unwinds post)"
  show ?goal
  proof (rule outer.guarded [of c r w])
    show ?goal if "\<And>h. outer_mw h (c, r, w) = y" "world_of y = w" for y using that by blast
    fix c1 r1 post
    assume outer: "outer_admits c c1" "\<And>h. outer_mw h (c, r, w) = post (h (c1, r1, w))" "passes_on unwinds post"
    show ?goal
    proof (rule inner.guarded [of c1 r1 w])
      fix y assume y: "\<And>h. inner_mw h (c1, r1, w) = y" "world_of y = w"
      have "\<forall>h. outer_mw (inner_mw h) (c, r, w) = post y" using outer(2) y(1) by simp
      moreover have "world_of (post y) = w" using y(2) passes_onD [OF outer(3)] by metis
      ultimately show ?goal by blast
    next
      fix c2 r2 post'
      assume inner: "inner_admits c1 c2" "\<And>h. inner_mw h (c1, r1, w) = post' (h (c2, r2, w))" "passes_on unwinds post'"
      have "(outer_admits OO inner_admits) c c2" using outer(1) inner(1) by blast
      moreover have "\<forall>h. outer_mw (inner_mw h) (c, r, w) = (post \<circ> post') (h (c2, r2, w))" using outer(2) inner(2) by simp
      moreover have "passes_on unwinds (post \<circ> post')" by (rule passes_on_comp [OF outer(3) inner(3)])
      ultimately show ?goal by blast
    qed
  qed
qed

lemma both_guard: "guard (\<lambda>h. outer_mw (inner_mw h)) (outer_admits OO inner_admits) unwinds"
  by (rule both.guard_axioms)

end

lemma guard_comp:
  assumes "guard m1 a1 u" and "guard m2 a2 u"
  shows "guard (\<lambda>h. m1 (m2 h)) (a1 OO a2) u"
  using guard_pair.intro [OF assms] by (rule guard_pair.both_guard)

lemma guard_weaken: "guard mw a u \<Longrightarrow> a \<le> b \<Longrightarrow> guard mw b u"
  unfolding guard_def by blast

lemma guard_recovering:
  assumes "guard mw a u"
  shows "guard mw a False"
proof
  fix c r w
  show "(\<exists>y. (\<forall>h. mw h (c, r, w) = y) \<and> world_of y = w)
    \<or> (\<exists>c1 r1 post. a c c1 \<and> (\<forall>h. mw h (c, r, w) = post (h (c1, r1, w))) \<and> passes_on False post)"
    by (rule guard.guarded [OF assms, of c r w]) (blast, metis passes_on_weaken)
qed

text \<open>A middleware that decides first, runs the next handler, and may still look at its result.\<close>

lemma guardI_post:
  assumes mw: "\<And>h c r w. mw h (c, r, w) =
      (case g c r of Inl (c', r') \<Rightarrow> (c', r', w) | Inr (c1, r1, post) \<Rightarrow> post (h (c1, r1, w)))"
    and admits: "\<And>c r c1 r1 post. g c r = Inr (c1, r1, post) \<Longrightarrow> admits c c1 \<and> passes_on u post"
  shows "guard mw admits u"
proof
  fix c r and w :: 'b
  show "(\<exists>y. (\<forall>h. mw h (c, r, w) = y) \<and> world_of y = w)
    \<or> (\<exists>c1 r1 post. admits c c1 \<and> (\<forall>h. mw h (c, r, w) = post (h (c1, r1, w))) \<and> passes_on u post)"
  proof (cases "g c r")
    case (Inl y)
    obtain c' r' where "y = (c', r')" by (cases y)
    then have "\<forall>h. mw h (c, r, w) = (c', r', w)" using mw Inl by simp
    moreover have "world_of (c', r', w) = w" by simp
    ultimately show ?thesis by blast
  next
    case (Inr y)
    obtain c1 r1 post where y: "y = (c1, r1, post)" by (cases y)
    then have "\<forall>h. mw h (c, r, w) = post (h (c1, r1, w))" using mw Inr by simp
    then show ?thesis using admits Inr y by blast
  qed
qed

lemma guardI:
  assumes mw: "\<And>h c r w. mw h (c, r, w) = (case g c r of Inl (c', r') \<Rightarrow> (c', r', w) | Inr (c1, r1) \<Rightarrow> h (c1, r1, w))"
    and admits: "\<And>c r c1 r1. g c r = Inr (c1, r1) \<Longrightarrow> admits c c1"
  shows "guard mw admits u"
  by (rule guardI_post [where g = "\<lambda>c r. case g c r of Inl y \<Rightarrow> Inl y | Inr (c1, r1) \<Rightarrow> Inr (c1, r1, id)"])
    (auto simp: mw intro: admits split: sum.splits prod.splits)

section \<open>The middlewares as guards\<close>

text \<open>The same call: the request line, the headers and what is known of the caller.\<close>

definition same_call :: "gin \<Rightarrow> gin \<Rightarrow> bool" where
  "same_call c c1 \<longleftrightarrow> gn_FullPath c1 = gn_FullPath c \<and> gn_Method c1 = gn_Method c \<and> gn_GetHeader c1 = gn_GetHeader c
    \<and> gn_principal c1 = gn_principal c \<and> gn_credential c1 = gn_credential c \<and> gn_subject c1 = gn_subject c"

lemma same_call_refl [simp]: "same_call c c"
  by (simp add: same_call_def)

lemma same_call_trans: "same_call OO same_call \<le> same_call"
  by (auto simp: same_call_def)

lemma set_Header_same [simp]: "same_call c (set_Header k v c1) = same_call c c1"
  by (simp add: same_call_def set_Header_def)

interpretation request_id: guard "RequestID i" same_call True for i
  by (rule guardI [where g = "\<lambda>c r. let header = gn_GetHeader c ''X-Request-ID''; j = (if requestid_Valid header then header else i)
        in Inr (set_Header ''X-Request-ID'' j (c\<lparr>gn_request_id := j\<rparr>), r)"])
    (auto simp: RequestID_def Let_def same_call_def set_Header_def)

interpretation environment: guard "Environment profile" same_call True for profile
  by (rule guardI [where g = "\<lambda>c r. Inr (c\<lparr>gn_environment := profile\<rparr>, r)"]) (auto simp: Environment_def same_call_def)

interpretation idempotency_key: guard "IdempotencyKey valid" same_call True for valid
  by (rule guardI [where g = "\<lambda>c r. let key = gn_GetHeader c ''Idempotency-Key''
        in if key = [] then Inr (c, r)
           else if \<not> valid key then Inl (http_Fail c (app_Invalid ''invalid Idempotency-Key'' None), r)
           else Inr (set_Header ''Idempotency-Key'' key (c\<lparr>gn_idempotency_key := Some key\<rparr>), r)"])
    (auto simp: IdempotencyKey_def Let_def same_call_def set_Header_def split: if_splits)

interpretation max_body: guard "MaxBody limit" same_call True for limit
  by (rule guardI [where g = "\<lambda>c r. Inr (c\<lparr>gn_ReadBody := (case gn_ReadBody c of
          Inl e \<Rightarrow> Inl e
        | Inr body \<Rightarrow> if limit < int (length body) then Inl (Opaque ''http: request body too large'') else Inr body)\<rparr>, r)"])
    (auto simp: MaxBody_def same_call_def)

interpretation require_json: guard "RequireJSON parse" same_call True for parse
  by (rule guardI [where g = "\<lambda>c r. if gn_Method c = ''POST'' \<and> gn_ContentLength c \<noteq> 0
         \<and> parse (gn_GetHeader c ''Content-Type'') \<noteq> Inr ''application/json''
      then Inl (abort_response 415 CodeInvalidArgument ''content type must be application/json'' c, r) else Inr (c, r)"])
    (auto simp: RequireJSON_def split: if_splits)

lemma security_headers_same [simp]: "same_call c (security_headers c)"
  by (simp add: security_headers_def Let_def)

interpretation security: guard SecurityHeaders same_call True
  by (rule guardI [where g = "\<lambda>c r. Inr (security_headers c, r)"]) (auto simp: SecurityHeaders_def)

lemma cors_headers_same [simp]: "same_call c (cors_headers cfg origin c)"
  by (simp add: cors_headers_def)

interpretation cors: guard "CORS cfg" same_call True for cfg
  by (rule guardI [where g = "\<lambda>c r. let origin = gn_GetHeader c ''Origin''; c1 = cors_headers cfg origin c
        in if \<not> cors_Enabled cfg \<or> origin = [] then Inr (c, r)
           else if origin \<notin> set (cors_AllowedOrigins cfg) then Inl (abort_response 403 CodeForbidden ''origin is not allowed'' c, r)
           else if gn_Method c = ''OPTIONS'' then Inl (c1\<lparr>gn_aborted := True, gn_Status := 204\<rparr>, r)
           else Inr (c1, r)"])
    (auto simp: CORS_def Let_def split: if_splits)

interpretation rate_limit: guard "RateLimit l rule dimension keyFunc" same_call True for l rule dimension keyFunc
  by (rule guardI [where g = "\<lambda>c r. let key = keyFunc c
        in if \<not> lm_enabled l \<or> key = [] then Inr (c, r)
           else case limiter_Allow l (''rate:'' @ dimension @ '':'' @ key) rule r of
             (Inl e, r1) \<Rightarrow> if lm_failOpen l then Inr (c, r1)
               else Inl (http_Fail c (app_Unavailable ''rate limiter unavailable'' (Some e)), r1)
           | (Inr result, r1) \<Rightarrow>
               (let c1 = set_Header ''X-RateLimit-Remaining'' (FormatInt (lr_Remaining result))
                     (set_Header ''X-RateLimit-Limit'' (FormatInt (lr_Limit result)) c)
                in if \<not> lr_Allowed result
                   then let retry = max 1 (go_div (Duration_Round (lr_RetryAfter result) 1000000000) 1000000000)
                     in Inl (http_Fail (set_Header ''Retry-After'' (FormatInt retry) c1) app_TooManyRequests, r1)
                   else Inr (c1, r1))"])
    (auto simp: RateLimit_def Let_def split: if_splits prod.splits sum.splits)

interpretation timeout: guard "Timeout expired" same_call True for expired
  by (rule guardI_post [where g = "\<lambda>c r. Inr (c, r, \<lambda>y. case y of (c, rw) \<Rightarrow>
      if \<not> gn_panic c \<and> expired \<and> gn_response c = None then (http_Fail c app_RequestTimeout, rw) else (c, rw))"])
    (auto simp: Timeout_def passes_on_def)

interpretation metrics: guard "HTTPMetrics K elapsed" same_call True for K elapsed
  by (rule guardI_post [where g = "\<lambda>c r. Inr (c, r, \<lambda>y. case y of (c, r, w) \<Rightarrow>
      if gn_panic c then (c, r, w)
      else case observe_http K elapsed c r of Inl p \<Rightarrow> (c\<lparr>gn_panic := True\<rparr>, r, w) | Inr r1 \<Rightarrow> (c, r1, w))"])
    (auto simp: HTTPMetrics_def passes_on_def split: sum.splits)

interpretation recovery: guard Recovery same_call False
  by (rule guardI_post [where g = "\<lambda>c r. Inr (c, r, \<lambda>y. case y of (c, rw) \<Rightarrow>
      if gn_panic c then (abort_response 500 CodeInternal ''internal server error'' (c\<lparr>gn_panic := False\<rparr>), rw) else (c, rw))"])
    (auto simp: Recovery_def passes_on_def)

lemma persist_result_passes [simp]: "passes_on u (persist_result m key owner)"
  by (auto simp: passes_on_def persist_result_def split: option.splits)

interpretation idempotency: guard "IdempotencyExecution manager sha256 paths" same_call True for manager sha256 paths
  by (rule guardI_post [where g = "\<lambda>c r. case (gn_idempotency_key c, manager) of
       (Some key, Some m) \<Rightarrow>
        if \<not> im_Enabled m \<or> gn_Method c \<noteq> ''POST'' \<or> \<not> MatchesAny (gn_FullPath c) paths then Inr (c, r, id)
        else (case idempotencyFingerprint sha256 c of
           Inl e \<Rightarrow> Inl (http_Fail c (app_Invalid ''read idempotent request'' (Some e)), r)
         | Inr fingerprint \<Rightarrow>
            (case im_Begin m key fingerprint r of
               (Inl e, r1) \<Rightarrow> Inl (http_Fail c (app_Unavailable ''idempotency is unavailable'' (Some e)), r1)
             | (Inr d, r1) \<Rightarrow>
                if dc_State d \<noteq> StateAcquired then Inl (idempotent_reply d c, r1)
                else Inr (c, r1, persist_result m key (dc_Owner d))))
     | _ \<Rightarrow> Inr (c, r, id)"])
    (auto simp: IdempotencyExecution_def split: option.splits if_splits sum.splits prod.splits)

text \<open>The ways a caller is identified: by the pre-shared key of the route, not at all on a public route, or by a token.\<close>

definition identified :: "jwtlib \<Rightarrow> auth_service \<Rightarrow> time \<Rightarrow> auth_config \<Rightarrow> gin \<Rightarrow> gin \<Rightarrow> bool" where
  "identified L service at cfg c c1 \<longleftrightarrow>
    gn_FullPath c1 = gn_FullPath c \<and> gn_Method c1 = gn_Method c \<and> gn_GetHeader c1 = gn_GetHeader c
    \<and> (psk_Enabled (auth_PSK cfg) \<and> MatchesAny (gn_FullPath c) (psk_HTTPPaths (auth_PSK cfg))
         \<and> VerifyPSK (gn_GetHeader c ''Authorization'') (psk_Key (auth_PSK cfg)) \<and> gn_principal c1 = Some psk_principal
       \<or> MatchesAny (gn_FullPath c) (auth_SkipHTTPPaths cfg) \<and> gn_principal c1 = gn_principal c
       \<or> (\<exists>scheme raw p. gn_GetHeader c ''Authorization'' = scheme @ [CHR '' ''] @ raw \<and> EqualFold scheme ''Bearer''
            \<and> auth_Verify L service at raw = Inr p \<and> gn_principal c1 = Some p))"

lemma JWT_identified:
  assumes "Cut (gn_GetHeader c ''Authorization'') (CHR '' '') = (scheme, raw, True)" and "EqualFold scheme ''Bearer''"
    and "auth_Verify L service at raw = Inr p"
  shows "identified L service at cfg c (c\<lparr>gn_subject := Some (p_ID p), gn_principal := Some p,
    gn_credential := Some (gn_GetHeader c ''Authorization'')\<rparr>)"
  using assms Cut_space [of "gn_GetHeader c ''Authorization''" scheme raw] by (auto simp: identified_def)

definition token_check :: "jwtlib \<Rightarrow> auth_service \<Rightarrow> time \<Rightarrow> gin \<Rightarrow> gin + gin" where
  "token_check L service at c =
    (case Cut (gn_GetHeader c ''Authorization'') (CHR '' '') of
       (scheme, raw, ok) \<Rightarrow>
         if \<not> ok \<or> \<not> EqualFold scheme ''Bearer'' \<or> raw = [] then Inl (http_Fail c (app_Unauthorized ''missing bearer token''))
         else case auth_Verify L service at raw of
           Inl e \<Rightarrow> Inl (http_Fail c (app_Unauthorized ''invalid or expired token''))
         | Inr p \<Rightarrow> Inr (c\<lparr>gn_subject := Some (p_ID p), gn_principal := Some p,
             gn_credential := Some (gn_GetHeader c ''Authorization'')\<rparr>))"

lemma JWT_check:
  "JWT L service at h (c, rw) = (case token_check L service at c of Inl c' \<Rightarrow> (c', rw) | Inr c1 \<Rightarrow> h (c1, rw))"
  by (auto simp: JWT_def token_check_def Let_def split: prod.splits sum.splits)

lemma token_check_identified: "token_check L service at c = Inr c1 \<Longrightarrow> identified L service at cfg c c1"
  by (auto simp: token_check_def split: prod.splits sum.splits if_splits intro!: JWT_identified)

interpretation authentication: guard "Authentication L service at cfg" "identified L service at cfg" True for L service at cfg
  by (rule guardI [where g = "\<lambda>c r.
      if psk_Enabled (auth_PSK cfg) \<and> MatchesAny (gn_FullPath c) (psk_HTTPPaths (auth_PSK cfg))
      then (if \<not> VerifyPSK (gn_GetHeader c ''Authorization'') (psk_Key (auth_PSK cfg))
            then Inl (http_Fail c (app_Unauthorized ''missing or invalid PSK''), r)
            else Inr (c\<lparr>gn_subject := Some ''psk'', gn_principal := Some psk_principal,
                   gn_credential := Some (gn_GetHeader c ''Authorization'')\<rparr>, r))
      else if MatchesAny (gn_FullPath c) (auth_SkipHTTPPaths cfg) then Inr (c, r)
      else case token_check L service at c of Inl c' \<Rightarrow> Inl (c', r) | Inr c1 \<Rightarrow> Inr (c1, r)"])
    (auto simp: Authentication_def JWT_check identified_def split: if_splits sum.splits
      dest!: token_check_identified [where cfg = cfg])

definition permitted :: "bool \<Rightarrow> authorizer \<Rightarrow> gin \<Rightarrow> bool" where
  "permitted enabled az c \<longleftrightarrow> (enabled \<longrightarrow> (\<forall>q. exportHTTPRequirement (gn_FullPath c) = Some q
     \<longrightarrow> az_Enforce az (gn_principal c) (gn_credential c) q = None))"

interpretation authorization: guard "Authorization enabled az" "\<lambda>c c1. c1 = c \<and> permitted enabled az c" True for enabled az
  by (rule guardI [where g = "\<lambda>c r. case exportHTTPRequirement (gn_FullPath c) of
         None \<Rightarrow> Inr (c, r)
       | Some requirement \<Rightarrow>
          if \<not> enabled then Inr (c, r)
          else case az_Enforce az (gn_principal c) (gn_credential c) requirement of
            None \<Rightarrow> Inr (c, r)
          | Some e \<Rightarrow>
             if az_DecisionUnavailable az e
             then Inl (http_Fail c (app_Unavailable ''authorization decision is unavailable'' (Some e)), r)
             else Inl (http_Fail c (app_Forbidden ''permission denied''), r)"])
    (auto simp: Authorization_def permitted_def split: if_splits option.splits)

text \<open>What guards a route of the API: the caller is identified, then permitted.\<close>

interpretation access: guard_pair "Authentication L service at cfg" "identified L service at cfg"
    "Authorization enabled az" "\<lambda>c c1. c1 = c \<and> permitted enabled az c" True for L service at cfg enabled az
  by (rule guard_pair.intro [OF authentication.guard_axioms authorization.guard_axioms])

section \<open>The chain as a guard\<close>

lemma same_call_comp: "guard m1 same_call u \<Longrightarrow> guard m2 same_call u \<Longrightarrow> guard (\<lambda>h. m1 (m2 h)) same_call u"
  using guard_weaken [OF guard_comp same_call_trans] .

text \<open>The router's chain: what is before the recovery, the recovery, and what it protects.\<close>

definition router_entry :: "'r server \<Rightarrow> arrival \<Rightarrow> ('r, 'w) handler \<Rightarrow> ('r, 'w) handler" where
  "router_entry V a h = RequestID (ar_generated a) (IdempotencyKey (sv_idempotencyValid V)
     (Environment (rt_ActiveProfile (c_Runtime (sv_cfg V))) h))"

definition router_inner :: "'r server \<Rightarrow> arrival \<Rightarrow> ('r, 'w) handler \<Rightarrow> ('r, 'w) handler" where
  "router_inner V a h = HTTPMetrics (sv_meter V) (ar_elapsed a) (SecurityHeaders (CORS (http_CORS (c_HTTP (sv_cfg V)))
     (MaxBody (http_MaxBodyBytes (c_HTTP (sv_cfg V))) (Timeout (ar_expired a) (RequireJSON (sv_ParseMediaType V) h)))))"

lemma router_chain_split: "router_chain V a h = router_entry V a (Recovery (router_inner V a h))"
  by (simp add: router_chain_def router_entry_def router_inner_def)

lemma router_inner_guard: "guard (router_inner V a) same_call True"
  unfolding router_inner_def
  by (rule same_call_comp [OF metrics.guard_axioms same_call_comp [OF security.guard_axioms same_call_comp [OF cors.guard_axioms
        same_call_comp [OF max_body.guard_axioms same_call_comp [OF timeout.guard_axioms require_json.guard_axioms]]]]])

lemma router_entry_guard: "guard (router_entry V a) same_call True"
  unfolding router_entry_def
  by (rule same_call_comp [OF request_id.guard_axioms same_call_comp [OF idempotency_key.guard_axioms environment.guard_axioms]])

text \<open>The entry answers by itself, or hands the request on and does nothing to the outcome; it does not panic.\<close>

lemma router_entry_cases:
  obtains (stopped) c' where "\<And>h. router_entry V a h (c, rw) = (c', rw)" "gn_panic c' = gn_panic c"
    | (passed) c1 where "\<And>h. router_entry V a h (c, rw) = h (c1, rw)" "same_call c c1"
proof -
  define c1 where "c1 = (let header = gn_GetHeader c ''X-Request-ID''; i = (if requestid_Valid header then header else ar_generated a)
    in set_Header ''X-Request-ID'' i (c\<lparr>gn_request_id := i\<rparr>))"
  have c1: "RequestID (ar_generated a) h (c, rw) = h (c1, rw)" for h by (simp add: RequestID_def c1_def Let_def)
  have same: "same_call c c1" "gn_panic c1 = gn_panic c"
    by (simp_all add: c1_def Let_def same_call_def set_Header_def)
  let ?key = "gn_GetHeader c1 ''Idempotency-Key''"
  show ?thesis
  proof (cases "?key \<noteq> [] \<and> \<not> sv_idempotencyValid V ?key")
    case True
    then show ?thesis
      by (intro stopped [of "http_Fail c1 (app_Invalid ''invalid Idempotency-Key'' None)"])
        (simp_all add: router_entry_def c1 IdempotencyKey_def http_Fail_def AbortWithStatusJSON_def app_error_defs same)
  next
    case False
    let ?c2 = "if ?key = [] then c1 else set_Header ''Idempotency-Key'' ?key (c1\<lparr>gn_idempotency_key := Some ?key\<rparr>)"
    show ?thesis
      by (rule passed [of "?c2\<lparr>gn_environment := rt_ActiveProfile (c_Runtime (sv_cfg V))\<rparr>"])
        (use False same in \<open>auto simp: router_entry_def c1 IdempotencyKey_def Environment_def Let_def same_call_def set_Header_def\<close>)
  qed
qed

lemma router_guard: "guard (router_chain V a) same_call False"
  unfolding router_chain_split
  by (rule same_call_comp [OF guard_recovering [OF router_entry_guard]
        same_call_comp [OF recovery.guard_axioms guard_recovering [OF router_inner_guard]]])

text \<open>What reaches a handler: the call that was made, by an identified and permitted caller.\<close>

definition admitted :: "'r server \<Rightarrow> arrival \<Rightarrow> gin \<Rightarrow> gin \<Rightarrow> bool" where
  "admitted V a c c1 \<longleftrightarrow> identified (sv_jwt V) (sv_auth V) (ar_at a) (c_Auth (sv_cfg V)) c c1
    \<and> permitted (authz_Enabled (c_Authorization (sv_cfg V))) (sv_authorizer V) c1"

lemma identified_before: "same_call c c0 \<Longrightarrow> identified L s at cfg c0 c1 \<Longrightarrow> identified L s at cfg c c1"
  by (simp add: same_call_def identified_def)

lemma identified_after: "identified L s at cfg c c1 \<Longrightarrow> same_call c1 c2 \<Longrightarrow> identified L s at cfg c c2"
  by (auto simp: same_call_def identified_def)

lemma permitted_after: "permitted enabled az c1 \<Longrightarrow> same_call c1 c2 \<Longrightarrow> permitted enabled az c2"
  by (simp add: same_call_def permitted_def)

text \<open>What the recovery protects of the chain of the API.\<close>

definition serve_inner :: "'r server \<Rightarrow> arrival \<Rightarrow> ('r, 'w) handler \<Rightarrow> ('r, 'w) handler" where
  "serve_inner V a h = router_inner V a (api_chain V a h)"

lemma serve_split: "serve V a h = router_entry V a (Recovery (serve_inner V a h))"
  by (simp add: serve_def serve_inner_def router_chain_split)

lemma serve_inner_guard: "guard (serve_inner V a) (admitted V a) True"
proof -
  let ?cfg = "sv_cfg V"
  let ?id = "identified (sv_jwt V) (sv_auth V) (ar_at a) (c_Auth ?cfg)"
  let ?ok = "\<lambda>c c1. c1 = c \<and> permitted (authz_Enabled (c_Authorization ?cfg)) (sv_authorizer V) c"
  have outer: "guard (\<lambda>h. router_inner V a (RateLimit (sv_limiter V) (rl_IP (c_RateLimit ?cfg)) ''ip'' gn_ClientIP
      (RateLimit (sv_limiter V) (rl_API (c_RateLimit ?cfg)) ''api'' gn_FullPath h))) same_call True"
    by (rule same_call_comp [OF router_inner_guard same_call_comp [OF rate_limit.guard_axioms rate_limit.guard_axioms]])
  have inner: "guard (\<lambda>h. RateLimit (sv_limiter V) (rl_User (c_RateLimit ?cfg)) ''user'' subject_key
      (IdempotencyExecution (sv_idempotency V) (sv_sha256 V) (idem_HTTPPaths (c_Idempotency ?cfg)) h)) same_call True"
    by (rule same_call_comp [OF rate_limit.guard_axioms idempotency.guard_axioms])
  have "guard (serve_inner V a) (same_call OO (?id OO ?ok) OO same_call) True"
    using guard_comp [OF outer guard_comp [OF access.both_guard inner],
        of "sv_jwt V" "sv_auth V" "ar_at a" "c_Auth ?cfg" "authz_Enabled (c_Authorization ?cfg)" "sv_authorizer V"]
    unfolding serve_inner_def api_chain_def Let_def .
  then show ?thesis
  proof (rule guard_weaken)
    show "same_call OO (?id OO ?ok) OO same_call \<le> admitted V a"
      unfolding admitted_def using identified_before identified_after permitted_after by blast
  qed
qed

lemma admitted_before: "same_call OO admitted V a \<le> admitted V a"
  unfolding admitted_def using identified_before by blast

lemma serve_guard: "guard (serve V a) (admitted V a) False"
proof -
  have "guard (\<lambda>h. Recovery (serve_inner V a h)) (admitted V a) False"
    by (rule guard_weaken [OF guard_comp [OF recovery.guard_axioms guard_recovering [OF serve_inner_guard]] admitted_before])
  from guard_weaken [OF guard_comp [OF guard_recovering [OF router_entry_guard] this] admitted_before]
  show ?thesis unfolding serve_split .
qed

text \<open>
  A handler that panics on a call that was admitted is answered for by the recovery: what the middlewares inside do after \<open>Next\<close>
  is skipped.
\<close>

lemma http_panics_contained:
  assumes "\<not> gn_panic c"
  shows "\<not> gn_panic (fst (serve V a h (c, r, w)))
    \<and> ((\<exists>y. \<forall>h. serve V a h (c, r, w) = y)
       \<or> (\<exists>c1 r1. admitted V a c c1 \<and> (\<forall>h c' r' w'. h (c1, r1, w) = (c', r', w') \<longrightarrow> gn_panic c' \<longrightarrow>
            serve V a h (c, r, w) = (abort_response 500 CodeInternal ''internal server error'' (c'\<lparr>gn_panic := False\<rparr>), r', w'))))"
proof (rule router_entry_cases [of V a c "(r, w)"])
  fix c' assume "\<And>h. router_entry V a h (c, r, w) = (c', r, w)" "gn_panic c' = gn_panic c"
  then show ?thesis using assms by (auto simp: serve_split)
next
  fix c1 assume c1: "\<And>h. router_entry V a h (c, r, w) = h (c1, r, w)" "same_call c c1"
  have calm: "\<not> gn_panic (fst (serve V a h (c, r, w)))"
    by (auto simp: serve_split c1(1) Recovery_def abort_response_def AbortWithStatusJSON_def split: prod.splits)
  consider (stopped) y where "\<forall>h. serve_inner V a h (c1, r, w) = y"
    | (passed) c2 r2 where "admitted V a c1 c2"
        "\<forall>h. gn_panic (fst (h (c2, r2, w))) \<longrightarrow> serve_inner V a h (c1, r, w) = h (c2, r2, w)"
    using guard.unwound [OF serve_inner_guard TrueI, of V a c1 r w] by blast
  then show ?thesis
  proof cases
    case stopped
    then have "\<forall>h. serve V a h (c, r, w) = serve V a undefined (c, r, w)" by (simp add: serve_split c1(1) Recovery_def)
    then show ?thesis using calm by blast
  next
    case passed
    have "admitted V a c c2" using admitted_before c1(2) passed(1) by blast
    moreover have "serve V a h (c, r, w) = (abort_response 500 CodeInternal ''internal server error'' (c'\<lparr>gn_panic := False\<rparr>), r', w')"
      if "h (c2, r2, w) = (c', r', w')" "gn_panic c'" for h c' r' w'
      using passed(2) [rule_format, of h] that by (simp add: serve_split c1(1) Recovery_def)
    ultimately show ?thesis using calm by blast
  qed
qed

section \<open>Properties\<close>

text \<open>
  No answer without identity.  Whatever the request, the rate limits, the idempotency records and the handler behind a route of the
  API: either the chain answers by itself (the answer does not depend on the handler and the world is
  left alone), or it runs the handler exactly once on the call that was made, with a caller who
  presented the route's pre-shared key or a token the service verifies (or on a route configured as
  public), and to whom, when authorization is on, the authorizer has granted the route's action;
  the world is then as the handler left it.
\<close>

theorem api_requires_identity:
  "(\<exists>y. (\<forall>h. serve V a h (c, r, w) = y) \<and> world_of y = w)
    \<or> (\<exists>c1 r1 post. identified (sv_jwt V) (sv_auth V) (ar_at a) (c_Auth (sv_cfg V)) c c1
         \<and> permitted (authz_Enabled (c_Authorization (sv_cfg V))) (sv_authorizer V) c1
         \<and> (\<forall>h. serve V a h (c, r, w) = post (h (c1, r1, w))) \<and> (\<forall>y. world_of (post y) = world_of y))"
  using guard.guards [OF serve_guard, of V a c r w] unfolding admitted_def passes_on_def by blast

end
