(* ===== verification/Grpc_Transport.thy ===== *)
theory Grpc_Transport
  imports Http_Handler
begin

text \<open>
  \<open>internal/transport/grpc\<close>: the interceptors of \<open>server.go\<close> and the methods of \<open>export_server.go\<close>.  The
  messages are those of the platform's protocol files, by the fields the methods read and
  write; the authorization and idempotency interceptors are the platform library's and are
  parameters of the chain.  A handler returns a response or a status, or it panics: gRPC drops a response that
  is returned beside an error.  The state has the metrics; traces and logs are left out.
\<close>

section \<open>Calls\<close>

text \<open>The context of a call: the incoming metadata, the values the interceptors add, and the headers set.\<close>

record grpc_ctx =
  gx_metadata :: "string \<Rightarrow> string list"
  gx_environment :: string
  gx_request_id :: string
  gx_idempotency_key :: "string option"
  gx_principal :: "principal option"
  gx_header :: "(string \<times> string) list"

type_synonym ('q, 'p, 'w) unary_handler = "grpc_ctx \<Rightarrow> 'q \<Rightarrow> 'w \<Rightarrow> 'p result \<times> 'w"

abbreviation (input) "codes_InvalidArgument \<equiv> (3::nat)"
abbreviation (input) "codes_DeadlineExceeded \<equiv> (4::nat)"
abbreviation (input) "codes_NotFound \<equiv> (5::nat)"
abbreviation (input) "codes_PermissionDenied \<equiv> (7::nat)"
abbreviation (input) "codes_Aborted \<equiv> (10::nat)"
abbreviation (input) "codes_Internal \<equiv> (13::nat)"
abbreviation (input) "codes_Unauthenticated \<equiv> (16::nat)"

section \<open>Interceptors\<close>

definition incoming_request_id :: "string \<Rightarrow> grpc_ctx \<Rightarrow> string" where
  "incoming_request_id generated ctx =
    (let i = (case gx_metadata ctx ''x-request-id'' of v # _ \<Rightarrow> if requestid_Valid v then v else [] | [] \<Rightarrow> [])
     in if i = [] then generated else i)"

definition requestIDInterceptor :: "string \<Rightarrow> ('q, 'p, 'w) unary_handler \<Rightarrow> ('q, 'p, 'w) unary_handler" where
  "requestIDInterceptor generated handler ctx req w =
    (let i = incoming_request_id generated ctx
     in handler (ctx\<lparr>gx_request_id := i, gx_header := (''x-request-id'', i) # gx_header ctx\<rparr>) req w)"

definition idempotencyInterceptor :: "(string \<Rightarrow> bool) \<Rightarrow> ('q, 'p, 'w) unary_handler \<Rightarrow> ('q, 'p, 'w) unary_handler" where
  "idempotencyInterceptor valid handler ctx req w =
    (case gx_metadata ctx ''idempotency-key'' of
       [] \<Rightarrow> handler ctx req w
     | v # _ \<Rightarrow>
        if \<not> valid v then (Inl (GrpcStatus codes_InvalidArgument ''invalid idempotency-key''), w)
        else handler (ctx\<lparr>gx_idempotency_key := Some v\<rparr>) req w)"

definition environmentInterceptor :: "string \<Rightarrow> ('q, 'p, 'w) unary_handler \<Rightarrow> ('q, 'p, 'w) unary_handler" where
  "environmentInterceptor profile handler ctx req w = handler (ctx\<lparr>gx_environment := profile\<rparr>) req w"

definition authenticateGRPC :: "jwtlib \<Rightarrow> auth_service \<Rightarrow> time \<Rightarrow> grpc_ctx \<Rightarrow> string \<Rightarrow> auth_config \<Rightarrow> grpc_ctx result" where
  "authenticateGRPC L service at ctx method cfg =
    (let values = gx_metadata ctx ''authorization''
     in if psk_Enabled (auth_PSK cfg) \<and> MatchesAny method (psk_GRPCMethods (auth_PSK cfg))
        then (if values = [] \<or> \<not> VerifyPSK (hd values) (psk_Key (auth_PSK cfg))
              then Inl (GrpcStatus codes_Unauthenticated ''missing or invalid PSK'')
              else Inr (ctx\<lparr>gx_principal := Some psk_principal\<rparr>))
        else if MatchesAny method (auth_SkipGRPCMethods cfg) then Inr ctx
        else if values = [] then Inl (GrpcStatus codes_Unauthenticated ''missing bearer token'')
        else (case Cut (hd values) (CHR '' '') of
                (scheme, raw, ok) \<Rightarrow>
                  if \<not> ok \<or> \<not> EqualFold scheme ''Bearer'' then Inl (GrpcStatus codes_Unauthenticated ''invalid bearer token'')
                  else case auth_Verify L service at raw of
                    Inl e \<Rightarrow> Inl (GrpcStatus codes_Unauthenticated ''invalid or expired token'')
                  | Inr identity \<Rightarrow> Inr (ctx\<lparr>gx_principal := Some identity\<rparr>)))"

definition authInterceptor ::
  "jwtlib \<Rightarrow> auth_service \<Rightarrow> time \<Rightarrow> auth_config \<Rightarrow> string \<Rightarrow> ('q, 'p, 'w) unary_handler \<Rightarrow> ('q, 'p, 'w) unary_handler" where
  "authInterceptor L service at cfg method handler ctx req w =
    (case authenticateGRPC L service at ctx method cfg of
       Inl e \<Rightarrow> (Inl e, w)
     | Inr authCtx \<Rightarrow> handler authCtx req w)"

definition panicked :: "'p result \<Rightarrow> bool" where
  "panicked v \<longleftrightarrow> (case v of Inl e \<Rightarrow> is_panic e | Inr _ \<Rightarrow> False)"

definition recoveryInterceptor :: "('q, 'p, 'w) unary_handler \<Rightarrow> ('q, 'p, 'w) unary_handler" where
  "recoveryInterceptor handler ctx req w =
    (case handler ctx req w of
       (v, w1) \<Rightarrow> if panicked v then (Inl (GrpcStatus codes_Internal ''internal server error''), w1) else (v, w1))"

definition observe_grpc :: "'w meter \<Rightarrow> duration \<Rightarrow> string \<Rightarrow> goerror option \<Rightarrow> 'w \<Rightarrow> 'w result" where
  "observe_grpc K elapsed method err w =
    (if \<not> mt_enabled (mr_metrics K) then Inr w
     else count_and_time (mr_sample K) (GRPCRequests (mr_metrics K)) [method, mr_Code K err]
            (GRPCDuration (mr_metrics K)) [method] elapsed w)"

definition metricsInterceptor :: "'w meter \<Rightarrow> duration \<Rightarrow> string \<Rightarrow> ('q, 'p, 'w) unary_handler \<Rightarrow> ('q, 'p, 'w) unary_handler" where
  "metricsInterceptor K elapsed method handler ctx req w =
    (case handler ctx req w of
       (v, w1) \<Rightarrow>
         if panicked v then (v, w1)
         else case observe_grpc K elapsed method (case v of Inl e \<Rightarrow> Some e | Inr _ \<Rightarrow> None) w1 of
           Inl p \<Rightarrow> (Inl p, w1)
         | Inr w2 \<Rightarrow> (v, w2))"

text \<open>The full method names are constants of the generated protocol code.\<close>

record method_names =
  mn_ListExportDatasets :: string
  mn_DescribeAvailableExportDataset :: string
  mn_CreateExportJob :: string
  mn_GetExportJob :: string
  mn_ListExportJobs :: string
  mn_CancelExportJob :: string
  mn_RetryExportJob :: string
  mn_CreateDownloadURL :: string

definition exportGRPCRequirement :: "method_names \<Rightarrow> bool \<Rightarrow> string \<Rightarrow> requirement option" where
  "exportGRPCRequirement N enabled method =
    (if \<not> enabled then None
     else map_of
      [(mn_ListExportDatasets N, \<lparr>rq_Resource = ''export.dataset'', rq_Action = ''list''\<rparr>),
       (mn_DescribeAvailableExportDataset N, \<lparr>rq_Resource = ''export.dataset'', rq_Action = ''read''\<rparr>),
       (mn_CreateExportJob N, \<lparr>rq_Resource = ''export.job'', rq_Action = ''create''\<rparr>),
       (mn_GetExportJob N, \<lparr>rq_Resource = ''export.job'', rq_Action = ''read''\<rparr>),
       (mn_ListExportJobs N, \<lparr>rq_Resource = ''export.job'', rq_Action = ''list''\<rparr>),
       (mn_CancelExportJob N, \<lparr>rq_Resource = ''export.job'', rq_Action = ''cancel''\<rparr>),
       (mn_RetryExportJob N, \<lparr>rq_Resource = ''export.job'', rq_Action = ''retry''\<rparr>),
       (mn_CreateDownloadURL N, \<lparr>rq_Resource = ''export.job'', rq_Action = ''download''\<rparr>)] method)"

record ('q, 'p, 'w) grpc_server =
  gs_cfg :: config
  gs_jwt :: jwtlib
  gs_auth :: auth_service
  gs_names :: method_names
  gs_idempotencyValid :: "string \<Rightarrow> bool"
  gs_authz :: "(string \<Rightarrow> requirement option) \<Rightarrow> string \<Rightarrow> ('q, 'p, 'w) unary_handler \<Rightarrow> ('q, 'p, 'w) unary_handler"
  gs_idempotency :: "string list \<Rightarrow> string \<Rightarrow> ('q, 'p, 'w) unary_handler \<Rightarrow> ('q, 'p, 'w) unary_handler"
  gs_meter :: "'w meter"

text \<open>What the environment decides for one call: a fresh request id, the time, and how long it takes.\<close>

record call_arrival =
  cl_generated :: string
  cl_at :: time
  cl_elapsed :: duration

definition unary_chain ::
  "('q, 'p, 'w) grpc_server \<Rightarrow> call_arrival \<Rightarrow> string \<Rightarrow> ('q, 'p, 'w) unary_handler \<Rightarrow> ('q, 'p, 'w) unary_handler" where
  "unary_chain G a method handler =
    (let cfg = gs_cfg G
     in environmentInterceptor (rt_ActiveProfile (c_Runtime cfg))
         (requestIDInterceptor (cl_generated a)
         (idempotencyInterceptor (gs_idempotencyValid G)
         (recoveryInterceptor
         (authInterceptor (gs_jwt G) (gs_auth G) (cl_at a) (c_Auth cfg) method
         (gs_authz G (exportGRPCRequirement (gs_names G) (authz_Enabled (c_Authorization cfg))) method
         (gs_idempotency G (idem_GRPCMethods (c_Idempotency cfg)) method
         (metricsInterceptor (gs_meter G) (cl_elapsed a) method handler))))))))"

section \<open>Stream interceptors\<close>

text \<open>
  A stream is its context; a stream handler returns an error or nothing.  The only
  streaming methods registered are that of reflection and the health service's \<open>Watch\<close>, which is not implemented.  \<open>set_header\<close> is what \<open>stream.SetHeader\<close> returns.
\<close>

type_synonym 'w stream_handler = "grpc_ctx \<Rightarrow> 'w \<Rightarrow> goerror option \<times> 'w"

definition environmentStreamInterceptor :: "string \<Rightarrow> 'w stream_handler \<Rightarrow> 'w stream_handler" where
  "environmentStreamInterceptor profile handler ctx w = handler (ctx\<lparr>gx_environment := profile\<rparr>) w"

definition requestIDStreamInterceptor :: "string \<Rightarrow> goerror option \<Rightarrow> 'w stream_handler \<Rightarrow> 'w stream_handler" where
  "requestIDStreamInterceptor generated set_header handler ctx w =
    (let i = incoming_request_id generated ctx
     in case set_header of
          Some e \<Rightarrow> (Some (GrpcStatus codes_Internal ''set request metadata''), w)
        | None \<Rightarrow> handler (ctx\<lparr>gx_request_id := i, gx_header := (''x-request-id'', i) # gx_header ctx\<rparr>) w)"

definition idempotencyStreamInterceptor :: "(string \<Rightarrow> bool) \<Rightarrow> 'w stream_handler \<Rightarrow> 'w stream_handler" where
  "idempotencyStreamInterceptor valid handler ctx w =
    (case gx_metadata ctx ''idempotency-key'' of
       [] \<Rightarrow> handler ctx w
     | v # _ \<Rightarrow>
        if \<not> valid v then (Some (GrpcStatus codes_InvalidArgument ''invalid idempotency-key''), w)
        else handler (ctx\<lparr>gx_idempotency_key := Some v\<rparr>) w)"

definition authStreamInterceptor ::
  "jwtlib \<Rightarrow> auth_service \<Rightarrow> time \<Rightarrow> auth_config \<Rightarrow> string \<Rightarrow> 'w stream_handler \<Rightarrow> 'w stream_handler" where
  "authStreamInterceptor L service at cfg method handler ctx w =
    (case authenticateGRPC L service at ctx method cfg of
       Inl e \<Rightarrow> (Some e, w)
     | Inr authCtx \<Rightarrow> handler authCtx w)"

definition stream_panicked :: "goerror option \<Rightarrow> bool" where
  "stream_panicked err \<longleftrightarrow> (case err of Some e \<Rightarrow> is_panic e | None \<Rightarrow> False)"

definition recoveryStreamInterceptor :: "'w stream_handler \<Rightarrow> 'w stream_handler" where
  "recoveryStreamInterceptor handler ctx w =
    (case handler ctx w of
       (err, w1) \<Rightarrow> if stream_panicked err then (Some (GrpcStatus codes_Internal ''internal server error''), w1) else (err, w1))"

definition metricsStreamInterceptor :: "'w meter \<Rightarrow> duration \<Rightarrow> string \<Rightarrow> 'w stream_handler \<Rightarrow> 'w stream_handler" where
  "metricsStreamInterceptor K elapsed method handler ctx w =
    (case handler ctx w of
       (err, w1) \<Rightarrow>
         if stream_panicked err then (err, w1)
         else case observe_grpc K elapsed method err w1 of
           Inl p \<Rightarrow> (Some p, w1)
         | Inr w2 \<Rightarrow> (err, w2))"

definition stream_chain ::
  "('q, 'p, 'w) grpc_server \<Rightarrow> call_arrival \<Rightarrow> goerror option \<Rightarrow> string \<Rightarrow> 'w stream_handler \<Rightarrow> 'w stream_handler" where
  "stream_chain G a set_header method handler =
    (let cfg = gs_cfg G
     in environmentStreamInterceptor (rt_ActiveProfile (c_Runtime cfg))
         (requestIDStreamInterceptor (cl_generated a) set_header
         (idempotencyStreamInterceptor (gs_idempotencyValid G)
         (recoveryStreamInterceptor
         (authStreamInterceptor (gs_jwt G) (gs_auth G) (cl_at a) (c_Auth cfg) method
         (metricsStreamInterceptor (gs_meter G) (cl_elapsed a) method handler))))))"

section \<open>Messages\<close>

text \<open>
  A request for a job (and its version, key or lifetime) has the fields of the HTTP request; creation takes
  the query and the columns as JSON texts, listings take an optional page.
\<close>

record create_job_message =
  cjm_TenantId :: string
  cjm_ApplicationId :: string
  cjm_DatasetCode :: string
  cjm_ProviderService :: string
  cjm_Format :: string
  cjm_Filename :: string
  cjm_QueryJson :: string
  cjm_SelectedColumnsJson :: string
  cjm_IdempotencyKey :: string

record page_message =
  pm_Page :: int
  pm_PageSize :: int

record list_jobs_message =
  ljm_TenantId :: string
  ljm_ApplicationId :: string
  ljm_Status :: string
  ljm_DatasetCode :: string
  ljm_CreatedFrom :: "time option"
  ljm_CreatedTo :: "time option"
  ljm_Page :: "page_message option"

record list_datasets_message =
  ldm_TenantId :: string
  ldm_ApplicationId :: string
  ldm_Search :: string
  ldm_Page :: "page_message option"

record page_result =
  pr_Total :: int
  pr_Page :: int
  pr_PageSize :: int

text \<open>Unsigned conversions wrap.\<close>

definition u32 :: "int \<Rightarrow> int" where "u32 x = x mod 4294967296"
definition u64 :: "int \<Rightarrow> int" where "u64 x = x mod 18446744073709551616"

section \<open>Methods\<close>

definition normalizedSize :: "int \<Rightarrow> int" where
  "normalizedSize value = (if value < 1 then 20 else if 200 < value then 200 else value)"

definition exportError :: "goerror \<Rightarrow> goerror" where
  "exportError err =
    (case errors_As_App err of
       None \<Rightarrow> GrpcStatus codes_Internal ''internal server error''
     | Some (code, message, _) \<Rightarrow>
        (case map_of [(CodeInvalidArgument, codes_InvalidArgument), (CodeNotFound, codes_NotFound),
             (CodeUnauthorized, codes_Unauthenticated), (CodeForbidden, codes_PermissionDenied), (CodeConflict, codes_Aborted),
             (CodeDependencyUnavailable, codes_Unavailable), (CodeRequestTimeout, codes_DeadlineExceeded),
             (CodeTooManyRequests, codes_ResourceExhausted)] code of
           Some c \<Rightarrow> GrpcStatus c message
         | None \<Rightarrow> GrpcStatus codes_Internal message))"

text \<open>The error an operation of the service ends with, in a method; a method panics with its operation.\<close>

definition grpc_error :: "goerror \<Rightarrow> goerror" where
  "grpc_error e = (if is_panic e then e else exportError e)"

record 'o export_server =
  es_service :: "'o service"
  es_catalog :: catalog
  es_env :: env

definition message_page :: "page_message option \<Rightarrow> int \<times> int" where
  "message_page m = (case m of None \<Rightarrow> (0, 0) | Some p \<Rightarrow> (i32 (pm_Page p), i32 (pm_PageSize p)))"

definition grpc_ListExportDatasets ::
  "'o export_server \<Rightarrow> (list_datasets_message, dataset_summary list \<times> page_result, 'o world) unary_handler" where
  "grpc_ListExportDatasets X ctx r w =
    (case message_page (ldm_Page r) of
       (page, pageSize) \<Rightarrow>
        (case catalog_List (es_catalog X) (gx_principal ctx) (ldm_TenantId r) (ldm_ApplicationId r) (ldm_Search r) page pageSize of
           Inl e \<Rightarrow> (Inl (grpc_error e), w)
         | Inr (values, count, page, pageSize) \<Rightarrow>
            (Inr (values, \<lparr>pr_Total = u64 count, pr_Page = u32 page, pr_PageSize = u32 pageSize\<rparr>), w)))"

definition grpc_DescribeAvailableExportDataset ::
  "'o export_server \<Rightarrow> (describe_dataset_request, dataset_descriptor, 'o world) unary_handler" where
  "grpc_DescribeAvailableExportDataset X ctx r w =
    (case catalog_Describe (unicode_ToLower (sv_lib (es_service X))) (es_catalog X) (gx_principal ctx) (ddr_TenantID r)
            (ddr_ApplicationID r) (ddr_ProviderService r) (ddr_DatasetCode r) of
       Inl e \<Rightarrow> (Inl (grpc_error e), w)
     | Inr value \<Rightarrow> (Inr value, w))"

definition grpc_CreateExportJob :: "'o export_server \<Rightarrow> (create_job_message, export_job_pb \<times> bool, 'o world) unary_handler" where
  "grpc_CreateExportJob X ctx r w =
    (case Create (es_service X) (es_env X) (gx_principal ctx)
        \<lparr>ci_TenantID = cjm_TenantId r, ci_ApplicationID = cjm_ApplicationId r, ci_DatasetCode = cjm_DatasetCode r,
         ci_ProviderService = cjm_ProviderService r, ci_Format = cjm_Format r, ci_Filename = cjm_Filename r,
         ci_QueryJSON = cjm_QueryJson r, ci_SelectedColumnsJSON = cjm_SelectedColumnsJson r,
         ci_IdempotencyKey = cjm_IdempotencyKey r, ci_ActorID = []\<rparr> w of
       ((value, duplicate, err), w1) \<Rightarrow>
         (case err of Some e \<Rightarrow> Inl (grpc_error e) | None \<Rightarrow> Inr (ToProto value, duplicate), w1))"

definition grpc_GetExportJob :: "'o export_server \<Rightarrow> (get_export_request, export_job_pb, 'o world) unary_handler" where
  "grpc_GetExportJob X ctx r w =
    (case Get (es_service X) (es_env X) (gx_principal ctx) (ger_TenantID r) (ger_ApplicationID r) (ger_ID r) w of
       (v, w1) \<Rightarrow> (case v of Inl e \<Rightarrow> Inl (grpc_error e) | Inr value \<Rightarrow> Inr (ToProto value), w1))"

definition grpc_ListExportJobs ::
  "'o export_server \<Rightarrow> (list_jobs_message, export_job_pb list \<times> page_result, 'o world) unary_handler" where
  "grpc_ListExportJobs X ctx r w =
    (case message_page (ljm_Page r) of
       (page, pageSize) \<Rightarrow>
        (case List (es_service X) (es_env X) (gx_principal ctx)
            \<lparr>lf_TenantID = ljm_TenantId r, lf_ApplicationID = ljm_ApplicationId r, lf_Status = ljm_Status r,
             lf_DatasetCode = ljm_DatasetCode r, lf_CreatedFrom = ljm_CreatedFrom r, lf_CreatedTo = ljm_CreatedTo r,
             lf_Page = page, lf_PageSize = pageSize\<rparr> w of
           (v, w1) \<Rightarrow>
             (case v of
                Inl e \<Rightarrow> Inl (grpc_error e)
              | Inr value \<Rightarrow> Inr (map ToProto (pg_Items value),
                  \<lparr>pr_Total = u64 (pg_Total value), pr_Page = u32 (max page 1), pr_PageSize = u32 (normalizedSize pageSize)\<rparr>), w1)))"

definition grpc_CancelExportJob :: "'o export_server \<Rightarrow> (versioned_export_request, export_job_pb, 'o world) unary_handler" where
  "grpc_CancelExportJob X ctx r w =
    (case Cancel (es_service X) (es_env X) (gx_principal ctx) (ver_TenantID r) (ver_ApplicationID r) (ver_ID r) (ver_Version r) w of
       (v, w1) \<Rightarrow> (case v of Inl e \<Rightarrow> Inl (grpc_error e) | Inr value \<Rightarrow> Inr (ToProto value), w1))"

definition grpc_RetryExportJob :: "'o export_server \<Rightarrow> (retry_export_request, export_job_pb \<times> bool, 'o world) unary_handler" where
  "grpc_RetryExportJob X ctx r w =
    (case Retry (es_service X) (es_env X) (gx_principal ctx) (rer_TenantID r) (rer_ApplicationID r) (rer_ID r) (rer_Version r)
            (rer_IdempotencyKey r) w of
       (v, w1) \<Rightarrow>
         (case v of Inl e \<Rightarrow> Inl (grpc_error e) | Inr (value, duplicate) \<Rightarrow> Inr (ToProto value, duplicate), w1))"

definition grpc_CreateDownloadURL ::
  "'o export_server \<Rightarrow> (download_export_request, export_download_body, 'o world) unary_handler" where
  "grpc_CreateDownloadURL X ctx r w =
    (case CreateDownloadURL (es_service X) (es_env X) (gx_principal ctx) (der_TenantID r) (der_ApplicationID r) (der_ID r)
            (i64 (der_TTLSeconds r * 1000000000)) w of
       (v, w1) \<Rightarrow>
         (case v of
            Inl e \<Rightarrow> Inl (grpc_error e)
          | Inr (url, expires, job) \<Rightarrow>
             Inr \<lparr>db_URL = url, db_ExpiresAt = expires, db_Filename = Filename job,
               db_ContentType = ContentType job, db_Checksum = Checksum job\<rparr>, w1))"

text \<open>The health service: serving while the service is ready; its list always says serving.\<close>

definition grpc_health_Check :: "health_service \<Rightarrow> string \<Rightarrow> bool \<Rightarrow> string" where
  "grpc_health_Check s latency db_first = (if snd (health_Ready s latency db_first) then ''SERVING'' else ''NOT_SERVING'')"

definition grpc_health_List :: "(string \<times> string) list" where
  "grpc_health_List = [([], ''SERVING'')]"

end
