(* ===== verification/App_Defaults.thy ===== *)
theory App_Defaults
  imports App_Config
begin

text \<open>
  \<open>internal/config/config.go\<close>: the defaults and \<open>LoadWithProfile\<close>, and what a loaded configuration
  guarantees.

  \<open>setDefaults\<close> is the configuration that viper decodes when no file and no variable sets anything: the
  default of every key in the field with that key, Go's zero value in a field without one.  Reading
  and decoding files and variables are the library's; they are the parameters of the loader.
\<close>

section \<open>Defaults\<close>

abbreviation Millisecond :: duration where "Millisecond \<equiv> 1000000"

abbreviation Second :: duration where "Second \<equiv> 1000000000"

abbreviation Minute :: duration where "Minute \<equiv> 60 * Second"

abbreviation Hour :: duration where "Hour \<equiv> 60 * Minute"

definition setRateLimitDefaults :: "int \<Rightarrow> int \<Rightarrow> rate_limit_rule_config" where
  "setRateLimitDefaults rate burst = \<lparr>rule_Rate = rate, rule_Burst = burst, rule_Period = Minute\<rparr>"

definition default_app :: app_config where
  "default_app = \<lparr>app_Name = ''data-export-service'', app_Schema = [], app_Env = ''development'',
     app_ShutdownTimeout = 10 * Second\<rparr>"

definition default_http :: http_config where
  "default_http = \<lparr>http_Address = ''127.0.0.1:8080'', http_ReadTimeout = 10 * Second,
     http_WriteTimeout = 15 * Second, http_IdleTimeout = 60 * Second,
     http_RequestTimeout = 10 * Second, http_MaxBodyBytes = 2 ^ 20, http_TrustedProxies = [],
     http_CORS = \<lparr>cors_Enabled = False, cors_AllowedOrigins = [],
       cors_AllowedHeaders = [''Authorization'', ''Content-Type'', ''X-Request-ID''],
       cors_ExposedHeaders = [''X-Request-ID'', ''X-RateLimit-Limit'', ''X-RateLimit-Remaining'', ''Retry-After''],
       cors_MaxAge = 12 * Hour\<rparr>\<rparr>"

definition default_grpc :: grpc_config where
  "default_grpc = \<lparr>grpc_Enabled = True, grpc_Address = ''127.0.0.1:9090'', grpc_ReflectionEnabled = True,
     grpc_MaxReceiveBytes = 16 * 2 ^ 20,
     grpc_TLS = \<lparr>gtls_Enabled = False, gtls_CertFile = [], gtls_KeyFile = [], gtls_ClientCAFile = []\<rparr>\<rparr>"

definition default_log :: log_config where
  "default_log = \<lparr>log_Level = ''info'', log_Format = ''json'', log_File = ''logs/app.log'', log_MaxSizeMB = 100,
     log_MaxBackups = 10, log_MaxAgeDays = 30, log_Compress = True\<rparr>"

definition default_database :: database_config where
  "default_database = \<lparr>dbc_Enabled = False, dbc_Name = ''platform'', dbc_Schema = ''data_export'',
     dbc_Type = ''postgres'', dbc_DSN = [], dbc_MaxOpenConns = 25, dbc_MaxIdleConns = 10,
     dbc_ConnMaxLifetime = 5 * Minute, dbc_ConnMaxIdleTime = Minute, dbc_PingTimeout = 5 * Second\<rparr>"

definition default_redis :: redis_config where
  "default_redis = \<lparr>redis_Enabled = False, redis_Address = ''127.0.0.1:6379'', redis_Username = [],
     redis_Password = [], redis_DB = 0, redis_DialTimeout = 5 * Second, redis_ReadTimeout = 3 * Second,
     redis_WriteTimeout = 3 * Second\<rparr>"

definition default_health :: health_config where
  "default_health = \<lparr>health_DatabaseTimeout = 2 * Second, health_RedisTimeout = 2 * Second\<rparr>"

definition default_rate_limit :: rate_limit_config where
  "default_rate_limit = \<lparr>rl_Enabled = False, rl_FailOpen = False, rl_IP = setRateLimitDefaults 120 30,
     rl_API = setRateLimitDefaults 10000 1000, rl_User = setRateLimitDefaults 600 100,
     rl_Login = setRateLimitDefaults 10 3\<rparr>"

definition default_observability :: observability_config where
  "default_observability = \<lparr>obs_MetricsEnabled = True, obs_TracingEnabled = False,
     obs_TracingEndpoint = ''http://127.0.0.1:4318'', obs_TracingSampleRatio = (3602879701896397, -55),
     obs_PprofEnabled = False, obs_PprofToken = []\<rparr>"

definition default_swagger :: swagger_config where
  "default_swagger = \<lparr>swagger_Enabled = True, swagger_RequireAuth = False\<rparr>"

definition default_jwt :: jwt_config where
  "default_jwt = \<lparr>jwt_Issuer = ''data-export-service'', jwt_Secret = [], jwt_TTL = 2 * Hour\<rparr>"

definition default_auth :: auth_config where
  "default_auth = \<lparr>auth_JWKSURL = [], auth_Issuer = ''identity-service'', auth_Audience = ''data-export-service'',
     auth_ClientID = [], auth_ClientSecret = [], auth_SkipHTTPPaths = [''/api/v1/version''],
     auth_SkipGRPCMethods = [''/grpc.health.v1.Health/*''],
     auth_PSK = \<lparr>psk_Enabled = False, psk_Key = [], psk_HTTPPaths = [], psk_GRPCMethods = []\<rparr>\<rparr>"

definition default_authorization :: authorization_config where
  "default_authorization = \<lparr>authz_Enabled = False\<rparr>"

definition default_cron :: cron_config where
  "default_cron = \<lparr>cron_Enabled = True, cron_Timezone = ''Asia/Shanghai'', cron_SampleSpec = ''0 */5 * * * *'',
     cron_ExportCleanupSpec = ''0 0 * * * *'', cron_MetadataCleanupSpec = ''0 30 * * * *'',
     cron_MetadataRetention = 8760 * Hour, cron_CleanupBatchSize = 100\<rparr>"

definition default_migration :: migration_config where
  "default_migration = \<lparr>migr_AutoUp = False, migr_CreateSchema = False, migr_Path = ''migrations/postgres'',
     migr_DatabaseURL = [], migr_Table = ''data_export_schema_migrations'', migr_Schema = [],
     migr_DatabaseName = []\<rparr>"

definition default_user :: user_config where
  "default_user = \<lparr>user_CacheTTL = 5 * Minute, user_LockTTL = 10 * Second, user_LockRetryDelay = 100 * Millisecond\<rparr>"

definition default_idempotency :: idempotency_config where
  "default_idempotency = \<lparr>idem_Enabled = False, idem_HTTPPaths = [], idem_GRPCMethods = [],
     idem_ProcessingTTL = 30 * Second, idem_ResultTTL = 24 * Hour, idem_FailureTTL = 5 * Minute\<rparr>"

definition default_outbound :: outbound_config where
  "default_outbound = \<lparr>outb_HTTP = [], outb_GRPC = []\<rparr>"

definition default_event_bus :: event_bus_config where
  "default_event_bus = \<lparr>eb_Enabled = False, eb_URLs = [''nats://127.0.0.1:4222''], eb_StreamName = ''PLATFORM_EVENTS'',
     eb_Subjects = [''platform.>''], eb_Storage = ''file'', eb_MaxAge = 168 * Hour,
     eb_DuplicateWindow = 10 * Minute, eb_ConnectTimeout = 5 * Second, eb_ReconnectWait = Second,
     eb_PublishTimeout = 5 * Second, eb_ConsumerAckWait = 2 * Hour + 5 * Minute,
     eb_ConsumerMaxDeliver = 10, eb_DispatchInterval = Second, eb_DispatchBatchSize = 100,
     eb_DispatchLease = 30 * Second, eb_DispatchRetryDelay = 2 * Second,
     eb_PublishedRetention = 168 * Hour, eb_CleanupInterval = Hour, eb_CleanupBatchSize = 1000\<rparr>"

definition default_export :: export_config where
  "default_export = \<lparr>exp_BatchSize = 500, exp_MaxRows = 1000000, exp_MaxBytes = 2 ^ 30, exp_JobTimeout = 2 * Hour,
     exp_ResultTTL = 168 * Hour, exp_WorkerCount = 2, exp_ProgressEvery = 5000\<rparr>"

definition default_object_storage :: object_storage_config where
  "default_object_storage = \<lparr>os_Enabled = False, os_Endpoint = ''127.0.0.1:9000'', os_PresignEndpoint = [], os_AccessKey = [],
     os_SecretKey = [], os_Bucket = ''platform-exports'', os_Region = [], os_UseSSL = False,
     os_PresignUseSSL = False, os_PresignTTL = 15 * Minute\<rparr>"

definition default_service_registry :: service_registry_config where
  "default_service_registry = \<lparr>sr_Enabled = False, sr_Target = ''127.0.0.1:9095'', sr_PSK = [], sr_MaxStale = 2 * Minute,
     sr_SnapshotDirectory = ''data/registry-cache'', sr_AllowInsecure = False,
     sr_TLS = \<lparr>ctls_Enabled = False, ctls_AllowInsecure = False, ctls_ServerName = [], ctls_CAFile = [],
       ctls_CertFile = [], ctls_KeyFile = []\<rparr>\<rparr>"

definition default_provider_client :: provider_client_config where
  "default_provider_client = \<lparr>pc_PSK = [], pc_AllowedDNSSuffixes = [''.platform.svc.cluster.local''], pc_Timeout = 30 * Second,
     pc_FailureCooldown = 30 * Second, pc_AllowInsecure = False,
     pc_Retry = \<lparr>retry_MaxAttempts = 3, retry_InitialBackoff = 100 * Millisecond, retry_MaxBackoff = Second,
       retry_Methods = [''/platform.export.v1.ExportProviderService/DescribeDataset'']\<rparr>,
     pc_Breaker = \<lparr>brk_Enabled = True, brk_FailureThreshold = 5, brk_OpenTimeout = 30 * Second\<rparr>,
     pc_TLS = \<lparr>ctls_Enabled = False, ctls_AllowInsecure = False, ctls_ServerName = [], ctls_CAFile = [],
       ctls_CertFile = [], ctls_KeyFile = []\<rparr>\<rparr>"

definition setDefaults :: config where
  "setDefaults = \<lparr>c_Runtime = \<lparr>rt_ActiveProfile = [], rt_ConfigFiles = []\<rparr>, c_App = default_app,
     c_HTTP = default_http, c_GRPC = default_grpc, c_Log = default_log, c_Database = default_database,
     c_Redis = default_redis, c_Health = default_health, c_RateLimit = default_rate_limit,
     c_Observability = default_observability, c_Swagger = default_swagger, c_JWT = default_jwt,
     c_Auth = default_auth, c_Authorization = default_authorization, c_Cron = default_cron,
     c_Migration = default_migration, c_User = default_user, c_Idempotency = default_idempotency,
     c_Outbound = default_outbound, c_EventBus = default_event_bus, c_Export = default_export,
     c_ObjectStorage = default_object_storage, c_ServiceRegistry = default_service_registry,
     c_ProviderClient = default_provider_client\<rparr>"

section \<open>Loading\<close>

text \<open>
  What viper and the file system do: reading the base file, the profile the environment or the file
  names, looking for the profile's file and merging it, and decoding everything with \<open>app.env\<close> set.
\<close>

record loader =
  ld_BindEnv :: "goerror option"
  ld_ReadInConfig :: "string \<Rightarrow> goerror option"
  ld_ConfigFileNotFound :: "goerror \<Rightarrow> bool"
  ld_GetString_app_env :: "string \<Rightarrow> string"
  ld_Stat :: "string \<Rightarrow> goerror option"
  ld_NotExist :: "goerror \<Rightarrow> bool"
  ld_MergeInConfig :: "string \<Rightarrow> goerror option"
  ld_Unmarshal :: "string list \<Rightarrow> string \<Rightarrow> config result"
  ld_ToLower :: "rune \<Rightarrow> rune"

definition read_base :: "loader \<Rightarrow> string \<Rightarrow> goerror option" where
  "read_base L path =
    (case ld_ReadInConfig L path of
       None \<Rightarrow> None
     | Some e \<Rightarrow> if path \<noteq> [] \<or> \<not> ld_ConfigFileNotFound L e then Some (Wrap ''read config: '' e []) else None)"

definition active_profile :: "loader \<Rightarrow> string \<Rightarrow> string \<Rightarrow> string" where
  "active_profile L path explicitProfile =
    (let profile = ToLower (ld_ToLower L) (TrimSpace explicitProfile)
     in if profile = [] then ToLower (ld_ToLower L) (TrimSpace (ld_GetString_app_env L path)) else profile)"

definition merge_profile :: "loader \<Rightarrow> string \<Rightarrow> string \<Rightarrow> string list result" where
  "merge_profile L path profile =
    (let profilePath = profileConfigPath path profile
     in if profilePath = path then Inr [path]
        else case ld_Stat L profilePath of
          None \<Rightarrow>
            (case ld_MergeInConfig L profilePath of
               Some e \<Rightarrow> Inl (Wrap (''merge profile config '' @ profilePath @ '': '') e [])
             | None \<Rightarrow> Inr [path, profilePath])
        | Some e \<Rightarrow>
            if ld_NotExist L e then Inr [path]
            else Inl (Wrap (''inspect profile config '' @ profilePath @ '': '') e []))"

definition LoadWithProfile :: "loader \<Rightarrow> string \<Rightarrow> string \<Rightarrow> config result" where
  "LoadWithProfile L path explicitProfile =
    (case ld_BindEnv L of
       Some e \<Rightarrow> Inl (Wrap ''bind environment profile: '' e [])
     | None \<Rightarrow>
        (case read_base L path of
           Some e \<Rightarrow> Inl e
         | None \<Rightarrow>
            (let profile = active_profile L path explicitProfile
             in if \<not> validProfile profile then Inl (Opaque (''invalid environment profile '' @ profile))
                else case merge_profile L path profile of
                  Inl e \<Rightarrow> Inl e
                | Inr loadedFiles \<Rightarrow>
                   (case ld_Unmarshal L loadedFiles profile of
                      Inl e \<Rightarrow> Inl (Wrap ''decode config: '' e [])
                    | Inr cfg \<Rightarrow>
                       (let cfg = cfg\<lparr>c_Migration := (c_Migration cfg)\<lparr>migr_Schema := dbc_Schema (c_Database cfg),
                              migr_DatabaseName := dbc_Name (c_Database cfg)\<rparr>\<rparr>
                        in case Validate cfg of
                             Some e \<Rightarrow> Inl e
                           | None \<Rightarrow> Inr (cfg\<lparr>c_Runtime := \<lparr>rt_ActiveProfile = profile, rt_ConfigFiles = loadedFiles\<rparr>\<rparr>))))))"

definition Load :: "loader \<Rightarrow> string \<Rightarrow> config result" where
  "Load L path = LoadWithProfile L path []"

section \<open>Facts\<close>

lemma first_error_None: "first_error es = None \<longleftrightarrow> (\<forall>e\<in>set es. e = None)"
  by (induction es rule: first_error.induct) auto

lemma check_None [simp]: "check bad message = None \<longleftrightarrow> \<not> bad"
  by (simp add: check_def)

lemma Validate_None:
  "Validate c = None \<longleftrightarrow> (\<forall>e\<in>set (validate_servers c). e = None) \<and> (\<forall>e\<in>set (validate_rate_limit c). e = None)
    \<and> (\<forall>e\<in>set (validate_exposure c). e = None) \<and> (\<forall>e\<in>set (validate_routes c). e = None)
    \<and> (\<forall>e\<in>set (validate_event_bus c). e = None) \<and> (\<forall>e\<in>set (validate_export c). e = None)
    \<and> (\<forall>e\<in>set (validate_registry c). e = None) \<and> (\<forall>e\<in>set (validate_outbound c). e = None)"
  by (simp only: Validate_def first_error_None set_append ball_Un conj_assoc)

text \<open>What a configuration that passes promises of a production deployment, part by part.\<close>

definition servers_secured :: "config \<Rightarrow> bool" where
  "servers_secured c \<longleftrightarrow> (grpc_Enabled (c_GRPC c) \<longrightarrow> gtls_Enabled (grpc_TLS (c_GRPC c))) \<and> \<not> grpc_ReflectionEnabled (c_GRPC c)
    \<and> (swagger_Enabled (c_Swagger c) \<longrightarrow> swagger_RequireAuth (c_Swagger c))"

definition callers_identified :: "config \<Rightarrow> bool" where
  "callers_identified c \<longleftrightarrow> authz_Enabled (c_Authorization c) \<and> auth_JWKSURL (c_Auth c) \<noteq> [] \<and> auth_Issuer (c_Auth c) \<noteq> []
    \<and> auth_Audience (c_Auth c) \<noteq> []"

definition credentials_protected :: "config \<Rightarrow> bool" where
  "credentials_protected c \<longleftrightarrow>
    (os_Enabled (c_ObjectStorage c) \<longrightarrow> os_UseSSL (c_ObjectStorage c))
    \<and> (sr_Enabled (c_ServiceRegistry c) \<longrightarrow> ctls_Enabled (sr_TLS (c_ServiceRegistry c)) \<and> ctls_Enabled (pc_TLS (c_ProviderClient c)))
    \<and> (\<forall>(name, u)\<in>set (outb_HTTP (c_Outbound c)). ca_Type (hu_Auth u) \<noteq> [] \<longrightarrow> ctls_Enabled (hu_TLS u))
    \<and> (\<forall>(name, u)\<in>set (outb_GRPC (c_Outbound c)). ca_Type (gu_Auth u) \<noteq> [] \<longrightarrow> ctls_Enabled (gu_TLS u))"

lemma policy_tls:
  assumes "validateClientPolicy name auth retry breaker tls True = None" and "ca_Type auth \<noteq> []"
  shows "ctls_Enabled tls"
  using assms by (auto simp: validateClientPolicy_def first_error_None)

lemma production_servers: "Validate c = None \<Longrightarrow> production c \<Longrightarrow> servers_secured c"
  by (simp add: Validate_None validate_servers_def validate_exposure_def Let_def servers_secured_def)

lemma production_callers: "Validate c = None \<Longrightarrow> production c \<Longrightarrow> callers_identified c"
  by (auto simp: Validate_None validate_exposure_def Let_def callers_identified_def)

lemma production_credentials:
  assumes "Validate c = None" and "production c"
  shows "credentials_protected c"
proof -
  have "os_UseSSL (c_ObjectStorage c)" if "os_Enabled (c_ObjectStorage c)"
    using assms that by (simp add: Validate_None validate_export_def Let_def validateObjectStoragePolicy_def first_error_None)
  moreover have "ctls_Enabled (sr_TLS (c_ServiceRegistry c)) \<and> ctls_Enabled (pc_TLS (c_ProviderClient c))" if "sr_Enabled (c_ServiceRegistry c)"
    using assms that by (simp add: Validate_None validate_registry_def Let_def)
  moreover have out: "\<forall>e\<in>set (validate_outbound c). e = None" using assms(1) by (simp add: Validate_None)
  have "ctls_Enabled (hu_TLS u)" if "(name, u) \<in> set (outb_HTTP (c_Outbound c))" "ca_Type (hu_Auth u) \<noteq> []" for name u
  proof (rule policy_tls)
    have "validateClientPolicy name (hu_Auth u) (hu_Retry u) (hu_Breaker u) (hu_TLS u) (production c) \<in> set (validate_outbound c)"
      using that(1) unfolding validate_outbound_def by (auto simp: split_beta intro!: bexI [of _ "(name, u)"])
    then show "validateClientPolicy name (hu_Auth u) (hu_Retry u) (hu_Breaker u) (hu_TLS u) True = None"
      using out assms(2) by auto
  qed fact
  moreover have "ctls_Enabled (gu_TLS u)" if "(name, u) \<in> set (outb_GRPC (c_Outbound c))" "ca_Type (gu_Auth u) \<noteq> []" for name u
  proof (rule policy_tls)
    have "validateClientPolicy name (gu_Auth u) (gu_Retry u) (gu_Breaker u) (gu_TLS u) (production c) \<in> set (validate_outbound c)"
      using that(1) unfolding validate_outbound_def by (auto simp: split_beta intro!: bexI [of _ "(name, u)"])
    then show "validateClientPolicy name (gu_Auth u) (gu_Retry u) (gu_Breaker u) (gu_TLS u) True = None"
      using out assms(2) by auto
  qed fact
  ultimately show ?thesis unfolding credentials_protected_def by blast
qed

lemma Validate_runtime [simp]: "Validate (c\<lparr>c_Runtime := r\<rparr>) = Validate c"
proof -
  have "production (c\<lparr>c_Runtime := r\<rparr>) = production c" by (simp add: production_def)
  then show ?thesis
    unfolding Validate_def validate_servers_def validate_rate_limit_def validate_exposure_def validate_routes_def
      validate_event_bus_def validate_export_def validate_registry_def validate_outbound_def Let_def by simp
qed

lemmas default_defs = setDefaults_def default_app_def default_http_def default_grpc_def default_log_def default_database_def
  default_redis_def default_health_def default_rate_limit_def default_observability_def default_swagger_def default_jwt_def
  default_auth_def default_authorization_def default_cron_def default_migration_def default_user_def default_idempotency_def
  default_outbound_def default_event_bus_def default_export_def default_object_storage_def default_service_registry_def
  default_provider_client_def setRateLimitDefaults_def

lemma default_patterns:
  "HasPrefix ''/api/v1/version'' ''/api/''" "\<not> bad_pattern ''/api/v1/version''"
  "method_shape ''/grpc.health.v1.Health/*''" "\<not> bad_pattern ''/grpc.health.v1.Health/*''"
  by code_simp+

lemma default_names: "validMigrationTable ''platform''" "validMigrationTable ''data_export''"
  by code_simp+

text \<open>A production configuration, and a loader that finds it in one file.\<close>

definition demo_upstream :: grpc_upstream_config where
  "demo_upstream = \<lparr>gu_Target = ''authorization:9090'', gu_Timeout = Second, gu_Auth = \<lparr>ca_Type = ''psk'', ca_Token = ''t''\<rparr>,
     gu_Retry = \<lparr>retry_MaxAttempts = 1, retry_InitialBackoff = Second, retry_MaxBackoff = Second, retry_Methods = []\<rparr>,
     gu_Breaker = pc_Breaker default_provider_client, gu_TLS = (pc_TLS default_provider_client)\<lparr>ctls_Enabled := True\<rparr>\<rparr>"

definition demo_production :: config where
  "demo_production = setDefaults\<lparr>c_App := default_app\<lparr>app_Env := ''production''\<rparr>,
     c_GRPC := default_grpc\<lparr>grpc_ReflectionEnabled := False,
       grpc_TLS := \<lparr>gtls_Enabled = True, gtls_CertFile = ''c'', gtls_KeyFile = ''k'', gtls_ClientCAFile = []\<rparr>\<rparr>,
     c_Swagger := \<lparr>swagger_Enabled = False, swagger_RequireAuth = False\<rparr>,
     c_Auth := default_auth\<lparr>auth_JWKSURL := ''https://id/jwks''\<rparr>,
     c_Authorization := \<lparr>authz_Enabled = True\<rparr>,
     c_Outbound := \<lparr>outb_HTTP = [], outb_GRPC = [(''authorization'', demo_upstream)]\<rparr>\<rparr>"

definition demo_loader :: loader where
  "demo_loader = \<lparr>ld_BindEnv = None, ld_ReadInConfig = (\<lambda>_. None), ld_ConfigFileNotFound = (\<lambda>_. False),
     ld_GetString_app_env = (\<lambda>_. ''development''), ld_Stat = (\<lambda>_. Some (Opaque ''missing'')), ld_NotExist = (\<lambda>_. True),
     ld_MergeInConfig = (\<lambda>_. None),
     ld_Unmarshal = (\<lambda>_ profile. Inr (demo_production\<lparr>c_App := default_app\<lparr>app_Env := profile\<rparr>\<rparr>)), ld_ToLower = id\<rparr>"

lemmas validate_defs = validate_servers_def validate_rate_limit_def validate_exposure_def validate_routes_def validate_event_bus_def
  validate_export_def validate_registry_def validate_outbound_def Let_def http_patterns_def grpc_patterns_def production_def
  outside_unit_def validateObjectStoragePolicy_def

lemma demo_Load: "\<exists>c. LoadWithProfile demo_loader ''config.yml'' ''production'' = Inr c"
proof -
  have vis: "TrimSpace ''production'' = ''production''" "TrimSpace ''https://id/jwks'' = ''https://id/jwks''"
    "TrimSpace ''identity-service'' = ''identity-service''" "TrimSpace ''data-export-service'' = ''data-export-service''"
    by (rule TrimSpace_visible; simp add: visible_def)+
  have "ToLower id ''production'' = ''production''" by (rule ToLower_lower; simp)
  then have p: "active_profile demo_loader ''config.yml'' ''production'' = ''production''"
    by (simp add: active_profile_def demo_loader_def vis)
  have "validProfile ''production''" by code_simp
  moreover have "Validate (demo_production\<lparr>c_App := default_app\<lparr>app_Env := ''production''\<rparr>,
      c_Migration := (c_Migration demo_production)\<lparr>migr_Schema := ''data_export'', migr_DatabaseName := ''platform''\<rparr>\<rparr>) = None"
    unfolding Validate_None
    by (simp add: validate_defs default_defs default_patterns default_names demo_production_def demo_upstream_def vis
        validateClientPolicy_def first_error_None)
  ultimately show ?thesis
    unfolding LoadWithProfile_def p
    by (simp add: read_base_def demo_loader_def merge_profile_def Let_def demo_production_def default_defs)
qed

section \<open>Properties\<close>



text \<open>
  The defaults are a configuration the service starts with in development, and not one it starts with in
  production: there the plaintext gRPC server is refused.
\<close>

theorem defaults_are_for_development:
  "Validate setDefaults = None
    \<and> Validate (setDefaults\<lparr>c_App := default_app\<lparr>app_Env := ''production''\<rparr>\<rparr>)
      = Some (Opaque ''grpc tls must be enabled in production'')"
proof
  show "Validate setDefaults = None"
    unfolding Validate_None
    by (simp add: validate_defs default_defs default_patterns default_names)
  show "Validate (setDefaults\<lparr>c_App := default_app\<lparr>app_Env := ''production''\<rparr>\<rparr>)
      = Some (Opaque ''grpc tls must be enabled in production'')"
    by (simp add: Validate_def validate_servers_def Let_def default_defs default_names check_def production_def)
qed

end
