(* ===== verification/Transport_Laws.thy ===== *)
theory Transport_Laws
  imports Http_Laws Grpc_Transport App_Defaults
begin

text \<open>
  The two transports in front of the same service: they admit the same callers, ask for the same permissions, and run
  the same operations.
\<close>

section \<open>Identity\<close>

text \<open>The same call over both transports: the same authorization header, the same route configuration, the same prior identity.\<close>

definition same_caller :: "auth_config \<Rightarrow> gin \<Rightarrow> grpc_ctx \<Rightarrow> string \<Rightarrow> bool" where
  "same_caller cfg c ctx method \<longleftrightarrow>
    gn_principal c = gx_principal ctx
    \<and> (case gx_metadata ctx ''authorization'' of [] \<Rightarrow> gn_GetHeader c ''Authorization'' = [] | v # _ \<Rightarrow> gn_GetHeader c ''Authorization'' = v)
    \<and> MatchesAny (gn_FullPath c) (psk_HTTPPaths (auth_PSK cfg)) = MatchesAny method (psk_GRPCMethods (auth_PSK cfg))
    \<and> MatchesAny (gn_FullPath c) (auth_SkipHTTPPaths cfg) = MatchesAny method (auth_SkipGRPCMethods cfg)"

lemma VerifyPSK_Nil [simp]: "\<not> VerifyPSK [] key"
  by (simp add: VerifyPSK_iff)

lemma Cut_Nil [simp]: "Cut [] s = ([], [], False)"
  by (simp add: Cut_def)

lemma same_callerD:
  assumes "same_caller cfg c ctx method"
  shows "MatchesAny (gn_FullPath c) (psk_HTTPPaths (auth_PSK cfg)) = MatchesAny method (psk_GRPCMethods (auth_PSK cfg))"
    and "MatchesAny (gn_FullPath c) (auth_SkipHTTPPaths cfg) = MatchesAny method (auth_SkipGRPCMethods cfg)"
    and "gn_principal c = gx_principal ctx"
    and "gx_metadata ctx ''authorization'' = [] \<and> gn_GetHeader c ''Authorization'' = []
      \<or> gx_metadata ctx ''authorization'' \<noteq> [] \<and> hd (gx_metadata ctx ''authorization'') = gn_GetHeader c ''Authorization''"
  using assms by (cases "gx_metadata ctx ''authorization''"; auto simp: same_caller_def)+

text \<open>On a route of neither kind both transports look for a bearer token.\<close>

lemma bearer_agrees:
  assumes same: "same_caller cfg c ctx method" and refuses: "auth_Verify L service at [] = Inl e0"
    and psk: "\<not> (psk_Enabled (auth_PSK cfg) \<and> MatchesAny method (psk_GRPCMethods (auth_PSK cfg)))"
    and skip: "\<not> MatchesAny method (auth_SkipGRPCMethods cfg)"
  shows "(\<exists>m. authenticateGRPC L service at ctx method cfg = Inl (GrpcStatus codes_Unauthenticated m))
        \<and> (\<exists>m'. \<forall>h. Authentication L service at cfg h (c, rw) = (http_Fail c (app_Unauthorized m'), rw))
     \<or> (\<exists>p c'. authenticateGRPC L service at ctx method cfg = Inr (ctx\<lparr>gx_principal := Some p\<rparr>)
        \<and> (\<forall>h. Authentication L service at cfg h (c, rw) = h (c', rw)) \<and> gn_principal c' = Some p)"
proof -
  let ?v = "gx_metadata ctx ''authorization''" and ?h = "gn_GetHeader c ''Authorization''"
  note defs = authenticateGRPC_def Authentication_def JWT_def Let_def same_callerD(1,2) [OF same]
  obtain scheme raw ok where cut: "Cut ?h (CHR '' '') = (scheme, raw, ok)" by (metis prod.exhaust)
  consider (token) p where "?v \<noteq> []" "ok" "EqualFold scheme ''Bearer''" "auth_Verify L service at raw = Inr p"
    | (refused) e where "?v \<noteq> []" "ok" "EqualFold scheme ''Bearer''" "auth_Verify L service at raw = Inl e"
    | (missing) "?v = [] \<or> \<not> ok \<or> \<not> EqualFold scheme ''Bearer''"
    by (cases "auth_Verify L service at raw") blast+
  then show ?thesis
  proof cases
    case token
    then have "raw \<noteq> []" using refuses by auto
    then have "\<forall>h. Authentication L service at cfg h (c, rw)
        = h (c\<lparr>gn_subject := Some (p_ID p), gn_principal := Some p, gn_credential := Some ?h\<rparr>, rw)"
      using psk skip cut token by (auto simp: defs)
    moreover have "authenticateGRPC L service at ctx method cfg = Inr (ctx\<lparr>gx_principal := Some p\<rparr>)"
      using psk skip same_callerD(4) [OF same] cut token by (auto simp: defs)
    ultimately show ?thesis by (intro disjI2 exI conjI) (assumption, assumption, simp)
  next
    case refused
    then show ?thesis using psk skip same_callerD(4) [OF same] cut by (auto simp: defs)
  next
    case missing
    have "\<not> (ok \<and> EqualFold scheme ''Bearer'')"
      using missing same_callerD(4) [OF same] cut by (cases "?v = []") auto
    then show ?thesis using psk skip same_callerD(4) [OF same] cut missing by (auto simp: defs)
  qed
qed

text \<open>
  C15. One door.  For the same call both transports decide alike: both refuse it as unauthenticated, or both
  pass it on with the same principal, provided that the token service refuses the empty token (HTTP
  refuses it before asking).
\<close>

theorem authentication_agrees:
  assumes same: "same_caller cfg c ctx method" and refuses: "auth_Verify L service at [] = Inl e0"
  shows "(\<exists>m m'. authenticateGRPC L service at ctx method cfg = Inl (GrpcStatus codes_Unauthenticated m)
            \<and> (\<forall>h. Authentication L service at cfg h (c, rw) = (http_Fail c (app_Unauthorized m'), rw)))
       \<or> (\<exists>ctx' c'. authenticateGRPC L service at ctx method cfg = Inr ctx'
            \<and> (\<forall>h. Authentication L service at cfg h (c, rw) = h (c', rw)) \<and> gn_principal c' = gx_principal ctx')"
proof -
  consider (psk) "psk_Enabled (auth_PSK cfg)" "MatchesAny method (psk_GRPCMethods (auth_PSK cfg))"
    | (skip) "\<not> (psk_Enabled (auth_PSK cfg) \<and> MatchesAny method (psk_GRPCMethods (auth_PSK cfg)))"
        "MatchesAny method (auth_SkipGRPCMethods cfg)"
    | (token) "\<not> (psk_Enabled (auth_PSK cfg) \<and> MatchesAny method (psk_GRPCMethods (auth_PSK cfg)))"
        "\<not> MatchesAny method (auth_SkipGRPCMethods cfg)"
    by blast
  then show ?thesis
  proof cases
    case token
    show ?thesis using bearer_agrees [OF same refuses token, of rw] by (elim disjE conjE exE) (blast, fastforce)
  qed (use same_callerD [OF same] in \<open>auto simp: authenticateGRPC_def Authentication_def Let_def\<close>)
qed

section \<open>Panics\<close>

lemma unary_chain_calm: "\<not> panicked (fst (unary_chain G a method handler ctx req w))"
  by (auto simp: unary_chain_def Let_def environmentInterceptor_def requestIDInterceptor_def idempotencyInterceptor_def
      recoveryInterceptor_def panicked_def split: list.splits prod.splits sum.splits)

lemma stream_chain_calm: "\<not> stream_panicked (fst (stream_chain G a set_header method handler ctx w))"
  by (auto simp: stream_chain_def Let_def environmentStreamInterceptor_def requestIDStreamInterceptor_def
      idempotencyStreamInterceptor_def recoveryStreamInterceptor_def stream_panicked_def split: list.splits prod.splits option.splits)


section \<open>Operations\<close>

text \<open>
  Two answers to one request agree when both are refusals for the same error, each in its transport's words, or both
  carry results that correspond, or both handlers panic; and the world is left the same.
\<close>

definition same_answer ::
  "('p \<Rightarrow> http_body \<Rightarrow> bool) \<Rightarrow> gin \<Rightarrow> 'r \<Rightarrow> gin \<times> 'r \<times> 'w \<Rightarrow> 'p result \<times> 'w \<Rightarrow> bool" where
  "same_answer corresponds c r x y \<longleftrightarrow>
    (case y of
       (Inl status, w1) \<Rightarrow>
         if is_panic status then x = (c\<lparr>gn_panic := True\<rparr>, r, w1)
         else \<exists>e. x = (http_Fail c e, r, w1) \<and> status = exportError e
     | (Inr p, w1) \<Rightarrow> \<exists>b. x = (http_OK c b, r, w1) \<and> corresponds p b)"

definition job_body :: "export_job_pb \<Rightarrow> export_job_body" where
  "job_body m = \<lparr>jb_ID = pb_Id m, jb_TenantID = pb_TenantId m, jb_ApplicationID = pb_ApplicationId m, jb_DatasetCode = pb_DatasetCode m,
     jb_ProviderService = pb_ProviderService m, jb_Format = pb_Format m, jb_Filename = pb_Filename m,
     jb_Query = rawObject (pb_QueryJson m), jb_SelectedColumns = columns_of (pb_SelectedColumnsJson m), jb_Status = pb_Status m,
     jb_RowsExported = pb_RowsExported m, jb_BytesWritten = pb_BytesWritten m, jb_ProgressPercent = pb_ProgressPercent m,
     jb_ObjectKey = pb_ObjectKey m, jb_ContentType = pb_ContentType m, jb_Checksum = pb_Checksum m, jb_ErrorCode = pb_ErrorCode m,
     jb_ErrorMessage = pb_ErrorMessage m, jb_StartedAt = pb_StartedAt m, jb_CompletedAt = pb_CompletedAt m,
     jb_ExpiresAt = pb_ExpiresAt m, jb_Version = pb_Version m, jb_CreatedAt = pb_CreatedAt m, jb_UpdatedAt = pb_UpdatedAt m,
     jb_CreatedBy = pb_CreatedBy m, jb_UpdatedBy = pb_UpdatedBy m\<rparr>"

lemma job_body_ToProto [simp]: "job_body (ToProto j) = exportJobBody j"
  by (simp add: job_body_def ToProto_def exportJobBody_def)

definition page_corresponds :: "page_result \<Rightarrow> int \<Rightarrow> int \<Rightarrow> int \<Rightarrow> bool" where
  "page_corresponds pr count page pageSize \<longleftrightarrow> pr_Total pr = u64 count \<and> pr_Page pr = page \<and> pr_PageSize pr = pageSize"

text \<open>The messages that ask for what the HTTP requests ask for.\<close>

definition page_message_of :: "int \<Rightarrow> int \<Rightarrow> page_message option" where
  "page_message_of page pageSize = Some \<lparr>pm_Page = u32 page, pm_PageSize = u32 pageSize\<rparr>"

definition create_message :: "create_export_request \<Rightarrow> create_job_message" where
  "create_message q = \<lparr>cjm_TenantId = cer_TenantID q, cjm_ApplicationId = cer_ApplicationID q, cjm_DatasetCode = cer_DatasetCode q,
     cjm_ProviderService = cer_ProviderService q, cjm_Format = cer_Format q, cjm_Filename = cer_Filename q,
     cjm_QueryJson = rawObject (cer_Query q), cjm_SelectedColumnsJson = marshal_strings (cer_SelectedColumns q),
     cjm_IdempotencyKey = cer_IdempotencyKey q\<rparr>"

definition list_message :: "list_exports_request \<Rightarrow> list_jobs_message" where
  "list_message q = \<lparr>ljm_TenantId = ler_TenantID q, ljm_ApplicationId = ler_ApplicationID q, ljm_Status = ler_Status q,
     ljm_DatasetCode = ler_DatasetCode q, ljm_CreatedFrom = ler_CreatedFrom q, ljm_CreatedTo = ler_CreatedTo q,
     ljm_Page = page_message_of (ler_Page q) (ler_PageSize q)\<rparr>"

definition datasets_message :: "list_datasets_request \<Rightarrow> list_datasets_message" where
  "datasets_message q = \<lparr>ldm_TenantId = ldr_TenantID q, ldm_ApplicationId = ldr_ApplicationID q, ldm_Search = ldr_Search q,
     ldm_Page = page_message_of (ldr_Page q) (ldr_PageSize q)\<rparr>"

lemma i32_u32 [go_ints]: "in_i32 x \<Longrightarrow> i32 (u32 x) = x"
proof -
  assume "in_i32 x"
  have "u32 x = take_bit 32 x" by (simp add: u32_def take_bit_int_def)
  then have "i32 (u32 x) = i32 x" by (simp add: i32_def signed_take_bit_take_bit)
  then show "i32 (u32 x) = x" using \<open>in_i32 x\<close> by (simp add: i32_id)
qed

lemma u32_id [go_ints]: "0 \<le> x \<Longrightarrow> in_i32 x \<Longrightarrow> u32 x = x"
  by (simp add: u32_def in_i32_def)

lemma u32_one [simp]: "u32 1 = 1"
  by (simp add: u32_def)

lemma i64_ttl [go_ints]: "in_i32 x \<Longrightarrow> i64 (x * 1000000000) = x * 1000000000"
  by (rule i64_id) (auto simp: in_i32_def in_i64_def)

lemma message_page_of:
  "in_i32 page \<Longrightarrow> in_i32 pageSize \<Longrightarrow> message_page (page_message_of page pageSize) = (page, pageSize)"
  by (simp add: message_page_def page_message_of_def i32_u32)

lemma exportError_no_panic [simp]: "\<not> is_panic (exportError e)"
  by (simp add: exportError_def split: option.splits prod.splits)

lemma same_answerI:
  assumes "bind decode c = Inr q"
    and "case act q c w of
           (Inl e, w1) \<Rightarrow> y = (Inl (grpc_error e), w1)
         | (Inr b, w1) \<Rightarrow> \<exists>p. y = (Inr p, w1) \<and> corresponds p b"
  shows "same_answer corresponds c r (answer decode act (c, r, w)) y"
  using assms by (auto simp: same_answer_def answer_def grpc_error_def split: prod.splits sum.splits)

text \<open>The reported pages.\<close>

lemma page_reported:
  assumes "in_i32 page"
  shows "u32 (max page 1) = (if page < 1 then 1 else page)"
    and "u32 (normalizedSize pageSize) = (let n = (if pageSize < 1 then 20 else pageSize) in if 200 < n then 200 else n)"
  using assms by (auto simp: u32_def in_i32_def normalizedSize_def max_def Let_def)

lemma catalog_List_reported:
  assumes "catalog_List K p t a s page0 pageSize0 = Inr (vs, count, page, pageSize)" and "in_i32 page0"
  shows "u32 page = page \<and> u32 pageSize = pageSize"
proof -
  have "normalizeCatalogPage page0 pageSize0 = (page, pageSize)"
    using assms(1) by (auto simp: catalog_List_def split: option.splits prod.splits sum.splits)
  then show ?thesis using assms(2) by (auto simp: normalizeCatalogPage_def u32_def in_i32_def split: if_splits)
qed

text \<open>One server for both transports, and one caller.\<close>

definition same_server :: "'o http_api \<Rightarrow> 'o export_server \<Rightarrow> bool" where
  "same_server H X \<longleftrightarrow> es_service X = ha_exports H \<and> es_catalog X = ha_catalog H \<and> es_env X = ha_env H"

lemma each_operation_agrees:
  assumes server: "same_server H X" and caller: "gn_principal c = gx_principal ctx"
  shows "bind (bind_create H) c = Inr qc \<Longrightarrow>
      same_answer (\<lambda>(m, d) b. b = MutationBody (job_body m) d) c r (CreateExport H (c, r, w)) (grpc_CreateExportJob X ctx (create_message qc) w)"
    and "bind (bind_get H) c = Inr qg \<Longrightarrow>
      same_answer (\<lambda>m b. b = JobBody (job_body m)) c r (GetExport H (c, r, w)) (grpc_GetExportJob X ctx qg w)"
    and "bind (bind_list H) c = Inr ql \<Longrightarrow> in_i32 (ler_Page ql) \<Longrightarrow> in_i32 (ler_PageSize ql) \<Longrightarrow>
      same_answer (\<lambda>(ms, pr) b. \<exists>count page pageSize. b = PageBody (map job_body ms) count page pageSize \<and> page_corresponds pr count page pageSize)
        c r (ListExports H (c, r, w)) (grpc_ListExportJobs X ctx (list_message ql) w)"
    and "bind (bind_versioned H) c = Inr qv \<Longrightarrow>
      same_answer (\<lambda>m b. b = JobBody (job_body m)) c r (CancelExport H (c, r, w)) (grpc_CancelExportJob X ctx qv w)"
    and "bind (bind_retry H) c = Inr qr \<Longrightarrow>
      same_answer (\<lambda>(m, d) b. b = MutationBody (job_body m) d) c r (RetryExport H (c, r, w)) (grpc_RetryExportJob X ctx qr w)"
    and "bind (bind_download H) c = Inr qd \<Longrightarrow> in_i32 (der_TTLSeconds qd) \<Longrightarrow>
      same_answer (\<lambda>m b. b = DownloadBody m) c r (DownloadExport H (c, r, w)) (grpc_CreateDownloadURL X ctx qd w)"
    and "bind (bind_list_datasets H) c = Inr qs \<Longrightarrow> in_i32 (ldr_Page qs) \<Longrightarrow> in_i32 (ldr_PageSize qs) \<Longrightarrow>
      same_answer (\<lambda>(vs, pr) b. \<exists>count page pageSize. b = DatasetPageBody vs count page pageSize \<and> page_corresponds pr count page pageSize)
        c r (ListExportDatasets H (c, r, w)) (grpc_ListExportDatasets X ctx (datasets_message qs) w)"
    and "bind (bind_describe H) c = Inr qe \<Longrightarrow>
      same_answer (\<lambda>m b. b = DescriptorBody m) c r (DescribeExportDataset H (c, r, w)) (grpc_DescribeAvailableExportDataset X ctx qe w)"
proof -
  have S: "es_service X = ha_exports H" "es_catalog X = ha_catalog H" "es_env X = ha_env H"
    using server by (auto simp: same_server_def)
  note caller [symmetric, simp]
  show "same_answer (\<lambda>(m, d) b. b = MutationBody (job_body m) d) c r (CreateExport H (c, r, w)) (grpc_CreateExportJob X ctx (create_message qc) w)"
    if "bind (bind_create H) c = Inr qc"
    unfolding CreateExport_def
    by (rule same_answerI [OF that])
      (auto simp: grpc_CreateExportJob_def create_message_def create_input_of_def S split: prod.splits option.splits)
  show "same_answer (\<lambda>m b. b = JobBody (job_body m)) c r (GetExport H (c, r, w)) (grpc_GetExportJob X ctx qg w)"
    if "bind (bind_get H) c = Inr qg"
    unfolding GetExport_def
    by (rule same_answerI [OF that]) (auto simp: grpc_GetExportJob_def S split: prod.splits sum.splits)
  show "same_answer (\<lambda>(ms, pr) b. \<exists>count page pageSize. b = PageBody (map job_body ms) count page pageSize \<and> page_corresponds pr count page pageSize)
        c r (ListExports H (c, r, w)) (grpc_ListExportJobs X ctx (list_message ql) w)"
    if q: "bind (bind_list H) c = Inr ql" "in_i32 (ler_Page ql)" "in_i32 (ler_PageSize ql)"
  proof -
    note page = message_page_of [OF q(2,3)]
    show ?thesis
      unfolding ListExports_def
      by (rule same_answerI [OF q(1)])
        (auto simp: grpc_ListExportJobs_def page list_message_def list_filter_of_def S page_corresponds_def comp_def
          page_reported [OF q(2)] u32_id [OF _ q(2)] Let_def split: prod.splits sum.splits)
  qed
  show "same_answer (\<lambda>m b. b = JobBody (job_body m)) c r (CancelExport H (c, r, w)) (grpc_CancelExportJob X ctx qv w)"
    if "bind (bind_versioned H) c = Inr qv"
    unfolding CancelExport_def
    by (rule same_answerI [OF that]) (auto simp: grpc_CancelExportJob_def S split: prod.splits sum.splits)
  show "same_answer (\<lambda>(m, d) b. b = MutationBody (job_body m) d) c r (RetryExport H (c, r, w)) (grpc_RetryExportJob X ctx qr w)"
    if "bind (bind_retry H) c = Inr qr"
    unfolding RetryExport_def
    by (rule same_answerI [OF that]) (auto simp: grpc_RetryExportJob_def S split: prod.splits sum.splits)
  show "same_answer (\<lambda>m b. b = DownloadBody m) c r (DownloadExport H (c, r, w)) (grpc_CreateDownloadURL X ctx qd w)"
    if "bind (bind_download H) c = Inr qd" "in_i32 (der_TTLSeconds qd)"
    unfolding DownloadExport_def
    by (rule same_answerI [OF that(1)])
      (auto simp: grpc_CreateDownloadURL_def S i64_ttl [OF that(2)] split: prod.splits sum.splits)
  show "same_answer (\<lambda>(vs, pr) b. \<exists>count page pageSize. b = DatasetPageBody vs count page pageSize \<and> page_corresponds pr count page pageSize)
        c r (ListExportDatasets H (c, r, w)) (grpc_ListExportDatasets X ctx (datasets_message qs) w)"
    if q: "bind (bind_list_datasets H) c = Inr qs" "in_i32 (ldr_Page qs)" "in_i32 (ldr_PageSize qs)"
  proof -
    note page = message_page_of [OF q(2,3)]
    show ?thesis
      unfolding ListExportDatasets_def
      by (rule same_answerI [OF q(1)])
        (auto simp: grpc_ListExportDatasets_def page datasets_message_def S page_corresponds_def
          dest!: catalog_List_reported [OF _ q(2)] split: prod.splits sum.splits)
  qed
  show "same_answer (\<lambda>m b. b = DescriptorBody m) c r (DescribeExportDataset H (c, r, w)) (grpc_DescribeAvailableExportDataset X ctx qe w)"
    if "bind (bind_describe H) c = Inr qe"
    unfolding DescribeExportDataset_def
    by (rule same_answerI [OF that]) (auto simp: grpc_DescribeAvailableExportDataset_def S split: prod.splits sum.splits)
qed

text \<open>
  C14. One service.  For the same caller and the same request (its integers in their 32-bit fields) each of the
  eight operations answers alike over HTTP and over gRPC: it leaves the same world, and either both
  refuse for the same error, or both return the same job, page, dataset or URL, with the same page
  numbers.
\<close>

theorem operations_agree:
  assumes "same_server H X" and "gn_principal c = gx_principal ctx"
  shows "(\<forall>q. bind (bind_create H) c = Inr q \<longrightarrow> same_answer (\<lambda>(m, d) b. b = MutationBody (job_body m) d) c r
        (CreateExport H (c, r, w)) (grpc_CreateExportJob X ctx (create_message q) w))
    \<and> (\<forall>q. bind (bind_get H) c = Inr q \<longrightarrow> same_answer (\<lambda>m b. b = JobBody (job_body m)) c r
        (GetExport H (c, r, w)) (grpc_GetExportJob X ctx q w))
    \<and> (\<forall>q. bind (bind_list H) c = Inr q \<longrightarrow> in_i32 (ler_Page q) \<longrightarrow> in_i32 (ler_PageSize q) \<longrightarrow> same_answer
        (\<lambda>(ms, pr) b. \<exists>count page pageSize. b = PageBody (map job_body ms) count page pageSize \<and> page_corresponds pr count page pageSize) c r
        (ListExports H (c, r, w)) (grpc_ListExportJobs X ctx (list_message q) w))
    \<and> (\<forall>q. bind (bind_versioned H) c = Inr q \<longrightarrow> same_answer (\<lambda>m b. b = JobBody (job_body m)) c r
        (CancelExport H (c, r, w)) (grpc_CancelExportJob X ctx q w))
    \<and> (\<forall>q. bind (bind_retry H) c = Inr q \<longrightarrow> same_answer (\<lambda>(m, d) b. b = MutationBody (job_body m) d) c r
        (RetryExport H (c, r, w)) (grpc_RetryExportJob X ctx q w))
    \<and> (\<forall>q. bind (bind_download H) c = Inr q \<longrightarrow> in_i32 (der_TTLSeconds q) \<longrightarrow> same_answer (\<lambda>m b. b = DownloadBody m) c r
        (DownloadExport H (c, r, w)) (grpc_CreateDownloadURL X ctx q w))
    \<and> (\<forall>q. bind (bind_list_datasets H) c = Inr q \<longrightarrow> in_i32 (ldr_Page q) \<longrightarrow> in_i32 (ldr_PageSize q) \<longrightarrow> same_answer
        (\<lambda>(vs, pr) b. \<exists>count page pageSize. b = DatasetPageBody vs count page pageSize \<and> page_corresponds pr count page pageSize) c r
        (ListExportDatasets H (c, r, w)) (grpc_ListExportDatasets X ctx (datasets_message q) w))
    \<and> (\<forall>q. bind (bind_describe H) c = Inr q \<longrightarrow> same_answer (\<lambda>m b. b = DescriptorBody m) c r
        (DescribeExportDataset H (c, r, w)) (grpc_DescribeAvailableExportDataset X ctx q w))"
  by (intro conjI allI impI; (rule each_operation_agrees [OF assms], assumption+))

section \<open>A server and a call, for the witnesses\<close>

definition demo_catalog :: catalog where
  "demo_catalog = \<lparr>cat_provider = \<lparr>cp_ListDatasets = ListDatasets demo_provider, cp_DescribeDataset = (\<lambda>_ _ _ _. Inl ErrNotFound)\<rparr>,
     cat_applications = applications demo_service\<rparr>"

definition demo_get_request :: get_export_request where
  "demo_get_request = \<lparr>ger_TenantID = ''t'', ger_ApplicationID = ''a'', ger_ID = ''j''\<rparr>"

definition demo_http_api :: "bucket http_api" where
  "demo_http_api = \<lparr>ha_exports = demo_service, ha_catalog = demo_catalog,
     ha_health = \<lparr>hs_db = None, hs_redis = None, hs_cfg = \<lparr>health_DatabaseTimeout = 1, health_RedisTimeout = 1\<rparr>\<rparr>,
     ha_env = demo_env, ha_latency = ''1ms'', ha_db_first = True,
     ha_build = \<lparr>bd_Version = ''1'', bd_Commit = ''c'', bd_BuildTime = ''b'', bd_startedAt = 0\<rparr>, ha_now = 3723000000000,
     bind_create = (\<lambda>_. Inl IoEOF), bind_list_datasets = (\<lambda>_. Inl IoEOF), bind_describe = (\<lambda>_. Inl IoEOF),
     bind_get = (\<lambda>_. Inr demo_get_request), bind_list = (\<lambda>_. Inl IoEOF), bind_versioned = (\<lambda>_. Inl IoEOF),
     bind_retry = (\<lambda>_. Inl IoEOF), bind_download = (\<lambda>_. Inl IoEOF)\<rparr>"

definition demo_export_server :: "bucket export_server" where
  "demo_export_server = \<lparr>es_service = demo_service, es_catalog = demo_catalog, es_env = demo_env\<rparr>"

definition demo_gin :: "string \<Rightarrow> gin" where
  "demo_gin authorization = \<lparr>gn_Method = ''POST'', gn_FullPath = ''/api/v1/exports/get'', gn_ClientIP = ''1'',
     gn_GetHeader = (\<lambda>k. if k = ''Authorization'' then authorization else []), gn_ContentLength = 2, gn_TLS = True,
     gn_ReadBody = Inr ''{}'', gn_request_id = ''q'', gn_subject = None, gn_environment = [], gn_idempotency_key = None,
     gn_principal = None, gn_credential = None, gn_Header = [], gn_Status = 200, gn_response = None, gn_aborted = False, gn_panic = False\<rparr>"

definition demo_ctx :: "string \<Rightarrow> grpc_ctx" where
  "demo_ctx authorization = \<lparr>gx_metadata = (\<lambda>k. if k = ''authorization'' then [authorization] else []), gx_environment = [],
     gx_request_id = [], gx_idempotency_key = None, gx_principal = None, gx_header = []\<rparr>"

definition demo_bearer :: string where
  "demo_bearer = ''bearer '' @ CHR ''k'' # replicate 32 CHR ''x''"

text \<open>A token of the demonstration service, presented over both transports, is the same caller on both.\<close>

definition demo_auth_config :: auth_config where
  "demo_auth_config = default_auth\<lparr>auth_PSK := (auth_PSK default_auth)\<lparr>psk_Enabled := False\<rparr>,
     auth_SkipHTTPPaths := [], auth_SkipGRPCMethods := []\<rparr>"

text \<open>A server without limits or idempotency records, and a handler that panics.\<close>

definition demo_server :: "unit server" where
  "demo_server = \<lparr>sv_cfg = setDefaults\<lparr>c_Auth := demo_auth_config\<rparr>, sv_jwt = demo_jwt, sv_auth = demo_auth,
     sv_authorizer = \<lparr>az_Enforce = (\<lambda>_ _ _. None), az_DecisionUnavailable = (\<lambda>_. False)\<rparr>,
     sv_limiter = \<lparr>lm_enabled = False, lm_failOpen = False, lm_backend = None\<rparr>, sv_idempotency = None,
     sv_idempotencyValid = (\<lambda>_. True), sv_ParseMediaType = (\<lambda>_. Inr ''application/json''), sv_sha256 = id,
     sv_meter = \<lparr>mr_metrics = metrics_of True, mr_sample = (\<lambda>_ m. m), mr_Code = (\<lambda>_. ''OK'')\<rparr>\<rparr>"

definition demo_arrival :: arrival where
  "demo_arrival = \<lparr>ar_generated = ''g'', ar_at = 5, ar_expired = False, ar_elapsed = 7\<rparr>"

definition panicking :: "(unit, 'w) handler" where
  "panicking x = (case x of (c, rw) \<Rightarrow> (c\<lparr>gn_panic := True\<rparr>, rw))"

definition demo_grpc_server :: "(unit, unit, unit) grpc_server" where
  "demo_grpc_server = \<lparr>gs_cfg = setDefaults\<lparr>c_Auth := demo_auth_config\<rparr>, gs_jwt = demo_jwt, gs_auth = demo_auth,
     gs_names = \<lparr>mn_ListExportDatasets = ''/1'', mn_DescribeAvailableExportDataset = ''/2'', mn_CreateExportJob = ''/3'', mn_GetExportJob = ''/4'',
       mn_ListExportJobs = ''/5'', mn_CancelExportJob = ''/6'', mn_RetryExportJob = ''/7'', mn_CreateDownloadURL = ''/8''\<rparr>,
     gs_idempotencyValid = (\<lambda>_. True), gs_authz = (\<lambda>_ _. id), gs_idempotency = (\<lambda>_ _. id), gs_meter = sv_meter demo_server\<rparr>"

text \<open>The panic of the handler reaches the caller as an internal error.\<close>

lemma demo_panic:
  "gn_Status (fst (serve demo_server demo_arrival panicking (demo_gin demo_bearer, (), ()))) = 500"
  by code_simp


theorem authentication_agrees_witness:
  "same_caller demo_auth_config (demo_gin demo_bearer) (demo_ctx demo_bearer) ''/m''
    \<and> (\<forall>rw. (\<exists>m m'. authenticateGRPC demo_jwt demo_auth 5 (demo_ctx demo_bearer) ''/m'' demo_auth_config
                = Inl (GrpcStatus codes_Unauthenticated m)
            \<and> (\<forall>h :: (unit, unit) handler. Authentication demo_jwt demo_auth 5 demo_auth_config h (demo_gin demo_bearer, rw)
                = (http_Fail (demo_gin demo_bearer) (app_Unauthorized m'), rw)))
       \<or> (\<exists>ctx' c'. authenticateGRPC demo_jwt demo_auth 5 (demo_ctx demo_bearer) ''/m'' demo_auth_config = Inr ctx'
            \<and> (\<forall>h :: (unit, unit) handler. Authentication demo_jwt demo_auth 5 demo_auth_config h (demo_gin demo_bearer, rw)
                = h (c', rw)) \<and> gn_principal c' = gx_principal ctx'))"
proof -
  have same: "same_caller demo_auth_config (demo_gin demo_bearer) (demo_ctx demo_bearer) ''/m''"
    by (simp add: same_caller_def demo_auth_config_def default_auth_def demo_gin_def demo_ctx_def)
  have refuses: "auth_Verify demo_jwt demo_auth 5 [] = Inl (Wrap ''parse jwt: '' (Opaque ''no'') [])"
    by (simp add: auth_Verify_def auth_Parse_def auth_Enabled_def demo_auth_def demo_jwt_def token_key_def)
  show ?thesis using same authentication_agrees [OF same refuses] by blast
qed

theorem operations_agree_witness:
  "same_answer (\<lambda>m b. b = JobBody (job_body m)) (demo_gin []\<lparr>gn_principal := Some demo_user\<rparr>) ()
     (GetExport demo_http_api (demo_gin []\<lparr>gn_principal := Some demo_user\<rparr>, (), demo_world [demo_job]))
     (Inr (ToProto demo_job), (demo_world [demo_job])\<lparr>w_stmts := 1\<rparr>)"
proof -
  let ?c = "demo_gin []\<lparr>gn_principal := Some demo_user\<rparr>" and ?ctx = "demo_ctx []\<lparr>gx_principal := Some demo_user\<rparr>"
  have server: "same_server demo_http_api demo_export_server"
    by (simp add: same_server_def demo_http_api_def demo_export_server_def)
  have caller: "gn_principal ?c = gx_principal ?ctx" by simp
  have q: "bind (bind_get demo_http_api) ?c = Inr demo_get_request"
    by (simp add: bind_def demo_gin_def demo_http_api_def)
  have get: "grpc_GetExportJob demo_export_server ?ctx demo_get_request (demo_world [demo_job])
      = (Inr (ToProto demo_job), (demo_world [demo_job])\<lparr>w_stmts := 1\<rparr>)"
    using demo_Get by (simp add: grpc_GetExportJob_def demo_export_server_def demo_get_request_def)
  show ?thesis
    using operations_agree [OF server caller, of "()" "demo_world [demo_job]"] q unfolding get [symmetric] by blast
qed

section \<open>Permissions\<close>

text \<open>The method of a route asks for the permission of the route.\<close>

definition method_routes :: "method_names \<Rightarrow> (string \<times> string) list" where
  "method_routes N =
    [(mn_ListExportDatasets N, ''/api/v1/exports/datasets/list''), (mn_DescribeAvailableExportDataset N, ''/api/v1/exports/datasets/describe''),
     (mn_CreateExportJob N, ''/api/v1/exports/create''), (mn_GetExportJob N, ''/api/v1/exports/get''),
     (mn_ListExportJobs N, ''/api/v1/exports/list''), (mn_CancelExportJob N, ''/api/v1/exports/cancel''),
     (mn_RetryExportJob N, ''/api/v1/exports/retry''), (mn_CreateDownloadURL N, ''/api/v1/exports/download'')]"

lemma routes_required:
  "list_all (\<lambda>(m, route). exportHTTPRequirement route \<noteq> None) (method_routes N)"
  by (simp add: method_routes_def exportHTTPRequirement_def export_requirements_def)

lemma method_table:
  "exportGRPCRequirement N True method = map_of (map (\<lambda>(m, route). (m, the (exportHTTPRequirement route))) (method_routes N)) method"
  by (simp add: method_routes_def exportGRPCRequirement_def exportHTTPRequirement_def export_requirements_def)

lemma requirements_agree:
  assumes "distinct (map fst (method_routes N))" and mem: "(method, route) \<in> set (method_routes N)"
  shows "exportGRPCRequirement N True method = exportHTTPRequirement route"
proof -
  let ?t = "map (\<lambda>(m, route). (m, the (exportHTTPRequirement route))) (method_routes N)"
  have "distinct (map fst ?t)" using assms(1) by (simp add: comp_def case_prod_beta)
  moreover have "(method, the (exportHTTPRequirement route)) \<in> set ?t" using mem by force
  ultimately have "map_of ?t method = Some (the (exportHTTPRequirement route))" by simp
  moreover have "exportHTTPRequirement route \<noteq> None" using routes_required [of N] mem by (auto simp: list_all_iff)
  ultimately show ?thesis by (simp add: method_table)
qed

lemma every_route_guarded:
  "route \<in> set (map fst (api_routes H)) \<Longrightarrow> route \<notin> {''/api/v1/me'', ''/api/v1/version''} \<Longrightarrow> exportHTTPRequirement route \<noteq> None"
  by (auto simp: api_routes_def exportHTTPRequirement_def export_requirements_def)

end
