(* ===== verification/Http_Server.thy ===== *)
theory Http_Server
  imports Transport_Laws
begin

text \<open>
  \<open>internal/transport/http/server.go\<close>: the HTTP server with every route it registers: the probes, the metrics page, the
  profiles behind their token, the API description, and the API behind its chain.  The pages that a
  library serves are parameters, as is the library's choice of the route a request matches; its redirects are left out.
\<close>

section \<open>Routes\<close>

text \<open>A route: its method, its path with the wildcards, and what runs behind the router's chain.\<close>

type_synonym ('r, 'w) route = "string \<times> string \<times> ('r, 'w) handler"

record ('r, 'w) pages =
  pg_metrics :: "('r, 'w) handler"
  pg_pprof :: "string \<Rightarrow> ('r, 'w) handler"
  pg_swagger :: "('r, 'w) handler"

definition bearer_is :: "string \<Rightarrow> gin \<Rightarrow> bool" where
  "bearer_is expected c =
    (case Cut (gn_GetHeader c ''Authorization'') (CHR '' '') of
       (scheme, token, ok) \<Rightarrow> ok \<and> EqualFold scheme ''Bearer'' \<and> token = expected)"

definition pprofAuth :: "string \<Rightarrow> ('r, 'w) handler \<Rightarrow> ('r, 'w) handler" where
  "pprofAuth expected next x =
    (case x of (c, rw) \<Rightarrow>
      if \<not> bearer_is expected c then (c\<lparr>gn_aborted := True, gn_Status := 401\<rparr>, rw) else next x)"

definition pprof_routes :: "(string \<times> string \<times> string) list" where
  "pprof_routes =
    [(''GET'', ''/'', ''Index''), (''GET'', ''/cmdline'', ''Cmdline''), (''GET'', ''/profile'', ''Profile''), (''POST'', ''/symbol'', ''Symbol''),
     (''GET'', ''/symbol'', ''Symbol''), (''GET'', ''/trace'', ''Trace'')]
    @ map (\<lambda>profile. (''GET'', ''/'' @ profile, profile)) [''allocs'', ''block'', ''goroutine'', ''heap'', ''mutex'', ''threadcreate'']"

definition registerPprof :: "string \<Rightarrow> (('r, 'w) handler \<Rightarrow> ('r, 'w) handler) \<Rightarrow> ('r, 'w) pages \<Rightarrow> ('r, 'w) route list" where
  "registerPprof prefix_path protect P = map (\<lambda>(m, p, page). (m, prefix_path @ p, protect (pg_pprof P page))) pprof_routes"

definition server_routes ::
  "'r server \<Rightarrow> arrival \<Rightarrow> 'o http_api \<Rightarrow> ('r, 'o world) pages \<Rightarrow> ('r, 'o world) route list" where
  "server_routes V a H P =
    (let cfg = sv_cfg V
     in concat (map (\<lambda>m. [(m, ''/live'', Live), (m, ''/ready'', Ready H)]) [''GET'', ''POST''])
        @ (if mt_enabled (mr_metrics (sv_meter V)) then [(''GET'', ''/metrics'', pg_metrics P)] else [])
        @ (if obs_PprofEnabled (c_Observability cfg)
           then registerPprof ''/debug/pprof'' (pprofAuth (obs_PprofToken (c_Observability cfg))) P else [])
        @ (if swagger_Enabled (c_Swagger cfg)
           then [(''GET'', ''/swagger/*any'',
                  if swagger_RequireAuth (c_Swagger cfg) then JWT (sv_jwt V) (sv_auth V) (ar_at a) (pg_swagger P) else pg_swagger P)]
           else [])
        @ map (\<lambda>(p, h). (''POST'', p, api_chain V a h)) (api_routes H))"

text \<open>
  A request: the route it matches is found before the chain runs and gives the full path; without one the chain runs with an
  empty path in front of the library's \<open>404\<close>.
\<close>

definition not_found :: "('r, 'w) handler" where
  "not_found x = (case x of (c, rw) \<Rightarrow> (c\<lparr>gn_Status := 404\<rparr>, rw))"

definition serve_http ::
  "((string \<times> string) list \<Rightarrow> string \<Rightarrow> string \<Rightarrow> nat option) \<Rightarrow> 'r server \<Rightarrow> arrival \<Rightarrow> 'o http_api \<Rightarrow> ('r, 'o world) pages
    \<Rightarrow> string \<Rightarrow> ('r, 'o world) handler" where
  "serve_http find_route V a H P path x =
    (case x of (c, rw) \<Rightarrow>
      (let routes = server_routes V a H P
       in case find_route (map (\<lambda>(m, p, h). (m, p)) routes) (gn_Method c) path of
            None \<Rightarrow> router_chain V a not_found (c\<lparr>gn_FullPath := []\<rparr>, rw)
          | Some i \<Rightarrow> (case routes ! i of (m, p, h) \<Rightarrow> router_chain V a h (c\<lparr>gn_FullPath := p\<rparr>, rw))))"

text \<open>Which route a request can match: one of those given, of its own method.\<close>

definition matches_routes :: "((string \<times> string) list \<Rightarrow> string \<Rightarrow> string \<Rightarrow> nat option) \<Rightarrow> bool" where
  "matches_routes find_route \<longleftrightarrow>
    (\<forall>routes m path i. find_route routes m path = Some i \<longrightarrow> i < length routes \<and> fst (routes ! i) = m)"

section \<open>The server\<close>

record ('r, 'w) http_server =
  ht_Addr :: string
  ht_ReadTimeout :: duration
  ht_WriteTimeout :: duration
  ht_IdleTimeout :: duration
  ht_release :: bool
  ht_routes :: "arrival \<Rightarrow> ('r, 'w) route list"

definition http_NewServer ::
  "(string list \<Rightarrow> goerror option) \<Rightarrow> 'r server \<Rightarrow> 'o http_api \<Rightarrow> ('r, 'o world) pages \<Rightarrow> ('r, 'o world) http_server result" where
  "http_NewServer setTrustedProxies V H P =
    (let cfg = sv_cfg V
     in case setTrustedProxies (http_TrustedProxies (c_HTTP cfg)) of
          Some e \<Rightarrow> Inl (Wrap ''configure trusted proxies: '' e [])
        | None \<Rightarrow> Inr \<lparr>ht_Addr = http_Address (c_HTTP cfg), ht_ReadTimeout = http_ReadTimeout (c_HTTP cfg),
            ht_WriteTimeout = http_WriteTimeout (c_HTTP cfg), ht_IdleTimeout = http_IdleTimeout (c_HTTP cfg),
            ht_release = (app_Env (c_App cfg) = ''production''), ht_routes = (\<lambda>a. server_routes V a H P)\<rparr>)"

text \<open>\<open>OnStart\<close>: the server serves on the listener, which may fail to open.\<close>

definition http_OnStart :: "(string \<Rightarrow> string \<Rightarrow> goerror option) \<Rightarrow> ('r, 'w) http_server \<Rightarrow> goerror option" where
  "http_OnStart listen server =
    (case listen ''tcp'' (ht_Addr server) of Some e \<Rightarrow> Some (Wrap ''listen http: '' e []) | None \<Rightarrow> None)"

section \<open>Laws\<close>

lemma route_keys:
  "map (\<lambda>(m, p, h). (m, p)) (server_routes V a H P) =
    [(''GET'', ''/live''), (''GET'', ''/ready''), (''POST'', ''/live''), (''POST'', ''/ready'')]
    @ (if mt_enabled (mr_metrics (sv_meter V)) then [(''GET'', ''/metrics'')] else [])
    @ (if obs_PprofEnabled (c_Observability (sv_cfg V)) then map (\<lambda>(m, p, page). (m, ''/debug/pprof'' @ p)) pprof_routes else [])
    @ (if swagger_Enabled (c_Swagger (sv_cfg V)) then [(''GET'', ''/swagger/*any'')] else [])
    @ map (\<lambda>p. (''POST'', p)) [''/api/v1/version'', ''/api/v1/me'', ''/api/v1/exports/create'', ''/api/v1/exports/datasets/list'',
        ''/api/v1/exports/datasets/describe'', ''/api/v1/exports/get'', ''/api/v1/exports/list'', ''/api/v1/exports/cancel'',
        ''/api/v1/exports/retry'', ''/api/v1/exports/download'']"
  by (simp add: server_routes_def Let_def registerPprof_def api_routes_def case_prod_beta comp_def)

lemma routes_distinct: "distinct (map (\<lambda>(m, p, h). (m, p)) (server_routes V a H P))"
  unfolding route_keys pprof_routes_def by simp

lemma server_routes_cases:
  assumes "(m, p, h) \<in> set (server_routes V a H P)"
  obtains (live) "p = ''/live''" "h = Live" | (ready) "p = ''/ready''" "h = Ready H"
    | (metrics) "p = ''/metrics''" "h = pg_metrics P" "mt_enabled (mr_metrics (sv_meter V))"
    | (pprof) q page where "obs_PprofEnabled (c_Observability (sv_cfg V))" "p = ''/debug/pprof'' @ q"
        "h = pprofAuth (obs_PprofToken (c_Observability (sv_cfg V))) (pg_pprof P page)"
    | (swagger) "swagger_Enabled (c_Swagger (sv_cfg V))" "p = ''/swagger/*any''"
        "h = (if swagger_RequireAuth (c_Swagger (sv_cfg V)) then JWT (sv_jwt V) (sv_auth V) (ar_at a) (pg_swagger P) else pg_swagger P)"
    | (api) k where "m = ''POST''" "(p, k) \<in> set (api_routes H)" "h = api_chain V a k"
proof -
  let ?cfg = "sv_cfg V"
  consider (1) "(m, p, h) \<in> set (concat (map (\<lambda>m. [(m, ''/live'', Live), (m, ''/ready'', Ready H)]) [''GET'', ''POST'']))"
    | (2) "(m, p, h) \<in> set (if mt_enabled (mr_metrics (sv_meter V)) then [(''GET'', ''/metrics'', pg_metrics P)] else [])"
    | (3) "(m, p, h) \<in> set (if obs_PprofEnabled (c_Observability ?cfg)
           then registerPprof ''/debug/pprof'' (pprofAuth (obs_PprofToken (c_Observability ?cfg))) P else [])"
    | (4) "(m, p, h) \<in> set (if swagger_Enabled (c_Swagger ?cfg)
           then [(''GET'', ''/swagger/*any'',
                  if swagger_RequireAuth (c_Swagger ?cfg) then JWT (sv_jwt V) (sv_auth V) (ar_at a) (pg_swagger P) else pg_swagger P)]
           else [])"
    | (5) "(m, p, h) \<in> set (map (\<lambda>(p, h). (''POST'', p, api_chain V a h)) (api_routes H))"
    using assms unfolding server_routes_def Let_def set_append Un_iff by blast
  then show ?thesis
  proof cases
    case 1
    then show ?thesis by (auto intro: live ready)
  next
    case 2
    then show ?thesis by (simp add: metrics split: if_splits)
  next
    case 3
    then have on: "obs_PprofEnabled (c_Observability ?cfg)" by (simp split: if_splits)
    obtain q page where "p = ''/debug/pprof'' @ q" "h = pprofAuth (obs_PprofToken (c_Observability ?cfg)) (pg_pprof P page)"
      using 3 on unfolding registerPprof_def by (simp only: if_True set_map) (elim imageE, case_tac x, simp)
    then show ?thesis by (rule pprof [OF on])
  next
    case 4
    then have on: "swagger_Enabled (c_Swagger ?cfg)" by (simp split: if_splits)
    then have "(m, p, h) = (''GET'', ''/swagger/*any'',
        if swagger_RequireAuth (c_Swagger ?cfg) then JWT (sv_jwt V) (sv_auth V) (ar_at a) (pg_swagger P) else pg_swagger P)"
      using 4 by (simp only: if_True set_simps singleton_iff)
    then show ?thesis by (intro swagger [OF on]) simp_all
  next
    case 5
    then obtain k where "m = ''POST''" "(p, k) \<in> set (api_routes H)" "h = api_chain V a k"
      by (simp only: set_map) (elim imageE, case_tac x, simp)
    then show ?thesis by (rule api)
  qed
qed

lemma exposed_route:
  assumes "Validate (sv_cfg V) = None" and "(m, p, h) \<in> set (server_routes V a H P)"
  shows "p = ''/live'' \<and> h = Live \<or> p = ''/ready'' \<and> h = Ready H \<or> p = ''/metrics'' \<and> h = pg_metrics P
      \<or> (\<exists>token q. p = ''/debug/pprof'' @ q \<and> 32 \<le> length token
           \<and> (\<forall>c rw. \<not> bearer_is token c \<longrightarrow> h (c, rw) = (c\<lparr>gn_aborted := True, gn_Status := 401\<rparr>, rw)))
      \<or> p = ''/swagger/*any'' \<and> (production (sv_cfg V) \<longrightarrow> h = JWT (sv_jwt V) (sv_auth V) (ar_at a) (pg_swagger P))
      \<or> m = ''POST'' \<and> (\<exists>k. (p, k) \<in> set (api_routes H) \<and> h = api_chain V a k)"
  using assms(2)
proof (cases rule: server_routes_cases)
  case (pprof q page)
  have "32 \<le> length (obs_PprofToken (c_Observability (sv_cfg V)))"
    using assms(1) pprof(1) by (auto simp: Validate_None validate_exposure_def Let_def)
  moreover have "\<forall>c rw. \<not> bearer_is (obs_PprofToken (c_Observability (sv_cfg V))) c
      \<longrightarrow> h (c, rw) = (c\<lparr>gn_aborted := True, gn_Status := 401\<rparr>, rw)"
    by (simp add: pprof(3) pprofAuth_def)
  ultimately show ?thesis using pprof(2) by blast
next
  case swagger
  have "production (sv_cfg V) \<longrightarrow> h = JWT (sv_jwt V) (sv_auth V) (ar_at a) (pg_swagger P)"
    using swagger production_servers [OF assms(1)] by (simp add: servers_secured_def)
  then show ?thesis using swagger(2) by blast
qed blast+

text \<open>The pages of the libraries leave the world alone, and then so does every route but those of the API.\<close>

definition inert :: "('r, 'w) handler \<Rightarrow> bool" where
  "inert h \<longleftrightarrow> (\<forall>x. world_of (h x) = world_of x)"

definition pages_inert :: "('r, 'w) pages \<Rightarrow> bool" where
  "pages_inert P \<longleftrightarrow> inert (pg_metrics P) \<and> (\<forall>page. inert (pg_pprof P page)) \<and> inert (pg_swagger P)"

lemma inert_probes [simp]: "inert Live" "inert (Ready H)" "inert not_found"
  by (auto simp: inert_def Live_def Ready_def not_found_def split: prod.splits)

lemma inert_pprofAuth: "inert h \<Longrightarrow> inert (pprofAuth token h)"
  by (auto simp: inert_def pprofAuth_def)

lemma inert_JWT: "inert h \<Longrightarrow> inert (JWT L service at h)"
  by (auto simp: inert_def JWT_check split: sum.splits)

lemma inert_router:
  assumes "inert h" and "router_chain V a h (c, r, w) = (c', r', w')"
  shows "w' = w"
  using guard.world_changes [OF router_guard, OF assms(2)] assms(1) by (auto simp: inert_def)

lemma server_routes_inert:
  assumes "pages_inert P" and "(m, p, h) \<in> set (server_routes V a H P)"
  shows "inert h \<or> m = ''POST'' \<and> (\<exists>k. (p, k) \<in> set (api_routes H) \<and> h = api_chain V a k)"
proof -
  have pages: "inert (pg_metrics P)" "inert (pg_pprof P page)" "inert (pg_swagger P)" for page
    using assms(1) by (auto simp: pages_inert_def)
  from assms(2) show ?thesis
  proof (cases rule: server_routes_cases)
    case live
    show ?thesis unfolding live(2) using inert_probes(1) by blast
  next
    case ready
    show ?thesis unfolding ready(2) using inert_probes(2) by blast
  next
    case metrics
    show ?thesis unfolding metrics(2) using pages(1) by blast
  next
    case (pprof q page)
    show ?thesis unfolding pprof(3) using inert_pprofAuth [OF pages(2)] by blast
  next
    case swagger
    have "inert h" unfolding swagger(3) using pages(3) inert_JWT [OF pages(3)] by (simp split: if_split)
    then show ?thesis by blast
  next
    case (api k)
    then show ?thesis by blast
  qed
qed

section \<open>Properties\<close>


text \<open>A server with profiles and the API description.\<close>

definition demo_http_pages :: "(unit, bucket world) pages" where
  "demo_http_pages = \<lparr>pg_metrics = id, pg_pprof = (\<lambda>_. id), pg_swagger = id\<rparr>"

definition demo_exposed :: config where
  "demo_exposed = setDefaults\<lparr>c_Auth := demo_auth_config, c_Observability := default_observability\<lparr>obs_PprofEnabled := True,
     obs_PprofToken := replicate 32 CHR ''t''\<rparr>\<rparr>"

lemma demo_exposed_valid: "Validate demo_exposed = None"
  unfolding Validate_None
  by (simp add: validate_defs default_defs default_patterns default_names demo_exposed_def demo_auth_config_def)


end
