(* ===== verification/Outbound_Http.thy ===== *)
theory Outbound_Http
  imports App_Auth Observability
begin

text \<open>
  \<open>internal/outbound/http.go\<close>: the HTTP client of an upstream with its retries, its circuit breaker and its
  credentials.  The network, the certificate files, the URL grammar and the breaker's state machine are parameters;
  a client call returns, with its result, what it did.
\<close>

section \<open>Requests\<close>

text \<open>Headers by canonical key.  A response is its status, and a name for its body.\<close>

type_synonym http_headers = "string \<rightharpoonup> string list"

record http_request =
  hr_Method :: string
  hr_URL :: string
  hr_Header :: http_headers
  hr_Body :: string

record http_response =
  hp_StatusCode :: int
  hp_Body :: string

record url =
  url_Scheme :: string
  url_Host :: string
  url_Text :: string

definition header_Get :: "http_headers \<Rightarrow> string \<Rightarrow> string" where
  "header_Get h k = (case h k of Some (v # _) \<Rightarrow> v | _ \<Rightarrow> [])"

definition retryableMethod :: "string option \<Rightarrow> string \<Rightarrow> bool" where
  "retryableMethod idempotency_key method =
    (if method = ''GET'' \<or> method = ''HEAD'' \<or> method = ''OPTIONS'' \<or> method = ''PUT'' \<or> method = ''DELETE'' then True
     else idempotency_key \<noteq> None)"

definition retryableHTTPStatus :: "int \<Rightarrow> bool" where
  "retryableHTTPStatus status \<longleftrightarrow> status = 429 \<or> status = 502 \<or> status = 503 \<or> status = 504"

definition applyHTTPAuth :: "client_auth_config \<Rightarrow> http_request \<Rightarrow> http_request" where
  "applyHTTPAuth a r =
    (if ca_Type a = ''bearer'' then r\<lparr>hr_Header := (hr_Header r)(''Authorization'' \<mapsto> [''Bearer '' @ ca_Token a])\<rparr>
     else if ca_Type a = ''psk'' then r\<lparr>hr_Header := (hr_Header r)(''Authorization'' \<mapsto> [''PSK '' @ ca_Token a])\<rparr>
     else r)"

definition build_request :: "client_auth_config \<Rightarrow> string \<Rightarrow> string \<Rightarrow> string \<Rightarrow> http_headers \<Rightarrow> http_request" where
  "build_request a method target body headers =
    (let h = (if body \<noteq> [] \<and> header_Get headers ''Content-Type'' = []
              then headers(''Content-Type'' \<mapsto> [''application/json'']) else headers)
     in applyHTTPAuth a \<lparr>hr_Method = method, hr_URL = target, hr_Header = h, hr_Body = body\<rparr>)"

section \<open>Backoff\<close>

text \<open>
  \<open>float64(x)\<close> for an \<open>int64\<close>, as the integer it denotes: 53 significant bits, ties to even.  The product with a
  power of two is exact; converting it back truncates, and is left to the processor when it does not fit.
\<close>

fun excess_bits :: "nat \<Rightarrow> int \<Rightarrow> nat" where
  "excess_bits 0 x = 0"
| "excess_bits (Suc n) x = (if x < 9007199254740992 then 0 else Suc (excess_bits n (x div 2)))"

definition float64_of :: "int \<Rightarrow> int" where
  "float64_of x =
    (let e = excess_bits 11 \<bar>x\<bar>; m = 2 ^ e; q = \<bar>x\<bar> div m; r = \<bar>x\<bar> mod m
     in sgn x * (if m < 2 * r \<or> (m = 2 * r \<and> odd q) then q + 1 else q) * m)"

definition http_backoff :: "(int \<Rightarrow> duration) \<Rightarrow> retry_config \<Rightarrow> nat \<Rightarrow> duration" where
  "http_backoff overflow retry attempt =
    (let v = float64_of (retry_InitialBackoff retry) * 2 ^ (attempt - 1);
         delay = (if in_i64 v then v else overflow v)
     in if retry_MaxBackoff retry < delay then retry_MaxBackoff retry else delay)"

section \<open>Attempts\<close>

text \<open>
  The network of one call: what each attempt's exchange returns (a response, an error, or with a failed redirect both), whether a request can be
  created, and whether the context ends while waiting.
\<close>

record http_net =
  hn_NewRequest :: "string \<Rightarrow> string \<Rightarrow> goerror option"
  hn_Do :: "nat \<Rightarrow> http_request \<Rightarrow> http_response option \<times> goerror option"
  hn_wait :: "nat \<Rightarrow> duration \<Rightarrow> goerror option"
  hn_overflow :: "int \<Rightarrow> duration"

datatype http_effect = Sent http_request | Drained http_response | Waited duration

definition waitBackoff :: "http_net \<Rightarrow> retry_config \<Rightarrow> nat \<Rightarrow> goerror option" where
  "waitBackoff N retry attempt = hn_wait N attempt (http_backoff (hn_overflow N) retry attempt)"

text \<open>The attempts from \<open>attempt\<close> on, \<open>left\<close> of them.\<close>

fun http_attempts ::
  "http_net \<Rightarrow> retry_config \<Rightarrow> http_request \<Rightarrow> nat \<Rightarrow> nat \<Rightarrow> http_response option result \<times> http_effect list" where
  "http_attempts N retry request 0 attempt = (Inl (Opaque ''outbound HTTP attempts exhausted''), [])"
| "http_attempts N retry request (Suc left) attempt =
    (case hn_NewRequest N (hr_Method request) (hr_URL request) of
       Some e \<Rightarrow> (Inl (Wrap ''create outbound HTTP request: '' e []), [])
     | None \<Rightarrow>
        (case hn_Do N attempt request of
           (response, err) \<Rightarrow>
             if err = None \<and> (case response of None \<Rightarrow> True | Some v \<Rightarrow> \<not> retryableHTTPStatus (hp_StatusCode v) \<or> left = 0)
             then (Inr response, [Sent request])
             else if err \<noteq> None \<and> left = 0 then (Inl (Wrap ''call outbound HTTP service: '' (the err) []), [Sent request])
             else (let done = Sent request # (case response of None \<Rightarrow> [] | Some v \<Rightarrow> [Drained v])
                in if left = 0 then (Inl (Opaque ''outbound HTTP attempts exhausted''), done)
                   else (case waitBackoff N retry attempt of
                      Some e \<Rightarrow> (Inl e, done)
                    | None \<Rightarrow>
                       (case http_attempts N retry request left (Suc attempt) of
                          (r, fx) \<Rightarrow> (r, done @ Waited (http_backoff (hn_overflow N) retry attempt) # fx))))))"

declare http_attempts.simps [simp del]

record http_client =
  hc_name :: string
  hc_baseURL :: url
  hc_cfg :: http_upstream_config
  hc_breaker :: bool

record urllib =
  ul_Parse :: "string \<Rightarrow> url result"
  ul_ResolveReference :: "url \<Rightarrow> url \<Rightarrow> string"

text \<open>\<open>IsAbs\<close> is that a reference has a scheme.\<close>

definition doWithRetry ::
  "urllib \<Rightarrow> http_net \<Rightarrow> http_client \<Rightarrow> string option \<Rightarrow> string \<Rightarrow> string \<Rightarrow> string \<Rightarrow> http_headers
    \<Rightarrow> http_response option result \<times> http_effect list" where
  "doWithRetry U N c key method requestPath body headers =
    (case ul_Parse U requestPath of
       Inl _ \<Rightarrow> (Inl (Opaque ''outbound HTTP path must be relative''), [])
     | Inr reference \<Rightarrow>
        if url_Scheme reference \<noteq> [] \<or> url_Host reference \<noteq> []
        then (Inl (Opaque ''outbound HTTP path must be relative''), [])
        else (let target = ul_ResolveReference U (hc_baseURL c) reference; cfg = hc_cfg c;
                  maxAttempts = (if retryableMethod key method then retry_MaxAttempts (hu_Retry cfg) else 1)
              in http_attempts N (hu_Retry cfg) (build_request (hu_Auth cfg) method target body headers) (nat maxAttempts) 1))"

text \<open>
  The circuit breaker of the library: it refuses a call with an error of its own, or lets it run and
  is told how it ended.  A response with a retryable status is a failure to the breaker and a response to the caller;
  a canceled call does not count.
\<close>

datatype breaker_report = Succeeded | Failed | Excluded

record 'b breaker =
  bk_Before :: "'b \<Rightarrow> goerror option \<times> 'b"
  bk_After :: "breaker_report \<Rightarrow> 'b \<Rightarrow> 'b"

definition http_report :: "http_response option result \<Rightarrow> breaker_report" where
  "http_report r =
    (case r of
       Inl e \<Rightarrow> if errors_Is e ContextCanceled then Excluded else Failed
     | Inr (Some v) \<Rightarrow> if retryableHTTPStatus (hp_StatusCode v) then Failed else Succeeded
     | Inr None \<Rightarrow> Succeeded)"

definition http_execute ::
  "urllib \<Rightarrow> http_net \<Rightarrow> 'b breaker \<Rightarrow> http_client \<Rightarrow> string option \<Rightarrow> string \<Rightarrow> string \<Rightarrow> string \<Rightarrow> http_headers \<Rightarrow> 'b
    \<Rightarrow> (http_response option result \<times> http_effect list) \<times> 'b" where
  "http_execute U N B c key method requestPath body headers b =
    (if \<not> hc_breaker c then (doWithRetry U N c key method requestPath body headers, b)
     else case bk_Before B b of
       (Some e, b1) \<Rightarrow> ((Inl e, []), b1)
     | (None, b1) \<Rightarrow>
        (let r = doWithRetry U N c key method requestPath body headers
         in (r, bk_After B (http_report (fst r)) b1)))"

text \<open>\<open>Do\<close>: the call and its observation, when the client has metrics.\<close>

definition observe_outbound :: "'m meter \<Rightarrow> string \<Rightarrow> string \<Rightarrow> string \<Rightarrow> duration \<Rightarrow> 'm \<Rightarrow> 'm result" where
  "observe_outbound K protocol name status elapsed m =
    count_and_time (mr_sample K) (OutboundRequests (mr_metrics K)) [protocol, name, status]
      (OutboundDuration (mr_metrics K)) [protocol, name] elapsed m"

definition http_Do ::
  "urllib \<Rightarrow> http_net \<Rightarrow> 'b breaker \<Rightarrow> 'm meter option \<Rightarrow> duration \<Rightarrow> http_client \<Rightarrow> string option \<Rightarrow> string \<Rightarrow> string \<Rightarrow> string
    \<Rightarrow> http_headers \<Rightarrow> 'b \<times> 'm \<Rightarrow> (http_response option result \<times> http_effect list) \<times> 'b \<times> 'm" where
  "http_Do U N B meter elapsed c key method requestPath body headers x =
    (case x of (b, m) \<Rightarrow>
      (case http_execute U N B c key method requestPath body headers b of
         ((r, fx), b1) \<Rightarrow>
           (let status = (case r of Inr (Some response) \<Rightarrow> FormatInt (hp_StatusCode response) | _ \<Rightarrow> ''error'')
            in case meter of
                 None \<Rightarrow> ((r, fx), b1, m)
               | Some K \<Rightarrow>
                  if \<not> mt_enabled (mr_metrics K) then ((r, fx), b1, m)
                  else case observe_outbound K ''http'' (hc_name c) status elapsed m of
                    Inl p \<Rightarrow> ((Inl p, fx), b1, m)
                  | Inr m1 \<Rightarrow> ((r, fx), b1, m1))))"

section \<open>Clients\<close>

text \<open>The files of the TLS settings: reading the authorities, parsing them, loading the certificate.\<close>

record tls_files =
  tf_ReadFile :: "string \<Rightarrow> string result"
  tf_AppendCerts :: "string \<Rightarrow> bool"
  tf_LoadX509KeyPair :: "string \<Rightarrow> string \<Rightarrow> string result"

record transport =
  tr_ServerName :: string
  tr_RootCAs :: "string option"
  tr_Certificate :: "string option"

definition httpTransport :: "tls_files \<Rightarrow> client_tls_config \<Rightarrow> transport result" where
  "httpTransport F cfg =
    (case (if ctls_CAFile cfg = [] then Inr None
           else case tf_ReadFile F (ctls_CAFile cfg) of
             Inl e \<Rightarrow> Inl (Wrap ''read outbound HTTP CA: '' e [])
           | Inr pem \<Rightarrow> if tf_AppendCerts F pem then Inr (Some pem) else Inl (Opaque ''parse outbound HTTP CA'')) of
       Inl e \<Rightarrow> Inl e
     | Inr roots \<Rightarrow>
        (case (if ctls_CertFile cfg = [] then Inr None
               else case tf_LoadX509KeyPair F (ctls_CertFile cfg) (ctls_KeyFile cfg) of
                 Inl e \<Rightarrow> Inl (Wrap ''load outbound HTTP client certificate: '' e [])
               | Inr certificate \<Rightarrow> Inr (Some certificate)) of
           Inl e \<Rightarrow> Inl e
         | Inr certificate \<Rightarrow> Inr \<lparr>tr_ServerName = ctls_ServerName cfg, tr_RootCAs = roots, tr_Certificate = certificate\<rparr>))"

definition NewHTTPClient :: "urllib \<Rightarrow> tls_files \<Rightarrow> string \<Rightarrow> http_upstream_config \<Rightarrow> http_client result" where
  "NewHTTPClient U F name cfg =
    (if ca_Type (hu_Auth cfg) \<noteq> [] \<and> \<not> ctls_Enabled (hu_TLS cfg)
     then Inl (Opaque ''refusing to send outbound HTTP credentials without TLS'')
     else case ul_Parse U (hu_BaseURL cfg) of
       Inl e \<Rightarrow> Inl (Opaque (''parse outbound HTTP base URL '' @ hu_BaseURL cfg))
     | Inr baseURL \<Rightarrow>
        if url_Scheme baseURL = [] \<or> url_Host baseURL = []
        then Inl (Opaque (''parse outbound HTTP base URL '' @ hu_BaseURL cfg))
        else case httpTransport F (hu_TLS cfg) of
          Inl e \<Rightarrow> Inl e
        | Inr transport \<Rightarrow> Inr \<lparr>hc_name = name, hc_baseURL = baseURL, hc_cfg = cfg, hc_breaker = brk_Enabled (hu_Breaker cfg)\<rparr>)"

end
