(* ===== verification/Grpc_Server.thy ===== *)
theory Grpc_Server
  imports Transport_Laws Outbound_Http
begin

text \<open>
  \<open>NewServer\<close> of \<open>internal/transport/grpc/server.go\<close>: what the gRPC server is built with and which services it registers, how
  it starts and how it stops.  Files, certificates and the network are parameters.
\<close>

section \<open>Building\<close>

text \<open>The TLS of the server, from 1.2 on; a client certificate is required when authorities for clients are given.\<close>

record server_tls =
  st_Certificate :: string
  st_ClientCAs :: "string option"
  st_RequireClientCert :: bool

definition serverCredentials :: "tls_files \<Rightarrow> grpc_tls_config \<Rightarrow> server_tls result" where
  "serverCredentials F cfg =
    (case tf_LoadX509KeyPair F (gtls_CertFile cfg) (gtls_KeyFile cfg) of
       Inl e \<Rightarrow> Inl (Wrap ''load grpc certificate: '' e [])
     | Inr certificate \<Rightarrow>
        (if gtls_ClientCAFile cfg = []
         then Inr \<lparr>st_Certificate = certificate, st_ClientCAs = None, st_RequireClientCert = False\<rparr>
         else case tf_ReadFile F (gtls_ClientCAFile cfg) of
           Inl e \<Rightarrow> Inl (Wrap ''read grpc client CA: '' e [])
         | Inr pem \<Rightarrow>
            if \<not> tf_AppendCerts F pem then Inl (Opaque ''parse grpc client CA'')
            else Inr \<lparr>st_Certificate = certificate, st_ClientCAs = Some pem, st_RequireClientCert = True\<rparr>))"

datatype grpc_service = ExportServiceServer | HealthServer | Reflection

record grpc_host =
  gh_MaxRecvMsgSize :: int
  gh_creds :: "server_tls option"
  gh_services :: "grpc_service list"
  gh_address :: string

definition grpc_NewServer :: "tls_files \<Rightarrow> config \<Rightarrow> grpc_host result" where
  "grpc_NewServer F cfg =
    (let g = c_GRPC cfg;
         creds = (if gtls_Enabled (grpc_TLS g)
           then (case serverCredentials F (grpc_TLS g) of Inl e \<Rightarrow> Inl e | Inr c \<Rightarrow> Inr (Some c)) else Inr None)
     in case creds of
          Inl e \<Rightarrow> Inl e
        | Inr c \<Rightarrow> Inr \<lparr>gh_MaxRecvMsgSize = grpc_MaxReceiveBytes g, gh_creds = c,
            gh_services = [ExportServiceServer, HealthServer] @ (if grpc_ReflectionEnabled g then [Reflection] else []),
            gh_address = grpc_Address g\<rparr>)"

section \<open>The export service\<close>

text \<open>
  The messages of the registered export service, each with its reply; interceptors pass them as values of any type.
\<close>

datatype export_message = ListDatasetsMsg list_datasets_message | DescribeDatasetMsg describe_dataset_request
  | CreateMsg create_job_message | GetMsg get_export_request | ListMsg list_jobs_message | CancelMsg versioned_export_request
  | RetryMsg retry_export_request | DownloadMsg download_export_request

datatype export_reply = DatasetsReply "dataset_summary list \<times> page_result" | DatasetReply dataset_descriptor
  | CreatedReply "export_job_pb \<times> bool" | JobReply export_job_pb | JobsReply "export_job_pb list \<times> page_result"
  | DownloadReply export_download_body

definition message_method :: "method_names \<Rightarrow> export_message \<Rightarrow> string" where
  "message_method N q = (case q of ListDatasetsMsg _ \<Rightarrow> mn_ListExportDatasets N | DescribeDatasetMsg _ \<Rightarrow> mn_DescribeAvailableExportDataset N
     | CreateMsg _ \<Rightarrow> mn_CreateExportJob N | GetMsg _ \<Rightarrow> mn_GetExportJob N | ListMsg _ \<Rightarrow> mn_ListExportJobs N
     | CancelMsg _ \<Rightarrow> mn_CancelExportJob N | RetryMsg _ \<Rightarrow> mn_RetryExportJob N | DownloadMsg _ \<Rightarrow> mn_CreateDownloadURL N)"

definition reply_as :: "('p \<Rightarrow> export_reply) \<Rightarrow> 'p result \<times> 'w \<Rightarrow> export_reply result \<times> 'w" where
  "reply_as f x = (case x of (Inl e, w) \<Rightarrow> (Inl e, w) | (Inr v, w) \<Rightarrow> (Inr (f v), w))"

definition export_dispatch :: "'o export_server \<Rightarrow> (export_message, export_reply, 'o world) unary_handler" where
  "export_dispatch X ctx q w =
    (case q of
       ListDatasetsMsg r \<Rightarrow> reply_as DatasetsReply (grpc_ListExportDatasets X ctx r w)
     | DescribeDatasetMsg r \<Rightarrow> reply_as DatasetReply (grpc_DescribeAvailableExportDataset X ctx r w)
     | CreateMsg r \<Rightarrow> reply_as CreatedReply (grpc_CreateExportJob X ctx r w)
     | GetMsg r \<Rightarrow> reply_as JobReply (grpc_GetExportJob X ctx r w)
     | ListMsg r \<Rightarrow> reply_as JobsReply (grpc_ListExportJobs X ctx r w)
     | CancelMsg r \<Rightarrow> reply_as JobReply (grpc_CancelExportJob X ctx r w)
     | RetryMsg r \<Rightarrow> reply_as CreatedReply (grpc_RetryExportJob X ctx r w)
     | DownloadMsg r \<Rightarrow> reply_as DownloadReply (grpc_CreateDownloadURL X ctx r w))"

lemma snd_reply_as [simp]: "snd (reply_as f x) = snd x"
  by (cases x; cases "fst x") (auto simp: reply_as_def)

text \<open>Every method of the service has a permission of its own.\<close>

lemma message_requirement: "\<exists>q. exportGRPCRequirement N True (message_method N msg) = Some q"
  by (cases msg) (auto simp: message_method_def exportGRPCRequirement_def)

section \<open>Starting and stopping\<close>

text \<open>Whether the server serves once it was started; a disabled server only says so.\<close>

definition grpc_start :: "(string \<Rightarrow> string \<Rightarrow> goerror option) \<Rightarrow> bool \<Rightarrow> grpc_host \<Rightarrow> bool result" where
  "grpc_start listen enabled s =
    (if \<not> enabled then Inr False
     else case listen ''tcp'' (gh_address s) of
       Some e \<Rightarrow> Inl (Wrap ''listen grpc: '' e [])
     | None \<Rightarrow> Inr True)"

text \<open>
  Stopping waits for the running calls until the context ends; then they are cut off.  \<open>context_first\<close> is the error of the context when
  it ends before the last call does.
\<close>

datatype grpc_drain = Drained_calls | Cut_off

definition grpc_stop :: "goerror option \<Rightarrow> goerror option \<times> grpc_drain" where
  "grpc_stop context_first = (case context_first of None \<Rightarrow> (None, Drained_calls) | Some e \<Rightarrow> (Some e, Cut_off))"

section \<open>Laws\<close>

text \<open>
  A production configuration that passed validation, when gRPC is enabled: a server that could be built has a
  certificate, demands one of its clients when it has authorities for them, and does not describe itself.
\<close>

lemma production_grpc:
  assumes "Validate cfg = None" and "production cfg" and "grpc_Enabled (c_GRPC cfg)" and "grpc_NewServer F cfg = Inr s"
  shows "\<exists>creds. gh_creds s = Some creds \<and> (gtls_ClientCAFile (grpc_TLS (c_GRPC cfg)) \<noteq> [] \<longrightarrow> st_RequireClientCert creds)
    \<and> Reflection \<notin> set (gh_services s)"
proof -
  have sec: "gtls_Enabled (grpc_TLS (c_GRPC cfg))" "\<not> grpc_ReflectionEnabled (c_GRPC cfg)"
    using production_servers [OF assms(1,2)] assms(3) by (auto simp: servers_secured_def)
  then show ?thesis using assms(4)
    by (auto simp: grpc_NewServer_def serverCredentials_def Let_def split: sum.splits if_splits)
qed

end
