(* ===== verification/Grpc_Laws.thy ===== *)
theory Grpc_Laws
  imports Transport_Laws
begin

text \<open>
  What the chain in front of a gRPC method promises: whatever the interceptors do, the world changes only through one
  run of the method, for a caller who is identified and permitted.  The state of a call is the world and the metrics; a
  method runs on the world alone.
\<close>

definition over :: "('q, 'p, 'w) unary_handler \<Rightarrow> ('q, 'p, 'w \<times> 'm) unary_handler" where
  "over h ctx req x = (case x of (w, m) \<Rightarrow> (case h ctx req w of (v, w1) \<Rightarrow> (v, w1, m)))"

lemma over_world: "fst (snd (over h ctx req (w, m))) = snd (h ctx req w)"
  by (cases "h ctx req w") (simp add: over_def)

locale unary_guard =
  fixes mw :: "('q, 'p, 'w \<times> 'm) unary_handler \<Rightarrow> ('q, 'p, 'w \<times> 'm) unary_handler"
    and admits :: "grpc_ctx \<Rightarrow> grpc_ctx \<Rightarrow> bool"
  assumes one_run: "mw h ctx req (w, m) = (v, w', m') \<Longrightarrow>
    w' = w \<or> (\<exists>ctx1 m1. admits ctx ctx1 \<and> fst (snd (h ctx1 req (w, m1))) = w')"
begin

lemma through:
  assumes "mw (over f) ctx req (w, m) = (v, w', m')"
  shows "w' = w \<or> (\<exists>ctx1. admits ctx ctx1 \<and> snd (f ctx1 req w) = w')"
  using one_run [OF assms] by (simp add: over_world)

end

locale unary_pair = outer: unary_guard outer_mw outer_admits + inner: unary_guard inner_mw inner_admits
  for outer_mw :: "('q, 'p, 'w \<times> 'm) unary_handler \<Rightarrow> ('q, 'p, 'w \<times> 'm) unary_handler" and outer_admits
    and inner_mw :: "('q, 'p, 'w \<times> 'm) unary_handler \<Rightarrow> ('q, 'p, 'w \<times> 'm) unary_handler" and inner_admits
begin

sublocale both: unary_guard "\<lambda>h. outer_mw (inner_mw h)" "outer_admits OO inner_admits"
proof
  fix h ctx req w m v w' m'
  assume "outer_mw (inner_mw h) ctx req (w, m) = (v, w', m')"
  from outer.one_run [OF this]
  show "w' = w \<or> (\<exists>ctx1 m1. (outer_admits OO inner_admits) ctx ctx1 \<and> fst (snd (h ctx1 req (w, m1))) = w')"
  proof (elim disjE exE conjE)
    fix ctx1 m1 assume 1: "outer_admits ctx ctx1" "fst (snd (inner_mw h ctx1 req (w, m1))) = w'"
    obtain v1 m2 where i: "inner_mw h ctx1 req (w, m1) = (v1, w', m2)" using 1(2) by (metis prod.collapse)
    show ?thesis using inner.one_run [OF i] 1(1) by blast
  qed simp
qed

lemma both_guard: "unary_guard (\<lambda>h. outer_mw (inner_mw h)) (outer_admits OO inner_admits)"
  by (rule both.unary_guard_axioms)

end

lemma unary_comp:
  assumes "unary_guard m1 a1" and "unary_guard m2 a2"
  shows "unary_guard (\<lambda>h. m1 (m2 h)) (a1 OO a2)"
  using unary_pair.intro [OF assms] by (rule unary_pair.both_guard)

lemma unary_weaken: "unary_guard mw a \<Longrightarrow> a \<le> b \<Longrightarrow> unary_guard mw b"
  unfolding unary_guard_def by blast

section \<open>The interceptors as guards\<close>

definition same_grpc :: "grpc_ctx \<Rightarrow> grpc_ctx \<Rightarrow> bool" where
  "same_grpc ctx ctx1 \<longleftrightarrow> gx_metadata ctx1 = gx_metadata ctx \<and> gx_principal ctx1 = gx_principal ctx"

lemma same_grpc_refl [simp]: "same_grpc ctx ctx"
  by (simp add: same_grpc_def)

interpretation environment_interceptor: unary_guard "environmentInterceptor profile" same_grpc for profile
proof
  fix h ctx req w m v w' m'
  assume "environmentInterceptor profile h ctx req (w, m) = (v, w', m')"
  then have "fst (snd (h (ctx\<lparr>gx_environment := profile\<rparr>) req (w, m))) = w'" by (simp add: environmentInterceptor_def)
  moreover have "same_grpc ctx (ctx\<lparr>gx_environment := profile\<rparr>)" by (simp add: same_grpc_def)
  ultimately show "w' = w \<or> (\<exists>ctx1 m1. same_grpc ctx ctx1 \<and> fst (snd (h ctx1 req (w, m1))) = w')" by blast
qed

interpretation request_id_interceptor: unary_guard "requestIDInterceptor generated" same_grpc for generated
proof
  fix h ctx req w m v w' m'
  assume r: "requestIDInterceptor generated h ctx req (w, m) = (v, w', m')"
  let ?i = "incoming_request_id generated ctx"
  let ?ctx = "ctx\<lparr>gx_request_id := ?i, gx_header := (''x-request-id'', ?i) # gx_header ctx\<rparr>"
  have "fst (snd (h ?ctx req (w, m))) = w'" using r by (simp add: requestIDInterceptor_def Let_def)
  moreover have "same_grpc ctx ?ctx" by (simp add: same_grpc_def)
  ultimately show "w' = w \<or> (\<exists>ctx1 m1. same_grpc ctx ctx1 \<and> fst (snd (h ctx1 req (w, m1))) = w')" by blast
qed

text \<open>What every call is given: the environment of the process and an identifier.\<close>

interpretation call_values: unary_pair "environmentInterceptor profile" same_grpc "requestIDInterceptor generated" same_grpc
    for profile generated
  by (rule unary_pair.intro [OF environment_interceptor.unary_guard_axioms request_id_interceptor.unary_guard_axioms])

interpretation idempotency_interceptor: unary_guard "idempotencyInterceptor valid" same_grpc for valid
proof
  fix h ctx req w m v w' m'
  assume r: "idempotencyInterceptor valid h ctx req (w, m) = (v, w', m')"
  consider "w' = w" | "fst (snd (h ctx req (w, m))) = w'" | k where "fst (snd (h (ctx\<lparr>gx_idempotency_key := Some k\<rparr>) req (w, m))) = w'"
  proof (cases "gx_metadata ctx ''idempotency-key''")
    case Nil
    then have "fst (snd (h ctx req (w, m))) = w'" using r by (simp add: idempotencyInterceptor_def)
    then show ?thesis by (rule that(2))
  next
    case (Cons k ks)
    show ?thesis
    proof (cases "valid k")
      case True
      then show ?thesis using r Cons that(3) [of k] by (simp add: idempotencyInterceptor_def)
    next
      case False
      then show ?thesis using r Cons that(1) by (simp add: idempotencyInterceptor_def)
    qed
  qed
  then show "w' = w \<or> (\<exists>ctx1 m1. same_grpc ctx ctx1 \<and> fst (snd (h ctx1 req (w, m1))) = w')"
  proof cases
    case 2
    then show ?thesis using same_grpc_refl by blast
  next
    case (3 k)
    have "same_grpc ctx (ctx\<lparr>gx_idempotency_key := Some k\<rparr>)" by (simp add: same_grpc_def)
    then show ?thesis using 3 by blast
  qed simp
qed

interpretation recovery_interceptor: unary_guard recoveryInterceptor same_grpc
proof
  fix h ctx req w m v w' m'
  assume r: "recoveryInterceptor h ctx req (w, m) = (v, w', m')"
  have "fst (snd (h ctx req (w, m))) = w'" using r by (auto simp: recoveryInterceptor_def split: prod.splits if_splits)
  then show "w' = w \<or> (\<exists>ctx1 m1. same_grpc ctx ctx1 \<and> fst (snd (h ctx1 req (w, m1))) = w')" using same_grpc_refl by blast
qed

text \<open>A sample goes to the metrics, not to the world.\<close>

definition meters :: "('w \<times> 'm) meter \<Rightarrow> bool" where
  "meters K \<longleftrightarrow> (\<forall>s x. fst (mr_sample K s x) = fst x)"

lemma observe_grpc_world:
  assumes "meters K" and "observe_grpc K elapsed method err x = Inr y"
  shows "fst y = fst x"
proof -
  have m: "fst (mr_sample K s z) = fst z" for s z using assms(1) unfolding meters_def by (elim allE)
  show ?thesis using assms(2) m
    by (simp add: observe_grpc_def count_and_time_def WithLabelValues_def del: split_paired_All split: if_splits) metis
qed

lemma metrics_guard:
  assumes "meters K"
  shows "unary_guard (metricsInterceptor K elapsed method) same_grpc"
proof
  fix h ctx req w m v w' m'
  assume r: "metricsInterceptor K elapsed method h ctx req (w, m) = (v, w', m')"
  obtain v1 w1 m1 where h: "h ctx req (w, m) = (v1, w1, m1)" by (metis prod.exhaust)
  have "w' = w1" using r h observe_grpc_world [OF assms]
    by (fastforce simp: metricsInterceptor_def split: if_splits sum.splits)
  then show "w' = w \<or> (\<exists>ctx1 m1. same_grpc ctx ctx1 \<and> fst (snd (h ctx1 req (w, m1))) = w')"
    using h same_grpc_refl by (intro disjI2 exI [of _ ctx] exI [of _ m] conjI) simp_all
qed

text \<open>The ways a caller is identified.\<close>

definition grpc_identified :: "jwtlib \<Rightarrow> auth_service \<Rightarrow> time \<Rightarrow> auth_config \<Rightarrow> string \<Rightarrow> grpc_ctx \<Rightarrow> grpc_ctx \<Rightarrow> bool" where
  "grpc_identified L service at cfg method ctx ctx1 \<longleftrightarrow>
    gx_metadata ctx1 = gx_metadata ctx
    \<and> (psk_Enabled (auth_PSK cfg) \<and> MatchesAny method (psk_GRPCMethods (auth_PSK cfg))
         \<and> (\<exists>v vs. gx_metadata ctx ''authorization'' = v # vs \<and> VerifyPSK v (psk_Key (auth_PSK cfg))) \<and> gx_principal ctx1 = Some psk_principal
       \<or> MatchesAny method (auth_SkipGRPCMethods cfg) \<and> gx_principal ctx1 = gx_principal ctx
       \<or> (\<exists>v vs scheme raw p. gx_metadata ctx ''authorization'' = v # vs \<and> v = scheme @ [CHR '' ''] @ raw \<and> EqualFold scheme ''Bearer''
            \<and> auth_Verify L service at raw = Inr p \<and> gx_principal ctx1 = Some p))"

lemma authenticateGRPC_identified:
  assumes "authenticateGRPC L service at ctx method cfg = Inr ctx1"
  shows "grpc_identified L service at cfg method ctx ctx1"
proof (cases "gx_metadata ctx ''authorization''")
  case Nil
  then show ?thesis using assms
    by (auto simp: authenticateGRPC_def grpc_identified_def Let_def split: if_splits)
next
  case (Cons v vs)
  obtain scheme raw ok where cut: "Cut v (CHR '' '') = (scheme, raw, ok)" by (metis prod.exhaust)
  show ?thesis using assms Cons cut Cut_space [of v scheme raw]
    by (auto simp: authenticateGRPC_def grpc_identified_def Let_def split: if_splits sum.splits)
qed

lemma auth_guard: "unary_guard (authInterceptor L service at cfg method) (grpc_identified L service at cfg method)"
proof
  fix h ctx req w m v w' m'
  assume r: "authInterceptor L service at cfg method h ctx req (w, m) = (v, w', m')"
  show "w' = w \<or> (\<exists>ctx1 m1. grpc_identified L service at cfg method ctx ctx1 \<and> fst (snd (h ctx1 req (w, m1))) = w')"
  proof (cases "authenticateGRPC L service at ctx method cfg")
    case (Inl e)
    then show ?thesis using r by (simp add: authInterceptor_def)
  next
    case (Inr ctx1)
    then have "fst (snd (h ctx1 req (w, m))) = w'" using r by (simp add: authInterceptor_def)
    then show ?thesis using authenticateGRPC_identified [OF Inr] by blast
  qed
qed

section \<open>The chain\<close>

text \<open>
  What the platform's interceptors promise: that of authorization runs the method only when the permission it resolves is
  granted to the principal, that of idempotency at most once.
\<close>

definition platform_interceptors ::
  "(requirement \<Rightarrow> principal option \<Rightarrow> bool) \<Rightarrow> ('q, 'p, 'w \<times> 'm) grpc_server \<Rightarrow> bool" where
  "platform_interceptors granted G \<longleftrightarrow>
    (\<forall>resolve method. unary_guard (gs_authz G resolve method)
       (\<lambda>ctx ctx1. same_grpc ctx ctx1 \<and> (\<forall>q. resolve method = Some q \<longrightarrow> granted q (gx_principal ctx))))
    \<and> (\<forall>methods method. unary_guard (gs_idempotency G methods method) same_grpc)"

definition grpc_admitted ::
  "(requirement \<Rightarrow> principal option \<Rightarrow> bool) \<Rightarrow> ('q, 'p, 'w) grpc_server \<Rightarrow> call_arrival \<Rightarrow> string \<Rightarrow> grpc_ctx \<Rightarrow> grpc_ctx \<Rightarrow> bool" where
  "grpc_admitted granted G a method ctx ctx1 \<longleftrightarrow>
    grpc_identified (gs_jwt G) (gs_auth G) (cl_at a) (c_Auth (gs_cfg G)) method ctx ctx1
    \<and> (\<forall>q. exportGRPCRequirement (gs_names G) (authz_Enabled (c_Authorization (gs_cfg G))) method = Some q \<longrightarrow> granted q (gx_principal ctx1))"

lemma unary_chain_guard:
  fixes G :: "('q, 'p, 'w \<times> 'm) grpc_server"
  assumes "platform_interceptors granted G" and "meters (gs_meter G)"
  shows "unary_guard (unary_chain G a method) (grpc_admitted granted G a method)"
proof -
  let ?cfg = "gs_cfg G"
  let ?resolve = "exportGRPCRequirement (gs_names G) (authz_Enabled (c_Authorization ?cfg))"
  let ?ok = "\<lambda>ctx ctx1. same_grpc ctx ctx1 \<and> (\<forall>q. ?resolve method = Some q \<longrightarrow> granted q (gx_principal ctx))"
  let ?id = "grpc_identified (gs_jwt G) (gs_auth G) (cl_at a) (c_Auth ?cfg) method"
  have authz: "unary_guard (gs_authz G ?resolve method) ?ok" and idem: "unary_guard (gs_idempotency G methods method) same_grpc" for methods
    using assms(1) unfolding platform_interceptors_def by blast+
  have inner: "unary_guard (\<lambda>h. gs_idempotency G (idem_GRPCMethods (c_Idempotency ?cfg)) method
      (metricsInterceptor (gs_meter G) (cl_elapsed a) method h)) (same_grpc OO same_grpc)"
    by (rule unary_comp [OF idem metrics_guard [OF assms(2)]])
  note guarded = unary_comp [OF auth_guard unary_comp [OF authz inner], of "gs_jwt G" "gs_auth G" "cl_at a" "c_Auth ?cfg" "method"]
  have "unary_guard (\<lambda>h. recoveryInterceptor (authInterceptor (gs_jwt G) (gs_auth G) (cl_at a) (c_Auth ?cfg) method
      (gs_authz G ?resolve method (gs_idempotency G (idem_GRPCMethods (c_Idempotency ?cfg)) method
      (metricsInterceptor (gs_meter G) (cl_elapsed a) method h))))) (same_grpc OO ?id OO ?ok OO same_grpc OO same_grpc)"
    by (rule unary_comp [OF recovery_interceptor.unary_guard_axioms guarded])
  then have "unary_guard (unary_chain G a method) ((same_grpc OO same_grpc) OO same_grpc OO same_grpc OO ?id OO ?ok OO same_grpc OO same_grpc)"
    unfolding unary_chain_def Let_def
    by (intro unary_comp [OF call_values.both_guard unary_comp [OF idempotency_interceptor.unary_guard_axioms]])
  then show ?thesis
  proof (rule unary_weaken)
    show "(same_grpc OO same_grpc) OO same_grpc OO same_grpc OO ?id OO ?ok OO same_grpc OO same_grpc \<le> grpc_admitted granted G a method"
      by (auto simp: grpc_admitted_def same_grpc_def grpc_identified_def)
  qed
qed

end
