(* ===== verification/Outbound_Grpc.thy ===== *)
theory Outbound_Grpc
  imports Outbound_Http Export_Provider
begin

text \<open>
  \<open>internal/grpcclient/client.go\<close> and \<open>internal/outbound/registry.go\<close>: the interceptors of an outgoing gRPC call, the
  checks of a connection, and the registry of the configured upstreams.
\<close>

section \<open>Calls\<close>

text \<open>The context of an outgoing call: its deadline, the values other packages put there, the outgoing metadata.\<close>

record call_ctx =
  cx_Deadline :: "duration option"
  cx_request_id :: "string option"
  cx_idempotency_key :: "string option"
  cx_outgoing :: "(string \<times> string) list"

text \<open>An invoker makes the call: it takes the context and the state of the network and the breaker.\<close>

type_synonym 's invoker = "call_ctx \<Rightarrow> 's \<Rightarrow> goerror option \<times> 's"

text \<open>
  What the interceptors use: the time the context ends first while waiting, the status code of an error, and the
  library's circuit breaker.
\<close>

record 's call_env =
  ce_wait :: "nat \<Rightarrow> duration \<Rightarrow> 's \<Rightarrow> goerror option \<times> 's"
  ce_Code :: "goerror \<Rightarrow> nat"
  ce_breaker :: "'s breaker"

abbreviation (input) "codes_DeadlineExceeded_client \<equiv> (4::nat)"

definition RequestIDFromContext :: "call_ctx \<Rightarrow> string option" where
  "RequestIDFromContext ctx = (case cx_request_id ctx of Some i \<Rightarrow> if i \<noteq> [] then Some i else None | None \<Rightarrow> None)"

definition withOutgoingMetadata :: "call_ctx \<Rightarrow> string \<Rightarrow> string \<Rightarrow> call_ctx" where
  "withOutgoingMetadata ctx token psk =
    (let pairs = (if token \<noteq> [] then [(''authorization'', ''Bearer '' @ token)]
                  else if psk \<noteq> [] then [(''authorization'', ''PSK '' @ psk)] else [])
          @ (case RequestIDFromContext ctx of Some i \<Rightarrow> [(''x-request-id'', i)] | None \<Rightarrow> [])
          @ (case cx_idempotency_key ctx of Some k \<Rightarrow> [(''idempotency-key'', k)] | None \<Rightarrow> [])
     in if pairs = [] then ctx else ctx\<lparr>cx_outgoing := cx_outgoing ctx @ pairs\<rparr>)"

definition metadataInterceptor :: "string \<Rightarrow> string \<Rightarrow> 's invoker \<Rightarrow> 's invoker" where
  "metadataInterceptor token psk invoker ctx s = invoker (withOutgoingMetadata ctx token psk) s"

definition metadataStreamInterceptor :: "string \<Rightarrow> string \<Rightarrow> 's invoker \<Rightarrow> 's invoker" where
  "metadataStreamInterceptor token psk streamer ctx s = streamer (withOutgoingMetadata ctx token psk) s"

definition timeoutInterceptor :: "duration \<Rightarrow> 's invoker \<Rightarrow> 's invoker" where
  "timeoutInterceptor timeout invoker ctx s =
    (case cx_Deadline ctx of
       Some _ \<Rightarrow> invoker ctx s
     | None \<Rightarrow> invoker (ctx\<lparr>cx_Deadline := Some timeout\<rparr>) s)"

section \<open>Retries and the breaker\<close>

definition retryGRPCMethod :: "call_ctx \<Rightarrow> string \<Rightarrow> string list \<Rightarrow> bool" where
  "retryGRPCMethod ctx method patterns =
    (if cx_idempotency_key ctx \<noteq> None then True
     else list_ex (\<lambda>p. case path_Match p method of Inr matched \<Rightarrow> matched | Inl _ \<Rightarrow> False) patterns)"

definition grpc_backoff :: "retry_config \<Rightarrow> nat \<Rightarrow> duration" where
  "grpc_backoff cfg attempt =
    (let delay = i64 (retry_InitialBackoff cfg * 2 ^ (attempt - 1))
     in if retry_MaxBackoff cfg < delay then retry_MaxBackoff cfg else delay)"

definition waitRetry :: "'s call_env \<Rightarrow> retry_config \<Rightarrow> nat \<Rightarrow> 's \<Rightarrow> goerror option \<times> 's" where
  "waitRetry N cfg attempt s = ce_wait N attempt (grpc_backoff cfg attempt) s"

text \<open>The loop from \<open>attempt\<close> on, \<open>left\<close> attempts of it; \<open>err\<close> is the error of the attempt before.\<close>

fun grpc_attempts ::
  "'s call_env \<Rightarrow> retry_config \<Rightarrow> 's invoker \<Rightarrow> call_ctx \<Rightarrow> nat \<Rightarrow> nat \<Rightarrow> goerror option \<Rightarrow> 's \<Rightarrow> goerror option \<times> 's" where
  "grpc_attempts N cfg invoker ctx 0 attempt err s = (err, s)"
| "grpc_attempts N cfg invoker ctx (Suc left) attempt err s =
    (case invoker ctx s of
       (None, s1) \<Rightarrow> (None, s1)
     | (Some e, s1) \<Rightarrow>
        if ce_Code N e \<noteq> codes_Unavailable \<and> ce_Code N e \<noteq> codes_ResourceExhausted then (Some e, s1)
        else if left = 0 then (Some e, s1)
        else (case waitRetry N cfg attempt s1 of
            (Some e', s2) \<Rightarrow> (Some e', s2)
          | (None, s2) \<Rightarrow> grpc_attempts N cfg invoker ctx left (Suc attempt) (Some e) s2))"

declare grpc_attempts.simps [simp del]

definition retryInterceptor :: "'s call_env \<Rightarrow> retry_config \<Rightarrow> string \<Rightarrow> 's invoker \<Rightarrow> 's invoker" where
  "retryInterceptor N cfg method invoker ctx s =
    (if \<not> retryGRPCMethod ctx method (retry_Methods cfg) then invoker ctx s
     else grpc_attempts N cfg invoker ctx (nat (retry_MaxAttempts cfg)) 1 None s)"

definition grpc_report :: "'s call_env \<Rightarrow> goerror option \<Rightarrow> breaker_report" where
  "grpc_report N err =
    (case err of
       None \<Rightarrow> Succeeded
     | Some e \<Rightarrow>
        if ce_Code N e \<noteq> codes_Unavailable \<and> ce_Code N e \<noteq> codes_ResourceExhausted \<and> ce_Code N e \<noteq> codes_DeadlineExceeded_client
        then Excluded else Failed)"

definition breakerInterceptor :: "'s call_env \<Rightarrow> 's invoker \<Rightarrow> 's invoker" where
  "breakerInterceptor N invoker ctx s =
    (case bk_Before (ce_breaker N) s of
       (Some e, s1) \<Rightarrow> (Some e, s1)
     | (None, s1) \<Rightarrow> (case invoker ctx s1 of (err, s2) \<Rightarrow> (err, bk_After (ce_breaker N) (grpc_report N err) s2)))"

text \<open>The observation of a call; the state has the metrics.\<close>

definition client_metricsInterceptor :: "string \<Rightarrow> 's meter \<Rightarrow> duration \<Rightarrow> 's invoker \<Rightarrow> 's invoker" where
  "client_metricsInterceptor name K elapsed invoker ctx s =
    (case invoker ctx s of
       (err, s1) \<Rightarrow>
         if \<not> mt_enabled (mr_metrics K) then (err, s1)
         else case observe_outbound K ''grpc'' name (mr_Code K err) elapsed s1 of
           Inl p \<Rightarrow> (Some p, s1)
         | Inr s2 \<Rightarrow> (err, s2))"

section \<open>Connections\<close>

record dial_tls =
  dt_Enabled :: bool
  dt_ServerName :: string
  dt_CAFile :: string
  dt_CertFile :: string
  dt_KeyFile :: string
  dt_AllowInsecureToken :: bool

record dial_config =
  dl_Target :: string
  dl_Timeout :: duration
  dl_Token :: string
  dl_PSK :: string
  dl_TLS :: dial_tls
  dl_Name :: string
  dl_Retry :: retry_config
  dl_Breaker :: breaker_config

text \<open>Plaintext is \<open>None\<close>.\<close>

definition transportCredentials :: "tls_files \<Rightarrow> dial_tls \<Rightarrow> transport option result" where
  "transportCredentials F cfg =
    (if \<not> dt_Enabled cfg then Inr None
     else case (if dt_CAFile cfg = [] then Inr None
           else case tf_ReadFile F (dt_CAFile cfg) of
             Inl e \<Rightarrow> Inl (Wrap ''read grpc CA: '' e [])
           | Inr pem \<Rightarrow> if tf_AppendCerts F pem then Inr (Some pem) else Inl (Opaque ''parse grpc CA'')) of
       Inl e \<Rightarrow> Inl e
     | Inr roots \<Rightarrow>
        (case (if dt_CertFile cfg = [] \<and> dt_KeyFile cfg = [] then Inr None
               else if dt_CertFile cfg = [] \<or> dt_KeyFile cfg = []
               then Inl (Opaque ''grpc client certificate and key must be configured together'')
               else case tf_LoadX509KeyPair F (dt_CertFile cfg) (dt_KeyFile cfg) of
                 Inl e \<Rightarrow> Inl (Wrap ''load grpc client certificate: '' e [])
               | Inr certificate \<Rightarrow> Inr (Some certificate)) of
           Inl e \<Rightarrow> Inl e
         | Inr certificate \<Rightarrow>
            Inr (Some \<lparr>tr_ServerName = dt_ServerName cfg, tr_RootCAs = roots, tr_Certificate = certificate\<rparr>)))"

text \<open>\<open>grpc.NewClient\<close> gives a connection for a target and credentials.\<close>

definition Dial :: "tls_files \<Rightarrow> (string \<Rightarrow> transport option \<Rightarrow> 'c result) \<Rightarrow> dial_config \<Rightarrow> 'c result" where
  "Dial F newClient cfg =
    (if dl_Target cfg = [] then Inl (Opaque ''grpc client target is required'')
     else if dl_Timeout cfg \<le> 0 then Inl (Opaque ''grpc client timeout must be positive'')
     else case transportCredentials F (dl_TLS cfg) of
       Inl e \<Rightarrow> Inl e
     | Inr transport \<Rightarrow>
        if dl_Token cfg \<noteq> [] \<and> \<not> dt_Enabled (dl_TLS cfg) \<and> \<not> dt_AllowInsecureToken (dl_TLS cfg)
        then Inl (Opaque ''refusing to send grpc bearer token without TLS'')
        else if dl_PSK cfg \<noteq> [] \<and> dl_Token cfg \<noteq> []
        then Inl (Opaque ''grpc client bearer token and PSK are mutually exclusive'')
        else if dl_PSK cfg \<noteq> [] \<and> \<not> dt_Enabled (dl_TLS cfg) \<and> \<not> dt_AllowInsecureToken (dl_TLS cfg)
        then Inl (Opaque ''refusing to send grpc PSK without TLS'')
        else newClient (dl_Target cfg) transport)"

text \<open>The interceptors of a connection, outermost first; a client may have no metrics.\<close>

definition client_chain :: "'s call_env \<Rightarrow> 's meter option \<Rightarrow> duration \<Rightarrow> dial_config \<Rightarrow> string \<Rightarrow> 's invoker \<Rightarrow> 's invoker" where
  "client_chain N meter elapsed cfg method invoker =
    timeoutInterceptor (dl_Timeout cfg)
     (metadataInterceptor (dl_Token cfg) (dl_PSK cfg)
     ((case meter of Some K \<Rightarrow> client_metricsInterceptor (dl_Name cfg) K elapsed | None \<Rightarrow> id)
     ((if brk_Enabled (dl_Breaker cfg) then breakerInterceptor N else id)
     ((if 1 < retry_MaxAttempts (dl_Retry cfg) then retryInterceptor N (dl_Retry cfg) method else id) invoker))))"

section \<open>The registry\<close>

record 'c registry =
  reg_http :: "(string \<times> http_client) list"
  reg_grpc :: "(string \<times> 'c) list"

text \<open>Closing closes every connection and reports the first error; the idle HTTP connections are closed as well.\<close>

fun close_grpc :: "('c \<Rightarrow> goerror option) \<Rightarrow> (string \<times> 'c) list \<Rightarrow> goerror option \<Rightarrow> goerror option" where
  "close_grpc close [] closeErr = closeErr"
| "close_grpc close ((name, connection) # cs) closeErr =
    (case close connection of
       None \<Rightarrow> close_grpc close cs closeErr
     | Some e \<Rightarrow> close_grpc close cs
         (if closeErr = None then Some (Wrap (''close outbound gRPC client '' @ name @ '': '') e []) else closeErr))"

definition registry_close :: "('c \<Rightarrow> goerror option) \<Rightarrow> 'c registry \<Rightarrow> goerror option" where
  "registry_close close r = close_grpc close (reg_grpc r) None"

definition upstream_dial :: "string \<Rightarrow> grpc_upstream_config \<Rightarrow> dial_config" where
  "upstream_dial name u = \<lparr>dl_Target = gu_Target u, dl_Timeout = gu_Timeout u,
     dl_Token = (if ca_Type (gu_Auth u) = ''bearer'' then ca_Token (gu_Auth u) else []),
     dl_PSK = (if ca_Type (gu_Auth u) = ''psk'' then ca_Token (gu_Auth u) else []),
     dl_TLS = \<lparr>dt_Enabled = ctls_Enabled (gu_TLS u), dt_ServerName = ctls_ServerName (gu_TLS u), dt_CAFile = ctls_CAFile (gu_TLS u),
       dt_CertFile = ctls_CertFile (gu_TLS u), dt_KeyFile = ctls_KeyFile (gu_TLS u),
       dt_AllowInsecureToken = ctls_AllowInsecure (gu_TLS u)\<rparr>,
     dl_Name = name, dl_Retry = gu_Retry u, dl_Breaker = gu_Breaker u\<rparr>"

text \<open>The loops over the configured upstreams, a map whose order is not specified: here the order of the list.\<close>

fun registry_http ::
  "urllib \<Rightarrow> tls_files \<Rightarrow> (string \<times> http_upstream_config) list \<Rightarrow> (string \<times> http_client) list \<Rightarrow> (string \<times> http_client) list result" where
  "registry_http U F [] done = Inr done"
| "registry_http U F ((name, upstream) # us) done =
    (case NewHTTPClient U F name upstream of
       Inl e \<Rightarrow> Inl (Wrap (''create outbound HTTP client '' @ name @ '': '') e [])
     | Inr c \<Rightarrow> registry_http U F us (done @ [(name, c)]))"

fun registry_grpc ::
  "tls_files \<Rightarrow> (string \<Rightarrow> transport option \<Rightarrow> 'c result) \<Rightarrow> (string \<times> grpc_upstream_config) list \<Rightarrow> (string \<times> 'c) list
    \<Rightarrow> goerror option \<times> (string \<times> 'c) list" where
  "registry_grpc F newClient [] done = (None, done)"
| "registry_grpc F newClient ((name, upstream) # us) done =
    (case Dial F newClient (upstream_dial name upstream) of
       Inl e \<Rightarrow> (Some (Wrap (''create outbound gRPC client '' @ name @ '': '') e []), done)
     | Inr connection \<Rightarrow> registry_grpc F newClient us (done @ [(name, connection)]))"

text \<open>The result, and the connections that were opened and closed again after an error.\<close>

definition NewRegistry ::
  "urllib \<Rightarrow> tls_files \<Rightarrow> (string \<Rightarrow> transport option \<Rightarrow> 'c result) \<Rightarrow> outbound_config \<Rightarrow> 'c registry result \<times> 'c list" where
  "NewRegistry U F newClient cfg =
    (case registry_http U F (outb_HTTP cfg) [] of
       Inl e \<Rightarrow> (Inl e, [])
     | Inr hs \<Rightarrow>
        (case registry_grpc F newClient (outb_GRPC cfg) [] of
           (Some e, opened) \<Rightarrow> (Inl e, map snd opened)
         | (None, opened) \<Rightarrow> (Inr \<lparr>reg_http = hs, reg_grpc = opened\<rparr>, [])))"

definition registry_HTTP :: "'c registry \<Rightarrow> string \<Rightarrow> http_client option" where
  "registry_HTTP r name = map_of (reg_http r) name"

definition registry_GRPC :: "'c registry \<Rightarrow> string \<Rightarrow> 'c option" where
  "registry_GRPC r name = map_of (reg_grpc r) name"

section \<open>The provider's connections\<close>

text \<open>
  \<open>NewProvider\<close> and the dialing of an instance in \<open>internal/export/provider.go\<close>: the parameters of the provider's
  environment, from the configuration.  \<open>newDiscovery\<close> is the platform's discovery over a connection to the
  registry, by what its \<open>Instances\<close> returns.
\<close>

definition dial_tls_of :: "client_tls_config \<Rightarrow> bool \<Rightarrow> dial_tls" where
  "dial_tls_of t insecure = \<lparr>dt_Enabled = ctls_Enabled t, dt_ServerName = ctls_ServerName t, dt_CAFile = ctls_CAFile t,
     dt_CertFile = ctls_CertFile t, dt_KeyFile = ctls_KeyFile t, dt_AllowInsecureToken = insecure\<rparr>"

definition no_retry :: retry_config where
  "no_retry = \<lparr>retry_MaxAttempts = 0, retry_InitialBackoff = 0, retry_MaxBackoff = 0, retry_Methods = []\<rparr>"

definition no_breaker :: breaker_config where
  "no_breaker = \<lparr>brk_Enabled = False, brk_FailureThreshold = 0, brk_OpenTimeout = 0\<rparr>"

definition provider_dial_config :: "string \<Rightarrow> string \<Rightarrow> provider_client_config \<Rightarrow> dial_config" where
  "provider_dial_config service target pc = \<lparr>dl_Target = target, dl_Timeout = pc_Timeout pc, dl_Token = [], dl_PSK = pc_PSK pc,
     dl_TLS = dial_tls_of (pc_TLS pc) (pc_AllowInsecure pc), dl_Name = service, dl_Retry = pc_Retry pc, dl_Breaker = pc_Breaker pc\<rparr>"

definition registry_dial_config :: "service_registry_config \<Rightarrow> dial_config" where
  "registry_dial_config sr = \<lparr>dl_Target = sr_Target sr, dl_Timeout = 3000000000, dl_Token = [], dl_PSK = sr_PSK sr,
     dl_TLS = dial_tls_of (sr_TLS sr) (sr_AllowInsecure sr), dl_Name = ''service-registry-service'', dl_Retry = no_retry,
     dl_Breaker = no_breaker\<rparr>"

definition NewProvider ::
  "tls_files \<Rightarrow> (string \<Rightarrow> transport option \<Rightarrow> 'c result)
    \<Rightarrow> ('c \<Rightarrow> duration \<Rightarrow> string \<Rightarrow> service_instance list result result) \<Rightarrow> metadata_parser \<Rightarrow> (rune \<Rightarrow> rune)
    \<Rightarrow> config \<Rightarrow> 'c registry \<Rightarrow> ('c provider_env \<times> 'c grpc_provider) result" where
  "NewProvider F newClient newDiscovery parse lower cfg static =
    (let sr = c_ServiceRegistry cfg;
         discovery = (if \<not> sr_Enabled sr then Inr None
           else case Dial F newClient (registry_dial_config sr) of
             Inl e \<Rightarrow> Inl (Wrap ''dial service registry: '' e [])
           | Inr connection \<Rightarrow>
              (case newDiscovery connection (sr_MaxStale sr) (sr_SnapshotDirectory sr) of
                 Inl e \<Rightarrow> Inl e
               | Inr instances \<Rightarrow> Inr (Some instances)))
     in case discovery of
          Inl e \<Rightarrow> Inl e
        | Inr d \<Rightarrow> Inr (\<lparr>pe_discovery = d, pe_static = registry_GRPC static,
            pe_dial = (\<lambda>service target pc. Dial F newClient (provider_dial_config service target pc)),
            pe_ParseMetadata = parse, pe_config = c_ProviderClient cfg, pe_ToLower = lower\<rparr>,
           \<lparr>gp_cursor = 0, gp_connections = Map.empty, gp_log = []\<rparr>))"

end
