(* ===== verification/Outbound_Laws.thy ===== *)
theory Outbound_Laws
  imports Outbound_Grpc App_Defaults
begin

text \<open>
  What the outgoing calls promise: how often they try, with what result and under which credentials.  The two retry loops of the
  clients share one contract: a bounded number of tries, each but the last of which failed transiently and was followed
  by a wait.
\<close>

section \<open>Bounded tries\<close>

text \<open>
  \<open>tries try transient wait m a s n r s'\<close>: of at most \<open>m\<close> tries, the first numbered \<open>a\<close>, \<open>n\<close> were made from state \<open>s\<close>,
  ending in \<open>s'\<close> with the result \<open>r\<close> of the last one, or of the wait after it.
\<close>

inductive tries ::
  "(nat \<Rightarrow> 's \<Rightarrow> 'r \<times> 's) \<Rightarrow> ('r \<Rightarrow> bool) \<Rightarrow> (nat \<Rightarrow> 's \<Rightarrow> 'r option \<times> 's) \<Rightarrow> nat \<Rightarrow> nat \<Rightarrow> 's \<Rightarrow> nat \<Rightarrow> 'r \<Rightarrow> 's \<Rightarrow> bool"
  for "try" transient wait where
  settled: "try a s = (r, s') \<Longrightarrow> \<not> transient r \<Longrightarrow> tries try transient wait (Suc m) a s (Suc 0) r s'"
| exhausted: "try a s = (r, s') \<Longrightarrow> transient r \<Longrightarrow> tries try transient wait (Suc 0) a s (Suc 0) r s'"
| interrupted: "try a s = (r0, s1) \<Longrightarrow> transient r0 \<Longrightarrow> wait a s1 = (Some r, s')
    \<Longrightarrow> tries try transient wait (Suc (Suc m)) a s (Suc 0) r s'"
| again: "try a s = (r0, s1) \<Longrightarrow> transient r0 \<Longrightarrow> wait a s1 = (None, s2)
    \<Longrightarrow> tries try transient wait (Suc m) (Suc a) s2 n r s' \<Longrightarrow> tries try transient wait (Suc (Suc m)) a s (Suc n) r s'"

lemma tries_bounds: "tries try transient wait m a s n r s' \<Longrightarrow> 1 \<le> n \<and> n \<le> m"
  by (induction rule: tries.induct) auto

locale retry_loop =
  fixes loop :: "nat \<Rightarrow> nat \<Rightarrow> 's \<Rightarrow> 'r \<times> 's" and "try" :: "nat \<Rightarrow> 's \<Rightarrow> 'r \<times> 's"
    and transient :: "'r \<Rightarrow> bool" and wait :: "nat \<Rightarrow> 's \<Rightarrow> 'r option \<times> 's"
  assumes loop_step: "loop (Suc left) a s =
    (case try a s of
       (r, s1) \<Rightarrow> if \<not> transient r \<or> left = 0 then (r, s1)
         else (case wait a s1 of (Some r', s2) \<Rightarrow> (r', s2) | (None, s2) \<Rightarrow> loop left (Suc a) s2))"
begin

lemma loop_tries:
  assumes "0 < m"
  shows "\<exists>n. tries try transient wait m a s n (fst (loop m a s)) (snd (loop m a s))"
  using assms
proof (induction m arbitrary: a s)
  case (Suc m)
  obtain r s1 where t: "try a s = (r, s1)" by (metis prod.exhaust)
  show ?case
  proof (cases "transient r \<and> m \<noteq> 0")
    case False
    then have "loop (Suc m) a s = (r, s1)" using t by (auto simp: loop_step)
    then show ?thesis using False t by (auto intro: tries.settled tries.exhausted)
  next
    case True
    then obtain m' where m: "m = Suc m'" by (cases m) auto
    obtain x s2 where w: "wait a s1 = (x, s2)" by (metis prod.exhaust)
    show ?thesis
    proof (cases x)
      case None
      then have l: "loop (Suc m) a s = loop m (Suc a) s2" using t w True by (simp add: loop_step)
      obtain n where "tries try transient wait m (Suc a) s2 n (fst (loop m (Suc a) s2)) (snd (loop m (Suc a) s2))"
        using Suc.IH [of "Suc a" s2] m by auto
      then have "tries try transient wait (Suc m) a s (Suc n) (fst (loop m (Suc a) s2)) (snd (loop m (Suc a) s2))"
        using True t w None m by (auto intro: tries.again)
      then show ?thesis using l by auto
    next
      case (Some r')
      then have "loop (Suc m) a s = (r', s2)" using t w True by (simp add: loop_step)
      moreover have "tries try transient wait (Suc m) a s (Suc 0) r' s2"
        using True t w Some m by (auto intro: tries.interrupted)
      ultimately show ?thesis by auto
    qed
  qed
qed simp

end

section \<open>The retries of the HTTP client\<close>

text \<open>One try, what counts as transient, and the pause after it, over the log of the client's effects.\<close>

definition http_creatable :: "http_net \<Rightarrow> http_request \<Rightarrow> bool" where
  "http_creatable N request \<longleftrightarrow> hn_NewRequest N (hr_Method request) (hr_URL request) = None"

definition http_try :: "http_net \<Rightarrow> http_request \<Rightarrow> nat \<Rightarrow> http_effect list \<Rightarrow> http_response option result \<times> http_effect list" where
  "http_try N request a log =
    (case hn_NewRequest N (hr_Method request) (hr_URL request) of
       Some e \<Rightarrow> (Inl (Wrap ''create outbound HTTP request: '' e []), log)
     | None \<Rightarrow> ((case hn_Do N a request of
          (v, None) \<Rightarrow> Inr v
        | (v, Some e) \<Rightarrow> Inl (Wrap ''call outbound HTTP service: '' e [])), log @ [Sent request]))"

definition http_transient :: "http_net \<Rightarrow> http_request \<Rightarrow> http_response option result \<Rightarrow> bool" where
  "http_transient N request r \<longleftrightarrow> http_creatable N request
    \<and> (case r of Inl _ \<Rightarrow> True | Inr None \<Rightarrow> False | Inr (Some v) \<Rightarrow> retryableHTTPStatus (hp_StatusCode v))"

definition http_pause ::
  "http_net \<Rightarrow> retry_config \<Rightarrow> http_request \<Rightarrow> nat \<Rightarrow> http_effect list \<Rightarrow> http_response option result option \<times> http_effect list" where
  "http_pause N retry request a log =
    (let log1 = log @ (case fst (hn_Do N a request) of None \<Rightarrow> [] | Some v \<Rightarrow> [Drained v])
     in case waitBackoff N retry a of
          Some e \<Rightarrow> (Some (Inl e), log1)
        | None \<Rightarrow> (None, log1 @ [Waited (http_backoff (hn_overflow N) retry a)]))"

definition http_loop ::
  "http_net \<Rightarrow> retry_config \<Rightarrow> http_request \<Rightarrow> nat \<Rightarrow> nat \<Rightarrow> http_effect list \<Rightarrow> http_response option result \<times> http_effect list" where
  "http_loop N retry request left a log = (case http_attempts N retry request left a of (r, fx) \<Rightarrow> (r, log @ fx))"

interpretation http_retries: retry_loop "http_loop N retry request" "http_try N request" "http_transient N request"
    "http_pause N retry request" for N retry request
  by unfold_locales
    (auto simp: http_loop_def http_try_def http_transient_def http_pause_def http_creatable_def http_attempts.simps(2)
      Let_def split: option.splits prod.splits)

definition sends :: "http_effect list \<Rightarrow> http_request list" where
  "sends fx = concat (map (\<lambda>e. case e of Sent r \<Rightarrow> [r] | _ \<Rightarrow> []) fx)"

lemma sends_simps [simp]:
  "sends [] = []" "sends (xs @ ys) = sends xs @ sends ys" "sends (Sent r # xs) = r # sends xs"
  "sends (Drained v # xs) = sends xs" "sends (Waited d # xs) = sends xs"
  by (simp_all add: sends_def)

text \<open>What an exchange amounts to.\<close>

definition exchange :: "http_net \<Rightarrow> http_request \<Rightarrow> nat \<Rightarrow> http_response option result" where
  "exchange N request k =
    (case hn_Do N k request of (v, None) \<Rightarrow> Inr v | (v, Some e) \<Rightarrow> Inl (Wrap ''call outbound HTTP service: '' e []))"

text \<open>\<open>n\<close> exchanges of at most \<open>m\<close>, from number \<open>a\<close> on, ending with \<open>r\<close>.\<close>

definition exchanged :: "http_net \<Rightarrow> retry_config \<Rightarrow> http_request \<Rightarrow> nat \<Rightarrow> nat \<Rightarrow> nat \<Rightarrow> http_response option result \<Rightarrow> bool" where
  "exchanged N retry request m a n r \<longleftrightarrow> 1 \<le> n \<and> n \<le> m
    \<and> (\<forall>k. a \<le> k \<and> Suc k < a + n \<longrightarrow> http_transient N request (exchange N request k) \<and> waitBackoff N retry k = None)
    \<and> (r = exchange N request (a + n - 1) \<and> (n = m \<or> \<not> http_transient N request r)
       \<or> (\<exists>e. n < m \<and> http_transient N request (exchange N request (a + n - 1)) \<and> waitBackoff N retry (a + n - 1) = Some e \<and> r = Inl e))"

lemma http_try_creatable: "http_creatable N request \<Longrightarrow> http_try N request a log = (exchange N request a, log @ [Sent request])"
  by (simp add: http_try_def http_creatable_def exchange_def)

lemma http_pauseD:
  "http_pause N retry request a log = (x, log') \<Longrightarrow> sends log' = sends log \<and> x = map_option Inl (waitBackoff N retry a)"
  by (auto simp: http_pause_def Let_def split: option.splits)

lemma http_tries_exchanged:
  assumes "tries (http_try N request) (http_transient N request) (http_pause N retry request) m a log n r log'"
    and "http_creatable N request"
  shows "sends log' = sends log @ replicate n request \<and> exchanged N retry request m a n r"
  using assms(1)
proof (induction rule: tries.induct)
  case (settled a s r s' m)
  then show ?case by (auto simp: http_try_creatable [OF assms(2)] exchanged_def)
next
  case (exhausted a s r s')
  then show ?case by (auto simp: http_try_creatable [OF assms(2)] exchanged_def)
next
  case (interrupted a s r0 s1 r s' m)
  then show ?case using http_pauseD [OF interrupted(3)]
    by (cases "waitBackoff N retry a") (auto simp: http_try_creatable [OF assms(2)] exchanged_def)
next
  case (again a s r0 s1 s2 m n r s')
  have first: "http_transient N request (exchange N request a)" "waitBackoff N retry a = None"
    "sends s2 = sends s @ [request]"
    using again(1,2) http_pauseD [OF again(3)] by (auto simp: http_try_creatable [OF assms(2)])
  have later: "http_transient N request (exchange N request k) \<and> waitBackoff N retry k = None"
    if "a \<le> k \<and> Suc k < a + Suc n" for k
    using that first again.IH by (cases "k = a") (auto simp: exchanged_def)
  have "sends s' = sends s @ replicate (Suc n) request" using again.IH first(3) by simp
  moreover have "exchanged N retry request (Suc (Suc m)) a (Suc n) r"
    using again.IH later by (auto simp: exchanged_def)
  ultimately show ?case by blast
qed

lemma http_attempts_exchanged:
  assumes "http_creatable N request" and "0 < m"
  shows "\<exists>n. exchanged N retry request m 1 n (fst (http_attempts N retry request m 1))
    \<and> sends (snd (http_attempts N retry request m 1)) = replicate n request"
proof -
  obtain n where "tries (http_try N request) (http_transient N request) (http_pause N retry request) m 1 [] n
      (fst (http_loop N retry request m 1 [])) (snd (http_loop N retry request m 1 []))"
    using http_retries.loop_tries [OF assms(2)] by blast
  then show ?thesis using http_tries_exchanged [OF _ assms(1)] by (force simp: http_loop_def split: prod.splits)
qed

section \<open>The retries of the gRPC client\<close>

definition grpc_transient :: "'s call_env \<Rightarrow> goerror option \<Rightarrow> bool" where
  "grpc_transient N err = (case err of None \<Rightarrow> False | Some e \<Rightarrow> ce_Code N e = codes_Unavailable \<or> ce_Code N e = codes_ResourceExhausted)"

definition grpc_pause :: "'s call_env \<Rightarrow> retry_config \<Rightarrow> nat \<Rightarrow> 's \<Rightarrow> goerror option option \<times> 's" where
  "grpc_pause N cfg a s = (case waitRetry N cfg a s of (None, s1) \<Rightarrow> (None, s1) | (Some e, s1) \<Rightarrow> (Some (Some e), s1))"

lemma grpc_attempts_err:
  "grpc_attempts N cfg invoker ctx (Suc left) a (Some e) s = grpc_attempts N cfg invoker ctx (Suc left) a None s"
  by (simp add: grpc_attempts.simps(2))

interpretation grpc_retries: retry_loop "\<lambda>left a s. grpc_attempts N cfg invoker ctx left a None s" "\<lambda>a s. invoker ctx s"
    "grpc_transient N" "grpc_pause N cfg" for N cfg invoker ctx
proof
  fix left a s
  show "grpc_attempts N cfg invoker ctx (Suc left) a None s =
    (case invoker ctx s of
       (r, s1) \<Rightarrow> if \<not> grpc_transient N r \<or> left = 0 then (r, s1)
         else (case grpc_pause N cfg a s1 of (Some r', s2) \<Rightarrow> (r', s2)
            | (None, s2) \<Rightarrow> grpc_attempts N cfg invoker ctx left (Suc a) None s2))"
  proof (cases left)
    case (Suc left')
    then show ?thesis
      by (auto simp: grpc_attempts.simps(2) [of _ _ _ _ "Suc left'"] grpc_attempts_err grpc_transient_def grpc_pause_def
          split: prod.splits option.splits)
  qed (auto simp: grpc_attempts.simps(2) grpc_transient_def split: prod.splits option.splits)
qed

lemma one_try:
  "\<exists>n. tries (\<lambda>_. invoker ctx) (grpc_transient N) (grpc_pause N cfg) 1 1 s n (fst (invoker ctx s)) (snd (invoker ctx s))"
  using tries.settled [of "\<lambda>_. invoker ctx" 1 s "fst (invoker ctx s)" "snd (invoker ctx s)" "grpc_transient N" "grpc_pause N cfg" 0]
    tries.exhausted [of "\<lambda>_. invoker ctx" 1 s "fst (invoker ctx s)" "snd (invoker ctx s)" "grpc_transient N" "grpc_pause N cfg"]
  by auto

lemma retryInterceptor_tries:
  assumes "m = (if retryGRPCMethod ctx method (retry_Methods cfg) then nat (retry_MaxAttempts cfg) else 1)" and "0 < m"
  shows "\<exists>n. tries (\<lambda>_. invoker ctx) (grpc_transient N) (grpc_pause N cfg) m 1 s n
    (fst (retryInterceptor N cfg method invoker ctx s)) (snd (retryInterceptor N cfg method invoker ctx s))"
proof (cases "retryGRPCMethod ctx method (retry_Methods cfg)")
  case True
  then show ?thesis using grpc_retries.loop_tries [OF assms(2), of invoker ctx N cfg 1 s] assms(1)
    by (simp add: retryInterceptor_def)
next
  case False
  then show ?thesis using one_try [of invoker ctx N cfg s] assms(1) by (simp add: retryInterceptor_def)
qed

text \<open>The context a call goes out with.\<close>

definition outgoing_ctx :: "dial_config \<Rightarrow> call_ctx \<Rightarrow> call_ctx" where
  "outgoing_ctx cfg ctx = withOutgoingMetadata
     (case cx_Deadline ctx of Some _ \<Rightarrow> ctx | None \<Rightarrow> ctx\<lparr>cx_Deadline := Some (dl_Timeout cfg)\<rparr>) (dl_Token cfg) (dl_PSK cfg)"

lemma outgoing_ctx_deadline: "cx_Deadline (outgoing_ctx cfg ctx) \<noteq> None"
  by (auto simp: outgoing_ctx_def withOutgoingMetadata_def Let_def split: option.splits)

text \<open>The metrics before and after a call that is observed when the client has metrics.\<close>

definition observed_call :: "'m meter option \<Rightarrow> string \<Rightarrow> string \<Rightarrow> ('m meter \<Rightarrow> string) \<Rightarrow> duration \<Rightarrow> 'm \<Rightarrow> 'm \<Rightarrow> bool" where
  "observed_call meter protocol name status elapsed m m' \<longleftrightarrow>
    (case meter of
       None \<Rightarrow> m' = m
     | Some K \<Rightarrow> if mt_enabled (mr_metrics K) then observe_outbound K protocol name (status K) elapsed m = Inr m' else m' = m)"

definition typed_meter :: "'m meter option \<Rightarrow> bool" where
  "typed_meter meter \<longleftrightarrow> (case meter of None \<Rightarrow> True | Some K \<Rightarrow> well_typed (mr_metrics K))"

lemma observe_outbound_typed: "well_typed (mr_metrics K) \<Longrightarrow> \<exists>m1. observe_outbound K protocol name status elapsed m = Inr m1"
  by (simp add: observe_outbound_def well_typedD)

definition http_status :: "http_response option result \<Rightarrow> string" where
  "http_status r = (case r of Inr (Some response) \<Rightarrow> FormatInt (hp_StatusCode response) | _ \<Rightarrow> ''error'')"

lemma http_Do_observed:
  assumes "typed_meter meter" and "http_execute U N B c key method path body headers b = ((r, fx), b')"
  shows "\<exists>m'. http_Do U N B meter elapsed c key method path body headers (b, m) = ((r, fx), b', m')
    \<and> observed_call meter ''http'' (hc_name c) (\<lambda>_. http_status r) elapsed m m'"
proof (cases meter)
  case None
  then show ?thesis using assms(2) by (simp add: http_Do_def observed_call_def)
next
  case (Some K)
  then obtain m' where "observe_outbound K ''http'' (hc_name c) (http_status r) elapsed m = Inr m'"
    using observe_outbound_typed [of K "''http''" "hc_name c" "http_status r" elapsed m] assms(1) by (auto simp: typed_meter_def)
  then show ?thesis using assms(2) Some by (simp add: http_Do_def observed_call_def http_status_def Let_def)
qed

lemma client_metrics_observed:
  assumes "typed_meter meter" and "invoker ctx s = (err, s2)"
  shows "\<exists>s'. (case meter of Some K \<Rightarrow> client_metricsInterceptor name K elapsed | None \<Rightarrow> id) invoker ctx s = (err, s')
    \<and> observed_call meter ''grpc'' name (\<lambda>K. mr_Code K err) elapsed s2 s'"
proof (cases meter)
  case None
  then show ?thesis using assms(2) by (simp add: observed_call_def)
next
  case (Some K)
  then obtain s' where "observe_outbound K ''grpc'' name (mr_Code K err) elapsed s2 = Inr s'"
    using observe_outbound_typed [of K "''grpc''" name "mr_Code K err" elapsed s2] assms(1) by (auto simp: typed_meter_def)
  then show ?thesis using assms(2) Some by (simp add: client_metricsInterceptor_def observed_call_def)
qed

section \<open>Properties\<close>



section \<open>The registry\<close>

lemma registry_http_names:
  "registry_http U F us acc = Inr hs \<Longrightarrow> map fst hs = map fst acc @ map fst us"
  by (induction U F us acc rule: registry_http.induct) (auto split: sum.splits)

lemma registry_grpc_names:
  "registry_grpc F newClient us acc = (None, cs) \<Longrightarrow> map fst cs = map fst acc @ map fst us"
  by (induction F newClient us acc rule: registry_grpc.induct) (auto split: sum.splits)

text \<open>A registry has a client for every configured upstream; a failed one has closed what it opened.\<close>

lemma NewRegistry_complete:
  assumes "NewRegistry U F newClient cfg = (Inr r, closed)"
  shows "map fst (reg_http r) = map fst (outb_HTTP cfg) \<and> map fst (reg_grpc r) = map fst (outb_GRPC cfg) \<and> closed = []"
  using assms registry_http_names [of U F "outb_HTTP cfg" "[]"] registry_grpc_names [of F newClient "outb_GRPC cfg" "[]"]
  by (auto simp: NewRegistry_def split: sum.splits prod.splits option.splits)

text \<open>
  Plaintext credentials that a configuration explicitly allows pass its validation, and are refused for HTTP
  upstreams all the same: such a service does not start.
\<close>

lemma insecure_http_upstream_refused:
  assumes "ca_Type (hu_Auth u) = ''bearer''" and "ca_Token (hu_Auth u) \<noteq> []"
    and "ctls_AllowInsecure (hu_TLS u)" and "\<not> ctls_Enabled (hu_TLS u)"
    and "1 \<le> retry_MaxAttempts (hu_Retry u)" and "retry_MaxAttempts (hu_Retry u) \<le> 5" and "0 < retry_InitialBackoff (hu_Retry u)"
    and "retry_InitialBackoff (hu_Retry u) \<le> retry_MaxBackoff (hu_Retry u)" and "retry_Methods (hu_Retry u) = []"
    and "\<not> brk_Enabled (hu_Breaker u)"
  shows "validateClientPolicy name (hu_Auth u) (hu_Retry u) (hu_Breaker u) (hu_TLS u) False = None
    \<and> NewHTTPClient U F name u = Inl (Opaque ''refusing to send outbound HTTP credentials without TLS'')"
  using assms by (simp add: validateClientPolicy_def check_def NewHTTPClient_def)

section \<open>An upstream, for the witnesses\<close>

definition demo_retry_policy :: retry_config where
  "demo_retry_policy = \<lparr>retry_MaxAttempts = 3, retry_InitialBackoff = 100, retry_MaxBackoff = 1000, retry_Methods = [''/s/m'']\<rparr>"

definition demo_http_upstream :: http_upstream_config where
  "demo_http_upstream = \<lparr>hu_BaseURL = ''https://u'', hu_Timeout = 9, hu_Auth = \<lparr>ca_Type = ''bearer'', ca_Token = ''k''\<rparr>, hu_Retry = demo_retry_policy,
     hu_Breaker = no_breaker, hu_TLS = \<lparr>ctls_Enabled = True, ctls_AllowInsecure = False, ctls_ServerName = [], ctls_CAFile = [],
       ctls_CertFile = [], ctls_KeyFile = []\<rparr>\<rparr>"

definition demo_urllib :: urllib where
  "demo_urllib = \<lparr>ul_Parse = (\<lambda>t. Inr (if t = ''https://u'' then \<lparr>url_Scheme = ''https'', url_Host = ''u'', url_Text = t\<rparr>
       else \<lparr>url_Scheme = [], url_Host = [], url_Text = t\<rparr>)), ul_ResolveReference = (\<lambda>b r. url_Text b @ url_Text r)\<rparr>"

definition demo_files :: tls_files where
  "demo_files = \<lparr>tf_ReadFile = (\<lambda>_. Inl IoEOF), tf_AppendCerts = (\<lambda>_. False), tf_LoadX509KeyPair = (\<lambda>_ _. Inl IoEOF)\<rparr>"

text \<open>An upstream that is unavailable once.\<close>

definition demo_net :: http_net where
  "demo_net = \<lparr>hn_NewRequest = (\<lambda>_ _. None),
     hn_Do = (\<lambda>k _. (Some \<lparr>hp_StatusCode = (if k = 1 then 503 else 200), hp_Body = ''b''\<rparr>, None)), hn_wait = (\<lambda>_ _. None),
     hn_overflow = (\<lambda>_. 0)\<rparr>"

definition demo_breaker :: "unit breaker" where
  "demo_breaker = \<lparr>bk_Before = (\<lambda>b. (None, b)), bk_After = (\<lambda>_ b. b)\<rparr>"


definition demo_dial :: dial_config where
  "demo_dial = \<lparr>dl_Target = ''dns:///p:1'', dl_Timeout = 9, dl_Token = [], dl_PSK = ''k'',
     dl_TLS = \<lparr>dt_Enabled = True, dt_ServerName = [], dt_CAFile = [], dt_CertFile = [], dt_KeyFile = [], dt_AllowInsecureToken = False\<rparr>,
     dl_Name = ''p'', dl_Retry = demo_retry_policy, dl_Breaker = no_breaker\<rparr>"

definition demo_call_env :: "nat call_env" where
  "demo_call_env = \<lparr>ce_wait = (\<lambda>_ _ s. (None, s)), ce_Code = (\<lambda>e. case e of GrpcStatus c _ \<Rightarrow> c | _ \<Rightarrow> 2),
     ce_breaker = \<lparr>bk_Before = (\<lambda>s. (None, s)), bk_After = (\<lambda>_ s. s)\<rparr>\<rparr>"

text \<open>An invoker that counts its calls and is unavailable to the first.\<close>

definition demo_invoker :: "nat invoker" where
  "demo_invoker ctx s = ((if s = 0 then Some (GrpcStatus codes_Unavailable []) else None), Suc s)"

definition demo_call :: call_ctx where
  "demo_call = \<lparr>cx_Deadline = None, cx_request_id = None, cx_idempotency_key = Some ''i'', cx_outgoing = []\<rparr>"


end
