(* ===== verification/Export_Pipeline_Laws.thy ===== *)
theory Export_Pipeline_Laws
  imports Export_Pipeline
begin

text \<open>
  What the pipeline promises: a success stored exactly the document of the rows the provider served,
  within the limits, with its size and checksum; a failure stored nothing.  The proofs rest on
  the interfaces \<open>document_writer\<close> (the formatter) and \<open>batch_source\<close> (the provider).
\<close>

section \<open>Errors that end an export\<close>

text \<open>
  A provider stream is only retried for errors of the provider.  \<open>bad\<close> stands for those worth a
  retry; what the destination, the spreadsheet library or the progress report fail with is none.
\<close>

definition quiet :: "(goerror \<Rightarrow> bool) \<Rightarrow> fmt_env \<Rightarrow> bool" where
  "quiet bad F \<longleftrightarrow> \<not> bad ErrByteLimitExceeded
    \<and> (\<forall>sent chunk n e. fe_upload F sent chunk = Some (n, e) \<longrightarrow> \<not> bad e)
    \<and> (\<forall>i e. xl_CellName (fe_excelize F) i = Inl e \<longrightarrow> \<not> bad e)
    \<and> (\<forall>h name vs e. xl_SetRow (fe_excelize F) h name vs = Some e \<longrightarrow> \<not> bad e)"

definition harmless :: "(goerror \<Rightarrow> bool) \<Rightarrow> goerror option \<Rightarrow> bool" where
  "harmless bad r \<longleftrightarrow> (\<forall>e. r = Some e \<longrightarrow> \<not> bad e)"

fun sticky :: "formatter \<Rightarrow> goerror option" where
  "sticky (CsvFormatter _ err) = err"
| "sticky (JsonlFormatter err) = err"
| "sticky (XlsxFormatter _ _ _) = None"

definition calm_out :: "(goerror \<Rightarrow> bool) \<Rightarrow> formatter \<times> sink \<Rightarrow> bool" where
  "calm_out bad fk \<longleftrightarrow> harmless bad (sk_closed (snd fk)) \<and> harmless bad (sticky (fst fk))"

lemma harmless_simps [simp]: "harmless bad None" "harmless bad (Some e) \<longleftrightarrow> \<not> bad e"
  by (simp_all add: harmless_def)

lemma limit_Write_calm:
  assumes "quiet bad F" and "harmless bad (sk_closed k)" and "limit_Write (fe_upload F) s k = ((n, r), k')"
  shows "harmless bad r \<and> harmless bad (sk_closed k')"
  using assms
  by (auto simp: quiet_def limit_Write_def multi_Write_def pipe_Write_def split: option.splits prod.splits if_splits)
    (metis harmless_simps(2))+

lemma buffer_write_calm:
  "up = fe_upload F \<Longrightarrow> quiet bad F \<Longrightarrow> harmless bad (sk_closed k) \<Longrightarrow> buffer_write up pending s k = ((r, pending'), k')
    \<Longrightarrow> harmless bad r \<and> harmless bad (sk_closed k')"
proof (induction up pending s k rule: buffer_write.induct)
  case (1 up pending s k)
  show ?case
  proof (cases "length (pending @ s) \<le> buffer_size")
    case True
    then have "((None, pending @ s), k) = ((r, pending'), k')"
      using 1(5) unfolding buffer_write.simps [of up pending] by simp
    then show ?thesis using 1(4) by auto
  next
    case False
    obtain n e k1 where W: "limit_Write up (take buffer_size (pending @ s)) k = ((n, e), k1)" by (metis prod.exhaust)
    then have k1: "harmless bad e \<and> harmless bad (sk_closed k1)" using limit_Write_calm 1 by blast
    show ?thesis
    proof (cases e)
      case None
      then have "buffer_write up [] (drop buffer_size (pending @ s)) k1 = ((r, pending'), k')"
        using 1(5) False W unfolding buffer_write.simps [of up pending] by simp
      then show ?thesis using 1(1) [OF False W [symmetric] refl None 1(2,3)] k1 by blast
    next
      case (Some x)
      then have "((Some x, []), k1) = ((r, pending'), k')"
        using 1(5) False W unfolding buffer_write.simps [of up pending] by simp
      then show ?thesis using k1 Some by auto
    qed
  qed
qed

lemma csv_Write_calm:
  assumes "quiet bad F" and "harmless bad (sk_closed k)" and "harmless bad err"
    and "csv_Write F record pending err k = (r, f', k')"
  shows "harmless bad r \<and> calm_out bad (f', k') \<and> (\<exists>pending' err'. f' = CsvFormatter pending' err')"
proof (cases err)
  case None
  obtain r1 p1 k1 where B: "buffer_write (fe_upload F) pending (csv_line record) k = ((r1, p1), k1)"
    by (metis prod.exhaust)
  have "harmless bad r1 \<and> harmless bad (sk_closed k1)" using buffer_write_calm [OF refl assms(1,2) B] .
  then show ?thesis using assms(4) None B by (auto simp: csv_Write_def calm_out_def)
qed (use assms in \<open>auto simp: csv_Write_def calm_out_def\<close>)

lemma csv_WriteRows_calm:
  assumes "quiet bad F" and "harmless bad (sk_closed k)" and "harmless bad err"
    and "csv_WriteRows F columns rs pending err k = (r, fk')"
  shows "harmless bad r \<and> calm_out bad fk'"
  using assms(2-)
proof (induction rs arbitrary: pending err k)
  case (Cons x rs)
  let ?rec = "map (\<lambda>c. scalarString (fe_gofmt F) (cell x c)) columns"
  obtain e f1 k1 where W: "csv_Write F ?rec pending err k = (e, f1, k1)" by (metis prod.exhaust)
  obtain p1 e1 where f1: "f1 = CsvFormatter p1 e1" and calm: "harmless bad e" "calm_out bad (f1, k1)"
    using csv_Write_calm [OF assms(1) Cons.prems(1,2) W] by blast
  then show ?case using Cons.IH [of k1 e1 p1] Cons.prems(3) W by (cases e) (auto simp: calm_out_def)
qed (auto simp: calm_out_def)

lemma jsonl_WriteRows_calm:
  assumes "quiet bad F" and "harmless bad (sk_closed k)" and "harmless bad err"
    and "jsonl_WriteRows F columns rs err k = (r, fk')"
  shows "harmless bad r \<and> calm_out bad fk'"
  using assms(2-)
proof (induction rs arbitrary: err k)
  case (Cons x rs)
  obtain n e k1 where W: "limit_Write (fe_upload F) (jsonl_line (fe_gofmt F) columns x) k = ((n, e), k1)"
    by (metis prod.exhaust)
  then have "harmless bad e \<and> harmless bad (sk_closed k1)" using limit_Write_calm assms(1) Cons.prems(1) by blast
  then show ?case using Cons.IH [of k1 None] Cons.prems W by (cases err; cases e) (auto simp: calm_out_def)
qed (auto simp: calm_out_def)

lemma xlsx_write_calm: "quiet bad F \<Longrightarrow> xlsx_write F vs history n = (r, h, m) \<Longrightarrow> harmless bad r"
  by (auto simp: quiet_def xlsx_write_def split: sum.splits option.splits) (metis harmless_simps(2))

lemma xlsx_WriteRows_calm:
  assumes "quiet bad F" shows "xlsx_WriteRows F columns rs history n = (r, h, m) \<Longrightarrow> harmless bad r"
  by (induction rs arbitrary: history n) (auto split: prod.splits option.splits dest: xlsx_write_calm [OF assms])

lemma fmt_WriteHeader_calm:
  assumes "quiet bad F" and "calm_out bad fk" and "fmt_WriteHeader F columns fk = (r, fk')"
  shows "harmless bad r \<and> calm_out bad fk'"
proof -
  obtain f k f' k' where fk: "fk = (f, k)" "fk' = (f', k')" by (metis prod.exhaust)
  show ?thesis
  proof (cases f)
    case (CsvFormatter pending err)
    then have W: "csv_Write F (map col_Title columns) pending err k = (r, f', k')"
      using assms(3) fk by (simp add: fmt_WriteHeader_def)
    have "harmless bad (sk_closed k)" "harmless bad err" using assms(2) fk CsvFormatter by (simp_all add: calm_out_def)
    then show ?thesis using csv_Write_calm [OF assms(1) _ _ W] fk by blast
  next
    case (JsonlFormatter err)
    then show ?thesis using assms(2,3) fk by (auto simp: fmt_WriteHeader_def calm_out_def)
  next
    case (XlsxFormatter history n closed)
    then show ?thesis
      using assms(2,3) fk by (auto simp: fmt_WriteHeader_def calm_out_def split: prod.splits dest: xlsx_write_calm [OF assms(1)])
  qed
qed

lemma fmt_WriteRows_calm:
  assumes "quiet bad F" and "calm_out bad fk" and "fmt_WriteRows F columns rs fk = (r, fk')"
  shows "harmless bad r \<and> calm_out bad fk'"
proof -
  obtain f k where fk: "fk = (f, k)" by (metis prod.exhaust)
  show ?thesis
  proof (cases f)
    case (CsvFormatter pending err)
    then have W: "csv_WriteRows F columns rs pending err k = (r, fk')" using assms(3) fk by (simp add: fmt_WriteRows_def)
    have "harmless bad (sk_closed k)" "harmless bad err" using assms(2) fk CsvFormatter by (simp_all add: calm_out_def)
    then show ?thesis by (rule csv_WriteRows_calm [OF assms(1) _ _ W])
  next
    case (JsonlFormatter err)
    then have W: "jsonl_WriteRows F columns rs err k = (r, fk')" using assms(3) fk by (simp add: fmt_WriteRows_def)
    have "harmless bad (sk_closed k)" "harmless bad err" using assms(2) fk JsonlFormatter by (simp_all add: calm_out_def)
    then show ?thesis by (rule jsonl_WriteRows_calm [OF assms(1) _ _ W])
  next
    case (XlsxFormatter history n closed)
    then show ?thesis
      using assms(2,3) fk
      by (auto simp: fmt_WriteRows_def calm_out_def split: prod.splits dest: xlsx_WriteRows_calm [OF assms(1)])
  qed
qed

section \<open>One batch\<close>

definition progress_keeps :: "('o world \<Rightarrow> bool) \<Rightarrow> 'o progress_fn option \<Rightarrow> bool" where
  "progress_keeps P onProgress \<longleftrightarrow>
    (\<forall>f. onProgress = Some f \<longrightarrow> (\<forall>pr w r w'. f pr w = (r, w') \<longrightarrow> P w \<longrightarrow> P w'))"

definition progress_final :: "(goerror \<Rightarrow> bool) \<Rightarrow> 'o progress_fn option \<Rightarrow> bool" where
  "progress_final bad onProgress \<longleftrightarrow>
    (\<forall>f. onProgress = Some f \<longrightarrow> (\<forall>pr w e w'. f pr w = (Some e, w') \<longrightarrow> \<not> bad e))"

lemma report_frame:
  assumes "report every onProgress b s = (r, s')"
  shows "rs_out s' = rs_out s \<and> rs_rows s' = rs_rows s \<and> rs_columns s' = rs_columns s \<and> rs_wroteHeader s' = rs_wroteHeader s"
  using assms by (auto simp: report_def Let_def split: option.splits prod.splits)

lemma report_world:
  assumes "report every onProgress b s = (r, s')" and "progress_keeps P onProgress" and "P (rs_world s)"
  shows "P (rs_world s')"
  using assms by (auto simp: report_def progress_keeps_def Let_def split: option.splits prod.splits)

lemma report_final:
  assumes "report every onProgress b s = (Some e, s')" and "progress_final bad onProgress"
  shows "\<not> bad e"
  using assms by (auto simp: report_def progress_final_def Let_def split: option.splits prod.splits)

lemma write_header_world: "write_header F b s = (r, s') \<Longrightarrow> rs_world s' = rs_world s \<and> rs_rows s' = rs_rows s"
  by (auto simp: write_header_def Let_def split: if_splits option.splits prod.splits)

lemma write_header_cases:
  assumes "write_header F b s = (r, s')"
  shows "(r = None \<and> s' = s \<and> rs_wroteHeader s) \<or> (r = Some ErrNoColumns \<and> rs_out s' = rs_out s)
    \<or> (bt_Columns b \<noteq> [] \<and> \<not> rs_wroteHeader s \<and> rs_columns s' = bt_Columns b \<and> rs_wroteHeader s' = (r = None)
       \<and> fmt_WriteHeader F (bt_Columns b) (rs_out s) = (r, rs_out s'))"
  using assms by (auto simp: write_header_def Let_def split: if_splits option.splits prod.splits)

text \<open>The stages of a batch, in order.\<close>

lemma run_receive_stages:
  assumes "run_receive F maxRows every onProgress b s = (r, s')"
  obtains (header) e where "write_header F b s = (Some e, s')" "r = Some e"
  | (limit) s1 where "write_header F b s = (None, s1)" "r = Some ErrRowLimitExceeded" "s' = s1"
  | (body) s1 e out where "write_header F b s = (None, s1)" "r = Some e" "s' = s1\<lparr>rs_out := out\<rparr>"
      "fmt_WriteRows F (rs_columns s1) (bt_Rows b) (rs_out s1) = (Some e, out)"
  | (full) s1 out where "write_header F b s = (None, s1)"
      "fmt_WriteRows F (rs_columns s1) (bt_Rows b) (rs_out s1) = (None, out)"
      "i64 (rs_rows s1 + int (length (bt_Rows b))) \<le> maxRows"
      "report every onProgress b
         (s1\<lparr>rs_out := out, rs_rows := i64 (rs_rows s1 + int (length (bt_Rows b)))\<rparr>) = (r, s')"
proof -
  obtain r1 s1 where H: "write_header F b s = (r1, s1)" by fastforce
  show ?thesis
  proof (cases r1)
    case (Some e)
    then have "r = Some e" "s1 = s'" using assms H by (simp_all add: run_receive_def)
    then show ?thesis using header H Some by simp
  next
    case None
    obtain r2 out where W: "fmt_WriteRows F (rs_columns s1) (bt_Rows b) (rs_out s1) = (r2, out)"
      by (metis prod.exhaust)
    show ?thesis
    proof (cases "maxRows < i64 (rs_rows s1 + int (length (bt_Rows b)))")
      case True
      then show ?thesis using assms H None limit by (simp add: run_receive_def)
    next
      case False
      show ?thesis
      proof (cases r2)
        case (Some e)
        then have "r = Some e" "s' = s1\<lparr>rs_out := out\<rparr>" using assms H None W False by (auto simp: run_receive_def)
        then show ?thesis using body [OF H [unfolded None]] W Some by blast
      next
        case None
        then show ?thesis using assms H \<open>r1 = None\<close> W False full by (simp add: run_receive_def)
      qed
    qed
  qed
qed

text \<open>What holds of the output and of the world around a batch, whatever comes of it.\<close>

lemma run_receive_out:
  assumes "run_receive F maxRows every onProgress b s = (r, s')" and "Q (rs_out s)"
    and header: "\<And>cs x r y. fmt_WriteHeader F cs x = (r, y) \<Longrightarrow> Q x \<Longrightarrow> Q y"
    and body: "\<And>cs rs x r y. fmt_WriteRows F cs rs x = (r, y) \<Longrightarrow> Q x \<Longrightarrow> Q y"
  shows "Q (rs_out s')"
proof -
  have H: "Q (rs_out s1)" if "write_header F b s = (r1, s1)" for r1 s1
    using write_header_cases [OF that]
  proof (elim disjE conjE)
    assume "fmt_WriteHeader F (bt_Columns b) (rs_out s) = (r1, rs_out s1)"
    then show ?thesis using assms(2) by (rule header)
  qed (use assms(2) in simp_all)
  show ?thesis using assms(1)
  proof (cases rule: run_receive_stages)
    case (body s1 e out)
    then show ?thesis using H assms(4) by auto
  next
    case (full s1 out)
    then show ?thesis using H assms(4) report_frame [OF full(4)] by auto
  qed (use H in auto)
qed

lemma run_receive_world:
  assumes "run_receive F maxRows every onProgress b s = (r, s')" and "progress_keeps P onProgress" and "P (rs_world s)"
  shows "P (rs_world s')"
  using assms(1)
proof (cases rule: run_receive_stages)
  case (full s1 out)
  then show ?thesis using report_world [OF full(4) assms(2)] write_header_world [OF full(1)] assms(3) by simp
qed (use assms(3) in \<open>auto dest: write_header_world\<close>)

definition final_here :: "(goerror \<Rightarrow> bool) \<Rightarrow> fmt_env \<Rightarrow> 'o progress_fn option \<Rightarrow> bool" where
  "final_here bad F onProgress \<longleftrightarrow> quiet bad F \<and> progress_final bad onProgress
    \<and> \<not> bad ErrNoColumns \<and> \<not> bad ErrRowLimitExceeded"

lemma run_receive_keeps:
  assumes "final_here bad F onProgress"
  shows "keeps (\<lambda>s. calm_out bad (rs_out s)) (run_receive F maxRows every onProgress)"
  unfolding keeps_def
proof (intro allI impI)
  fix b :: batch and x y :: "'a run_state" and e
  assume x: "calm_out bad (rs_out x)" and R: "run_receive F maxRows every onProgress b x = (e, y)"
  have "quiet bad F" using assms by (simp add: final_here_def)
  then show "calm_out bad (rs_out y)"
    using run_receive_out [OF R, of "calm_out bad"] x fmt_WriteHeader_calm fmt_WriteRows_calm by blast
qed

lemma run_receive_final:
  assumes "final_here bad F onProgress" and "calm_out bad (rs_out s)"
    and "run_receive F maxRows every onProgress b s = (Some e, s')"
  shows "\<not> bad e"
proof -
  have q: "quiet bad F" and pf: "progress_final bad onProgress" and n: "\<not> bad ErrNoColumns" "\<not> bad ErrRowLimitExceeded"
    using assms(1) by (simp_all add: final_here_def)
  have H: "harmless bad r1 \<and> (r1 = None \<longrightarrow> calm_out bad (rs_out s1))" if "write_header F b s = (r1, s1)" for r1 s1
    using write_header_cases [OF that]
  proof (elim disjE conjE)
    assume "fmt_WriteHeader F (bt_Columns b) (rs_out s) = (r1, rs_out s1)"
    then show ?thesis using fmt_WriteHeader_calm [OF q assms(2)] by blast
  qed (use assms(2) n(1) in simp_all)
  show ?thesis using assms(3)
  proof (cases rule: run_receive_stages)
    case (body s1 e out)
    then show ?thesis using H [OF body(1)] fmt_WriteRows_calm [OF q _ body(4)] by simp
  next
    case (full s1 out)
    then show ?thesis using report_final [OF full(4) pf] by simp
  qed (use H n in auto)
qed

text \<open>An accepted batch: its rows are in the document, and counted.\<close>

lemma run_receive_taken:
  assumes "run_receive F maxRows every onProgress b s = (None, s')"
    and "if rs_wroteHeader s then taken F (rs_columns s) True rs (rs_out s) else rs = [] \<and> (\<forall>cs. taken F cs False [] (rs_out s))"
  shows "rs_wroteHeader s' \<and> rs_columns s' = (if rs_wroteHeader s then rs_columns s else bt_Columns b)
    \<and> (rs_wroteHeader s \<or> bt_Columns b \<noteq> [])
    \<and> taken F (rs_columns s') True (rs @ bt_Rows b) (rs_out s')
    \<and> rs_rows s' = i64 (rs_rows s + int (length (bt_Rows b))) \<and> rs_rows s' \<le> maxRows"
  using assms(1)
proof (cases rule: run_receive_stages)
  case (full s1 out)
  have s1: "rs_wroteHeader s1 \<and> rs_columns s1 = (if rs_wroteHeader s then rs_columns s else bt_Columns b)
      \<and> (rs_wroteHeader s \<or> bt_Columns b \<noteq> []) \<and> taken F (rs_columns s1) True rs (rs_out s1)"
    using write_header_cases [OF full(1)] assms(2) fmt_WriteHeader_taken [of F "bt_Columns b" "rs_out s" "rs_out s1"]
    by (auto split: if_splits)
  then have "taken F (rs_columns s1) True (rs @ bt_Rows b) out" by (blast intro: fmt_WriteRows_taken [OF full(2)])
  then show ?thesis
    using s1 report_frame [OF full(4)] full(3) write_header_world [OF full(1)] by simp
qed auto

section \<open>The producer\<close>

lemma to_batch_columns [simp]: "bt_Columns (to_batch r) = rp_Columns r"
  unfolding to_batch_def by simp (intro map_idI column.equality, simp_all)

lemma to_batch_rows [simp]: "bt_Rows (to_batch r) = rp_Rows r"
  by (simp add: to_batch_def)

lemma i64_add: "i64 (i64 a + b) = i64 (a + b)"
  unfolding i64_def using signed_take_bit_add [of 63 "signed_take_bit 63 a" b] signed_take_bit_add [of 63 a b] by simp

text \<open>All pages of a dataset, taken in order.\<close>

lemma consume_taken:
  assumes "consume (run_receive F maxRows every onProgress) pages s = (None, s')" and "rs_wroteHeader s"
    and "taken F (rs_columns s) True rs (rs_out s)" and "rs_rows s = i64 (int (length rs))" and "rs_rows s \<le> maxRows"
  shows "rs_wroteHeader s' \<and> rs_columns s' = rs_columns s
    \<and> taken F (rs_columns s) True (rs @ concat (map rp_Rows pages)) (rs_out s')
    \<and> rs_rows s' = i64 (int (length (rs @ concat (map rp_Rows pages)))) \<and> rs_rows s' \<le> maxRows"
  using assms
proof (induction pages arbitrary: s rs)
  case (Cons x xs)
  obtain s1 where R: "run_receive F maxRows every onProgress (to_batch x) s = (None, s1)"
    and C: "consume (run_receive F maxRows every onProgress) xs s1 = (None, s')"
    using Cons.prems(1) by (auto split: prod.splits option.splits)
  have s1: "rs_wroteHeader s1" "rs_columns s1 = rs_columns s" "taken F (rs_columns s1) True (rs @ rp_Rows x) (rs_out s1)"
    "rs_rows s1 = i64 (rs_rows s + int (length (rp_Rows x)))" "rs_rows s1 \<le> maxRows"
    using run_receive_taken [OF R, of rs] Cons.prems(2,3) by auto
  have "rs_rows s1 = i64 (int (length (rs @ rp_Rows x)))" using s1(4) Cons.prems(4) by (simp add: i64_add)
  from Cons.IH [OF C s1(1,3) this s1(5)] show ?case using s1(2) by simp
qed simp

lemma consume_all_taken:
  assumes "consume (run_receive F maxRows every onProgress) pages (start_state f m w) = (None, s')" and "pages \<noteq> []"
    and "\<forall>cs. taken F cs False [] (f, fresh_sink m)"
  shows "rs_wroteHeader s' \<and> rs_columns s' = rp_Columns (hd pages) \<and> rs_columns s' \<noteq> []
    \<and> taken F (rs_columns s') True (concat (map rp_Rows pages)) (rs_out s')
    \<and> rs_rows s' = i64 (int (length (concat (map rp_Rows pages)))) \<and> rs_rows s' \<le> maxRows"
proof -
  obtain x xs where pages: "pages = x # xs" using assms(2) by (cases pages) auto
  obtain s1 where R: "run_receive F maxRows every onProgress (to_batch x) (start_state f m w) = (None, s1)"
    and C: "consume (run_receive F maxRows every onProgress) xs s1 = (None, s')"
    using assms(1) pages by (auto split: prod.splits option.splits)
  have s1: "rs_wroteHeader s1" "rs_columns s1 = rp_Columns x" "rp_Columns x \<noteq> []"
    "taken F (rs_columns s1) True (rp_Rows x) (rs_out s1)" "rs_rows s1 = i64 (int (length (rp_Rows x)))" "rs_rows s1 \<le> maxRows"
    using run_receive_taken [OF R, of "[]"] assms(3) by (auto simp: start_state_def)
  show ?thesis using consume_taken [OF C s1(1,4,5,6)] s1(2,3) pages by simp
qed

text \<open>What holds of the output and of the world in the end, whatever happened.\<close>

lemma Stream_provider:
  "Stream P streams service request receive (p, s) = (r, p', s') \<Longrightarrow> provider_stream P streams p service request receive s = (r, s')"
  by (simp add: provider_stream_def)

lemma produce_cases:
  assumes "produce PL job selected onProgress (p, w) = (r, p', s)"
  obtains (unsupported) e where "NewFormatter (pl_excelize PL) (Format job) = Inl e" "r = Some e" "p' = p"
      "s = start_state (JsonlFormatter None) (pl_maxBytes PL) w"
  | (streamed) f ct r0 s0 rc where "NewFormatter (pl_excelize PL) (Format job) = Inr (f, ct)"
      "Stream (pl_provider PL) (pl_streams PL) (ProviderService job) (run_request PL job selected)
         (run_receive (run_env PL (ObjectKey job) (w_objs w)) (pl_maxRows PL) (pl_progressEvery PL) onProgress)
         (p, start_state f (pl_maxBytes PL) w) = (r0, p', s0)"
      "close_out (run_env PL (ObjectKey job) (w_objs w)) s0 = (rc, s)"
      "r = (case r0 of Some e \<Rightarrow> Some e | None \<Rightarrow> if rs_wroteHeader s0 then rc else Some ErrNoColumns)"
proof (cases "NewFormatter (pl_excelize PL) (Format job)")
  case (Inl e)
  then show ?thesis using assms unsupported by (simp add: produce_def)
next
  case (Inr fct)
  obtain f ct where f: "fct = (f, ct)" by fastforce
  let ?F = "run_env PL (ObjectKey job) (w_objs w)"
  obtain r0 p0 s0 where S: "Stream (pl_provider PL) (pl_streams PL) (ProviderService job) (run_request PL job selected)
      (run_receive ?F (pl_maxRows PL) (pl_progressEvery PL) onProgress) (p, start_state f (pl_maxBytes PL) w) = (r0, p0, s0)"
    by (metis prod.exhaust)
  obtain rc s1 where C: "close_out ?F s0 = (rc, s1)" by fastforce
  have "(case r0 of Some e \<Rightarrow> Some e | None \<Rightarrow> if rs_wroteHeader s0 then rc else Some ErrNoColumns) = r \<and> p0 = p' \<and> s1 = s"
    using assms Inr f S C by (cases r0) (auto simp: produce_def Let_def split: if_splits)
  then show ?thesis using streamed [of f ct r0 s0 rc] Inr f S C by blast
qed

lemma close_out_steady:
  assumes "close_out F s = (r, s')" and "steady m format (rs_out s)"
  shows "steady m format (rs_out s')"
  using assms fmt_Close_steady [of F "rs_out s"] by (auto simp: close_out_def split: prod.splits)

lemma close_out_world: "close_out F s = (r, s') \<Longrightarrow> rs_world s' = rs_world s \<and> rs_rows s' = rs_rows s \<and> rs_columns s' = rs_columns s"
  by (auto simp: close_out_def split: prod.splits)

lemma produce_bounded:
  assumes "produce PL job selected onProgress (p, w) = (r, p', s)" and "0 \<le> pl_maxBytes PL"
  shows "bounded (pl_maxBytes PL) (rs_out s) \<and> (r = None \<longrightarrow> format_of (fst (rs_out s)) = Format job)"
proof -
  have fresh: "bounded (pl_maxBytes PL) (f, fresh_sink (pl_maxBytes PL))" for f
    using assms(2) by (simp add: bounded_def sink_ok_def fresh_sink_def)
  show ?thesis using assms(1)
  proof (cases rule: produce_cases)
    case (streamed f ct r0 s0 rc)
    have "steady (pl_maxBytes PL) (format_of f) (rs_out s0)"
    proof (rule provider.invariant [OF Stream_provider [OF streamed(2)]])
      show "steady (pl_maxBytes PL) (format_of f) (rs_out (start_state f (pl_maxBytes PL) w))"
        by (simp add: start_state_def steady_def fresh)
      show "steady (pl_maxBytes PL) (format_of f) (rs_out y)"
        if "run_receive (run_env PL (ObjectKey job) (w_objs w)) (pl_maxRows PL) (pl_progressEvery PL) onProgress b x = (e, y)"
          "steady (pl_maxBytes PL) (format_of f) (rs_out x)" for b x e y
        using run_receive_out [OF that(1), of "steady (pl_maxBytes PL) (format_of f)"] that(2)
          fmt_WriteHeader_steady fmt_WriteRows_steady by blast
    qed
    then have "steady (pl_maxBytes PL) (format_of f) (rs_out s)" by (rule close_out_steady [OF streamed(3)])
    then show ?thesis using NewFormatter_format [OF streamed(1)] by (simp add: steady_def)
  qed (simp add: start_state_def fresh)
qed

lemma produce_world:
  assumes "produce PL job selected onProgress (p, w) = (r, p', s)" and "progress_keeps P onProgress" and "P w"
  shows "P (rs_world s)"
  using assms(1)
proof (cases rule: produce_cases)
  case (streamed f ct r0 s0 rc)
  have "P (rs_world s0)"
    by (rule provider.invariant [OF Stream_provider [OF streamed(2)]])
      (use assms(2,3) run_receive_world in \<open>auto simp: start_state_def\<close>)
  then show ?thesis using close_out_world [OF streamed(3)] by simp
qed (use assms(3) in \<open>simp add: start_state_def\<close>)

section \<open>The run\<close>

lemma Run_success:
  assumes "Run PL job selected onProgress (p, w) = (Inr res, p', w')"
  obtains s bk where "produce PL job selected onProgress (p, w) = (None, p', s)"
    "sk_closed (snd (rs_out s)) = None"
    "s3_Put_finish (pl_storage PL) (ObjectKey job) (sk_sent (snd (rs_out s))) (contentTypeFor (Format job)) (w_objs (rs_world s))
       = (Inr (sk_written (snd (rs_out s))), bk)"
    "w' = (rs_world s)\<lparr>w_objs := bk\<rparr>"
    "res = \<lparr>plr_Rows = rs_rows s, plr_Bytes = sk_written (snd (rs_out s)),
       plr_Checksum = hex_EncodeToString (pl_sha256 PL (sk_hashed (snd (rs_out s)))),
       plr_ContentType = contentTypeFor (Format job)\<rparr>"
proof -
  obtain r p1 s where P: "produce PL job selected onProgress (p, w) = (r, p1, s)" by (metis prod.exhaust)
  obtain n bk where U: "put_result PL job r (snd (rs_out s)) (w_objs (rs_world s)) = (n, bk)" by fastforce
  have "r = None" and n: "n = Inr (sk_written (snd (rs_out s)))" and "p1 = p'" "w' = (rs_world s)\<lparr>w_objs := bk\<rparr>"
    "res = \<lparr>plr_Rows = rs_rows s, plr_Bytes = sk_written (snd (rs_out s)),
       plr_Checksum = hex_EncodeToString (pl_sha256 PL (sk_hashed (snd (rs_out s)))),
       plr_ContentType = contentTypeFor (Format job)\<rparr>"
    using assms P U by (auto simp: Run_def Let_def group_Wait_def split: option.splits sum.splits if_splits)
  moreover have "sk_closed (snd (rs_out s)) = None" using U n by (auto simp: put_result_def split: option.splits)
  ultimately show ?thesis using that [of s bk] P U by (simp add: put_result_def)
qed

text \<open>The bytes of a document, by format.\<close>

definition document_bytes :: "gofmt \<Rightarrow> excelize \<Rightarrow> string \<Rightarrow> column list \<Rightarrow> row list \<Rightarrow> string \<Rightarrow> bool" where
  "document_bytes G X format columns rs content \<longleftrightarrow>
    (if format = FormatCSV then content = csv_text (csv_records G columns True rs)
     else if format = FormatJSONL then content = jsonl_text G columns rs
     else \<exists>history. sheet X (sheet_rows G columns True rs) history \<and> content = concat (fst (xl_Write X history)))"

lemma document_document_bytes:
  "document F columns rs (f, k) \<Longrightarrow> document_bytes (fe_gofmt F) (fe_excelize F) (format_of f) columns rs (sk_sent k) \<and> live k"
  by (cases f) (auto simp: document_bytes_def FormatCSV_def FormatJSONL_def FormatXLSX_def)

text \<open>The provider serves a dataset: the connection it is asked on streams its pages and resumes at its cursors.\<close>

definition serves ::
  "('c, 'o) pipeline \<Rightarrow> job \<Rightarrow> 'c grpc_provider \<Rightarrow> stream_rows_response list \<Rightarrow> bool" where
  "serves PL job p pages \<longleftrightarrow> pages \<noteq> [] \<and>
    (case fst (client (pl_provider PL) (ProviderService job) (DatasetCode job) p) of
       Inl _ \<Rightarrow> True
     | Inr (connection, _) \<Rightarrow> resumes (pl_streams PL connection) [] pages)"

lemma produce_success:
  assumes P: "produce PL job selected onProgress (p, w) = (None, p', s)"
    and serves: "serves PL job p pages"
    and final: "final_here (worth_retry (pl_streams PL)) (run_env PL (ObjectKey job) (w_objs w)) onProgress"
    and max: "0 \<le> pl_maxBytes PL"
  shows "document_bytes (pl_gofmt PL) (pl_excelize PL) (Format job) (rp_Columns (hd pages)) (concat (map rp_Rows pages))
      (sk_sent (snd (rs_out s)))
    \<and> rp_Columns (hd pages) \<noteq> [] \<and> live (snd (rs_out s))
    \<and> rs_rows s = i64 (int (length (concat (map rp_Rows pages)))) \<and> rs_rows s \<le> pl_maxRows PL"
  using P
proof (cases rule: produce_cases)
  case (streamed f ct r0 s0 rc)
  let ?F = "run_env PL (ObjectKey job) (w_objs w)"
  let ?R = "run_receive ?F (pl_maxRows PL) (pl_progressEvery PL) onProgress"
  let ?s = "start_state f (pl_maxBytes PL) w"
  have ok: "r0 = None" "rc = None" using streamed(4) by (auto split: option.splits if_splits)
  obtain c i p1 where C: "client (pl_provider PL) (ProviderService job) (DatasetCode job) p = (Inr (c, i), p1)"
    using streamed(2) ok by (auto simp: Stream_def run_request_def split: prod.splits sum.splits)
  have "resumes (pl_streams PL c) (sq_Cursor (run_request PL job selected)) pages" "pages \<noteq> []"
    using serves C by (simp_all add: serves_def run_request_def)
  moreover obtain failed where "streamRows (pl_streams PL c) (run_request PL job selected) (pc_Retry (pe_config (pl_provider PL))) ?R ?s
      = ((failed, None), s0)"
    using streamed(2) ok C by (auto simp: Stream_def run_request_def split: prod.splits option.splits)
  moreover have "calm_out (worth_retry (pl_streams PL)) (rs_out ?s)"
    using streamed(1) by (auto simp: calm_out_def start_state_def fresh_sink_def NewFormatter_def split: if_splits option.splits)
  moreover have "\<not> retryableStreamError (se_status_Code (pl_streams PL c)) e"
    if "calm_out (worth_retry (pl_streams PL)) (rs_out x)" "?R b x = (Some e, y)" for b x e y
    using run_receive_final [OF final that] by (auto simp: worth_retry_def)
  ultimately have consumed: "consume ?R pages ?s = (None, s0)"
    by (intro streamRows_pages [OF _ run_receive_keeps [OF final]])
  have fresh: "taken ?F cs False [] (f, fresh_sink (pl_maxBytes PL))" for cs
    using NewFormatter_taken [OF streamed(1)] fresh_sink_live [OF max] by simp
  have taken: "rs_columns s0 = rp_Columns (hd pages)" "rs_columns s0 \<noteq> []"
    "taken ?F (rs_columns s0) True (concat (map rp_Rows pages)) (rs_out s0)"
    "rs_rows s0 = i64 (int (length (concat (map rp_Rows pages))))" "rs_rows s0 \<le> pl_maxRows PL"
    using consume_all_taken [OF consumed \<open>pages \<noteq> []\<close>] fresh by blast+
  have D: "document ?F (rs_columns s0) (concat (map rp_Rows pages)) (rs_out s)"
    using fmt_Close_document [OF _ taken(3)] streamed(3) ok by (auto simp: close_out_def split: prod.splits)
  have "format_of (fst (rs_out s)) = Format job"
    using produce_bounded [OF P max] by simp
  then show ?thesis
    using document_document_bytes [of ?F "rs_columns s0" _ "fst (rs_out s)" "snd (rs_out s)"] D taken close_out_world [OF streamed(3)]
    by (simp add: run_env_def)
qed auto

section \<open>Properties\<close>

definition demo_pipeline :: "(string, bucket) pipeline" where
  "demo_pipeline = \<lparr>pl_provider = demo_provider\<lparr>pe_discovery := None, pe_static := (\<lambda>_. Some ''c'')\<rparr>,
     pl_streams = (\<lambda>_. demo_stream), pl_storage = demo_storage, pl_batchSize = 500, pl_maxRows = 10, pl_maxBytes = 100,
     pl_progressEvery = 1, pl_gofmt = fe_gofmt demo_fmt, pl_excelize = fe_excelize demo_fmt, pl_sha256 = id,
     pl_producer_first = True\<rparr>"

definition demo_gp :: "string grpc_provider" where
  "demo_gp = \<lparr>gp_cursor = 0, gp_connections = (\<lambda>_. None), gp_log = []\<rparr>"

lemmas run_eval = Run_def produce_def put_result_def group_Wait_def run_receive_def write_header_def report_def close_out_def
  start_state_def run_env_def run_request_def Stream_def client_def streamRows_def stream_attempts.simps success_def

lemmas demo_run_eval = run_eval fmt_eval demo_pipeline_def demo_provider_def demo_client_def demo_retry_def demo_stream_def
  demo_pages_def demo_fmt_def demo_created_def demo_job_def demo_gp_def demo_world_def demo_storage_def demo_minio_def zero_job_def
  retryableStreamError_def waitStreamRetry_def s3_Put_read_def s3_Put_finish_def s3_Put_abort_def s3_Enabled_def contentTypeFor_def
  stream_request_of_def i64_def IsSpace_def space_runes_def failure_def

lemma demo_Run:
  "Run demo_pipeline demo_created [] None (demo_gp, demo_world []) =
    (Inr \<lparr>plr_Rows = 2, plr_Bytes = 6, plr_Checksum = hex_EncodeToString (''K'' @ [LF] @ ''v'' @ [LF] @ ''w'' @ [LF]),
       plr_ContentType = ''text/csv; charset=utf-8''\<rparr>, demo_gp,
     demo_world []\<lparr>w_objs := [(''t/a/j.csv'', ''K'' @ [LF] @ ''v'' @ [LF] @ ''w'' @ [LF])]\<rparr>)"
  by (simp add: demo_run_eval)

text \<open>What MinIO promises of an upload: all of it or nothing, and the size it reports.  \<open>get\<close> reads a bucket.\<close>

definition atomic_put :: "'o s3 \<Rightarrow> ('o \<Rightarrow> string \<Rightarrow> string option) \<Rightarrow> bool" where
  "atomic_put S get \<longleftrightarrow>
    (\<forall>key content ct bk. case s3_Put_finish S key content ct bk of
       (Inl e, bk') \<Rightarrow> get bk' = get bk
     | (Inr n, bk') \<Rightarrow> n = int (length content) \<and> get bk' = (get bk)(key \<mapsto> content))
    \<and> (\<forall>key sent cause bk. get (snd (s3_Put_abort S key sent cause bk)) = get bk)"

lemma demo_atomic: "atomic_put demo_storage map_of"
  by (simp add: atomic_put_def s3_Put_finish_def s3_Put_abort_def s3_Enabled_def demo_storage_def demo_minio_def update_conv')

lemma demo_serves: "serves demo_pipeline demo_created demo_gp demo_pages"
  using demo_resumes
  by (simp add: serves_def client_def demo_pipeline_def demo_provider_def demo_gp_def demo_request_def demo_pages_def)

lemma demo_final_here:
  "final_here (worth_retry (pl_streams demo_pipeline)) (run_env demo_pipeline key bk) None"
  by (simp add: final_here_def quiet_def progress_final_def worth_retry_def demo_pipeline_def demo_stream_def run_env_def
      retryableStreamError_def s3_Put_read_def s3_Enabled_def demo_storage_def demo_minio_def demo_fmt_def)

lemma Run_document:
  assumes "Run PL job selected onProgress (p, w) = (Inr res, p', w')"
    and "serves PL job p pages"
    and "final_here (worth_retry (pl_streams PL)) (run_env PL (ObjectKey job) (w_objs w)) onProgress"
    and "0 \<le> pl_maxBytes PL" and "length (concat (map rp_Rows pages)) < 2 ^ 63"
    and "atomic_put (pl_storage PL) get"
  shows "\<exists>content. get (w_objs w') (ObjectKey job) = Some content
    \<and> document_bytes (pl_gofmt PL) (pl_excelize PL) (Format job) (rp_Columns (hd pages)) (concat (map rp_Rows pages)) content
    \<and> plr_Bytes res = int (length content) \<and> plr_Bytes res \<le> pl_maxBytes PL
    \<and> plr_Rows res = int (length (concat (map rp_Rows pages))) \<and> plr_Rows res \<le> pl_maxRows PL
    \<and> plr_Checksum res = hex_EncodeToString (pl_sha256 PL content)"
proof -
  obtain s bk where s: "produce PL job selected onProgress (p, w) = (None, p', s)"
    "s3_Put_finish (pl_storage PL) (ObjectKey job) (sk_sent (snd (rs_out s))) (contentTypeFor (Format job)) (w_objs (rs_world s))
       = (Inr (sk_written (snd (rs_out s))), bk)"
    "w' = (rs_world s)\<lparr>w_objs := bk\<rparr>"
    "res = \<lparr>plr_Rows = rs_rows s, plr_Bytes = sk_written (snd (rs_out s)),
       plr_Checksum = hex_EncodeToString (pl_sha256 PL (sk_hashed (snd (rs_out s)))),
       plr_ContentType = contentTypeFor (Format job)\<rparr>"
    using Run_success [OF assms(1)] .
  note doc = produce_success [OF s(1) assms(2-4)]
  have k: "sink_ok (snd (rs_out s))" "sk_max (snd (rs_out s)) = pl_maxBytes PL" "sk_closed (snd (rs_out s)) = None"
    using produce_bounded [OF s(1) assms(4)] doc by (simp_all add: bounded_def live_def)
  have "get bk (ObjectKey job) = Some (sk_sent (snd (rs_out s)))"
    using assms(6) s(2) unfolding atomic_put_def by (metis (mono_tags, lifting) case_prod_conv fun_upd_same sum.simps(6))
  moreover have "rs_rows s = int (length (concat (map rp_Rows pages)))"
    using doc assms(5) by (simp add: i64_id in_i64_def)
  ultimately show ?thesis using doc k s(3,4) by (auto simp: sink_ok_def)
qed

text \<open>
  C8. A successful export.  When the provider serves a dataset and the errors of the pipeline's own side are not
  ones the provider's stream is retried for, then a run that succeeds has stored under the job's key
  exactly the document of the first page's columns and the rows of all pages, once each and in
  order, however often the stream broke; the reported size, row count and checksum are those of
  this document, and both limits hold.
\<close>

theorem Run_stores_document:
  assumes "Run PL job selected onProgress (p, w) = (Inr res, p', w')"
    and "serves PL job p pages"
    and "final_here (worth_retry (pl_streams PL)) (run_env PL (ObjectKey job) (w_objs w)) onProgress"
    and "0 \<le> pl_maxBytes PL" and "length (concat (map rp_Rows pages)) < 2 ^ 63"
    and "atomic_put (pl_storage PL) get"
  shows "\<exists>content. get (w_objs w') (ObjectKey job) = Some content
    \<and> document_bytes (pl_gofmt PL) (pl_excelize PL) (Format job) (rp_Columns (hd pages)) (concat (map rp_Rows pages)) content
    \<and> plr_Bytes res = int (length content) \<and> plr_Bytes res \<le> pl_maxBytes PL
    \<and> plr_Rows res = int (length (concat (map rp_Rows pages))) \<and> plr_Rows res \<le> pl_maxRows PL
    \<and> plr_Checksum res = hex_EncodeToString (pl_sha256 PL content)"
  by (rule Run_document [OF assms])

theorem Run_stores_document_witness:
  "\<exists>content. map_of (w_objs (snd (snd (Run demo_pipeline demo_created [] None (demo_gp, demo_world []))))) ''t/a/j.csv'' = Some content
    \<and> document_bytes (pl_gofmt demo_pipeline) (pl_excelize demo_pipeline) FormatCSV (rp_Columns (hd demo_pages))
        [[(''k'', GString ''v'')], [(''k'', GString ''w'')]] content"
proof -
  have "pl_storage demo_pipeline = demo_storage" "0 \<le> pl_maxBytes demo_pipeline" by (simp_all add: demo_pipeline_def)
  moreover have "ObjectKey demo_created = ''t/a/j.csv''" "Format demo_created = FormatCSV"
    by (simp_all add: demo_created_def demo_job_def zero_job_def FormatCSV_def)
  moreover have rows: "concat (map rp_Rows demo_pages) = [[(''k'', GString ''v'')], [(''k'', GString ''w'')]]"
    by (simp add: demo_pages_def)
  ultimately show ?thesis
    using Run_stores_document [OF demo_Run demo_serves demo_final_here, of map_of] demo_atomic
    unfolding demo_Run rows by simp
qed



end
