(* ===== verification/Export_Worker.thy ===== *)
theory Export_Worker
  imports Export_Pipeline_Laws
begin

text \<open>
  \<open>internal/export/worker.go\<close>: claiming and running a job, recording how it ended, and the cleaning of
  expired results and of old metadata.

  The deadline of a run reaches the model as errors of the provider's stream, of the upload and of
  the statements; contexts are not modelled beyond that.
\<close>

section \<open>Model\<close>

record ('c, 'o) worker =
  wk_pipeline :: "('c, 'o) pipeline"
  wk_storage :: "'o s3"
  wk_resultTTL :: duration

text \<open>
  \<open>jsonStrings\<close> decodes the first value of a stream: the shortest prefix that is a whole value (for a
  number a longer one may be read, but no number is a string array).
\<close>

definition jsonStrings :: "string \<Rightarrow> string list result" where
  "jsonStrings value =
    (case find (\<lambda>n. json_Valid (take n value)) [0..<Suc (length value)] of
       None \<Rightarrow> Inl (Opaque ''json: invalid value'')
     | Some n \<Rightarrow>
        (case Unmarshal_strings (take n value) of
           None \<Rightarrow> Inl (Opaque ''json: cannot unmarshal into []string'')
         | Some vs \<Rightarrow> Inr vs))"

definition truncate_to :: "string \<Rightarrow> nat \<Rightarrow> string" where
  "truncate_to value m = (if length value \<le> m then value else take m value)"

definition errorCode :: "goerror \<Rightarrow> string" where
  "errorCode err =
    (if errors_Is err ContextDeadlineExceeded then ''timeout''
     else if errors_Is err ContextCanceled then ''canceled''
     else if errors_Is err ErrRowLimitExceeded then ''row_limit_exceeded''
     else if errors_Is err ErrByteLimitExceeded then ''byte_limit_exceeded''
     else if errors_Is err ErrNoColumns then ''invalid_provider_response''
     else ''export_failed'')"

definition percent_of :: "int \<Rightarrow> int \<Rightarrow> int" where
  "percent_of rows estimated = (if 0 < estimated then i32 (min 99 (go_div (i64 (rows * 100)) estimated)) else 0)"

definition on_progress :: "env \<Rightarrow> job \<Rightarrow> 'o progress_fn" where
  "on_progress E job pr w =
    (if \<not> pr_Checkpoint pr then repo_EnsureRunning E (TenantID job) (ApplicationID job) (ID job) w
     else case now E w of (at, w1) \<Rightarrow>
       repo_Progress E (TenantID job) (ApplicationID job) (ID job) (pr_Rows pr) (pr_Bytes pr)
         (percent_of (pr_Rows pr) (pr_EstimatedRows pr)) at w1)"

definition drop_object :: "'o s3 \<Rightarrow> string \<Rightarrow> 'o world \<Rightarrow> 'o world" where
  "drop_object S key w = w\<lparr>w_objs := snd (s3_Delete S key (w_objs w))\<rparr>"

definition fail_tx :: "env \<Rightarrow> job \<Rightarrow> time \<Rightarrow> 'o world \<Rightarrow> (goerror option \<times> unit) \<times> 'o world" where
  "fail_tx E job at w =
    (case repo_Fail E job w of
       (Inl e, w1) \<Rightarrow> ((Some e, ()), w1)
     | (Inr persisted, w1) \<Rightarrow>
        (case addEvent E persisted ''failed'' (UpdatedBy persisted) at w1 of (r, w2) \<Rightarrow> ((r, ()), w2)))"

abbreviation failed_job :: "job \<Rightarrow> string \<Rightarrow> goerror \<Rightarrow> time \<Rightarrow> job" where
  "failed_job job code cause at \<equiv> job\<lparr>Status := StatusFailed, ErrorCode := code,
     ErrorMessage := truncate_to (error_string cause) 2000, CompletedAt := Some at, UpdatedAt := at, UpdatedBy := worker_actor\<rparr>"

definition worker_fail ::
  "('c, 'o) worker \<Rightarrow> env \<Rightarrow> job \<Rightarrow> string \<Rightarrow> goerror \<Rightarrow> 'o world \<Rightarrow> goerror option \<times> 'o world" where
  "worker_fail W E job code cause w =
    (case now E (drop_object (wk_storage W) (ObjectKey job) w) of (at, w1) \<Rightarrow>
      (case Within E (fail_tx E (failed_job job code cause at) at) () w1 of
         ((Some e, _), w2) \<Rightarrow> (Some (Join cause e), w2)
       | ((None, _), w2) \<Rightarrow> (Some cause, w2)))"

definition succeed_tx :: "('c, 'o) worker \<Rightarrow> env \<Rightarrow> job \<Rightarrow> time \<Rightarrow> 'o world \<Rightarrow> (goerror option \<times> unit) \<times> 'o world" where
  "succeed_tx W E job at w =
    (case repo_Succeed E job w of
       (Inl e, w1) \<Rightarrow> ((Some e, ()), drop_object (wk_storage W) (ObjectKey job) w1)
     | (Inr persisted, w1) \<Rightarrow>
        (case addEvent E persisted ''succeeded'' (UpdatedBy persisted) at w1 of (r, w2) \<Rightarrow> ((r, ()), w2)))"

abbreviation succeeded_job :: "('c, 'o) worker \<Rightarrow> job \<Rightarrow> pipeline_result \<Rightarrow> time \<Rightarrow> job" where
  "succeeded_job W job res at \<equiv> job\<lparr>Status := StatusSucceeded, RowsExported := plr_Rows res, BytesWritten := plr_Bytes res,
     ContentType := plr_ContentType res, Checksum := plr_Checksum res, CompletedAt := Some at,
     ExpiresAt := Some (at + wk_resultTTL W), UpdatedAt := at, UpdatedBy := worker_actor\<rparr>"

definition Process ::
  "('c, 'o) worker \<Rightarrow> env \<Rightarrow> string \<Rightarrow> string \<Rightarrow> string \<Rightarrow> 'c grpc_provider \<times> 'o world
    \<Rightarrow> goerror option \<times> 'c grpc_provider \<times> 'o world" where
  "Process W E tenantID applicationID i pw =
    (case pw of (p, w) \<Rightarrow>
      (case now E w of (at, w1) \<Rightarrow>
        (case repo_Claim E tenantID applicationID i at w1 of
           (Inl e, w2) \<Rightarrow> (Some e, p, w2)
         | (Inr None, w2) \<Rightarrow> (None, p, w2)
         | (Inr (Some job), w2) \<Rightarrow>
            (case jsonStrings (SelectedColumnsJSON job) of
               Inl e \<Rightarrow> (case worker_fail W E job ''invalid_definition'' e w2 of (r, w3) \<Rightarrow> (r, p, w3))
             | Inr selected \<Rightarrow>
                (case Run (wk_pipeline W) job selected (Some (on_progress E job)) (p, w2) of
                   (Inl e, p1, w3) \<Rightarrow> (case worker_fail W E job (errorCode e) e w3 of (r, w4) \<Rightarrow> (r, p1, w4))
                 | (Inr res, p1, w3) \<Rightarrow>
                    (case now E w3 of (completed, w4) \<Rightarrow>
                      (case Within E (succeed_tx W E (succeeded_job W job res completed) completed) () w4 of
                         ((r, _), w5) \<Rightarrow> (r, p1, w5))))))))"

text \<open>\<open>CleanupExpired\<close>, its transaction and its loop.\<close>

definition expire_tx :: "env \<Rightarrow> job \<Rightarrow> time \<Rightarrow> 'o world \<Rightarrow> (goerror option \<times> unit) \<times> 'o world" where
  "expire_tx E job at w =
    (case repo_Expire E job at w of
       (Inl e, w1) \<Rightarrow> ((Some e, ()), w1)
     | (Inr persisted, w1) \<Rightarrow>
        (case addEvent E persisted ''expired'' (UpdatedBy persisted) at w1 of (r, w2) \<Rightarrow> ((r, ()), w2)))"

fun cleanup_loop ::
  "('c, 'o) worker \<Rightarrow> env \<Rightarrow> time \<Rightarrow> job list \<Rightarrow> int \<Rightarrow> 'o world \<Rightarrow> (int \<times> goerror option) \<times> 'o world" where
  "cleanup_loop W E at [] cleaned w = ((cleaned, None), w)"
| "cleanup_loop W E at (job # js) cleaned w =
    (case s3_Delete (wk_storage W) (ObjectKey job) (w_objs w) of
       (Some e, bk) \<Rightarrow> ((cleaned, Some e), w\<lparr>w_objs := bk\<rparr>)
     | (None, bk) \<Rightarrow>
        (case Within E (expire_tx E (job\<lparr>Status := StatusExpired, UpdatedAt := at, UpdatedBy := cleaner_actor\<rparr>) at) ()
               (w\<lparr>w_objs := bk\<rparr>) of
           ((Some e, _), w1) \<Rightarrow>
             if errors_Is e ErrStaleVersion then cleanup_loop W E at js cleaned w1 else ((cleaned, Some e), w1)
         | ((None, _), w1) \<Rightarrow> cleanup_loop W E at js (cleaned + 1) w1))"

definition CleanupExpired :: "('c, 'o) worker \<Rightarrow> env \<Rightarrow> int \<Rightarrow> 'o world \<Rightarrow> (int \<times> goerror option) \<times> 'o world" where
  "CleanupExpired W E limit w =
    (if limit \<le> 0 then ((0, Some (Opaque ''cleanup limit must be positive'')), w)
     else case now E w of (at, w1) \<Rightarrow>
       (case repo_ListExpired E at limit w1 of
          (Inl e, w2) \<Rightarrow> ((0, Some e), w2)
        | (Inr js, w2) \<Rightarrow> cleanup_loop W E at js 0 w2))"

text \<open>\<open>PurgeExpiredMetadata\<close>: the closure's \<open>deleted\<close> is the captured value.\<close>

definition purge_tx :: "env \<Rightarrow> job \<Rightarrow> time \<Rightarrow> 'o world \<Rightarrow> (goerror option \<times> bool) \<times> 'o world" where
  "purge_tx E job before w =
    (case repo_DeleteExpiredMetadata E job before w of
       (Inl e, w1) \<Rightarrow> ((Some e, False), w1)
     | (Inr deleted, w1) \<Rightarrow> ((None, deleted), w1))"

fun purge_loop :: "env \<Rightarrow> time \<Rightarrow> job list \<Rightarrow> int \<Rightarrow> 'o world \<Rightarrow> (int \<times> goerror option) \<times> 'o world" where
  "purge_loop E before [] purged w = ((purged, None), w)"
| "purge_loop E before (job # js) purged w =
    (case Within E (purge_tx E job before) False w of
       ((Some e, _), w1) \<Rightarrow> ((purged, Some e), w1)
     | ((None, deleted), w1) \<Rightarrow> purge_loop E before js (if deleted then purged + 1 else purged) w1)"

definition PurgeExpiredMetadata :: "env \<Rightarrow> duration \<Rightarrow> int \<Rightarrow> 'o world \<Rightarrow> (int \<times> goerror option) \<times> 'o world" where
  "PurgeExpiredMetadata E retention limit w =
    (if retention \<le> 0 \<or> limit \<le> 0 then ((0, Some (Opaque ''metadata retention and cleanup limit must be positive'')), w)
     else case now E w of (at, w1) \<Rightarrow>
       (let before = at - retention
        in case repo_ListExpiredMetadataBefore E before limit w1 of
             (Inl e, w2) \<Rightarrow> ((0, Some e), w2)
           | (Inr js, w2) \<Rightarrow> purge_loop E before js 0 w2))"

end
