(* ===== verification/Export_Worker_Laws.thy ===== *)
theory Export_Worker_Laws
  imports Export_Worker
begin

text \<open>
  What the worker promises: all it does to the database are steps of the job life cycle; a job it
  reports done is recorded as succeeded, with the result the pipeline stored; a job it could not
  finish is recorded as failed and its object removed; cleaning removes an object before its job is
  marked expired, and purging removes nothing but old expired jobs.
\<close>

section \<open>Steps\<close>

lemma repo_get_tx_ok:
  assumes "repo_get_tx E t a i w = (Inr p, w')"
  shows "w_db w' = w_db w \<and> lookup_job (w_db w) t a i = Some p"
  using assms
  by (auto simp: repo_get_tx_def lookup_job_def stmt_Get_def select_one_def split: sum.splits prod.splits option.splits
      dest!: sql_tx_Inr)

text \<open>A guarded update in a transaction that reads the row back and announces it.\<close>

locale persisting =
  fixes repo :: "env \<Rightarrow> 'o world \<Rightarrow> job result \<times> 'o world" and st :: "nat stmt" and t a i :: string
  assumes repo_eq: "repo E w =
    (case sql_tx E st w of (r, w1) \<Rightarrow> (case optimistic r of Some e \<Rightarrow> (Inl e, w1) | None \<Rightarrow> repo_get_tx E t a i w1))"
begin

lemma persisted:
  assumes "repo E w = (Inr p, w')"
  obtains n where "n \<noteq> 0" "st (w_db w) = Inr (n, w_db w')" "lookup_job (w_db w') t a i = Some p"
proof -
  obtain r w1 where S: "sql_tx E st w = (r, w1)" by fastforce
  then have "optimistic r = None" and G: "repo_get_tx E t a i w1 = (Inr p, w')"
    using assms by (auto simp: repo_eq split: option.splits)
  then obtain n where "r = Inr n" "n \<noteq> 0" by (auto simp: optimistic_None)
  then show ?thesis using that sql_tx_Inr [of E st w n w1] S repo_get_tx_ok [OF G] by auto
qed

lemma refused:
  assumes "repo E w = (Inl e, w')"
  shows "w_objs w' = w_objs w"
  using assms
  by (auto simp: repo_eq repo_get_tx_def split: prod.splits option.splits sum.splits dest!: sql_tx_frame)

end

interpretation succeed: persisting "\<lambda>E. repo_Succeed E v" "stmt_Succeed v" "TenantID v" "ApplicationID v" "ID v" for v
  by unfold_locales (simp add: repo_Succeed_def)

interpretation fail: persisting "\<lambda>E. repo_Fail E v" "stmt_Fail v" "TenantID v" "ApplicationID v" "ID v" for v
  by unfold_locales (simp add: repo_Fail_def)

interpretation expire: persisting "\<lambda>E. repo_Expire E v at" "stmt_Expire v at" "TenantID v" "ApplicationID v" "ID v" for v at
  by unfold_locales (simp add: repo_Expire_def)

lemma succeed_tx_ok:
  assumes "succeed_tx W E v at w = ((None, u), w')"
  obtains n d1 p where "n \<noteq> 0" "stmt_Succeed v (w_db w) = Inr (n, d1)"
    "lookup_job d1 (TenantID v) (ApplicationID v) (ID v) = Some p" "announced (seal E) p ''succeeded'' d1 (w_db w')"
proof -
  obtain p w1 where R: "repo_Succeed E v w = (Inr p, w1)"
    and A: "addEvent E p ''succeeded'' (UpdatedBy p) at w1 = (None, w')"
    using assms by (auto simp: succeed_tx_def split: prod.splits sum.splits)
  show ?thesis
    by (rule succeed.persisted [OF R]) (use that addEvent_announced [OF A] in blast)
qed

lemma fail_tx_ok:
  assumes "fail_tx E v at w = ((None, u), w')"
  obtains n d1 p where "n \<noteq> 0" "stmt_Fail v (w_db w) = Inr (n, d1)"
    "lookup_job d1 (TenantID v) (ApplicationID v) (ID v) = Some p" "announced (seal E) p ''failed'' d1 (w_db w')"
proof -
  obtain p w1 where R: "repo_Fail E v w = (Inr p, w1)"
    and A: "addEvent E p ''failed'' (UpdatedBy p) at w1 = (None, w')"
    using assms by (auto simp: fail_tx_def split: prod.splits sum.splits)
  show ?thesis
    by (rule fail.persisted [OF R]) (use that addEvent_announced [OF A] in blast)
qed

lemma expire_tx_ok:
  assumes "expire_tx E v at w = ((None, u), w')"
  obtains n d1 p where "n \<noteq> 0" "stmt_Expire v at (w_db w) = Inr (n, d1)"
    "lookup_job d1 (TenantID v) (ApplicationID v) (ID v) = Some p" "announced (seal E) p ''expired'' d1 (w_db w')"
proof -
  obtain p w1 where R: "repo_Expire E v at w = (Inr p, w1)"
    and A: "addEvent E p ''expired'' (UpdatedBy p) at w1 = (None, w')"
    using assms by (auto simp: expire_tx_def split: prod.splits sum.splits)
  show ?thesis
    by (rule expire.persisted [OF R]) (use that addEvent_announced [OF A] in blast)
qed

section \<open>Runs of the life cycle\<close>

lemma now_db [simp]: "w_db (snd (now E w)) = w_db w" "w_objs (snd (now E w)) = w_objs w"
  by (simp_all add: now_def)

lemma nowD: "now E w = (at, w') \<Longrightarrow> w_db w' = w_db w \<and> w_objs w' = w_objs w \<and> at = clock E (w_ticks w) \<and> w_stmts w' = w_stmts w"
  by (auto simp: now_def)

lemma drop_object_db [simp]: "w_db (drop_object S key w) = w_db w"
  by (simp add: drop_object_def)

lemma repo_Claim_run: "repo_Claim E t a i at w = (r, w') \<Longrightarrow> job_run E (w_db w) (w_db w')"
proof -
  assume C: "repo_Claim E t a i at w = (r, w')"
  obtain r1 w1 where S: "sql_auto E (stmt_Claim t a i at) w = (r1, w1)" by fastforce
  have first: "job_run E (w_db w) (w_db w1)"
    by (rule run.sql_auto_run [OF S]) (blast intro: job_run_step job_step.claim)
  show ?thesis
  proof (cases "w' = w1")
    case False
    then obtain x where "repo_Get E t a i w1 = (x, w')"
      using C S by (auto simp: repo_Claim_def split: sum.splits prod.splits if_splits)
    then show ?thesis using first repo_Get_run run.trans by blast
  qed (use first in simp)
qed

lemma on_progress_run: "on_progress E job pr w = (r, w') \<Longrightarrow> job_run E (w_db w) (w_db w')"
proof -
  assume P: "on_progress E job pr w = (r, w')"
  show ?thesis
  proof (cases "pr_Checkpoint pr")
    case False
    then obtain x where S: "sql_auto E (stmt_EnsureRunning (TenantID job) (ApplicationID job) (ID job)) w = (x, w')"
      using P by (auto simp: on_progress_def repo_EnsureRunning_def split: sum.splits prod.splits)
    show ?thesis by (rule run.sql_auto_run [OF S]) (auto simp: stmt_EnsureRunning_def dest: select_one_same)
  next
    case True
    obtain at w1 where N: "now E w = (at, w1)" by fastforce
    obtain x where S: "sql_auto E (stmt_Progress (TenantID job) (ApplicationID job) (ID job) (pr_Rows pr) (pr_Bytes pr)
        (percent_of (pr_Rows pr) (pr_EstimatedRows pr)) at) w1 = (x, w')"
      using P True N by (auto simp: on_progress_def repo_Progress_def split: prod.splits)
    have "job_run E (w_db w1) (w_db w')"
      by (rule run.sql_auto_run [OF S]) (blast intro: job_run_step job_step.progress)
    then show ?thesis using nowD [OF N] by simp
  qed
qed

lemma on_progress_keeps_run: "progress_keeps (\<lambda>w. job_run E d (w_db w)) (Some (on_progress E job))"
  using on_progress_run run.trans by (fastforce simp: progress_keeps_def)

lemma on_progress_objs: "on_progress E job pr w = (r, w') \<Longrightarrow> w_objs w' = w_objs w"
  by (auto simp: on_progress_def repo_EnsureRunning_def repo_Progress_def now_def split: if_splits sum.splits prod.splits
      dest!: sql_auto_frame)

lemma Run_world:
  assumes "Run PL job selected onProgress (p, w) = (r, p', w')" and "progress_keeps P onProgress" and "P w"
    and "\<And>x bk. P x \<Longrightarrow> P (x\<lparr>w_objs := bk\<rparr>)"
  shows "P w'"
proof -
  obtain r1 p1 s where D: "produce PL job selected onProgress (p, w) = (r1, p1, s)" by (metis prod.exhaust)
  have "P (rs_world s)" by (rule produce_world [OF D assms(2,3)])
  then show ?thesis
    using assms(1,4) D by (auto simp: Run_def Let_def split: prod.splits option.splits sum.splits if_splits)
qed

lemma fail_within_run:
  "Within E (fail_tx E v at) () w = (x, w') \<Longrightarrow> CompletedAt v \<noteq> None \<Longrightarrow> job_run E (w_db w) (w_db w')"
  by (cases x) (auto elim!: run.Within_run fail_tx_ok intro: job_run_step job_step.fail)

lemma succeed_within_run:
  "Within E (succeed_tx W E v at) () w = (x, w') \<Longrightarrow> CompletedAt v \<noteq> None \<Longrightarrow> ExpiresAt v \<noteq> None
    \<Longrightarrow> job_run E (w_db w) (w_db w')"
  by (cases x) (auto elim!: run.Within_run succeed_tx_ok intro: job_run_step job_step.succeed)

lemma expire_within_run: "Within E (expire_tx E v at) () w = (x, w') \<Longrightarrow> job_run E (w_db w) (w_db w')"
  by (cases x) (auto elim!: run.Within_run expire_tx_ok intro: job_run_step job_step.expire)

lemma purge_tx_ok:
  assumes "purge_tx E v before w = ((None, b), w')"
  shows "\<exists>n. stmt_DeleteExpiredMetadata v before (w_db w) = Inr (n, w_db w') \<and> b = (n = 1)"
proof -
  obtain n where n: "sql_tx E (stmt_DeleteExpiredMetadata v before) w = (Inr n, w')" "b = (n = 1)"
    using assms by (auto simp: purge_tx_def repo_DeleteExpiredMetadata_def split: sum.splits prod.splits)
  show ?thesis using sql_tx_Inr [OF n(1)] n(2) by simp
qed

lemma purge_within_run: "Within E (purge_tx E v before) cap w = (x, w') \<Longrightarrow> job_run E (w_db w) (w_db w')"
  by (cases x) (auto elim!: run.Within_run intro: job_run_step job_step.purge dest!: purge_tx_ok)

lemma worker_fail_run: "worker_fail W E job code cause w = (r, w') \<Longrightarrow> job_run E (w_db w) (w_db w')"
proof -
  assume F: "worker_fail W E job code cause w = (r, w')"
  obtain at w1 where N: "now E (drop_object (wk_storage W) (ObjectKey job) w) = (at, w1)" by fastforce
  obtain x u w2 where W: "Within E (fail_tx E (failed_job job code cause at) at) () w1 = ((x, u), w2)" by (metis prod.exhaust)
  have "job_run E (w_db w1) (w_db w2)"
    by (rule fail_within_run [OF W]) simp
  moreover have "w2 = w'" using F N W by (auto simp: worker_fail_def split: option.splits)
  ultimately show ?thesis using nowD [OF N] by simp
qed

text \<open>The ways through \<open>Process\<close>.\<close>

lemma Process_cases:
  assumes "Process W E t a i (p, w) = (r, p', w')"
  obtains (unclaimed) "repo_Claim E t a i (clock E (w_ticks w)) (tick w) = (Inr None, w')" "r = None" "p' = p"
  | (lost) e where "repo_Claim E t a i (clock E (w_ticks w)) (tick w) = (Inl e, w')" "r = Some e" "p' = p"
  | (undecodable) job w2 e where "repo_Claim E t a i (clock E (w_ticks w)) (tick w) = (Inr (Some job), w2)"
      "jsonStrings (SelectedColumnsJSON job) = Inl e" "worker_fail W E job ''invalid_definition'' e w2 = (r, w')" "p' = p"
  | (failed) job w2 selected e w3 where "repo_Claim E t a i (clock E (w_ticks w)) (tick w) = (Inr (Some job), w2)"
      "jsonStrings (SelectedColumnsJSON job) = Inr selected"
      "Run (wk_pipeline W) job selected (Some (on_progress E job)) (p, w2) = (Inl e, p', w3)"
      "worker_fail W E job (errorCode e) e w3 = (r, w')"
  | (finished) job w2 selected res w3 u where "repo_Claim E t a i (clock E (w_ticks w)) (tick w) = (Inr (Some job), w2)"
      "jsonStrings (SelectedColumnsJSON job) = Inr selected"
      "Run (wk_pipeline W) job selected (Some (on_progress E job)) (p, w2) = (Inr res, p', w3)"
      "Within E (succeed_tx W E (succeeded_job W job res (clock E (w_ticks w3))) (clock E (w_ticks w3))) () (tick w3) = ((r, u), w')"
proof -
  have N: "now E x = (clock E (w_ticks x), tick x)" for x by (simp add: now_def)
  obtain c w2 where C: "repo_Claim E t a i (clock E (w_ticks w)) (tick w) = (c, w2)" by fastforce
  consider "c = Inr None" | e where "c = Inl e" | job where "c = Inr (Some job)"
    by (metis option.exhaust sum.exhaust)
  then show ?thesis
  proof cases
    case 1
    then show ?thesis using assms C unclaimed by (simp add: Process_def N)
  next
    case 2
    then show ?thesis using assms C lost by (simp add: Process_def N)
  next
    case c: (3 job)
    show ?thesis
    proof (cases "jsonStrings (SelectedColumnsJSON job)")
      case (Inl e)
      then show ?thesis using assms C c undecodable [of job w2 e] by (simp add: Process_def N split: prod.splits)
    next
      case (Inr selected)
      obtain q p1 w3 where R: "Run (wk_pipeline W) job selected (Some (on_progress E job)) (p, w2) = (q, p1, w3)"
        by (metis prod.exhaust)
      show ?thesis
      proof (cases q)
        case (Inl e)
        then show ?thesis using assms C c Inr R failed [of job w2 selected e w3] by (simp add: Process_def N split: prod.splits)
      next
        case res: (Inr res)
        then show ?thesis
          using assms C c Inr R finished [of job w2 selected res w3 "()"] by (simp add: Process_def N split: prod.splits)
      qed
    qed
  qed
qed

lemma Process_run:
  assumes "Process W E t a i (p, w) = (r, p', w')"
  shows "job_run E (w_db w) (w_db w')"
proof -
  have claim: "job_run E (w_db w) (w_db w2)" if "repo_Claim E t a i at (tick w) = (c, w2)" for at c w2
    using repo_Claim_run [OF that] by simp
  have ran: "job_run E (w_db w) (w_db w3)"
    if "repo_Claim E t a i at (tick w) = (c, w2)" "Run PL job selected (Some (on_progress E job)) (p, w2) = (q, p1, w3)"
    for at c w2 PL job selected q p1 w3
    by (rule Run_world [OF that(2) on_progress_keeps_run [of E "w_db w" job]]) (use claim [OF that(1)] in simp_all)
  show ?thesis using assms
  proof (cases rule: Process_cases)
    case (undecodable job w2 e)
    show ?thesis using run.trans [OF claim [OF undecodable(1)] worker_fail_run [OF undecodable(3)]] .
  next
    case (failed job w2 selected e w3)
    show ?thesis using run.trans [OF ran [OF failed(1,3)] worker_fail_run [OF failed(4)]] .
  next
    case (finished job w2 selected res w3 u)
    have "job_run E (w_db w3) (w_db w')" using succeed_within_run [OF finished(4)] by simp
    then show ?thesis using run.trans [OF ran [OF finished(1,3)]] by blast
  qed (use claim in blast)+
qed

lemma cleanup_loop_run: "cleanup_loop W E at js n w = (x, w') \<Longrightarrow> job_run E (w_db w) (w_db w')"
proof (induction js arbitrary: n w)
  case (Cons job js)
  obtain e bk where D: "s3_Delete (wk_storage W) (ObjectKey job) (w_objs w) = (e, bk)" by fastforce
  show ?case
  proof (cases e)
    case None
    let ?v = "job\<lparr>Status := StatusExpired, UpdatedAt := at, UpdatedBy := cleaner_actor\<rparr>"
    obtain r u w1 where W: "Within E (expire_tx E ?v at) () (w\<lparr>w_objs := bk\<rparr>) = ((r, u), w1)" by (metis prod.exhaust)
    have step: "job_run E (w_db w) (w_db w1)" using expire_within_run [OF W] by simp
    have "w' = w1 \<or> (\<exists>m. cleanup_loop W E at js m w1 = (x, w'))"
      using Cons.prems D None W by (auto split: option.splits if_splits)
    then show ?thesis using step Cons.IH run.trans by blast
  next
    case (Some e')
    then show ?thesis using Cons.prems D by auto
  qed
qed simp

lemma purge_loop_run: "purge_loop E before js n w = (x, w') \<Longrightarrow> job_run E (w_db w) (w_db w')"
proof (induction js arbitrary: n w)
  case (Cons job js)
  obtain r d w1 where W: "Within E (purge_tx E job before) False w = ((r, d), w1)" by (metis prod.exhaust)
  have "w' = w1 \<or> (\<exists>m. purge_loop E before js m w1 = (x, w'))"
    using Cons.prems W by (auto split: option.splits)
  then show ?case using purge_within_run [OF W] Cons.IH run.trans by blast
qed simp

lemma stmt_lists_same:
  "stmt_ListExpired at limit d = Inr (xs, d') \<Longrightarrow> d' = d"
  "stmt_ListExpiredMetadataBefore at limit d = Inr (xs, d') \<Longrightarrow> d' = d"
  by (auto simp: stmt_ListExpired_def stmt_ListExpiredMetadataBefore_def split: if_splits)

lemma CleanupExpired_run: "CleanupExpired W E limit w = (x, w') \<Longrightarrow> job_run E (w_db w) (w_db w')"
proof -
  assume C: "CleanupExpired W E limit w = (x, w')"
  obtain at w1 where N: "now E w = (at, w1)" by fastforce
  obtain r w2 where L: "sql_auto E (stmt_ListExpired at limit) w1 = (r, w2)" by fastforce
  have listed: "job_run E (w_db w) (w_db w2)"
    using run.sql_auto_run [OF L] nowD [OF N] by (auto dest: stmt_lists_same)
  have "w' = w \<or> w' = w2 \<or> (\<exists>js. cleanup_loop W E at js 0 w2 = (x, w'))"
    using C N L by (auto simp: CleanupExpired_def repo_ListExpired_def split: if_splits sum.splits)
  then show ?thesis using listed cleanup_loop_run run.trans by blast
qed

lemma PurgeExpiredMetadata_run: "PurgeExpiredMetadata E retention limit w = (x, w') \<Longrightarrow> job_run E (w_db w) (w_db w')"
proof -
  assume C: "PurgeExpiredMetadata E retention limit w = (x, w')"
  obtain at w1 where N: "now E w = (at, w1)" by fastforce
  obtain r w2 where L: "sql_auto E (stmt_ListExpiredMetadataBefore (at - retention) limit) w1 = (r, w2)" by fastforce
  have listed: "job_run E (w_db w) (w_db w2)"
    using run.sql_auto_run [OF L] nowD [OF N] by (auto dest: stmt_lists_same)
  have "w' = w \<or> w' = w2 \<or> (\<exists>js. purge_loop E (at - retention) js 0 w2 = (x, w'))"
    using C N L
    by (auto simp: PurgeExpiredMetadata_def repo_ListExpiredMetadataBefore_def Let_def split: if_splits sum.splits)
  then show ?thesis using listed purge_loop_run run.trans by blast
qed

section \<open>What a run leaves behind\<close>

text \<open>The row a guarded update wrote, read back under its key.\<close>

context keyed_update
begin

lemma written:
  assumes "st d = Inr (n, d')" and "n \<noteq> 0" and "lookup_job d' t a i = Some p"
  obtains j where "j \<in> set (jobs d)" "job_at t a i j" "guard j" "p = eff j"
proof -
  have "table_ok (jobs d')" by (rule constraints [OF assms(1)])
  then have ids: "distinct (map ID (jobs d'))" by (simp add: table_ok_def)
  have "\<exists>j\<in>set (jobs d). job_at t a i j \<and> guard j"
    using run_cases [OF assms(1)] assms(2) affected_zero by (metis (no_types, lifting))
  then obtain j where j: "j \<in> set (jobs d)" "job_at t a i j" "guard j" by blast
  then have "eff j \<in> set (jobs d')" using run_cases [OF assms(1)] by (auto simp: set_update_where)
  moreover have "p \<in> set (jobs d')" "job_at t a i p" using lookup_jobD [OF assms(3)] by auto
  moreover have "ID (eff j) = ID p" using j(2) \<open>job_at t a i p\<close> by (simp add: job_at_def eff_ID)
  ultimately have "p = eff j" using distinct_map_eq [OF ids] by metis
  then show ?thesis using that j by blast
qed

end

lemma announced_lookup: "announced sl j change d d' \<Longrightarrow> lookup_job d' t a i = lookup_job d t a i"
  by (drule announced_jobs) (simp add: lookup_job_def)

text \<open>How a job is recorded as done, and announced.\<close>

definition recorded :: "env \<Rightarrow> string \<Rightarrow> job \<Rightarrow> job \<Rightarrow> db \<Rightarrow> bool" where
  "recorded E change v p d \<longleftrightarrow> lookup_job d (TenantID v) (ApplicationID v) (ID v) = Some p
    \<and> (\<exists>ev before. outbox d = before @ [ev] \<and> oe_Subject (or_event ev) = event_subject change
         \<and> (\<exists>actor at. seal E (event_envelope (oe_ID (or_event ev)) p change actor at) = Inr (oe_Envelope (or_event ev))))"

lemma announced_recorded:
  assumes "announced (seal E) p change d1 d2" and "lookup_job d1 (TenantID v) (ApplicationID v) (ID v) = Some p"
  shows "recorded E change v p d2"
  using announced_outbox [OF assms(1)] announced_lookup [OF assms(1)] assms(2) by (auto simp: recorded_def)

text \<open>A transaction touches the bucket only in its closure.\<close>

lemma Within_objs:
  assumes "Within E fn cap w = ((None, x), w')" and "\<And>w0 w1. fn w0 = ((None, x), w1) \<Longrightarrow> w_objs w1 = w_objs w0"
  shows "w_objs w' = w_objs w"
  using assms
  by (auto simp: Within_def split: if_splits sum.splits prod.splits option.splits sql_fault.splits dest!: sql_auto_frame)

lemma addEvent_objs: "addEvent E j change actor at w = (r, w') \<Longrightarrow> w_objs w' = w_objs w"
  by (auto simp: addEvent_def new_uuid_def repo_AddOutbox_def split: sum.splits prod.splits dest!: sql_tx_frame)

lemma repo_get_tx_objs: "repo_get_tx E t a i w = (r, w') \<Longrightarrow> w_objs w' = w_objs w"
  by (auto simp: repo_get_tx_def split: sum.splits prod.splits dest!: sql_tx_frame)

lemma repo_Succeed_objs: "repo_Succeed E v w = (r, w') \<Longrightarrow> w_objs w' = w_objs w"
  by (auto simp: repo_Succeed_def split: prod.splits option.splits dest!: sql_tx_frame repo_get_tx_objs)

lemma repo_Fail_objs: "repo_Fail E v w = (r, w') \<Longrightarrow> w_objs w' = w_objs w"
  by (auto simp: repo_Fail_def split: prod.splits option.splits dest!: sql_tx_frame repo_get_tx_objs)

lemma succeed_tx_objs: "succeed_tx W E v at w = ((None, u), w') \<Longrightarrow> w_objs w' = w_objs w"
  by (auto simp: succeed_tx_def split: prod.splits sum.splits dest!: repo_Succeed_objs addEvent_objs)

lemma Within_recorded:
  assumes "Within E fn () w = ((None, u), w')"
    and "\<And>w0 w1. fn w0 = ((None, u), w1) \<Longrightarrow> Q (w_db w1)"
  shows "Q (w_db w')"
  by (rule Within_commit [OF assms(1)]) (use assms(2) in metis)

lemma succeed_tx_recorded:
  assumes "succeed_tx W E v at w = ((None, u), w')"
  shows "\<exists>j. recorded E ''succeeded'' v (set_Succeed v j) (w_db w') \<and> Status j = StatusRunning"
proof -
  obtain n d1 q where s: "n \<noteq> 0" "stmt_Succeed v (w_db w) = Inr (n, d1)"
    "lookup_job d1 (TenantID v) (ApplicationID v) (ID v) = Some q" "announced (seal E) q ''succeeded'' d1 (w_db w')"
    using succeed_tx_ok [OF assms] .
  obtain j where "Status j = StatusRunning" "q = set_Succeed v j"
    using succeed.written [OF s(2,1,3)] .
  then show ?thesis using announced_recorded [OF s(4,3)] by blast
qed

lemma fail_tx_recorded:
  assumes "fail_tx E v at w = ((None, u), w')"
  shows "\<exists>j. recorded E ''failed'' v (set_Fail v j) (w_db w') \<and> Status j = StatusRunning"
proof -
  obtain n d1 q where s: "n \<noteq> 0" "stmt_Fail v (w_db w) = Inr (n, d1)"
    "lookup_job d1 (TenantID v) (ApplicationID v) (ID v) = Some q" "announced (seal E) q ''failed'' d1 (w_db w')"
    using fail_tx_ok [OF assms] .
  obtain j where "Status j = StatusRunning" "q = set_Fail v j"
    using fail.written [OF s(2,1,3)] .
  then show ?thesis using announced_recorded [OF s(4,3)] by blast
qed

section \<open>A run of the demonstration instance\<close>

abbreviation demo_csv :: string where
  "demo_csv \<equiv> ''K'' @ [LF] @ ''v'' @ [LF] @ ''w'' @ [LF]"

abbreviation demo_running :: job where
  "demo_running \<equiv> set_Claim 0 demo_created"

definition demo_worker :: "(string, bucket) worker" where
  "demo_worker = \<lparr>wk_pipeline = demo_pipeline, wk_storage = demo_storage, wk_resultTTL = 100\<rparr>"

lemma demo_jsonStrings: "jsonStrings ''[]'' = Inr []"
  by code_simp

lemma demo_Claim: "repo_Claim demo_env ''t'' ''a'' ''j'' 0 (tick (demo_world [demo_created])) =
  (Inr (Some (demo_running)), (demo_world [demo_running])\<lparr>w_ticks := 1, w_stmts := 2\<rparr>)"
  by (simp add: repo_Claim_def stmt_Claim_def repo_Get_def stmt_Get_def service_eval demo_created_def)


lemma demo_percent [simp]: "percent_of 1 2 = 50" "percent_of 2 2 = 99"
  by code_simp+

lemmas demo_process_eval = on_progress_def repo_EnsureRunning_def repo_Progress_def stmt_EnsureRunning_def stmt_Progress_def 
  to_batch_def demo_run_eval service_eval

lemma demo_Run_claimed: "\<exists>w'. Run demo_pipeline (demo_running) [] (Some (on_progress demo_env (demo_running)))
   (demo_gp, (demo_world [demo_running])\<lparr>w_ticks := 1, w_stmts := 2\<rparr>) =
    (Inr \<lparr>plr_Rows = 2, plr_Bytes = 6,
       plr_Checksum = hex_EncodeToString demo_csv,
       plr_ContentType = ''text/csv; charset=utf-8''\<rparr>, demo_gp, w') \<and> jobs (w_db w') = [set_Progress 2 0 99 2 (set_Progress 1 0 50 1 (demo_running))] \<and> outbox (w_db w') = [] \<and> w_ticks w' = 3
   \<and> w_objs w' = [(''t/a/j.csv'', demo_csv)]"
  by (simp add: demo_process_eval)


lemma demo_Process:
  "\<exists>w'. Process demo_worker demo_env ''t'' ''a'' ''j'' (demo_gp, demo_world [demo_created]) = (None, demo_gp, w')
    \<and> map Status (jobs (w_db w')) = [''succeeded''] \<and> w_objs w' = [(''t/a/j.csv'', demo_csv)]"
proof -
  obtain w3 where R: "Run demo_pipeline (demo_running) [] (Some (on_progress demo_env (demo_running)))
     (demo_gp, (demo_world [demo_running])\<lparr>w_ticks := 1, w_stmts := 2\<rparr>) =
    (Inr \<lparr>plr_Rows = 2, plr_Bytes = 6,
       plr_Checksum = hex_EncodeToString demo_csv,
       plr_ContentType = ''text/csv; charset=utf-8''\<rparr>, demo_gp, w3)" 
    and w3: "jobs (w_db w3) = [set_Progress 2 0 99 2 (set_Progress 1 0 50 1 (demo_running))]" "outbox (w_db w3) = []"
       "w_ticks w3 = 3" "w_objs w3 = [(''t/a/j.csv'', demo_csv)]"
    using demo_Run_claimed by blast
  have cols: "SelectedColumnsJSON (demo_running) = ''[]''" by (simp add: demo_created_def)
  have pl: "wk_pipeline demo_worker = demo_pipeline" by (simp add: demo_worker_def)
  have N: "now demo_env (demo_world [demo_created]) = (0, tick (demo_world [demo_created]))" by (simp add: now_def)
  show ?thesis
    by (simp only: Process_def N demo_Claim cols demo_jsonStrings pl R prod.case sum.case option.case)
       (simp add: w3 succeed_tx_def repo_Succeed_def stmt_Succeed_def repo_get_tx_def stmt_Get_def service_eval demo_created_def)
qed

lemmas worker_eval = repo_get_tx_def stmt_Get_def service_eval demo_created_def demo_worker_def drop_object_def s3_Delete_def
  s3_Enabled_def demo_storage_def demo_minio_def

lemma demo_worker_fail:
  "\<exists>w'. worker_fail demo_worker demo_env demo_running ''timeout'' ContextDeadlineExceeded (demo_world [demo_running])
    = (Some ContextDeadlineExceeded, w')"
  by (simp add: worker_fail_def fail_tx_def repo_Fail_def stmt_Fail_def worker_eval)

lemma demo_late:
  "\<exists>w'. Within demo_env (succeed_tx demo_worker demo_env demo_done 5) () (demo_world [demo_failed])
    = ((Some ErrStaleVersion, ()), w')"
  by (simp add: succeed_tx_def repo_Succeed_def stmt_Succeed_def worker_eval demo_failed_def demo_done_def)

section \<open>Properties\<close>

lemma Process_finished:
  assumes "Process W E t a i (p, w) = (None, p', w')"
    and "repo_Claim E t a i (clock E (w_ticks w)) (tick w) = (Inr (Some job), w2)"
  obtains selected res w3 j at where
    "Run (wk_pipeline W) job selected (Some (on_progress E job)) (p, w2) = (Inr res, p', w3)" "Status j = StatusRunning"
    "recorded E ''succeeded'' job (set_Succeed (succeeded_job W job res at) j) (w_db w')" "w_objs w' = w_objs w3"
  using assms(1)
proof (cases rule: Process_cases)
  case (finished job' w2' selected res w3 u)
  then have same: "job' = job" "w2' = w2" using assms(2) by simp_all
  note finished = finished [unfolded same]
  let ?v = "succeeded_job W job res (clock E (w_ticks w3))"
  have "\<exists>j. recorded E ''succeeded'' ?v (set_Succeed ?v j) (w_db w') \<and> Status j = StatusRunning"
    by (rule Within_recorded [OF finished(4)]) (rule succeed_tx_recorded)
  then obtain j where "recorded E ''succeeded'' job (set_Succeed ?v j) (w_db w')" "Status j = StatusRunning"
    by (auto simp: recorded_def)
  moreover have "w_objs w' = w_objs (tick w3)" by (rule Within_objs [OF finished(4)]) (rule succeed_tx_objs)
  ultimately show ?thesis using that [OF finished(3)] by simp
qed (use assms(2) in \<open>auto simp: worker_fail_def split: prod.splits option.splits\<close>)

text \<open>
  A job reported done.  When \<open>Process\<close> returns no error then either there was no queued job to claim, or it claimed the
  job, its pipeline run succeeded, and in one transaction the running row became succeeded with the
  rows, bytes, checksum and content type of that run and an expiry one result lifetime after its
  completion, announced by the last event of the outbox; the bucket is as the run left it.
\<close>

theorem Process_success:
  assumes "Process W E t a i (p, w) = (None, p', w')"
  shows "repo_Claim E t a i (clock E (w_ticks w)) (tick w) = (Inr None, w')
    \<or> (\<exists>job w2 selected res w3 j at. repo_Claim E t a i (clock E (w_ticks w)) (tick w) = (Inr (Some job), w2)
        \<and> Run (wk_pipeline W) job selected (Some (on_progress E job)) (p, w2) = (Inr res, p', w3)
        \<and> Status j = StatusRunning
        \<and> recorded E ''succeeded'' job (set_Succeed (succeeded_job W job res at) j) (w_db w')
        \<and> w_objs w' = w_objs w3)"
proof (cases "repo_Claim E t a i (clock E (w_ticks w)) (tick w) = (Inr None, w')")
  case claimed: False
  obtain job w2 where C: "repo_Claim E t a i (clock E (w_ticks w)) (tick w) = (Inr (Some job), w2)"
    by (rule Process_cases [OF assms]) (use claimed in auto)
  obtain selected res w3 j at where
    "Run (wk_pipeline W) job selected (Some (on_progress E job)) (p, w2) = (Inr res, p', w3)" "Status j = StatusRunning"
    "recorded E ''succeeded'' job (set_Succeed (succeeded_job W job res at) j) (w_db w')" "w_objs w' = w_objs w3"
    by (rule Process_finished [OF assms C])
  then show ?thesis using C
    by - (rule disjI2, rule exI [of _ job], rule exI [of _ w2], rule exI [of _ selected], rule exI [of _ res],
      rule exI [of _ w3], rule exI [of _ j], rule exI [of _ at], intro conjI, assumption+)
qed simp

theorem Process_success_witness:
  "\<exists>w' :: bucket world. w_objs w' = [(''t/a/j.csv'', demo_csv)] \<and> (\<exists>job w2 selected res w3 j at.
    Run demo_pipeline job selected (Some (on_progress demo_env job)) (demo_gp, w2) = (Inr res, demo_gp, w3)
    \<and> Status j = StatusRunning
    \<and> recorded demo_env ''succeeded'' job (set_Succeed (succeeded_job demo_worker job res at) j) (w_db w'))"
proof -
  obtain w' where P: "Process demo_worker demo_env ''t'' ''a'' ''j'' (demo_gp, demo_world [demo_created]) = (None, demo_gp, w')"
    and o: "w_objs w' = [(''t/a/j.csv'', demo_csv)]" using demo_Process by blast
  have pl: "wk_pipeline demo_worker = demo_pipeline" and c: "clock demo_env (w_ticks (demo_world [demo_created])) = 0"
    by (simp_all add: demo_worker_def)
  have "repo_Claim demo_env ''t'' ''a'' ''j'' 0 (tick (demo_world [demo_created])) \<noteq> (Inr None, w')"
    unfolding demo_Claim by (simp only: prod.inject sum.inject option.distinct) simp
  then have "\<exists>job w2 selected res w3 j at. Run demo_pipeline job selected (Some (on_progress demo_env job)) (demo_gp, w2) = (Inr res, demo_gp, w3)
    \<and> Status j = StatusRunning
    \<and> recorded demo_env ''succeeded'' job (set_Succeed (succeeded_job demo_worker job res at) j) (w_db w')"
    using Process_success [OF P, unfolded c pl] by (elim disjE exE conjE) iprover+
  with o show ?thesis by iprover
qed

text \<open>
  C16. A job that failed.  However a run ends, its failure handler first removes the job's object, then records the running row as
  failed, with the error code and at most 2000 bytes of message, announced in the same transaction;
  the cause is always returned, and alone exactly when the record was committed.
\<close>

theorem worker_fail_effect:
  assumes "worker_fail W E job code cause w = (r, w')"
  shows "(\<exists>e. r = Some e \<and> (e = cause \<or> (\<exists>e'. e = Join cause e')))
    \<and> (r = Some cause \<longrightarrow>
        (\<exists>j at. Status j = StatusRunning \<and> recorded E ''failed'' job (set_Fail (failed_job job code cause at) j) (w_db w'))
        \<and> w_objs w' = snd (s3_Delete (wk_storage W) (ObjectKey job) (w_objs w)))
    \<and> length (truncate_to (error_string cause) 2000) \<le> 2000"
proof -
  let ?w = "drop_object (wk_storage W) (ObjectKey job) w"
  obtain x u w2 where W: "Within E (fail_tx E (failed_job job code cause (clock E (w_ticks ?w))) (clock E (w_ticks ?w))) () (tick ?w)
      = ((x, u), w2)" by (metis prod.exhaust)
  have r: "w' = w2" "r = (case x of None \<Rightarrow> Some cause | Some e \<Rightarrow> Some (Join cause e))"
    using assms W by (auto simp: worker_fail_def now_def split: option.splits)
  have neq: "Join cause e \<noteq> cause" for e
  proof
    assume "Join cause e = cause"
    from arg_cong [OF this, of size] show False by simp
  qed
  have "(\<exists>j at. Status j = StatusRunning \<and> recorded E ''failed'' job (set_Fail (failed_job job code cause at) j) (w_db w'))
      \<and> w_objs w' = snd (s3_Delete (wk_storage W) (ObjectKey job) (w_objs w))" if "x = None"
  proof
    let ?v = "failed_job job code cause (clock E (w_ticks ?w))"
    note W' = W [unfolded that]
    have "\<exists>j. recorded E ''failed'' ?v (set_Fail ?v j) (w_db w2) \<and> Status j = StatusRunning"
      by (rule Within_recorded [OF W']) (rule fail_tx_recorded)
    then have "\<exists>j. recorded E ''failed'' job (set_Fail ?v j) (w_db w') \<and> Status j = StatusRunning"
      using r(1) by (simp add: recorded_def)
    then show "\<exists>j at. Status j = StatusRunning \<and> recorded E ''failed'' job (set_Fail (failed_job job code cause at) j) (w_db w')"
      by blast
    have "w_objs w2 = w_objs (tick ?w)"
      by (rule Within_objs [OF W']) (auto simp: fail_tx_def split: prod.splits sum.splits dest!: repo_Fail_objs addEvent_objs)
    then show "w_objs w' = snd (s3_Delete (wk_storage W) (ObjectKey job) (w_objs w))" using r(1) by (simp add: drop_object_def)
  qed
  moreover have "length (truncate_to (error_string cause) 2000) \<le> 2000" by (simp add: truncate_to_def)
  moreover have "x = None \<and> r = Some cause \<or> r \<noteq> Some cause \<and> (\<exists>e. r = Some (Join cause e))"
    using r(2) neq by (cases x) simp_all
  ultimately show ?thesis by blast
qed

theorem worker_fail_effect_witness:
  "\<exists>j at (w' :: bucket world). Status j = StatusRunning
    \<and> recorded demo_env ''failed'' demo_running (set_Fail (failed_job demo_running ''timeout'' ContextDeadlineExceeded at) j) (w_db w')"
proof -
  obtain w' where W: "worker_fail demo_worker demo_env demo_running ''timeout'' ContextDeadlineExceeded (demo_world [demo_running])
    = (Some ContextDeadlineExceeded, w')" using demo_worker_fail by blast
  show ?thesis using worker_fail_effect [OF W] by blast
qed

lemma late_result:
  assumes "db_enabled E" and "sql_faults E = (\<lambda>_. None)"
    and "table_ok (jobs (others E (w_stmts w) (w_db w)))"
    and "\<forall>j. lookup_job (others E (w_stmts w) (w_db w)) (TenantID v) (ApplicationID v) (ID v) = Some j \<longrightarrow> Status j \<noteq> StatusRunning"
    and "Within E (succeed_tx W E v at) () w = ((r, u), w')"
  shows "r = Some ErrStaleVersion \<and> w_db w' = others E (w_stmts w) (w_db w)
    \<and> w_objs w' = snd (s3_Delete (wk_storage W) (ObjectKey v) (w_objs w))"
proof -
  have "stmt_Succeed v (others E (w_stmts w) (w_db w)) = Inr (0, others E (w_stmts w) (w_db w))"
    by (rule succeed.accepted_miss [OF assms(3)]) (use assms(4) in blast)
  then show ?thesis
    using assms(1,2,5)
    by (auto simp: Within_def sql_auto_def sql_tx_def foreign_def Let_def succeed_tx_def repo_Succeed_def optimistic_def drop_object_def)
qed

text \<open>
  C17. Late results are not published.  When the row is no longer running by the time a finished run is recorded (it
  was canceled meanwhile, say), the database is left as the other transactions made it, the
  stored object is removed again and the stale-version error is returned.
\<close>

theorem late_result_dropped:
  assumes "db_enabled E" and "sql_faults E = (\<lambda>_. None)"
    and "table_ok (jobs (others E (w_stmts w) (w_db w)))"
    and "\<forall>j. lookup_job (others E (w_stmts w) (w_db w)) (TenantID v) (ApplicationID v) (ID v) = Some j \<longrightarrow> Status j \<noteq> StatusRunning"
    and "Within E (succeed_tx W E v at) () w = ((r, u), w')"
  shows "r = Some ErrStaleVersion \<and> w_db w' = others E (w_stmts w) (w_db w)
    \<and> w_objs w' = snd (s3_Delete (wk_storage W) (ObjectKey v) (w_objs w))"
  by (rule late_result [OF assms])

theorem late_result_dropped_witness:
  "w_db (snd (Within demo_env (succeed_tx demo_worker demo_env demo_done 5) () (demo_world [demo_failed])))
    = w_db (demo_world [demo_failed])"
proof -
  obtain w' where W: "Within demo_env (succeed_tx demo_worker demo_env demo_done 5) () (demo_world [demo_failed])
    = ((Some ErrStaleVersion, ()), w')" using demo_late by blast
  have "\<forall>j. lookup_job (w_db (demo_world [demo_failed])) (TenantID demo_done) (ApplicationID demo_done) (ID demo_done) = Some j
      \<longrightarrow> Status j \<noteq> StatusRunning"
    by (simp add: lookup_job_def demo_failed_def status_defs)
  moreover have "db_enabled demo_env" "sql_faults demo_env = (\<lambda>_. None)" by (simp_all add: demo_env_def)
  ultimately show ?thesis using late_result_dropped [OF _ _ _ _ W] W by simp
qed

text \<open>
  The progress a checkpoint writes is a percentage below one hundred, which only success sets: for any count of
  rows the product does not overflow on and any estimate, even a wrong one.
\<close>

theorem percent_of_bounds:
  assumes "0 \<le> rows" and "rows * 100 < 2 ^ 63"
  shows "0 \<le> percent_of rows estimated \<and> percent_of rows estimated \<le> 99
    \<and> (0 < estimated \<longrightarrow> rows * 100 div estimated < 99 \<longrightarrow> percent_of rows estimated = rows * 100 div estimated)"
proof (cases "0 < estimated")
  case True
  have i: "i64 (rows * 100) = rows * 100" using assms by (intro i64_id) (simp add: in_i64_def)
  have d: "0 \<le> rows * 100 div estimated" using assms(1) True by (simp add: pos_imp_zdiv_nonneg_iff)
  have "i32 (min 99 (rows * 100 div estimated)) = min 99 (rows * 100 div estimated)"
    using d by (intro i32_id) (auto simp: in_i32_def min_def)
  then have "percent_of rows estimated = min 99 (rows * 100 div estimated)"
    using True i assms(1) by (simp add: percent_of_def go_div_nonneg)
  then show ?thesis using d by (auto simp: min_def)
qed (simp add: percent_of_def)

theorem percent_of_bounds_witness: "percent_of 7 3 \<le> 99 \<and> percent_of 1 3 = 33"
  using percent_of_bounds [of 7 3] percent_of_bounds [of 1 3] by simp

section \<open>Cleaning\<close>

text \<open>What MinIO promises of a removal; \<open>get\<close> reads a bucket.\<close>

definition removes :: "'o s3 \<Rightarrow> ('o \<Rightarrow> string \<Rightarrow> string option) \<Rightarrow> bool" where
  "removes S get \<longleftrightarrow> (\<forall>key bk. get (snd (s3_Delete S key bk)) =
     (if fst (s3_Delete S key bk) = None then (get bk)(key := None) else get bk))"

text \<open>
  The row's status is all a finishing run checks, and the object key of a job never changes: of two workers that
  run the same job (one was still running when the job was canceled, retried and claimed again), the second to finish
  finds the row succeeded, and removes the object the first one's success refers to.
\<close>

lemma second_finish_removes_result:
  assumes "Within E (succeed_tx W E v at) () w = ((None, u), w1)"
    and "db_enabled E" and "sql_faults E = (\<lambda>_. None)" and "table_ok (jobs (w_db w1))"
    and "others E (w_stmts w2) (w_db w2) = w_db w1"
    and "TenantID v' = TenantID v" and "ApplicationID v' = ApplicationID v" and "ID v' = ID v" and "ObjectKey v' = ObjectKey v"
    and "removes (wk_storage W) get" and "fst (s3_Delete (wk_storage W) (ObjectKey v) (w_objs w2)) = None"
    and "Within E (succeed_tx W E v' at') () w2 = ((r, u'), w3)"
  shows "r = Some ErrStaleVersion \<and> get (w_objs w3) (ObjectKey v) = None
    \<and> (\<exists>row. lookup_job (w_db w3) (TenantID v) (ApplicationID v) (ID v) = Some row \<and> Status row = StatusSucceeded)"
proof -
  have "\<exists>j. recorded E ''succeeded'' v (set_Succeed v j) (w_db w1)"
    by (rule Within_recorded [OF assms(1)]) (use succeed_tx_recorded in blast)
  then obtain j where j: "lookup_job (w_db w1) (TenantID v) (ApplicationID v) (ID v) = Some (set_Succeed v j)"
    by (auto simp: recorded_def)
  have "\<forall>x. lookup_job (others E (w_stmts w2) (w_db w2)) (TenantID v') (ApplicationID v') (ID v') = Some x \<longrightarrow> Status x \<noteq> StatusRunning"
    using j assms(5-8) by (simp add: status_defs)
  from late_result [OF assms(2,3) _ this assms(12)]
  have w3: "r = Some ErrStaleVersion" "w_db w3 = w_db w1" "w_objs w3 = snd (s3_Delete (wk_storage W) (ObjectKey v) (w_objs w2))"
    using assms(4,5,9) by simp_all
  have "get (w_objs w3) (ObjectKey v) = None"
    using assms(10,11) unfolding w3(3) removes_def by simp
  then show ?thesis using w3(1,2) j by (simp add: status_defs)
qed

lemma repo_Expire_objs: "repo_Expire E v at w = (r, w') \<Longrightarrow> w_objs w' = w_objs w"
  by (auto simp: repo_Expire_def split: prod.splits option.splits dest!: sql_tx_frame repo_get_tx_objs)

lemma Within_objs_all:
  assumes "Within E fn cap w = (x, w')" and fn: "\<And>w0 y w1. fn w0 = (y, w1) \<Longrightarrow> w_objs w1 = w_objs w0"
  shows "w_objs w' = w_objs w"
proof -
  have snd: "w_objs (snd (fn w0)) = w_objs w0" for w0 by (rule fn [of w0 "fst (fn w0)"]) simp
  show ?thesis
    using assms(1)
    by (auto simp: Within_def Let_def snd split: if_splits sum.splits prod.splits option.splits sql_fault.splits
        dest!: sql_auto_frame fn)
qed

lemma expire_tx_objs: "expire_tx E v at w = (y, w') \<Longrightarrow> w_objs w' = w_objs w"
  by (auto simp: expire_tx_def split: prod.splits sum.splits dest!: repo_Expire_objs addEvent_objs)

lemma expire_within_objs: "Within E (expire_tx E v at) () w = (x, w') \<Longrightarrow> w_objs w' = w_objs w"
  by (erule Within_objs_all) (rule expire_tx_objs)

text \<open>Without other replicas, a row is as before, or one of the listed jobs, marked expired.\<close>

definition only_expired :: "time \<Rightarrow> db \<Rightarrow> job set \<Rightarrow> db \<Rightarrow> bool" where
  "only_expired at d0 js d \<longleftrightarrow> (\<forall>j'\<in>set (jobs d). j' \<in> set (jobs d0)
     \<or> (\<exists>j\<in>js. j \<in> set (jobs d0) \<and> Status j = StatusSucceeded \<and> due at j \<and> j' = set_Expire at j))"

lemma expire_step_only:
  assumes "stmt_Expire v at d = Inr (n, d1)" and "only_expired at d0 js d" and "distinct (map ID (jobs d0))"
    and "v0 \<in> set (jobs d0)" and "ID v = ID v0"
  shows "only_expired at d0 (insert v0 js) d1"
  unfolding only_expired_def
proof
  fix j' assume "j' \<in> set (jobs d1)"
  then consider "j' \<in> set (jobs d)"
    | j where "j \<in> set (jobs d)" "job_at (TenantID v) (ApplicationID v) (ID v) j" "Status j = StatusSucceeded" "due at j" "j' = set_Expire at j"
    using expire.written_row [OF assms(1)] by blast
  then show "j' \<in> set (jobs d0) \<or> (\<exists>j\<in>insert v0 js. j \<in> set (jobs d0) \<and> Status j = StatusSucceeded \<and> due at j \<and> j' = set_Expire at j)"
  proof cases
    case 1
    then show ?thesis using assms(2) by (auto simp: only_expired_def)
  next
    case (2 j)
    then have "j \<in> set (jobs d0)" using assms(2) by (auto simp: only_expired_def status_neq)
    moreover have "ID j = ID v0" using 2(2) assms(5) by (simp add: job_at_def)
    ultimately have "j = v0" using distinct_map_eq [OF assms(3)] assms(4) by metis
    then show ?thesis using 2 assms(4) by blast
  qed
qed

lemma expire_within_only:
  assumes "others E = (\<lambda>_ d. d)" and "Within E (expire_tx E v at) () w = (x, w')" and "only_expired at d0 js (w_db w)"
    and "distinct (map ID (jobs d0))" and "v0 \<in> set (jobs d0)" and "ID v = ID v0"
  shows "only_expired at d0 (insert v0 js) (w_db w')"
proof -
  obtain r u where x: "x = (r, u)" by (cases x)
  have more: "only_expired at d0 (insert v0 js) (w_db w)" using assms(3) by (auto simp: only_expired_def)
  show ?thesis using Within_atomic [OF assms(2) [unfolded x]]
  proof (elim disjE conjE exE)
    assume "w_db w' \<in> {w_db w, others E (w_stmts w) (w_db w)}"
    then show ?thesis using more assms(1) by simp
  next
    fix w0 w1
    assume fn: "expire_tx E v at w0 = ((None, u), w1)" and db: "w_db w' = w_db w1"
      and w0: "w0 = w\<lparr>w_stmts := Suc (w_stmts w), w_db := others E (w_stmts w) (w_db w)\<rparr>"
    obtain n d1 q where e: "stmt_Expire v at (w_db w0) = Inr (n, d1)" "announced (seal E) q ''expired'' d1 (w_db w1)"
      using expire_tx_ok [OF fn] by metis
    have "only_expired at d0 js (w_db w0)" using assms(1,3) w0 by simp
    from expire_step_only [OF e(1) this assms(4-6)] show ?thesis
      using announced_jobs [OF e(2)] db by (simp add: only_expired_def)
  qed
qed

lemma cleanup_loop_effect:
  assumes "others E = (\<lambda>_ d. d)" and "removes (wk_storage W) get" and "distinct (map ID (jobs d0))"
    and "set js \<subseteq> set (jobs d0)" and "only_expired at d0 cs (w_db w)"
    and "cleanup_loop W E at js c w = ((n, r), w')"
  shows "\<exists>k. only_expired at d0 (cs \<union> set (take k js)) (w_db w')
    \<and> get (w_objs w') = (\<lambda>key. if key \<in> ObjectKey ` set (take k js) then None else get (w_objs w) key)
    \<and> c \<le> n \<and> n \<le> c + int (length js) \<and> (r = None \<longrightarrow> length js \<le> k)"
  using assms(4-)
proof (induction js arbitrary: cs c w)
  case Nil
  then show ?case by auto
next
  case (Cons job js)
  obtain e bk where D: "s3_Delete (wk_storage W) (ObjectKey job) (w_objs w) = (e, bk)" by fastforce
  have bk: "get bk = (if e = None then (get (w_objs w))(ObjectKey job := None) else get (w_objs w))"
    using assms(2) D unfolding removes_def by (metis fst_conv snd_conv)
  show ?case
  proof (cases e)
    case (Some e')
    then have "n = c" "r = Some e'" "w' = w\<lparr>w_objs := bk\<rparr>" using Cons.prems(3) D by auto
    then show ?thesis using bk Some Cons.prems(2) by (intro exI [of _ 0]) simp
  next
    case None
    let ?v = "job\<lparr>Status := StatusExpired, UpdatedAt := at, UpdatedBy := cleaner_actor\<rparr>"
    obtain q u w1 where W: "Within E (expire_tx E ?v at) () (w\<lparr>w_objs := bk\<rparr>) = ((q, u), w1)" by (metis prod.exhaust)
    have one: "only_expired at d0 (insert job cs) (w_db w1)"
      by (rule expire_within_only [OF assms(1) W _ assms(3)]) (use Cons.prems in auto)
    have objs: "get (w_objs w1) = (get (w_objs w))(ObjectKey job := None)"
      using expire_within_objs [OF W] bk None by simp
    consider "w' = w1" "n = c" "r \<noteq> None" | c' where "cleanup_loop W E at js c' w1 = ((n, r), w')" "c \<le> c'" "c' \<le> c + 1"
      using Cons.prems(3) D None W by (auto split: option.splits if_splits)
    then show ?thesis
    proof cases
      case 1
      then show ?thesis using one objs by (intro exI [of _ 1]) auto
    next
      case (2 c')
      obtain k where k: "only_expired at d0 (insert job cs \<union> set (take k js)) (w_db w')"
        "get (w_objs w') = (\<lambda>key. if key \<in> ObjectKey ` set (take k js) then None else get (w_objs w1) key)"
        "c' \<le> n" "n \<le> c' + int (length js)" "r = None \<longrightarrow> length js \<le> k"
        using Cons.IH [OF _ one 2(1)] Cons.prems(1) by auto
      then show ?thesis using objs 2(2,3) by (intro exI [of _ "Suc k"]) (auto simp: fun_eq_iff)
    qed
  qed
qed

lemma set_sort_by_take: "set (take k (sort_by le (filter P xs))) \<subseteq> {x \<in> set xs. P x}"
  using set_take_subset [of k "sort_by le (filter P xs)"] by auto

text \<open>
  C18. Cleaning up.  Without other replicas, a cleanup run takes the expired results in the order of their expiry, and
  a bucket that removes what it is told to: the objects it removes are those of some succeeded jobs
  past their expiry, at most \<open>limit\<close> of them and all of the first \<open>limit\<close> when it reports no error; every
  row that changed is one of these jobs, marked expired, so no job is marked whose object is still
  there; and it counts no more jobs than the limit.
\<close>

theorem cleanup_removes_first:
  assumes "others E = (\<lambda>_ d. d)" and "table_ok (jobs (w_db w))" and "removes (wk_storage W) get"
    and "CleanupExpired W E limit w = ((n, r), w')"
  shows "\<exists>cs. set cs \<subseteq> {j \<in> set (jobs (w_db w)). Status j = StatusSucceeded \<and> due (clock E (w_ticks w)) j}
    \<and> length cs \<le> nat limit
    \<and> (r = None \<longrightarrow> cs = take (nat limit) (sort_by earliest_expiry
         (filter (\<lambda>j. Status j = StatusSucceeded \<and> due (clock E (w_ticks w)) j) (jobs (w_db w)))))
    \<and> get (w_objs w') = (\<lambda>key. if key \<in> ObjectKey ` set cs then None else get (w_objs w) key)
    \<and> (\<forall>j'\<in>set (jobs (w_db w')). j' \<in> set (jobs (w_db w)) \<or> (\<exists>j\<in>set cs. j' = set_Expire (clock E (w_ticks w)) j))
    \<and> 0 \<le> n \<and> n \<le> max 0 limit"
proof (cases "0 < limit")
  case False
  then show ?thesis using assms(4) by (auto simp: CleanupExpired_def intro!: exI [of _ "[]"])
next
  case True
  let ?at = "clock E (w_ticks w)"
  obtain q w2 where L: "sql_auto E (stmt_ListExpired ?at limit) (tick w) = (q, w2)" by (metis prod.exhaust)
  have w2: "w_db w2 = w_db w" "w_objs w2 = w_objs w"
    using sql_auto_frame [OF L] sql_auto_db [OF L] assms(1) by (auto dest: stmt_lists_same)
  show ?thesis
  proof (cases q)
    case (Inl e)
    then have "n = 0" "r = Some e" "w' = w2"
      using assms(4) True L by (auto simp: CleanupExpired_def repo_ListExpired_def now_def)
    then show ?thesis using w2 True by (intro exI [of _ "[]"]) simp
  next
    case (Inr js)
    have js: "js = take (nat limit) (sort_by earliest_expiry
         (filter (\<lambda>j. Status j = StatusSucceeded \<and> due ?at j) (jobs (w_db w))))"
      using sql_auto_Inr [OF L [unfolded Inr]] assms(1) by (auto simp: stmt_ListExpired_def)
    have sub: "set js \<subseteq> {j \<in> set (jobs (w_db w)). Status j = StatusSucceeded \<and> due ?at j}"
      unfolding js by (rule set_sort_by_take)
    have loop: "cleanup_loop W E ?at js 0 w2 = ((n, r), w')"
      using assms(4) True L Inr by (auto simp: CleanupExpired_def repo_ListExpired_def now_def)
    have "distinct (map ID (jobs (w_db w)))" using assms(2) by (simp add: table_ok_def)
    from cleanup_loop_effect [OF assms(1,3) this _ _ loop, of "{}"] obtain k where k:
      "only_expired ?at (w_db w) (set (take k js)) (w_db w')"
      "get (w_objs w') = (\<lambda>key. if key \<in> ObjectKey ` set (take k js) then None else get (w_objs w2) key)"
      "0 \<le> n" "n \<le> int (length js)" "r = None \<longrightarrow> length js \<le> k"
      using sub w2 by (auto simp: only_expired_def)
    have len: "length js \<le> nat limit" by (simp add: js)
    then have "n \<le> max 0 limit" using k(4) True by linarith
    moreover have "\<forall>j'\<in>set (jobs (w_db w')). j' \<in> set (jobs (w_db w)) \<or> (\<exists>j\<in>set (take k js). j' = set_Expire ?at j)"
      using k(1) by (auto simp: only_expired_def)
    moreover have "set (take k js) \<subseteq> {j \<in> set (jobs (w_db w)). Status j = StatusSucceeded \<and> due ?at j}"
      by (rule subset_trans [OF set_take_subset sub])
    moreover have "r = None \<longrightarrow> take k js = take (nat limit) (sort_by earliest_expiry
         (filter (\<lambda>j. Status j = StatusSucceeded \<and> due ?at j) (jobs (w_db w))))"
      unfolding js [symmetric] using k(5) by simp
    moreover have "length (take k js) \<le> nat limit" using len by simp
    moreover have "get (w_objs w') = (\<lambda>key. if key \<in> ObjectKey ` set (take k js) then None else get (w_objs w) key)"
      using k(2) unfolding w2(2) .
    ultimately show ?thesis using k(3) by blast
  qed
qed

lemma demo_removes: "removes demo_storage map_of"
  by (simp add: removes_def s3_Delete_def s3_Enabled_def demo_storage_def demo_minio_def delete_conv' fun_upd_def [symmetric])

abbreviation demo_kept :: "bucket world" where
  "demo_kept \<equiv> (demo_world [demo_done])\<lparr>w_objs := [(''t/a/j.csv'', demo_csv)], w_ticks := 200\<rparr>"

theorem cleanup_removes_first_witness:
  "map_of (w_objs (snd (CleanupExpired demo_worker demo_env 5 demo_kept))) ''t/a/j.csv'' = None"
proof -
  obtain n r w' where C: "CleanupExpired demo_worker demo_env 5 demo_kept = ((n, r), w')" by (metis prod.exhaust)
  have r: "r = None"
    using C
    by (auto simp: CleanupExpired_def repo_ListExpired_def stmt_ListExpired_def due_def demo_done_def expire_tx_def repo_Expire_def
        stmt_Expire_def worker_eval)
  have key: "ObjectKey demo_done = ''t/a/j.csv''" and st: "Status demo_done = StatusSucceeded" "ExpiresAt demo_done = Some 103"
    by (simp_all add: demo_done_def demo_job_def zero_job_def status_defs)
  have W: "wk_storage demo_worker = demo_storage" "others demo_env = (\<lambda>_ d. d)" "table_ok (jobs (w_db demo_kept))"
    by (simp_all add: demo_worker_def demo_env_def)
  have "filter (\<lambda>j. Status j = StatusSucceeded \<and> due (clock demo_env (w_ticks demo_kept)) j) (jobs (w_db demo_kept)) = [demo_done]"
    using st by (simp add: due_def)
  with cleanup_removes_first [OF W(2,3) _ C, of map_of] r have
    "map_of (w_objs w') = (\<lambda>key. if key \<in> ObjectKey ` {demo_done} then None else map_of (w_objs demo_kept) key)"
    using W(1) demo_removes by auto
  then show ?thesis using C key by simp
qed

section \<open>Purging\<close>

lemma distinct_count_one: "distinct xs \<Longrightarrow> x \<in> set xs \<Longrightarrow> length (filter (\<lambda>y. x = y) xs) = 1"
  by (induction xs) (auto simp: filter_empty_conv)

lemma purge_within_effect:
  assumes "others E = (\<lambda>_ d. d)" and "Within E (purge_tx E v before) False w = ((r, b), w')"
    and "distinct (map ID js)" and "v \<in> set js" and "Status v = StatusExpired" and "UpdatedAt v < before"
    and "jobs (w_db w) = filter (\<lambda>j. j \<notin> old) js" and "v \<notin> old"
  shows "w_db w' = w_db w \<and> r \<noteq> None
    \<or> w_db w' = w_db w\<lparr>jobs := filter (\<lambda>j. j \<notin> insert v old) js\<rparr> \<and> b"
  using Within_atomic [OF assms(2)]
proof (elim disjE conjE exE)
  assume "w_db w' \<in> {w_db w, others E (w_stmts w) (w_db w)}" "r \<noteq> None"
  then show ?thesis using assms(1) by simp
next
  fix w0 w1
  assume fn: "purge_tx E v before w0 = ((None, b), w1)" and db: "w_db w' = w_db w1"
    and w0: "w0 = w\<lparr>w_stmts := Suc (w_stmts w), w_db := others E (w_stmts w) (w_db w)\<rparr>"
  have d0: "w_db w0 = w_db w" using w0 assms(1) by simp
  obtain n where n: "stmt_DeleteExpiredMetadata v before (w_db w) = Inr (n, w_db w')" "b = (n = 1)"
    using purge_tx_ok [OF fn] d0 db by auto
  have only: "purgeable v before j \<longleftrightarrow> j = v" if "j \<in> set js" for j
    using assms(5,6) distinct_map_eq [OF assms(3) that assms(4)] by (auto simp: purgeable_def job_at_def)
  have "delete_where (purgeable v before) (jobs (w_db w)) = filter (\<lambda>j. j \<notin> insert v old) js"
    unfolding assms(7) delete_where_def filter_filter using only by (intro filter_cong) auto
  moreover have "affected (purgeable v before) (jobs (w_db w)) = 1"
  proof -
    have "filter (purgeable v before) (jobs (w_db w)) = filter (\<lambda>j. v = j) js"
      unfolding assms(7) filter_filter using only assms(8) by (intro filter_cong) auto
    moreover have "length (filter (\<lambda>j. v = j) js) = 1"
      using assms(3,4) by (intro distinct_count_one) (simp_all add: distinct_map)
    ultimately show ?thesis by (simp add: affected_def)
  qed
  ultimately show ?thesis using n by (simp add: stmt_DeleteExpiredMetadata_def)
qed

lemma purge_loop_effect:
  assumes "others E = (\<lambda>_ d. d)" and "distinct (map ID all)"
    and "\<forall>j\<in>set js. j \<in> set all \<and> Status j = StatusExpired \<and> UpdatedAt j < before"
    and "distinct js" and "set js \<inter> old = {}" and "jobs (w_db w) = filter (\<lambda>j. j \<notin> old) all"
    and "purge_loop E before js c w = ((n, r), w')"
  shows "\<exists>k. w_db w' = w_db w\<lparr>jobs := filter (\<lambda>j. j \<notin> old \<union> set (take k js)) all\<rparr>
    \<and> c \<le> n \<and> n \<le> c + int (length (take k js)) \<and> (r = None \<longrightarrow> length js \<le> k \<and> n = c + int (length js))"
  using assms(3-)
proof (induction js arbitrary: old c w)
  case Nil
  then show ?case by (intro exI [of _ 0]) auto
next
  case (Cons v js)
  obtain q b w1 where W: "Within E (purge_tx E v before) False w = ((q, b), w1)" by (metis prod.exhaust)
  have same: "w_db w = w_db w\<lparr>jobs := filter (\<lambda>j. j \<notin> old) all\<rparr>" using Cons.prems(4) by simp
  consider (failed) "w_db w1 = w_db w" "q \<noteq> None"
    | (gone) "w_db w1 = w_db w\<lparr>jobs := filter (\<lambda>j. j \<notin> insert v old) all\<rparr>" "b"
    using purge_within_effect [OF assms(1) W assms(2) _ _ _ Cons.prems(4)] Cons.prems(1,3) by auto
  then show ?case
  proof cases
    case failed
    then have "n = c" "r \<noteq> None" "w' = w1" using Cons.prems(5) W by auto
    then show ?thesis using failed same by (intro exI [of _ 0]) simp
  next
    case gone
    show ?thesis
    proof (cases q)
      case (Some e)
      then have "n = c" "r \<noteq> None" "w' = w1" using Cons.prems(5) W by auto
      then show ?thesis using gone by (intro exI [of _ 1]) simp
    next
      case None
      then have loop: "purge_loop E before js (c + 1) w1 = ((n, r), w')" using Cons.prems(5) W gone(2) by simp
      obtain k where k: "w_db w' = w_db w1\<lparr>jobs := filter (\<lambda>j. j \<notin> insert v old \<union> set (take k js)) all\<rparr>"
        "c + 1 \<le> n" "n \<le> c + 1 + int (length (take k js))" "r = None \<longrightarrow> length js \<le> k \<and> n = c + 1 + int (length js)"
        using Cons.IH [OF _ _ _ _ loop, of "insert v old"] Cons.prems(1-3) gone(1) by auto
      have "insert v old \<union> set (take k js) = old \<union> set (take (Suc k) (v # js))" by auto
      then show ?thesis using k gone(1) by (intro exI [of _ "Suc k"]) auto
    qed
  qed
qed

text \<open>
  C19. Purging metadata.  Without other replicas, the rows that a purge removes are of expired jobs last updated before
  the retention window, at most \<open>limit\<close>; every other row stays as it is and in its place, and the
  outbox is untouched; without an error, the count it returns is the number of removed rows and
  these are the first \<open>limit\<close> by their age.
\<close>

theorem purge_only_old:
  assumes "others E = (\<lambda>_ d. d)" and "table_ok (jobs (w_db w))"
    and "PurgeExpiredMetadata E retention limit w = ((n, r), w')"
  shows "\<exists>old. w_db w' = w_db w\<lparr>jobs := filter (\<lambda>j. j \<notin> set old) (jobs (w_db w))\<rparr>
    \<and> set old \<subseteq> {j \<in> set (jobs (w_db w)). Status j = StatusExpired \<and> UpdatedAt j < clock E (w_ticks w) - retention}
    \<and> distinct old \<and> length old \<le> nat limit \<and> n \<le> int (length old)
    \<and> (r = None \<longrightarrow> n = int (length old) \<and> old = take (nat limit) (sort_by earliest_update
         (filter (\<lambda>j. Status j = StatusExpired \<and> UpdatedAt j < clock E (w_ticks w) - retention) (jobs (w_db w)))))"
proof (cases "retention \<le> 0 \<or> limit \<le> 0")
  case True
  then show ?thesis using assms(3) by (auto simp: PurgeExpiredMetadata_def intro!: exI [of _ "[]"])
next
  case pos: False
  let ?b = "clock E (w_ticks w) - retention"
  obtain q w2 where L: "sql_auto E (stmt_ListExpiredMetadataBefore ?b limit) (tick w) = (q, w2)" by (metis prod.exhaust)
  have w2: "w_db w2 = w_db w"
    using sql_auto_db [OF L] assms(1) by (auto dest: stmt_lists_same)
  show ?thesis
  proof (cases q)
    case (Inl e)
    then have "n = 0" "r = Some e" "w' = w2"
      using assms(3) pos L by (auto simp: PurgeExpiredMetadata_def repo_ListExpiredMetadataBefore_def now_def)
    then show ?thesis using w2 by (intro exI [of _ "[]"]) simp
  next
    case (Inr js)
    have js: "js = take (nat limit) (sort_by earliest_update
         (filter (\<lambda>j. Status j = StatusExpired \<and> UpdatedAt j < ?b) (jobs (w_db w))))"
      using sql_auto_Inr [OF L [unfolded Inr]] assms(1) by (auto simp: stmt_ListExpiredMetadataBefore_def)
    have sub: "set js \<subseteq> {j \<in> set (jobs (w_db w)). Status j = StatusExpired \<and> UpdatedAt j < ?b}"
      unfolding js by (rule set_sort_by_take)
    have loop: "purge_loop E ?b js 0 w2 = ((n, r), w')"
      using assms(3) pos L Inr by (auto simp: PurgeExpiredMetadata_def repo_ListExpiredMetadataBefore_def now_def)
    have ids: "distinct (map ID (jobs (w_db w)))" using assms(2) by (simp add: table_ok_def)
    then have dis: "distinct js" by (simp add: js distinct_map)
    obtain k where k: "w_db w' = w_db w2\<lparr>jobs := filter (\<lambda>j. j \<notin> set (take k js)) (jobs (w_db w))\<rparr>"
      "n \<le> int (length (take k js))" "r = None \<longrightarrow> length js \<le> k \<and> n = int (length js)"
      using purge_loop_effect [OF assms(1) ids _ dis _ _ loop, of "{}"] sub w2 by auto
    have "length (take k js) \<le> nat limit" by (simp add: js)
    moreover have "set (take k js) \<subseteq> {j \<in> set (jobs (w_db w)). Status j = StatusExpired \<and> UpdatedAt j < ?b}"
      by (rule subset_trans [OF set_take_subset sub])
    moreover have "r = None \<longrightarrow> n = int (length (take k js)) \<and> take k js = take (nat limit) (sort_by earliest_update
         (filter (\<lambda>j. Status j = StatusExpired \<and> UpdatedAt j < ?b) (jobs (w_db w))))"
      unfolding js [symmetric] using k(3) by simp
    moreover have "distinct (take k js)" using dis by simp
    moreover have "w_db w' = w_db w\<lparr>jobs := filter (\<lambda>j. j \<notin> set (take k js)) (jobs (w_db w))\<rparr>" using k(1) w2 by simp
    ultimately show ?thesis using k(2) by blast
  qed
qed


abbreviation demo_expired :: job where
  "demo_expired \<equiv> demo_done\<lparr>Status := ''expired'', UpdatedAt := 110\<rparr>"

abbreviation demo_old :: "bucket world" where
  "demo_old \<equiv> (demo_world [demo_expired, demo_created\<lparr>ID := ''i'', IdempotencyKey := ''l''\<rparr>])\<lparr>w_ticks := 200\<rparr>"

theorem purge_only_old_witness:
  "jobs (w_db (snd (PurgeExpiredMetadata demo_env 50 5 demo_old))) = [demo_created\<lparr>ID := ''i'', IdempotencyKey := ''l''\<rparr>]"
proof -
  obtain n r w' where C: "PurgeExpiredMetadata demo_env 50 5 demo_old = ((n, r), w')" by (metis prod.exhaust)
  have r: "r = None"
    using C
    by (auto simp: PurgeExpiredMetadata_def repo_ListExpiredMetadataBefore_def stmt_ListExpiredMetadataBefore_def demo_done_def
        purge_tx_def repo_DeleteExpiredMetadata_def stmt_DeleteExpiredMetadata_def purgeable_def worker_eval)
  have ok: "table_ok (jobs (w_db demo_old))" "others demo_env = (\<lambda>_ d. d)"
    by (simp_all add: service_eval demo_created_def demo_done_def demo_env_def)
  have "filter (\<lambda>j. Status j = StatusExpired \<and> UpdatedAt j < clock demo_env (w_ticks demo_old) - 50) (jobs (w_db demo_old)) = [demo_expired]"
    by (simp add: demo_created_def demo_job_def demo_done_def zero_job_def status_defs)
  with purge_only_old [OF ok(2,1) C] r have
    "w_db w' = w_db demo_old\<lparr>jobs := filter (\<lambda>j. j \<notin> {demo_expired}) (jobs (w_db demo_old))\<rparr>" by auto
  then show ?thesis using C by (simp add: demo_created_def demo_job_def demo_done_def zero_job_def)
qed

end
