(* ===== verification/App_Scheduler.thy ===== *)
theory App_Scheduler
  imports Export_Worker_Laws App_Config Observability
begin

text \<open>
  \<open>internal/cache/redis.go\<close> and \<open>internal/scheduler/scheduler.go\<close>: locks in Redis, and the scheduled jobs.  The
  lock library, Redis and the cron library are parameters.
\<close>

section \<open>Locks\<close>

text \<open>
  The library's mutexes over a state \<open>'r\<close> of Redis: a mutex is its name and lifetime; trying once, waiting with a delay between
  tries, extending and unlocking (whether the lock was still owned, or an error).  The last two recognise the library's errors for a lock
  that is taken: its sentinel, and its error type.
\<close>

record mutex =
  mx_Name :: string
  mx_Expiry :: duration

record 'r redsync =
  rs_TryLock :: "mutex \<Rightarrow> 'r \<Rightarrow> goerror option \<times> 'r"
  rs_Lock :: "mutex \<Rightarrow> duration \<Rightarrow> 'r \<Rightarrow> goerror option \<times> 'r"
  rs_Extend :: "mutex \<Rightarrow> 'r \<Rightarrow> bool result \<times> 'r"
  rs_Unlock :: "mutex \<Rightarrow> 'r \<Rightarrow> bool result \<times> 'r"
  rs_ErrFailed :: "goerror \<Rightarrow> bool"
  rs_ErrTaken :: "goerror \<Rightarrow> bool"

definition isContention :: "'r redsync \<Rightarrow> goerror \<Rightarrow> bool" where
  "isContention R err = (if rs_ErrFailed R err then True else rs_ErrTaken R err)"

definition cache_Open :: "(redis_config \<Rightarrow> 'c) \<Rightarrow> ('c \<Rightarrow> goerror option) \<Rightarrow> redis_config \<Rightarrow> 'c result" where
  "cache_Open newClient ping cfg =
    (let c = newClient cfg
     in case ping c of Some e \<Rightarrow> Inl (Wrap ''ping redis: '' e []) | None \<Rightarrow> Inr c)"

definition lockKeyPrefix :: string where
  "lockKeyPrefix = ''lock:''"

definition newMutex :: "string \<Rightarrow> duration \<Rightarrow> mutex result" where
  "newMutex key ttl =
    (if key = [] then Inl (Opaque ''lock key must not be empty'')
     else if ttl \<le> 0 then Inl (Opaque ''lock ttl must be positive'')
     else Inr \<lparr>mx_Name = lockKeyPrefix @ key, mx_Expiry = ttl\<rparr>)"

text \<open>The result of an attempt that is not an error: the lock, or \<open>None\<close> when it is held elsewhere.\<close>

definition cache_TryLock :: "'r redsync \<Rightarrow> string \<Rightarrow> duration \<Rightarrow> 'r \<Rightarrow> mutex option result \<times> 'r" where
  "cache_TryLock R key ttl r =
    (case newMutex key ttl of
       Inl e \<Rightarrow> (Inl e, r)
     | Inr m \<Rightarrow>
        (case rs_TryLock R m r of
           (Some e, r1) \<Rightarrow> (if isContention R e then (Inr None, r1) else (Inl (Wrap (''try redis lock '' @ key @ '': '') e []), r1))
         | (None, r1) \<Rightarrow> (Inr (Some m), r1)))"

text \<open>\<open>ctx_Err\<close> is the error of the context when the wait has failed.\<close>

definition cache_Lock :: "'r redsync \<Rightarrow> goerror option \<Rightarrow> string \<Rightarrow> duration \<Rightarrow> duration \<Rightarrow> 'r \<Rightarrow> mutex result \<times> 'r" where
  "cache_Lock R ctx_Err key ttl retryDelay r =
    (if retryDelay \<le> 0 then (Inl (Opaque ''lock retry delay must be positive''), r)
     else case newMutex key ttl of
       Inl e \<Rightarrow> (Inl e, r)
     | Inr m \<Rightarrow>
        (case rs_Lock R m retryDelay r of
           (Some e, r1) \<Rightarrow>
             (case ctx_Err of
                Some ctxErr \<Rightarrow> (Inl (Wrap (''wait for redis lock '' @ key @ '': '') ctxErr []), r1)
              | None \<Rightarrow> (Inl (Wrap (''acquire redis lock '' @ key @ '': '') e []), r1))
         | (None, r1) \<Rightarrow> (Inr m, r1)))"

definition lock_owned :: "string \<Rightarrow> mutex \<Rightarrow> bool result \<Rightarrow> goerror option" where
  "lock_owned what m result =
    (case result of
       Inl e \<Rightarrow> Some (Wrap (what @ '' redis lock '' @ mx_Name m @ '': '') e [])
     | Inr ok \<Rightarrow> if \<not> ok then Some (Opaque (what @ '' redis lock '' @ mx_Name m @ '': lock is no longer owned'')) else None)"

definition cache_Extend :: "'r redsync \<Rightarrow> mutex \<Rightarrow> 'r \<Rightarrow> goerror option \<times> 'r" where
  "cache_Extend R m r = (case rs_Extend R m r of (result, r1) \<Rightarrow> (lock_owned ''extend'' m result, r1))"

definition cache_Unlock :: "'r redsync \<Rightarrow> mutex \<Rightarrow> 'r \<Rightarrow> goerror option \<times> 'r" where
  "cache_Unlock R m r = (case rs_Unlock R m r of (result, r1) \<Rightarrow> (lock_owned ''release'' m result, r1))"

section \<open>The jobs\<close>

text \<open>
  What the cron library is given: the specifications with their jobs, in order.  The bodies run on the
  worker and the world; their status only goes to the metrics, where a panic would be caught by the cron library.
\<close>

datatype cron_job = ExportResultCleanup | ExportMetadataCleanup | SampleJob

fun add_jobs :: "(string \<Rightarrow> goerror option) \<Rightarrow> (string \<times> cron_job) list \<Rightarrow> (string \<times> cron_job) list \<Rightarrow> (string \<times> cron_job) list result" where
  "add_jobs parse [] scheduled = Inr scheduled"
| "add_jobs parse ((spec, job) # js) scheduled =
    (if spec = [] then add_jobs parse js scheduled
     else case parse spec of
       Some e \<Rightarrow> Inl e
     | None \<Rightarrow> add_jobs parse js (scheduled @ [(spec, job)]))"

definition scheduler_New ::
  "(string \<Rightarrow> goerror option) \<Rightarrow> (string \<Rightarrow> goerror option) \<Rightarrow> cron_config \<Rightarrow> (string \<times> cron_job) list result" where
  "scheduler_New loadLocation parse cfg =
    (case loadLocation (cron_Timezone cfg) of
       Some e \<Rightarrow> Inl e
     | None \<Rightarrow> add_jobs parse [(cron_ExportCleanupSpec cfg, ExportResultCleanup), (cron_MetadataCleanupSpec cfg, ExportMetadataCleanup),
         (cron_SampleSpec cfg, SampleJob)] [])"

text \<open>What a started scheduler runs.\<close>

definition scheduler_running :: "cron_config \<Rightarrow> (string \<times> cron_job) list \<Rightarrow> (string \<times> cron_job) list" where
  "scheduler_running cfg scheduled = (if cron_Enabled cfg then scheduled else [])"

text \<open>The sample job under its lock: whether it ran.  Without a locker it always runs; a failed unlock is only logged.\<close>

definition runSample :: "'r redsync option \<Rightarrow> 'r \<Rightarrow> (goerror option \<times> bool) \<times> 'r" where
  "runSample locker r =
    (case locker of
       None \<Rightarrow> ((None, True), r)
     | Some R \<Rightarrow>
        (case cache_TryLock R ''cron:sample'' 60000000000 r of
           (Inl e, r1) \<Rightarrow> ((Some e, False), r1)
         | (Inr None, r1) \<Rightarrow> ((None, False), r1)
         | (Inr (Some m), r1) \<Rightarrow> ((None, True), snd (cache_Unlock R m r1))))"

definition run_cron_job ::
  "('c, 'o) worker \<Rightarrow> env \<Rightarrow> cron_config \<Rightarrow> 'r redsync option \<Rightarrow> cron_job \<Rightarrow> 'o world \<times> 'r \<Rightarrow> string \<times> 'o world \<times> 'r" where
  "run_cron_job W E cfg locker job wr =
    (case wr of (w, r) \<Rightarrow>
      (case job of
         ExportResultCleanup \<Rightarrow>
           (case CleanupExpired W E (cron_CleanupBatchSize cfg) w of
              ((cleaned, err), w1) \<Rightarrow> (if err = None then ''success'' else ''error'', w1, r))
       | ExportMetadataCleanup \<Rightarrow>
           (case PurgeExpiredMetadata E (cron_MetadataRetention cfg) (cron_CleanupBatchSize cfg) w of
              ((purged, err), w1) \<Rightarrow> (if err = None then ''success'' else ''error'', w1, r))
       | SampleJob \<Rightarrow>
           (case runSample locker r of ((err, did), r1) \<Rightarrow> (if err = None then ''success'' else ''error'', w, r1))))"

definition cron_job_name :: "cron_job \<Rightarrow> string" where
  "cron_job_name job =
    (case job of
       ExportResultCleanup \<Rightarrow> ''export_result_cleanup''
     | ExportMetadataCleanup \<Rightarrow> ''export_metadata_cleanup''
     | SampleJob \<Rightarrow> ''sample'')"

definition observed_cron_job ::
  "'m meter \<Rightarrow> duration \<Rightarrow> ('c, 'o) worker \<Rightarrow> env \<Rightarrow> cron_config \<Rightarrow> 'r redsync option \<Rightarrow> cron_job \<Rightarrow> ('o world \<times> 'r) \<times> 'm
    \<Rightarrow> ('o world \<times> 'r) \<times> 'm" where
  "observed_cron_job K elapsed W E cfg locker job x =
    (case x of (wr, m) \<Rightarrow>
      (case run_cron_job W E cfg locker job wr of
         (status, wr1) \<Rightarrow>
           (case ObserveCron K (cron_job_name job) status elapsed m of
              Inl p \<Rightarrow> (wr1, m)
            | Inr m1 \<Rightarrow> (wr1, m1))))"

section \<open>Laws\<close>

lemma add_jobs_Inr:
  "add_jobs parse js scheduled = Inr ks \<Longrightarrow> ks = scheduled @ filter (\<lambda>j. fst j \<noteq> []) js
    \<and> (\<forall>(spec, job)\<in>set js. spec \<noteq> [] \<longrightarrow> parse spec = None)"
  by (induction parse js scheduled rule: add_jobs.induct) (auto split: if_splits option.splits)

lemma cron_job_run:
  "run_cron_job W E cfg locker job (w, r) = (status, w', r') \<Longrightarrow> job_run E (w_db w) (w_db w')"
  by (cases job) (auto simp: run_cron_job_def split: prod.splits intro: CleanupExpired_run PurgeExpiredMetadata_run run.refl)

text \<open>A lock that was taken is given back, and what is done under it is done only then.\<close>

lemma runSample_locked:
  assumes "runSample (Some R) r = ((err, did), r')"
  shows "did \<longleftrightarrow> (\<exists>m r1. cache_TryLock R ''cron:sample'' 60000000000 r = (Inr (Some m), r1) \<and> r' = snd (cache_Unlock R m r1))"
  using assms by (auto simp: runSample_def split: prod.splits sum.splits option.splits)

end
