(* ===== verification/Observability_Laws.thy ===== *)
theory Observability_Laws
  imports Transport_Laws Outbound_Laws App_Scheduler
begin

text \<open>
  The observations of every part of the process are well typed: metrics that could be registered are never used with the wrong
  number of values, so observing never panics and never changes an answer.
\<close>

section \<open>Observations\<close>

lemma observe_http_typed: "well_typed (mr_metrics K) \<Longrightarrow> \<exists>r1. observe_http K elapsed c r = Inr r1"
  by (simp add: observe_http_def Let_def well_typedD)

lemma observe_grpc_typed: "well_typed (mr_metrics K) \<Longrightarrow> \<exists>w1. observe_grpc K elapsed method err w = Inr w1"
  by (simp add: observe_grpc_def well_typedD)

lemma HTTPMetrics_typed:
  assumes "well_typed (mr_metrics K)"
  shows "fst (HTTPMetrics K elapsed h x) = fst (h x) \<and> world_of (HTTPMetrics K elapsed h x) = world_of (h x)"
proof -
  obtain c r w where h: "h x = (c, r, w)" by (metis prod.exhaust)
  obtain r1 where "observe_http K elapsed c r = Inr r1" using observe_http_typed [OF assms] by blast
  then show ?thesis by (simp add: HTTPMetrics_def h)
qed

lemma metricsInterceptor_typed:
  assumes "well_typed (mr_metrics K)"
  shows "fst (metricsInterceptor K elapsed method handler ctx req w) = fst (handler ctx req w)"
proof -
  obtain v w1 where h: "handler ctx req w = (v, w1)" by (metis prod.exhaust)
  obtain w2 where "observe_grpc K elapsed method (case v of Inl e \<Rightarrow> Some e | Inr _ \<Rightarrow> None) w1 = Inr w2"
    using observe_grpc_typed [OF assms] by blast
  then show ?thesis by (simp add: metricsInterceptor_def h)
qed

lemma metricsStreamInterceptor_typed:
  assumes "well_typed (mr_metrics K)"
  shows "fst (metricsStreamInterceptor K elapsed method handler ctx w) = fst (handler ctx w)"
proof -
  obtain err w1 where h: "handler ctx w = (err, w1)" by (metis prod.exhaust)
  obtain w2 where "observe_grpc K elapsed method err w1 = Inr w2" using observe_grpc_typed [OF assms] by blast
  then show ?thesis by (simp add: metricsStreamInterceptor_def h)
qed

lemma http_Do_typed:
  assumes "well_typed (mr_metrics K)"
  shows "fst (http_Do U N B (Some K) elapsed c key method path body headers (b, m))
    = fst (http_execute U N B c key method path body headers b)"
proof -
  obtain r fx b1 where x: "http_execute U N B c key method path body headers b = ((r, fx), b1)" by (metis prod.exhaust)
  show ?thesis using http_Do_observed [OF _ x, of "Some K" elapsed m] assms by (auto simp: typed_meter_def x)
qed

lemma client_metrics_typed:
  assumes "well_typed (mr_metrics K)"
  shows "fst (client_metricsInterceptor name K elapsed invoker ctx s) = fst (invoker ctx s)"
proof -
  obtain err s2 where i: "invoker ctx s = (err, s2)" by (metis prod.exhaust)
  show ?thesis using client_metrics_observed [of "Some K" invoker ctx s, OF _ i, of name elapsed] assms by (auto simp: typed_meter_def i)
qed

section \<open>Properties\<close>


text \<open>The library's collectors with a name each, and a meter that counts.\<close>

definition demo_collectors :: collector_names where
  "demo_collectors = \<lparr>cn_Go = [''go_goroutines''], cn_Process = [''process_cpu_seconds_total''], cn_DBStats = (\<lambda>_. [''go_sql_open_connections''])\<rparr>"

lemma demo_NewMetrics: "\<exists>M. NewMetrics demo_collectors default_observability has_db has_redis = Inr M"
  by (rule NewMetrics_ok) (simp add: metric_names demo_collectors_def redis_metric_names_def)


end
