(* ===== verification/App_Events.thy ===== *)
theory App_Events
  imports Export_Worker_Laws App_Config
begin

text \<open>
  \<open>internal/app/export_eventbus.go\<close> and \<open>internal/eventbus\<close>: the runtime that moves the outbox to the bus and
  hands the requested jobs to the worker.  The platform's bus, outbox dispatcher and retention cleaner and the protobuf
  decoder are parameters.
\<close>

section \<open>The bus\<close>

record bus_config =
  bc_URLs :: "string list"
  bc_ClientName :: string
  bc_StreamName :: string
  bc_Subjects :: "string list"
  bc_Storage :: string
  bc_MaxAge :: duration
  bc_DuplicateWindow :: duration
  bc_ConnectTimeout :: duration
  bc_ReconnectWait :: duration
  bc_PublishTimeout :: duration
  bc_ConsumerAckWait :: duration
  bc_ConsumerHandlerTimeout :: duration
  bc_ConsumerMaxDeliver :: int

text \<open>A bus that is not configured is \<open>None\<close>, the nil pointer.\<close>

definition eventbus_New :: "(bus_config \<Rightarrow> 'b result) \<Rightarrow> config \<Rightarrow> 'b option result" where
  "eventbus_New new cfg =
    (if \<not> eb_Enabled (c_EventBus cfg) then Inr None
     else let eventCfg = c_EventBus cfg
       in case new \<lparr>bc_URLs = eb_URLs eventCfg, bc_ClientName = app_Name (c_App cfg), bc_StreamName = eb_StreamName eventCfg,
           bc_Subjects = eb_Subjects eventCfg, bc_Storage = eb_Storage eventCfg, bc_MaxAge = eb_MaxAge eventCfg,
           bc_DuplicateWindow = eb_DuplicateWindow eventCfg, bc_ConnectTimeout = eb_ConnectTimeout eventCfg,
           bc_ReconnectWait = eb_ReconnectWait eventCfg, bc_PublishTimeout = eb_PublishTimeout eventCfg,
           bc_ConsumerAckWait = eb_ConsumerAckWait eventCfg, bc_ConsumerHandlerTimeout = exp_JobTimeout (c_Export cfg),
           bc_ConsumerMaxDeliver = eb_ConsumerMaxDeliver eventCfg\<rparr> of
         Inl e \<Rightarrow> Inl e
       | Inr b \<Rightarrow> Inr (Some b))"

definition eventbus_Publish :: "('b \<Rightarrow> string \<Rightarrow> 'm \<Rightarrow> goerror option) \<Rightarrow> 'b option \<Rightarrow> string \<Rightarrow> 'm \<Rightarrow> goerror option" where
  "eventbus_Publish publish bus subject envelope =
    (case bus of None \<Rightarrow> Some (Opaque ''event bus is disabled'') | Some b \<Rightarrow> publish b subject envelope)"

definition eventbus_Close :: "('b \<Rightarrow> goerror option) \<Rightarrow> 'b option \<Rightarrow> goerror option" where
  "eventbus_Close close bus = (case bus of None \<Rightarrow> None | Some b \<Rightarrow> close b)"

section \<open>The runtime\<close>

record dispatcher_config =
  dc_BatchSize :: int
  dc_Lease :: duration
  dc_RetryDelay :: duration

record retention_config =
  rc_Retention :: duration
  rc_BatchSize :: int

text \<open>The three loops a started runtime runs: what each does and how often, until it is stopped.\<close>

datatype background =
    DispatchEvery duration
  | CleanEvery duration
  | Consume string string

definition runtime_start ::
  "config \<Rightarrow> bool \<Rightarrow> bool \<Rightarrow> (dispatcher_config \<Rightarrow> goerror option) \<Rightarrow> (retention_config \<Rightarrow> goerror option)
    \<Rightarrow> goerror option \<times> background list" where
  "runtime_start cfg has_store has_bus newDispatcher newCleaner =
    (let b = c_EventBus cfg
     in if \<not> eb_Enabled b then (None, [])
        else if \<not> has_store \<or> \<not> has_bus
        then (Some (Opaque ''enabled event bus requires database outbox and JetStream''), [])
        else case newDispatcher \<lparr>dc_BatchSize = eb_DispatchBatchSize b, dc_Lease = eb_DispatchLease b,
            dc_RetryDelay = eb_DispatchRetryDelay b\<rparr> of
          Some e \<Rightarrow> (Some e, [])
        | None \<Rightarrow>
           (case newCleaner \<lparr>rc_Retention = eb_PublishedRetention b, rc_BatchSize = eb_CleanupBatchSize b\<rparr> of
              Some e \<Rightarrow> (Some e, [])
            | None \<Rightarrow> (None, [DispatchEvery (eb_DispatchInterval b), CleanEvery (eb_CleanupInterval b),
                Consume ''data-export-worker-v1'' ''platform.export.job.requested.v1''])))"

text \<open>
  A loop with a ticker: it works once, then waits for the next tick or the end of its context, as long as it is woken by
  ticks.  What it is woken by is given; the errors of the work are logged.  The result says whether the loop has ended.
\<close>

datatype wake = Tick | CtxDone

fun ticker_loop :: "('s \<Rightarrow> goerror option \<times> 's) \<Rightarrow> wake list \<Rightarrow> 's \<Rightarrow> bool \<times> 's" where
  "ticker_loop RunOnce [] s = (False, snd (RunOnce s))"
| "ticker_loop RunOnce (Tick # ws) s = ticker_loop RunOnce ws (snd (RunOnce s))"
| "ticker_loop RunOnce (CtxDone # ws) s = (True, snd (RunOnce s))"

text \<open>\<open>stop\<close> cancels the context of the loops, when \<open>start\<close> has made one, and waits for them.\<close>

definition runtime_cancel :: "config \<Rightarrow> bool \<Rightarrow> bool \<Rightarrow> (dispatcher_config \<Rightarrow> goerror option) \<Rightarrow> bool" where
  "runtime_cancel cfg has_store has_bus newDispatcher \<longleftrightarrow>
    (let b = c_EventBus cfg
     in eb_Enabled b \<and> has_store \<and> has_bus
        \<and> newDispatcher \<lparr>dc_BatchSize = eb_DispatchBatchSize b, dc_Lease = eb_DispatchLease b,
            dc_RetryDelay = eb_DispatchRetryDelay b\<rparr> = None)"

definition runtime_stop :: "bool \<Rightarrow> background list \<Rightarrow> goerror option \<times> background list" where
  "runtime_stop cancel running = (None, if cancel then [] else running)"

text \<open>A delivered envelope and the message in its payload.\<close>

record delivery =
  dl_TenantId :: string
  dl_ApplicationId :: string
  dl_Payload :: string

record job_changed =
  jc_ChangeType :: string
  jc_Job :: "export_job_pb option"

definition handleRequested ::
  "(string \<Rightarrow> job_changed result) \<Rightarrow> ('c, 'o) worker \<Rightarrow> env \<Rightarrow> delivery \<Rightarrow> 'c grpc_provider \<times> 'o world
    \<Rightarrow> goerror option \<times> 'c grpc_provider \<times> 'o world" where
  "handleRequested unmarshal W E m pw =
    (case unmarshal (dl_Payload m) of
       Inl e \<Rightarrow> (Some e, pw)
     | Inr payload \<Rightarrow>
        (case jc_Job payload of
           None \<Rightarrow> (Some (Opaque ''invalid export requested event''), pw)
         | Some job \<Rightarrow>
            if jc_ChangeType payload \<noteq> ''requested'' \<or> pb_ApplicationId job = [] \<or> pb_TenantId job \<noteq> dl_TenantId m
               \<or> pb_ApplicationId job \<noteq> dl_ApplicationId m
            then (Some (Opaque ''invalid export requested event''), pw)
            else Process W E (pb_TenantId job) (pb_ApplicationId job) (pb_Id job) pw))"

section \<open>From an event to its run\<close>

text \<open>
  What the bus and the protobuf codec promise: an envelope that was sealed is delivered with its tenant, its
  application and a payload that decodes to the job and the change it was sealed with.
\<close>

definition bus_delivers :: "(envelope \<Rightarrow> string result) \<Rightarrow> (string \<Rightarrow> delivery) \<Rightarrow> (string \<Rightarrow> job_changed result) \<Rightarrow> bool" where
  "bus_delivers sl deliver unmarshal \<longleftrightarrow>
    (\<forall>ev bytes. sl ev = Inr bytes \<longrightarrow>
       dl_TenantId (deliver bytes) = env_TenantID ev \<and> dl_ApplicationId (deliver bytes) = env_ApplicationID ev
       \<and> unmarshal (dl_Payload (deliver bytes)) = Inr \<lparr>jc_ChangeType = env_ChangeType ev, jc_Job = Some (env_Job ev)\<rparr>)"

lemma handleRequested_event:
  assumes "bus_delivers sl deliver unmarshal" and "sl (event_envelope eid j change actor at) = Inr bytes"
  shows "handleRequested unmarshal W E (deliver bytes) pw =
    (if change = ''requested'' \<and> ApplicationID j \<noteq> [] then Process W E (TenantID j) (ApplicationID j) (ID j) pw
     else (Some (Opaque ''invalid export requested event''), pw))"
  using assms by (auto simp: bus_delivers_def handleRequested_def event_envelope_def ToProto_def)

text \<open>A row of the outbox that the consumer's subject selects and whose delivery runs a job.\<close>

definition runs_job ::
  "(string \<Rightarrow> delivery) \<Rightarrow> (string \<Rightarrow> job_changed result) \<Rightarrow> ('c, 'o) worker \<Rightarrow> env \<Rightarrow> string \<Rightarrow> string \<Rightarrow> string \<Rightarrow> outbox_row \<Rightarrow> bool" where
  "runs_job deliver unmarshal W E t a i row \<longleftrightarrow>
    oe_Subject (or_event row) = ''platform.export.job.requested.v1''
    \<and> (\<forall>pw. handleRequested unmarshal W E (deliver (oe_Envelope (or_event row))) pw = Process W E t a i pw)"

lemma announced_runs:
  assumes "announced sl j ''requested'' d d'" and "bus_delivers sl deliver unmarshal" and "ApplicationID j \<noteq> []"
  shows "\<exists>row\<in>set (outbox d'). runs_job deliver unmarshal W E (TenantID j) (ApplicationID j) (ID j) row"
proof -
  obtain row actor at where row: "outbox d' = outbox d @ [row]" "oe_Subject (or_event row) = event_subject ''requested''"
    and sealed: "sl (event_envelope (oe_ID (or_event row)) j ''requested'' actor at) = Inr (oe_Envelope (or_event row))"
    using announced_outbox [OF assms(1)] by (elim exE conjE)
  have "handleRequested unmarshal W E (deliver (oe_Envelope (or_event row))) pw = Process W E (TenantID j) (ApplicationID j) (ID j) pw"
    for pw using handleRequested_event [OF assms(2) sealed, of W E pw] assms(3) by simp
  then have "runs_job deliver unmarshal W E (TenantID j) (ApplicationID j) (ID j) row"
    using row(2) unfolding runs_job_def event_subject_def by simp
  then show ?thesis using row(1) by (intro bexI [of _ row]) simp_all
qed

lemma Create_announced:
  fixes w w' :: "'o world"
  assumes "Create S E ctx input w = ((v, False, None), w')"
  shows "ApplicationID v \<noteq> [] \<and> (\<exists>d. announced (seal E) v ''requested'' d (w_db w'))"
  using assms
proof (cases rule: Create_elim)
  case (ran actor err v' created)
  then have W: "Within E (create_tx E (normalize_input (sv_lib S) input) (created_job S E input actor w) actor
         (clock E (w_ticks w))) (created_job S E input actor w, False)
         ((tick w)\<lparr>w_uuids := Suc (w_uuids w)\<rparr>) = ((None, v, True), w')" by simp
  obtain w0 w1 :: "'o world" where tx: "create_tx E (normalize_input (sv_lib S) input) (created_job S E input actor w)
      actor (clock E (w_ticks w)) w0 = ((None, v, True), w1)" "w_db w' = w_db w1"
    using Within_commit [OF W] by metis
  obtain n d1 where ins: "v = created_job S E input actor w" "announced (seal E) v ''requested'' d1 (w_db w1)"
    using create_tx_ok [OF tx(1), unfolded if_True] by (elim conjE exE) (rule that)
  have "ApplicationID v = normalize (ci_ApplicationID input)"
    by (simp add: ins(1) new_job_def normalize_input_def)
  moreover have "normalize (ci_ApplicationID input) \<noteq> []"
    using authorizeScope_may_act [OF ran(2)] by (simp add: may_act_def)
  ultimately show ?thesis using ins(2) tx(2) by auto
qed auto

lemma Retry_announced:
  fixes w w' :: "'o world"
  assumes "Retry S E ctx t a i expected key w = (Inr (v, False), w')"
  shows "ApplicationID v \<noteq> [] \<and> (\<exists>j d d' n. announced (seal E) j ''requested'' d d' \<and> w_db w' = others E n d'
    \<and> TenantID j = TenantID v \<and> ApplicationID j = ApplicationID v \<and> ID j = ID v)"
  using assms
proof (cases rule: Retry_elim)
  case (committed actor c w1 u w2)
  define at where "at = clock E (w_ticks w1)"
  define x where "x = retried c key at actor"
  have ids: "TenantID x = normalize t" "ApplicationID x = normalize a" "ID x = normalize i"
    using repo_Get_at [OF committed(4)] by (simp_all add: x_def)
  have G: "Get S E ctx t a i w2 = (Inr v, w')" using committed(8) by simp
  have W: "Within E (retry_tx E x expected actor at) () (tick w1) = ((None, u), w2)"
    using committed(7) unfolding x_def at_def .
  obtain w3 w4 :: "'o world" where tx: "retry_tx E x expected actor at w3 = ((None, u), w4)" "w_db w2 = w_db w4"
    using Within_commit [OF W] by metis
  obtain n d1 where st: "announced (seal E) (x\<lparr>Status := StatusQueued, Version := i64 (expected + 1)\<rparr>) ''requested'' d1 (w_db w4)"
    using retry_tx_ok [OF tx(1)] by metis
  have v: "TenantID v = normalize t" "ApplicationID v = normalize a" "ID v = normalize i"
    using Get_found [OF G] lookup_job_ids by metis+
  have "normalize a \<noteq> []" using authorizeScope_may_act [OF committed(1)] by (simp add: may_act_def)
  then show ?thesis using st v ids Get_db [OF G] tx(2)
    by (intro conjI exI [of _ "x\<lparr>Status := StatusQueued, Version := i64 (expected + 1)\<rparr>"]) auto
qed auto

section \<open>The loops\<close>

text \<open>The work is done once for the start and once for each tick before the end, whatever its errors.\<close>

lemma ticker_loop_runs:
  "ticker_loop RunOnce ws s =
    (CtxDone \<in> set ws, ((\<lambda>s. snd (RunOnce s)) ^^ Suc (length (takeWhile (\<lambda>w. w = Tick) ws))) s)"
proof (induction RunOnce ws s rule: ticker_loop.induct)
  case (2 RunOnce ws s)
  then show ?case using funpow_swap1 [of "\<lambda>s. snd (RunOnce s)" "length (takeWhile (\<lambda>w. w = Tick) ws)" s] by simp
qed simp_all

text \<open>A runtime that was started can be stopped: nothing is left running.\<close>

lemma start_stop:
  assumes "runtime_start cfg has_store has_bus newDispatcher newCleaner = (err, running)"
  shows "runtime_stop (runtime_cancel cfg has_store has_bus newDispatcher) running = (None, [])"
  using assms by (auto simp: runtime_start_def runtime_stop_def runtime_cancel_def Let_def split: if_splits option.splits)

section \<open>Properties\<close>

text \<open>
  C3. Every request is run.  When a create has stored a new job, or a retry has queued one again, the outbox
  holds a row under the subject the worker's consumer listens to whose delivery, through the codec
  and the bus, is exactly a run of that job: the event's tenant, application and change pass the consumer's checks.
\<close>

theorem requested_jobs_run:
  fixes w w' :: "'o world"
  assumes "bus_delivers (seal E) deliver unmarshal"
    and "Create S E ctx input w = ((v, False, None), w') \<or> Retry S E ctx t a i expected key w = (Inr (v, False), w')"
  shows "\<exists>d. (w_db w' = d \<or> (\<exists>n. w_db w' = others E n d))
    \<and> (\<exists>row\<in>set (outbox d). runs_job deliver unmarshal W E' (TenantID v) (ApplicationID v) (ID v) row)"
  using assms(2)
proof
  assume C: "Create S E ctx input w = ((v, False, None), w')"
  then show ?thesis using Create_announced [OF C] announced_runs [OF _ assms(1)] by metis
next
  assume R: "Retry S E ctx t a i expected key w = (Inr (v, False), w')"
  obtain j d d' n where j: "announced (seal E) j ''requested'' d d'" "w_db w' = others E n d'"
    "TenantID j = TenantID v" "ApplicationID j = ApplicationID v" "ID j = ID v" and a: "ApplicationID v \<noteq> []"
    using Retry_announced [OF R] by (elim exE conjE)
  have "\<exists>row\<in>set (outbox d'). runs_job deliver unmarshal W E' (TenantID v) (ApplicationID v) (ID v) row"
    using announced_runs [OF j(1) assms(1), of W E'] a j(3,4,5) by simp
  then show ?thesis using j(2) by blast
qed

text \<open>A codec for the one job of the witness.\<close>

definition codec_job :: job where
  "codec_job = created_job demo_service demo_env demo_input ''u'' (demo_world [] :: bucket world)"

definition codec_env :: env where
  "codec_env = demo_env\<lparr>seal := (\<lambda>ev. if env_Job ev = ToProto codec_job \<and> env_TenantID ev = ''t'' \<and> env_ApplicationID ev = ''a''
       \<and> env_ChangeType ev = ''requested'' then Inr ''x'' else Inl (Opaque ''no''))\<rparr>"

definition codec_deliver :: "string \<Rightarrow> delivery" where
  "codec_deliver bytes = \<lparr>dl_TenantId = ''t'', dl_ApplicationId = ''a'', dl_Payload = bytes\<rparr>"

definition codec_unmarshal :: "string \<Rightarrow> job_changed result" where
  "codec_unmarshal payload = Inr \<lparr>jc_ChangeType = ''requested'', jc_Job = Some (ToProto codec_job)\<rparr>"

lemma codec_delivers: "bus_delivers (seal codec_env) codec_deliver codec_unmarshal"
  by (auto simp: bus_delivers_def codec_env_def codec_deliver_def codec_unmarshal_def split: if_splits)

lemma codec_Create:
  "\<exists>w' :: bucket world. Create demo_service codec_env (Some demo_user) demo_input (demo_world []) = ((codec_job, False, None), w')"
proof -
  obtain r and w' :: "bucket world" where C: "Create demo_service codec_env (Some demo_user) demo_input (demo_world []) = (r, w')"
    by fastforce
  then show ?thesis
  proof (cases rule: Create_elim)
    case (ran actor err v created)
    have a: "actor = ''u''" using ran(2) by simp
    have calm: "calm codec_env" by (simp add: calm_def codec_env_def demo_env_def)
    have j: "created_job demo_service codec_env demo_input ''u'' (demo_world [] :: bucket world) = codec_job"
      by (simp add: codec_job_def codec_env_def)
    have ok: "table_ok [codec_job]"
      by (simp add: codec_job_def table_ok_def row_check_def new_job_def zero_job_def status_defs format_defs)
    have ids: "TenantID codec_job = ''t''" "ApplicationID codec_job = ''a''"
      by (simp_all add: codec_job_def new_job_def)
    have sl: "seal codec_env (event_envelope eid codec_job ''requested'' actor at) = Inr ''x''" for eid actor at
      by (simp add: codec_env_def event_envelope_def ids)
    show ?thesis using C ran(3,4) calm ok sl unfolding a j
      by (auto simp: create_tx_def repo_Create_def stmt_by_key_def select_one_def Within_calm sql_tx_calm
          addEvent_def new_uuid_def jobChangedEvent_def repo_AddOutbox_def stmt_AddOutbox_def exec_insert_def demo_world_def)
  qed (simp add: demo_not_refused)
qed

theorem requested_jobs_run_witness:
  "\<exists>(w' :: bucket world) (d :: db). Create demo_service codec_env (Some demo_user) demo_input (demo_world []) = ((codec_job, False, None), w')
    \<and> (\<exists>row\<in>set (outbox d). runs_job codec_deliver codec_unmarshal demo_worker demo_env ''t'' ''a'' ''e'' row)"
proof -
  obtain w' :: "bucket world" where C: "Create demo_service codec_env (Some demo_user) demo_input (demo_world []) = ((codec_job, False, None), w')"
    using codec_Create by blast
  have ids: "TenantID codec_job = ''t''" "ApplicationID codec_job = ''a''" "ID codec_job = ''e''"
    by (simp_all add: codec_job_def new_job_def)
  obtain d where "w_db w' = d \<or> (\<exists>n. w_db w' = others codec_env n d)"
    and row: "\<exists>row\<in>set (outbox d). runs_job codec_deliver codec_unmarshal demo_worker demo_env ''t'' ''a'' ''e'' row"
    using requested_jobs_run [OF codec_delivers disjI1 [OF C], of demo_worker demo_env, unfolded ids] by (elim exE conjE)
  show ?thesis using C row by (intro exI conjI)
qed

end
