(* ===== verification/App_Migration.thy ===== *)
theory App_Migration
  imports App_Config Go_Net Export_Pipeline
begin

text \<open>
  \<open>internal/migration/migration.go\<close>: the URL of the migrations' database, the schema they live in, their run, and the command
  of \<open>cmd/migrate\<close>.
  The migration library, the database driver, the file system and the URL grammar are parameters.
\<close>

section \<open>The database URL\<close>

definition query_plain :: "char \<Rightarrow> bool" where
  "query_plain c \<longleftrightarrow> (let b = byte c :: nat in 97 \<le> b \<and> b \<le> 122 \<or> 65 \<le> b \<and> b \<le> 90 \<or> 48 \<le> b \<and> b \<le> 57)
     \<or> c = CHR ''-'' \<or> c = CHR ''_'' \<or> c = CHR ''.'' \<or> c = CHR ''~''"

definition hex_upper :: "nat \<Rightarrow> char" where
  "hex_upper n = char_of (if n < 10 then 48 + n else 55 + n)"

definition QueryEscape :: "string \<Rightarrow> string" where
  "QueryEscape s = concat (map (\<lambda>c. if query_plain c then [c] else if c = CHR '' '' then ''+''
     else [CHR ''%'', hex_upper (byte c div 16), hex_upper (byte c mod 16)]) s)"

text \<open>A parsed URL, by the parts the code changes; its other parts are \<open>mu_rest\<close>.  \<open>String\<close> encodes the query.\<close>

record migration_url =
  mu_Path :: string
  mu_Query :: "string \<rightharpoonup> string list"
  mu_rest :: string

record url_codec =
  uc_Parse :: "string \<Rightarrow> migration_url result"
  uc_String :: "migration_url \<Rightarrow> string"

definition withMigrationOptions :: "url_codec \<Rightarrow> string \<Rightarrow> string \<Rightarrow> string \<Rightarrow> string \<Rightarrow> string result" where
  "withMigrationOptions U databaseURL databaseName table schema =
    (if databaseName = [] \<and> table = [] \<and> schema = [] then Inr databaseURL
     else if HasPrefix databaseURL ''mysql://'' then
       (case (if databaseName = [] then Inr databaseURL
              else let pathEnd = (case first_index (CHR ''?'') databaseURL of None \<Rightarrow> length databaseURL | Some i \<Rightarrow> i)
                in case last_index (CHR ''/'') (take pathEnd databaseURL) of
                     None \<Rightarrow> Inl (Opaque ''mysql migration URL is missing database path'')
                   | Some slash \<Rightarrow> Inr (take (slash + 1) databaseURL @ databaseName @ drop pathEnd databaseURL)) of
          Inl e \<Rightarrow> Inl e
        | Inr databaseURL \<Rightarrow>
           if table = [] then Inr databaseURL
           else Inr (databaseURL @ (if Contains databaseURL ''?'' then ''&'' else ''?'') @ ''x-migrations-table='' @ QueryEscape table))
     else case uc_Parse U databaseURL of
       Inl e \<Rightarrow> Inl (Wrap ''parse migration database URL: '' e [])
     | Inr parsed \<Rightarrow>
        (let p1 = (if databaseName \<noteq> [] then parsed\<lparr>mu_Path := ''/'' @ databaseName\<rparr> else parsed);
             q0 = mu_Query parsed;
             q1 = (if table \<noteq> [] then q0(''x-migrations-table'' \<mapsto> [table]) else q0);
             q2 = (if schema \<noteq> [] then q1(''search_path'' \<mapsto> [schema]) else q1)
         in Inr (uc_String U (p1\<lparr>mu_Query := q2\<rparr>))))"

section \<open>The schema\<close>

definition schema_lead :: "char \<Rightarrow> bool" where
  "schema_lead c \<longleftrightarrow> 97 \<le> (byte c :: nat) \<and> (byte c :: nat) \<le> 122"

definition schema_char :: "char \<Rightarrow> bool" where
  "schema_char c \<longleftrightarrow> schema_lead c \<or> 48 \<le> (byte c :: nat) \<and> (byte c :: nat) \<le> 57 \<or> c = CHR ''_''"

text \<open>The pattern \<open>^[a-z][a-z0-9_]{0,62}$\<close>.\<close>

definition schema_pattern :: "string \<Rightarrow> bool" where
  "schema_pattern s \<longleftrightarrow> s \<noteq> [] \<and> schema_lead (hd s) \<and> list_all schema_char (tl s) \<and> length s \<le> 63"

text \<open>What is done to the database: \<open>fault\<close> says which operation fails after which others.\<close>

datatype schema_op = BeginTx | ExecTx string "string list" | CommitTx | RollbackTx

definition createSchema :: "(schema_op list \<Rightarrow> schema_op \<Rightarrow> goerror option) \<Rightarrow> string \<Rightarrow> goerror option \<times> schema_op list" where
  "createSchema fault schema =
    (let lock = ExecTx ''SELECT pg_advisory_xact_lock(hashtext($1))'' [''data-export-service:schema:'' @ schema];
         create = ExecTx (''CREATE SCHEMA IF NOT EXISTS '' @ [CHR 0x22] @ schema @ [CHR 0x22]) []
     in case fault [] BeginTx of
          Some e \<Rightarrow> (Some (Wrap ''begin schema creation: '' e []), [BeginTx])
        | None \<Rightarrow>
           (case fault [BeginTx] lock of
              Some e \<Rightarrow> (Some (Wrap ''lock schema creation: '' e []), [BeginTx, lock, RollbackTx])
            | None \<Rightarrow>
               (case fault [BeginTx, lock] create of
                  Some e \<Rightarrow> (Some (Wrap ''execute schema creation: '' e []), [BeginTx, lock, create, RollbackTx])
                | None \<Rightarrow>
                   (case fault [BeginTx, lock, create] CommitTx of
                      Some e \<Rightarrow> (Some (Wrap ''commit schema creation: '' e []), [BeginTx, lock, create, CommitTx, RollbackTx])
                    | None \<Rightarrow> (None, [BeginTx, lock, create, CommitTx])))))"

text \<open>\<open>open\<close> is \<open>sql.Open\<close> of the driver, for a URL.\<close>

definition ensureSchema ::
  "url_codec \<Rightarrow> (string \<Rightarrow> goerror option) \<Rightarrow> (schema_op list \<Rightarrow> schema_op \<Rightarrow> goerror option) \<Rightarrow> migration_config \<Rightarrow> string
    \<Rightarrow> goerror option \<times> schema_op list" where
  "ensureSchema U open fault cfg databaseURL =
    (if \<not> migr_CreateSchema cfg \<or> migr_Schema cfg = [] \<or> HasPrefix (migr_DatabaseURL cfg) ''mysql://'' then (None, [])
     else if \<not> schema_pattern (migr_Schema cfg) then (Some (Opaque ''invalid migration schema''), [])
     else case uc_Parse U databaseURL of
       Inl e \<Rightarrow> (Some (Wrap ''parse database URL for schema creation: '' e []), [])
     | Inr parsed \<Rightarrow>
        (case open (uc_String U (parsed\<lparr>mu_Query := (mu_Query parsed)(''x-migrations-table'' := None)\<rparr>)) of
           Some e \<Rightarrow> (Some (Wrap ''open database to create schema: '' e []), [])
         | None \<Rightarrow>
            (case createSchema fault (migr_Schema cfg) of
               (Some e, ops) \<Rightarrow> (Some (Wrap (''create migration schema '' @ migr_Schema cfg @ '': '') e []), ops)
             | (None, ops) \<Rightarrow> (None, ops))))"

section \<open>The run\<close>

text \<open>The migration library: a migrator for a source and a database, its moves, and the errors of closing it.\<close>

datatype migration_move = MoveSteps int | MoveUp | MoveDown

record ('m, 's) migrator =
  mg_FileURL :: "string \<Rightarrow> string result"
  mg_New :: "string \<Rightarrow> string \<Rightarrow> 'm result"
  mg_Move :: "'m \<Rightarrow> migration_move \<Rightarrow> 's \<Rightarrow> goerror option \<times> 's"
  mg_Close :: "'m \<Rightarrow> goerror option \<times> goerror option"
  mg_NoChange :: goerror

definition join_close :: "goerror option \<Rightarrow> string \<Rightarrow> goerror option \<Rightarrow> goerror option" where
  "join_close runErr what closeErr =
    (case closeErr of
       None \<Rightarrow> runErr
     | Some e \<Rightarrow> Some (case runErr of None \<Rightarrow> Wrap what e [] | Some r \<Rightarrow> Join r (Wrap what e [])))"

definition migration_Run ::
  "url_codec \<Rightarrow> (string \<Rightarrow> goerror option) \<Rightarrow> (schema_op list \<Rightarrow> schema_op \<Rightarrow> goerror option) \<Rightarrow> ('m, 's) migrator
    \<Rightarrow> migration_config \<Rightarrow> string \<Rightarrow> int \<Rightarrow> 's \<Rightarrow> goerror option \<times> schema_op list \<times> 's" where
  "migration_Run U open fault M cfg direction steps s =
    (if migr_DatabaseURL cfg = [] then (Some (Opaque ''migration.database_url is required''), [], s)
     else case mg_FileURL M (migr_Path cfg) of
       Inl e \<Rightarrow> (Some (Wrap ''resolve migration path: '' e []), [], s)
     | Inr source \<Rightarrow>
        (case withMigrationOptions U (migr_DatabaseURL cfg) (migr_DatabaseName cfg) (migr_Table cfg) (migr_Schema cfg) of
           Inl e \<Rightarrow> (Some e, [], s)
         | Inr databaseURL \<Rightarrow>
            (case ensureSchema U open fault cfg databaseURL of
               (Some e, ops) \<Rightarrow> (Some e, ops, s)
             | (None, ops) \<Rightarrow>
                (case mg_New M source databaseURL of
                   Inl e \<Rightarrow> (Some (Wrap ''create migrator: '' e []), ops, s)
                 | Inr m \<Rightarrow>
                    (case mg_Move M m (if steps \<noteq> 0 then MoveSteps steps else if direction = ''down'' then MoveDown else MoveUp) s of
                       (err, s1) \<Rightarrow>
                         (let runErr = (case err of None \<Rightarrow> None
                                | Some e \<Rightarrow> if errors_Is e (mg_NoChange M) then None else Some (Wrap ''run migration: '' e []));
                              (sourceErr, databaseErr) = mg_Close M m
                          in (join_close (join_close runErr ''close migration source: '' sourceErr)
                                ''close migration database: '' databaseErr, ops, s1)))))))"

definition runStartupMigration ::
  "url_codec \<Rightarrow> (string \<Rightarrow> goerror option) \<Rightarrow> (schema_op list \<Rightarrow> schema_op \<Rightarrow> goerror option) \<Rightarrow> ('m, 's) migrator
    \<Rightarrow> config \<Rightarrow> 's \<Rightarrow> goerror option \<times> schema_op list \<times> 's" where
  "runStartupMigration U open fault M cfg s =
    (if \<not> migr_AutoUp (c_Migration cfg) then (None, [], s)
     else case migration_Run U open fault M (c_Migration cfg) ''up'' 0 s of
       (Some e, y) \<Rightarrow> (Some (Wrap ''startup database migration: '' e []), y)
     | (None, y) \<Rightarrow> (None, y))"

section \<open>The command\<close>

text \<open>\<open>cmd/migrate\<close>: the exit code and what is printed to the error output; the flags are parsed.\<close>

definition migrate_main ::
  "(string \<Rightarrow> string \<Rightarrow> config result) \<Rightarrow> (migration_config \<Rightarrow> string \<Rightarrow> int \<Rightarrow> 's \<Rightarrow> goerror option \<times> schema_op list \<times> 's)
    \<Rightarrow> string \<Rightarrow> string \<Rightarrow> string \<Rightarrow> int \<Rightarrow> 's \<Rightarrow> (int \<times> string) \<times> schema_op list \<times> 's" where
  "migrate_main load run configPath profile direction steps s =
    (if direction \<noteq> ''up'' \<and> direction \<noteq> ''down'' then ((2, ''direction must be up or down''), [], s)
     else case load configPath profile of
       Inl e \<Rightarrow> ((1, ''migration failed: '' @ error_string e), [], s)
     | Inr cfg \<Rightarrow>
        (case run (c_Migration cfg) direction steps s of
           (Some e, y) \<Rightarrow> ((1, ''migration failed: '' @ error_string e), y)
         | (None, y) \<Rightarrow> ((0, []), y)))"

section \<open>Laws\<close>

text \<open>Where the database name of a MySQL URL stands.\<close>

lemma first_index_none [simp]: "c \<notin> set s \<Longrightarrow> first_index c s = None"
  by (simp add: first_index_def)

lemma takeWhile_upto [simp]: "c \<notin> set a \<Longrightarrow> takeWhile (\<lambda>x. x \<noteq> c) (a @ c # b) = a"
  by (induction a) auto

lemma first_index_append: "c \<notin> set a \<Longrightarrow> first_index c (a @ c # b) = Some (length a)"
  by (simp add: first_index_def)

lemma last_index_append: "c \<notin> set b \<Longrightarrow> last_index c (a @ c # b) = Some (length a)"
  by (simp add: last_index_def)

lemma Contains_char: "Contains s [c] \<longleftrightarrow> c \<in> set s"
  by (auto simp: Contains_iff in_set_conv_decomp)

lemma mysql_rename:
  assumes "HasPrefix url ''mysql://''" and "name \<noteq> []" and "url = part @ rest" and "CHR ''?'' \<notin> set part"
    and "rest = [] \<or> hd rest = CHR ''?''" and "last_index (CHR ''/'') part = Some i"
  shows "withMigrationOptions U url name [] schema = Inr (take (i + 1) part @ name @ rest)"
proof -
  have i: "i < length part"
    using assms(6) length_pos_if_in_set [of "CHR ''/''" part] by (auto simp: last_index_def split: if_splits)
  have e: "(case first_index (CHR ''?'') url of None \<Rightarrow> length url | Some i \<Rightarrow> i) = length part"
  proof (cases rest)
    case (Cons c cs)
    then show ?thesis using assms(3-5) first_index_append [of "CHR ''?''" part cs] by simp
  qed (use assms(3,4) in simp)
  have parts: "take (length part) url = part" "drop (length part) url = rest" "take (i + 1) url = take (i + 1) part"
    using assms(3) i by simp_all
  show ?thesis unfolding withMigrationOptions_def Let_def e parts assms(6) using assms(1,2) parts by simp
qed

lemma mysql_database_name:
  assumes "HasPrefix (base @ ''/'' @ old @ rest) ''mysql://''" and "CHR ''?'' \<notin> set base" and "CHR ''?'' \<notin> set old"
    and "CHR ''/'' \<notin> set old" and "rest = [] \<or> hd rest = CHR ''?''" and "name \<noteq> []"
  shows "withMigrationOptions U (base @ ''/'' @ old @ rest) name [] schema = Inr (base @ ''/'' @ name @ rest)"
  using mysql_rename [OF assms(1,6) _ _ assms(5), of "base @ CHR ''/'' # old" "length base"] assms(2,3)
    last_index_append [OF assms(4), of base] by simp

text \<open>
  A URL without a database path: the error for it is never returned, since the slashes of the scheme are found; the
  host is replaced by the name of the database.
\<close>

lemma mysql_host_lost:
  assumes "CHR ''/'' \<notin> set host" and "CHR ''?'' \<notin> set host" and "name \<noteq> []"
  shows "withMigrationOptions U (''mysql://'' @ host) name [] schema = Inr (''mysql://'' @ name)"
  using mysql_rename [of "''mysql://'' @ host" name "''mysql://'' @ host" "[]" 7] last_index_append [OF assms(1), of "''mysql:/''"]
    assms(2,3) by (simp add: HasPrefix_iff)

text \<open>The statements of the schema's transaction.\<close>

definition schema_statements :: "string \<Rightarrow> schema_op set" where
  "schema_statements schema =
    {ExecTx ''SELECT pg_advisory_xact_lock(hashtext($1))'' [''data-export-service:schema:'' @ schema],
     ExecTx (''CREATE SCHEMA IF NOT EXISTS '' @ [CHR 0x22] @ schema @ [CHR 0x22]) []}"

definition schema_safe :: "string \<Rightarrow> goerror option \<Rightarrow> schema_op list \<Rightarrow> bool" where
  "schema_safe schema err ops \<longleftrightarrow>
    ops = [] \<or> schema_pattern schema \<and> (\<forall>q a. ExecTx q a \<in> set ops \<longrightarrow> ExecTx q a \<in> schema_statements schema)
      \<and> (if err = None then last ops = CommitTx else ops = [BeginTx] \<or> last ops = RollbackTx)"

lemma createSchema_safe:
  "createSchema fault schema = (err, ops) \<Longrightarrow> schema_pattern schema \<Longrightarrow> schema_safe schema err ops \<and> ops \<noteq> []"
  by (auto simp: createSchema_def schema_safe_def schema_statements_def Let_def split: option.splits)

lemma ensureSchema_safe:
  "ensureSchema U open fault cfg url = (err, ops) \<Longrightarrow> schema_safe (migr_Schema cfg) err ops"
  by (auto simp: ensureSchema_def schema_safe_def dest!: createSchema_safe split: if_splits sum.splits option.splits prod.splits)

lemma join_close_None: "join_close runErr what closeErr = None \<longleftrightarrow> runErr = None \<and> closeErr = None"
  by (auto simp: join_close_def split: option.splits)

section \<open>Properties\<close>


text \<open>A database without faults, for the witness; its state counts the moves.\<close>

definition demo_migrator :: "(unit, nat) migrator" where
  "demo_migrator = \<lparr>mg_FileURL = (\<lambda>p. Inr (''file://'' @ p)), mg_New = (\<lambda>_ _. Inr ()), mg_Move = (\<lambda>_ _ n. (None, Suc n)),
     mg_Close = (\<lambda>_. (None, None)), mg_NoChange = Opaque ''no change''\<rparr>"

definition demo_codec :: url_codec where
  "demo_codec = \<lparr>uc_Parse = (\<lambda>t. Inr \<lparr>mu_Path = ''/d'', mu_Query = Map.empty, mu_rest = t\<rparr>), uc_String = mu_rest\<rparr>"

definition demo_migration :: migration_config where
  "demo_migration = \<lparr>migr_AutoUp = True, migr_CreateSchema = True, migr_Path = ''/m'', migr_DatabaseURL = ''postgres://h'',
     migr_Table = [], migr_Schema = ''exports'', migr_DatabaseName = []\<rparr>"


end
