(* ===== verification/Http_Json.thy ===== *)
theory Http_Json
  imports Http_Handler
begin

text \<open>
  The JSON of the API: how \<open>ShouldBindJSON\<close> reads the body of a request into the struct of its route, and how \<open>c.JSON\<close> writes
  a response, by the tags of the structs of \<open>handler.go\<close>, \<open>response.go\<close>, \<open>internal/health\<close> and \<open>internal/buildinfo\<close>.  The
  layout of times is a parameter, and so is the text of a raw member, which the parsed document does not keep.
\<close>

section \<open>Reading\<close>

text \<open>The integers of a document: \<open>strconv.ParseInt\<close> on a literal of the grammar, exactly when it has neither fraction nor exponent.\<close>

definition digits_value :: "string \<Rightarrow> int" where
  "digits_value ds = foldl (\<lambda>n c. 10 * n + int (byte c - 48)) 0 ds"

definition ParseInt :: "string \<Rightarrow> int option" where
  "ParseInt s =
    (let (sign, ds) = (case s of c # t \<Rightarrow> if c = CHR ''-'' then (-1, t) else (1, s) | [] \<Rightarrow> (1, []))
     in if ds \<noteq> [] \<and> list_all is_digit ds then Some (sign * digits_value ds) else None)"

text \<open>What a field of a struct is, with its update.\<close>

datatype 'a field =
    FString "(string \<Rightarrow> string) \<Rightarrow> 'a \<Rightarrow> 'a"
  | FInt32 "(int \<Rightarrow> int) \<Rightarrow> 'a \<Rightarrow> 'a"
  | FInt64 "(int \<Rightarrow> int) \<Rightarrow> 'a \<Rightarrow> 'a"
  | FTime "(time option \<Rightarrow> time option) \<Rightarrow> 'a \<Rightarrow> 'a"
  | FStrings "(string list option \<Rightarrow> string list option) \<Rightarrow> 'a \<Rightarrow> 'a"
  | FRaw "(string \<Rightarrow> string) \<Rightarrow> 'a \<Rightarrow> 'a"

text \<open>An array is read over the slice a repeated member left: a \<open>null\<close> keeps the element that is there.\<close>

fun strings_into :: "string list \<Rightarrow> json list \<Rightarrow> string list option" where
  "strings_into old [] = Some []"
| "strings_into old (JStr s # vs) = map_option ((#) s) (strings_into (tl old) vs)"
| "strings_into old (JNull # vs) = map_option ((#) (case old of [] \<Rightarrow> [] | s # _ \<Rightarrow> s)) (strings_into (tl old) vs)"
| "strings_into old _ = None"

definition read_int :: "int \<Rightarrow> json \<Rightarrow> ((int \<Rightarrow> int) \<Rightarrow> 'a \<Rightarrow> 'a) \<Rightarrow> 'a \<Rightarrow> 'a option" where
  "read_int bound v upd q =
    (case v of
       JNull \<Rightarrow> Some q
     | JNum s \<Rightarrow> (case ParseInt s of
         Some n \<Rightarrow> if - bound \<le> n \<and> n < bound then Some (upd (\<lambda>_. n) q) else None
       | None \<Rightarrow> None)
     | _ \<Rightarrow> None)"

text \<open>
  \<open>parse_time\<close> reads a time in RFC 3339, \<open>raw\<close> is the text of the member as it stands in the body.  Updates of slices are
  given the old slice.
\<close>

definition read_field :: "(string \<Rightarrow> time option) \<Rightarrow> string \<Rightarrow> 'a field \<Rightarrow> json \<Rightarrow> 'a \<Rightarrow> 'a option" where
  "read_field parse_time raw f v q =
    (case f of
       FString upd \<Rightarrow> (case v of JNull \<Rightarrow> Some q | JStr s \<Rightarrow> Some (upd (\<lambda>_. s) q) | _ \<Rightarrow> None)
     | FInt32 upd \<Rightarrow> read_int 2147483648 v upd q
     | FInt64 upd \<Rightarrow> read_int 9223372036854775808 v upd q
     | FTime upd \<Rightarrow> (case v of
         JNull \<Rightarrow> Some (upd (\<lambda>_. None) q)
       | JStr s \<Rightarrow> map_option (\<lambda>t. upd (\<lambda>_. Some t) q) (parse_time s)
       | _ \<Rightarrow> None)
     | FStrings upd \<Rightarrow> (case v of
         JNull \<Rightarrow> Some (upd (\<lambda>_. None) q)
       | JArr vs \<Rightarrow> (if strings_into [] vs = None then None
           else Some (upd (\<lambda>old. strings_into (case old of None \<Rightarrow> [] | Some xs \<Rightarrow> xs) vs) q))
       | _ \<Rightarrow> None)
     | FRaw upd \<Rightarrow> Some (upd (\<lambda>_. raw) q))"

text \<open>A member belongs to the field with its name, or else to the first one with a name that differs in case only; others are skipped.\<close>

definition field_of :: "(string \<times> 'a field) list \<Rightarrow> string \<Rightarrow> 'a field option" where
  "field_of table k =
    (case map_of table k of Some f \<Rightarrow> Some f | None \<Rightarrow> map_option snd (find (\<lambda>nf. EqualFold (fst nf) k) table))"

fun read_members ::
  "(string \<Rightarrow> time option) \<Rightarrow> string \<Rightarrow> (string \<times> 'a field) list \<Rightarrow> (string \<times> json) list \<Rightarrow> 'a \<Rightarrow> 'a option" where
  "read_members parse_time raw table [] q = Some q"
| "read_members parse_time raw table ((k, v) # ms) q =
    (case field_of table k of
       None \<Rightarrow> read_members parse_time raw table ms q
     | Some f \<Rightarrow>
        (case read_field parse_time raw f v q of
           None \<Rightarrow> None
         | Some q1 \<Rightarrow> read_members parse_time raw table ms q1))"

definition read_struct :: "(string \<Rightarrow> time option) \<Rightarrow> string \<Rightarrow> (string \<times> 'a field) list \<Rightarrow> 'a \<Rightarrow> json \<Rightarrow> 'a option" where
  "read_struct parse_time raw table zero v =
    (case v of JObj ms \<Rightarrow> read_members parse_time raw table ms zero | JNull \<Rightarrow> Some zero | _ \<Rightarrow> None)"

text \<open>
  The decoder reads one value and leaves what follows; a word or a number ends only at a space or at the end of the body.
\<close>

definition first_value :: "string \<Rightarrow> json option" where
  "first_value body =
    (case find (\<lambda>n. json_Valid (take n body)) [0..<Suc (length body)] of
       None \<Rightarrow> None
     | Some n \<Rightarrow>
        (case json_parse (take n body) of
           Some (JObj ms) \<Rightarrow> Some (JObj ms)
         | Some (JArr vs) \<Rightarrow> Some (JArr vs)
         | Some (JStr s) \<Rightarrow> Some (JStr s)
         | Some v \<Rightarrow> (case drop n body of [] \<Rightarrow> Some v | c # _ \<Rightarrow> if json_space c then Some v else None)
         | None \<Rightarrow> None))"

definition bind_json ::
  "(string \<Rightarrow> time option) \<Rightarrow> (string \<Rightarrow> string) \<Rightarrow> (string \<times> 'a field) list \<Rightarrow> 'a \<Rightarrow> string \<Rightarrow> 'a result" where
  "bind_json parse_time raw table zero body =
    (case first_value body of
       None \<Rightarrow> Inl (Opaque ''no JSON value'')
     | Some v \<Rightarrow>
        (case read_struct parse_time (raw body) table zero v of
           None \<Rightarrow> Inl (Opaque ''cannot unmarshal'')
         | Some q \<Rightarrow> Inr q))"

section \<open>Requests\<close>

definition create_fields :: "(string \<times> create_export_request field) list" where
  "create_fields = [(''tenant_id'', FString cer_TenantID_update), (''application_id'', FString cer_ApplicationID_update),
     (''dataset_code'', FString cer_DatasetCode_update), (''provider_service'', FString cer_ProviderService_update),
     (''format'', FString cer_Format_update), (''filename'', FString cer_Filename_update), (''query'', FRaw cer_Query_update),
     (''selected_columns'', FStrings cer_SelectedColumns_update), (''idempotency_key'', FString cer_IdempotencyKey_update)]"

definition list_datasets_fields :: "(string \<times> list_datasets_request field) list" where
  "list_datasets_fields = [(''tenant_id'', FString ldr_TenantID_update), (''application_id'', FString ldr_ApplicationID_update),
     (''search'', FString ldr_Search_update), (''page'', FInt32 ldr_Page_update), (''page_size'', FInt32 ldr_PageSize_update)]"

definition describe_fields :: "(string \<times> describe_dataset_request field) list" where
  "describe_fields = [(''tenant_id'', FString ddr_TenantID_update), (''application_id'', FString ddr_ApplicationID_update),
     (''provider_service'', FString ddr_ProviderService_update), (''dataset_code'', FString ddr_DatasetCode_update)]"

definition get_fields :: "(string \<times> get_export_request field) list" where
  "get_fields = [(''tenant_id'', FString ger_TenantID_update), (''application_id'', FString ger_ApplicationID_update),
     (''id'', FString ger_ID_update)]"

definition list_fields :: "(string \<times> list_exports_request field) list" where
  "list_fields = [(''tenant_id'', FString ler_TenantID_update), (''application_id'', FString ler_ApplicationID_update),
     (''status'', FString ler_Status_update), (''dataset_code'', FString ler_DatasetCode_update),
     (''created_from'', FTime ler_CreatedFrom_update), (''created_to'', FTime ler_CreatedTo_update),
     (''page'', FInt32 ler_Page_update), (''page_size'', FInt32 ler_PageSize_update)]"

definition versioned_fields :: "(string \<times> versioned_export_request field) list" where
  "versioned_fields = [(''tenant_id'', FString ver_TenantID_update), (''application_id'', FString ver_ApplicationID_update),
     (''id'', FString ver_ID_update), (''version'', FInt64 ver_Version_update)]"

definition retry_fields :: "(string \<times> retry_export_request field) list" where
  "retry_fields = [(''tenant_id'', FString rer_TenantID_update), (''application_id'', FString rer_ApplicationID_update),
     (''id'', FString rer_ID_update), (''version'', FInt64 rer_Version_update), (''idempotency_key'', FString rer_IdempotencyKey_update)]"

definition download_fields :: "(string \<times> download_export_request field) list" where
  "download_fields = [(''tenant_id'', FString der_TenantID_update), (''application_id'', FString der_ApplicationID_update),
     (''id'', FString der_ID_update), (''ttl_seconds'', FInt32 der_TTLSeconds_update)]"

text \<open>The handlers with these decoders, each from the zero value of its struct.\<close>

definition with_decoders :: "(string \<Rightarrow> time option) \<Rightarrow> (string \<Rightarrow> string) \<Rightarrow> 'o http_api \<Rightarrow> 'o http_api" where
  "with_decoders parse_time raw H = H\<lparr>
     bind_create := bind_json parse_time raw create_fields \<lparr>cer_TenantID = [], cer_ApplicationID = [], cer_DatasetCode = [],
       cer_ProviderService = [], cer_Format = [], cer_Filename = [], cer_Query = [], cer_SelectedColumns = None, cer_IdempotencyKey = []\<rparr>,
     bind_list_datasets := bind_json parse_time raw list_datasets_fields \<lparr>ldr_TenantID = [], ldr_ApplicationID = [], ldr_Search = [],
       ldr_Page = 0, ldr_PageSize = 0\<rparr>,
     bind_describe := bind_json parse_time raw describe_fields \<lparr>ddr_TenantID = [], ddr_ApplicationID = [], ddr_ProviderService = [],
       ddr_DatasetCode = []\<rparr>,
     bind_get := bind_json parse_time raw get_fields \<lparr>ger_TenantID = [], ger_ApplicationID = [], ger_ID = []\<rparr>,
     bind_list := bind_json parse_time raw list_fields \<lparr>ler_TenantID = [], ler_ApplicationID = [], ler_Status = [], ler_DatasetCode = [],
       ler_CreatedFrom = None, ler_CreatedTo = None, ler_Page = 0, ler_PageSize = 0\<rparr>,
     bind_versioned := bind_json parse_time raw versioned_fields \<lparr>ver_TenantID = [], ver_ApplicationID = [], ver_ID = [], ver_Version = 0\<rparr>,
     bind_retry := bind_json parse_time raw retry_fields \<lparr>rer_TenantID = [], rer_ApplicationID = [], rer_ID = [], rer_Version = 0,
       rer_IdempotencyKey = []\<rparr>,
     bind_download := bind_json parse_time raw download_fields \<lparr>der_TenantID = [], der_ApplicationID = [], der_ID = [], der_TTLSeconds = 0\<rparr>\<rparr>"

section \<open>Responses\<close>

text \<open>
  A slice nobody appended to is nil and written as \<open>null\<close>; the lists of a message are such slices when they are empty.  A raw
  message is written as it is.
\<close>

definition json_int :: "int \<Rightarrow> json" where "json_int n = JNum (FormatInt n)"

definition json_strings :: "string list option \<Rightarrow> json" where
  "json_strings xs = (case xs of None \<Rightarrow> JNull | Some ys \<Rightarrow> JArr (map JStr ys))"

definition message_strings :: "string list \<Rightarrow> json" where
  "message_strings xs = json_strings (if xs = [] then None else Some xs)"

definition json_raw :: "string \<Rightarrow> json" where
  "json_raw s = (case json_parse s of Some v \<Rightarrow> v | None \<Rightarrow> JNull)"

definition omitempty :: "string \<Rightarrow> json option \<Rightarrow> (string \<times> json) list" where
  "omitempty k v = (case v of None \<Rightarrow> [] | Some x \<Rightarrow> [(k, x)])"

definition job_json :: "(time \<Rightarrow> string) \<Rightarrow> export_job_body \<Rightarrow> json" where
  "job_json T b = JObj ([(''id'', JStr (jb_ID b)), (''tenant_id'', JStr (jb_TenantID b)), (''application_id'', JStr (jb_ApplicationID b)),
     (''dataset_code'', JStr (jb_DatasetCode b)), (''provider_service'', JStr (jb_ProviderService b)), (''format'', JStr (jb_Format b)),
     (''filename'', JStr (jb_Filename b)), (''query'', json_raw (jb_Query b)), (''selected_columns'', json_strings (jb_SelectedColumns b)),
     (''status'', JStr (jb_Status b)), (''rows_exported'', json_int (jb_RowsExported b)), (''bytes_written'', json_int (jb_BytesWritten b)),
     (''progress_percent'', json_int (jb_ProgressPercent b)), (''object_key'', JStr (jb_ObjectKey b)),
     (''content_type'', JStr (jb_ContentType b)), (''checksum'', JStr (jb_Checksum b)), (''error_code'', JStr (jb_ErrorCode b)),
     (''error_message'', JStr (jb_ErrorMessage b))]
    @ omitempty ''started_at'' (map_option (JStr \<circ> T) (jb_StartedAt b))
    @ omitempty ''completed_at'' (map_option (JStr \<circ> T) (jb_CompletedAt b))
    @ omitempty ''expires_at'' (map_option (JStr \<circ> T) (jb_ExpiresAt b))
    @ [(''version'', json_int (jb_Version b)), (''created_at'', JStr (T (jb_CreatedAt b))), (''updated_at'', JStr (T (jb_UpdatedAt b))),
       (''created_by'', JStr (jb_CreatedBy b)), (''updated_by'', JStr (jb_UpdatedBy b))])"

definition page_json :: "json list \<Rightarrow> int \<Rightarrow> int \<Rightarrow> int \<Rightarrow> json" where
  "page_json items count page pageSize = JObj [(''items'', JArr items), (''total'', json_int count), (''page'', json_int page),
     (''page_size'', json_int pageSize)]"

definition download_json :: "(time \<Rightarrow> string) \<Rightarrow> export_download_body \<Rightarrow> json" where
  "download_json T b = JObj [(''url'', JStr (db_URL b)), (''expires_at'', JStr (T (db_ExpiresAt b))), (''filename'', JStr (db_Filename b)),
     (''content_type'', JStr (db_ContentType b)), (''checksum'', JStr (db_Checksum b))]"

definition summary_json :: "dataset_summary \<Rightarrow> json" where
  "summary_json d = JObj [(''provider_service'', JStr (ds_ProviderService d)), (''code'', JStr (ds_Code d)), (''title'', JStr (ds_Title d)),
     (''formats'', message_strings (ds_Formats d)), (''supports_snapshot'', JBool (ds_SupportsSnapshot d)),
     (''healthy_instances'', json_int (ds_HealthyInstances d))]"

definition column_json :: "column \<Rightarrow> json" where
  "column_json x = JObj [(''key'', JStr (col_Key x)), (''title'', JStr (col_Title x)), (''type'', JStr (col_Type x)),
     (''format'', JStr (col_Format x)), (''sensitive'', JBool (col_Sensitive x))]"

definition query_field_json :: "query_field \<Rightarrow> json" where
  "query_field_json x = JObj [(''key'', JStr (qf_Key x)), (''title'', JStr (qf_Title x)), (''type'', JStr (qf_Type x)),
     (''format'', JStr (qf_Format x)), (''description'', JStr (qf_Description x)), (''options'', message_strings (qf_Options x)),
     (''required'', JBool (qf_Required x))]"

definition descriptor_json :: "dataset_descriptor \<Rightarrow> json" where
  "descriptor_json d = JObj [(''code'', JStr (dd_Code d)), (''title'', JStr (dd_Title d)), (''columns'', JArr (map column_json (dd_Columns d))),
     (''query_fields'', JArr (map query_field_json (dd_QueryFields d))), (''formats'', message_strings (dd_Formats d)),
     (''estimated_rows'', json_int (dd_EstimatedRows d)), (''supports_snapshot'', JBool (dd_SupportsSnapshot d))]"

text \<open>A map is written in the order of its keys.\<close>

definition dependency_json :: "dependency \<Rightarrow> json" where
  "dependency_json d = JObj ((''status'', JStr (dep_Status d)) #
     omitempty ''latency'' (if dep_Latency d = [] then None else Some (JStr (dep_Latency d))))"

definition status_json :: "health_status \<Rightarrow> json" where
  "status_json s = JObj ((''status'', JStr (hst_Status s)) #
     omitempty ''dependencies'' (if hst_Dependencies s = [] then None
       else Some (JObj (map (\<lambda>(k, d). (k, dependency_json d)) (sort_by (\<lambda>x y. str_le (fst x) (fst y)) (hst_Dependencies s))))))"

definition build_json :: "(time \<Rightarrow> string) \<Rightarrow> build_info \<Rightarrow> json" where
  "build_json T b = JObj [(''version'', JStr (bi_Version b)), (''commit'', JStr (bi_Commit b)), (''build_time'', JStr (bi_BuildTime b)),
     (''started_at'', JStr (T (bi_StartedAt b))), (''uptime'', JStr (bi_Uptime b))]"

definition body_json :: "(time \<Rightarrow> string) \<Rightarrow> http_body \<Rightarrow> json" where
  "body_json T b =
    (case b of
       NoBody \<Rightarrow> JNull
     | JobBody j \<Rightarrow> job_json T j
     | MutationBody j duplicate \<Rightarrow> JObj [(''job'', job_json T j), (''duplicate'', JBool duplicate)]
     | PageBody items count page pageSize \<Rightarrow> page_json (map (job_json T) items) count page pageSize
     | DownloadBody d \<Rightarrow> download_json T d
     | DatasetPageBody items count page pageSize \<Rightarrow> page_json (map summary_json items) count page pageSize
     | DescriptorBody d \<Rightarrow> descriptor_json d
     | StatusBody s \<Rightarrow> status_json s
     | MeBody subject \<Rightarrow> JObj [(''subject'', case subject of None \<Rightarrow> JNull | Some s \<Rightarrow> JStr s)]
     | VersionBody b \<Rightarrow> build_json T b)"

definition response_json :: "(time \<Rightarrow> string) \<Rightarrow> response \<Rightarrow> json" where
  "response_json T r = JObj ([(''code'', json_int (rsp_Code r)), (''message'', JStr (rsp_Message r)), (''body'', body_json T (rsp_Body r))]
    @ omitempty ''request_id'' (if rsp_RequestID r = [] then None else Some (JStr (rsp_RequestID r))))"

section \<open>Laws\<close>

text \<open>What \<open>rawObject\<close> gives can be written.\<close>

lemma rawObject_Valid: "json_Valid (rawObject value)"
proof -
  have "json_Valid ''{}''" by code_simp
  then show ?thesis by (auto simp: rawObject_def split: option.splits json.splits)
qed

lemma ParseInt_example: "ParseInt ''-120'' = Some (-120) \<and> ParseInt ''1.5'' = None"
  by code_simp

end
