(* ===== verification/Api_Docs.thy ===== *)
theory Api_Docs
  imports Http_Json
begin

text \<open>
  \<open>docs/docs.go\<close>: the description of the API that the service serves, as the data it is: the schemas of requests and responses, the
  documented operations, and the settings of its first lines.  The second half compares it with the code: the routes, the
  decoders and the JSON of the handlers.  The file is generated from the comments of the handlers; what the comments leave out shows here.
\<close>

section \<open>Schemas\<close>

datatype schema = SString | SInteger | SBoolean | SObject | Anything | Ref string | ArrayOf schema | MapOf schema
  | Properties "(string \<times> schema) list" | AllOf "schema list"

definition doc_BuildInfo :: schema where
  "doc_BuildInfo = Properties [(''build_time'', SString), (''commit'', SString), (''started_at'', SString), (''uptime'', SString),
     (''version'', SString)]"

definition doc_HealthDependency :: schema where
  "doc_HealthDependency = Properties [(''latency'', SString), (''status'', SString)]"

definition doc_HealthStatus :: schema where
  "doc_HealthStatus = Properties [(''dependencies'', MapOf (Ref ''health.Dependency'')), (''status'', SString)]"

definition doc_CreateExportRequest :: schema where
  "doc_CreateExportRequest = Properties [(''application_id'', SString), (''dataset_code'', SString), (''filename'', SString),
     (''format'', SString), (''idempotency_key'', SString), (''provider_service'', SString), (''query'', SObject),
     (''selected_columns'', ArrayOf SString), (''tenant_id'', SString)]"

definition doc_DescribeExportDatasetRequest :: schema where
  "doc_DescribeExportDatasetRequest = Properties [(''application_id'', SString), (''dataset_code'', SString), (''provider_service'', SString),
     (''tenant_id'', SString)]"

definition doc_DownloadExportRequest :: schema where
  "doc_DownloadExportRequest = Properties [(''application_id'', SString), (''id'', SString), (''tenant_id'', SString), (''ttl_seconds'', SInteger)]"

definition doc_ExportColumnBody :: schema where
  "doc_ExportColumnBody = Properties [(''format'', SString), (''key'', SString), (''sensitive'', SBoolean), (''title'', SString),
     (''type'', SString)]"

definition doc_ExportDatasetDescriptorBody :: schema where
  "doc_ExportDatasetDescriptorBody = Properties [(''code'', SString), (''columns'', ArrayOf (Ref ''httptransport.ExportColumnBody'')),
     (''estimated_rows'', SInteger), (''formats'', ArrayOf SString),
     (''query_fields'', ArrayOf (Ref ''httptransport.ExportQueryFieldBody'')), (''supports_snapshot'', SBoolean),
     (''title'', SString)]"

definition doc_ExportDatasetPageBody :: schema where
  "doc_ExportDatasetPageBody = Properties [(''items'', ArrayOf (Ref ''httptransport.ExportDatasetSummaryBody'')), (''page'', SInteger),
     (''page_size'', SInteger), (''total'', SInteger)]"

definition doc_ExportDatasetSummaryBody :: schema where
  "doc_ExportDatasetSummaryBody = Properties [(''code'', SString), (''formats'', ArrayOf SString), (''healthy_instances'', SInteger),
     (''provider_service'', SString), (''supports_snapshot'', SBoolean), (''title'', SString)]"

definition doc_ExportDownloadBody :: schema where
  "doc_ExportDownloadBody = Properties [(''checksum'', SString), (''content_type'', SString), (''expires_at'', SString), (''filename'', SString),
     (''url'', SString)]"

definition doc_ExportJobBody :: schema where
  "doc_ExportJobBody = Properties [(''application_id'', SString), (''bytes_written'', SInteger), (''checksum'', SString),
     (''completed_at'', SString), (''content_type'', SString), (''created_at'', SString), (''created_by'', SString),
     (''dataset_code'', SString), (''error_code'', SString), (''error_message'', SString), (''expires_at'', SString),
     (''filename'', SString), (''format'', SString), (''id'', SString), (''object_key'', SString),
     (''progress_percent'', SInteger), (''provider_service'', SString), (''query'', SObject),
     (''rows_exported'', SInteger), (''selected_columns'', ArrayOf SString), (''started_at'', SString),
     (''status'', SString), (''tenant_id'', SString), (''updated_at'', SString), (''updated_by'', SString),
     (''version'', SInteger)]"

definition doc_ExportMutationBody :: schema where
  "doc_ExportMutationBody = Properties [(''duplicate'', SBoolean), (''job'', Ref ''httptransport.ExportJobBody'')]"

definition doc_ExportPageBody :: schema where
  "doc_ExportPageBody = Properties [(''items'', ArrayOf (Ref ''httptransport.ExportJobBody'')), (''page'', SInteger),
     (''page_size'', SInteger), (''total'', SInteger)]"

definition doc_ExportQueryFieldBody :: schema where
  "doc_ExportQueryFieldBody = Properties [(''description'', SString), (''format'', SString), (''key'', SString), (''options'', ArrayOf SString),
     (''required'', SBoolean), (''title'', SString), (''type'', SString)]"

definition doc_GetExportRequest :: schema where
  "doc_GetExportRequest = Properties [(''application_id'', SString), (''id'', SString), (''tenant_id'', SString)]"

definition doc_ListExportDatasetsRequest :: schema where
  "doc_ListExportDatasetsRequest = Properties [(''application_id'', SString), (''page'', SInteger), (''page_size'', SInteger), (''search'', SString),
     (''tenant_id'', SString)]"

definition doc_ListExportsRequest :: schema where
  "doc_ListExportsRequest = Properties [(''application_id'', SString), (''created_from'', SString), (''created_to'', SString),
     (''dataset_code'', SString), (''page'', SInteger), (''page_size'', SInteger), (''status'', SString),
     (''tenant_id'', SString)]"

definition doc_MeResponseBody :: schema where
  "doc_MeResponseBody = Properties [(''subject'', SString)]"

definition doc_Response :: schema where
  "doc_Response = Properties [(''body'', Anything), (''code'', SInteger), (''message'', SString), (''request_id'', SString)]"

definition doc_RetryExportRequest :: schema where
  "doc_RetryExportRequest = Properties [(''application_id'', SString), (''id'', SString), (''idempotency_key'', SString),
     (''tenant_id'', SString), (''version'', SInteger)]"

definition doc_VersionedExportRequest :: schema where
  "doc_VersionedExportRequest = Properties [(''application_id'', SString), (''id'', SString), (''tenant_id'', SString), (''version'', SInteger)]"

definition doc_definitions :: "(string \<times> schema) list" where
  "doc_definitions =
    [(''buildinfo.Info'', doc_BuildInfo),
     (''health.Dependency'', doc_HealthDependency),
     (''health.Status'', doc_HealthStatus),
     (''httptransport.CreateExportRequest'', doc_CreateExportRequest),
     (''httptransport.DescribeExportDatasetRequest'', doc_DescribeExportDatasetRequest),
     (''httptransport.DownloadExportRequest'', doc_DownloadExportRequest),
     (''httptransport.ExportColumnBody'', doc_ExportColumnBody),
     (''httptransport.ExportDatasetDescriptorBody'', doc_ExportDatasetDescriptorBody),
     (''httptransport.ExportDatasetPageBody'', doc_ExportDatasetPageBody),
     (''httptransport.ExportDatasetSummaryBody'', doc_ExportDatasetSummaryBody),
     (''httptransport.ExportDownloadBody'', doc_ExportDownloadBody),
     (''httptransport.ExportJobBody'', doc_ExportJobBody),
     (''httptransport.ExportMutationBody'', doc_ExportMutationBody),
     (''httptransport.ExportPageBody'', doc_ExportPageBody),
     (''httptransport.ExportQueryFieldBody'', doc_ExportQueryFieldBody),
     (''httptransport.GetExportRequest'', doc_GetExportRequest),
     (''httptransport.ListExportDatasetsRequest'', doc_ListExportDatasetsRequest),
     (''httptransport.ListExportsRequest'', doc_ListExportsRequest),
     (''httptransport.MeResponseBody'', doc_MeResponseBody),
     (''httptransport.Response'', doc_Response),
     (''httptransport.RetryExportRequest'', doc_RetryExportRequest),
     (''httptransport.VersionedExportRequest'', doc_VersionedExportRequest)]"


section \<open>Operations\<close>

text \<open>A parameter has its name, its place, its description, whether it is required, and its schema; a response its status, description and schema.\<close>

record operation =
  dop_security :: "string list"
  dop_consumes :: "string list"
  dop_produces :: "string list"
  dop_tags :: "string list"
  dop_summary :: string
  dop_parameters :: "(string \<times> string \<times> string \<times> bool \<times> schema) list"
  dop_responses :: "(int \<times> string \<times> schema) list"

definition answer_schema :: "string \<Rightarrow> schema" where
  "answer_schema body = AllOf [Ref ''httptransport.Response'', Properties [(''body'', Ref body)]]"

definition export_operation :: "string \<Rightarrow> string \<Rightarrow> string \<Rightarrow> string \<Rightarrow> string \<Rightarrow> operation" where
  "export_operation tag summary what request body = \<lparr>dop_security = [''Bearer'', ''PSK''], dop_consumes = [''application/json''],
     dop_produces = [''application/json''], dop_tags = [tag], dop_summary = summary,
     dop_parameters = [(''request'', ''body'', what, True, Ref request)], dop_responses = [(200, ''OK'', answer_schema body)]\<rparr>"

definition plain_operation :: "string \<Rightarrow> string \<Rightarrow> string list \<Rightarrow> (int \<times> string \<times> schema) list \<Rightarrow> operation" where
  "plain_operation tag summary protection responses = \<lparr>dop_security = protection, dop_consumes = [], dop_produces = [''application/json''],
     dop_tags = [tag], dop_summary = summary, dop_parameters = [], dop_responses = responses\<rparr>"

definition op_cancel :: operation where
  "op_cancel = export_operation ''exports'' ''Cancel a queued or running export with optimistic locking'' ''Job and current version''
     ''httptransport.VersionedExportRequest'' ''httptransport.ExportJobBody''"

definition op_create :: operation where
  "op_create = export_operation ''exports'' ''Create an asynchronous export job'' ''Export definition''
     ''httptransport.CreateExportRequest'' ''httptransport.ExportMutationBody''"

definition op_datasets_describe :: operation where
  "op_datasets_describe = export_operation ''export datasets'' ''Describe an export dataset available to an application'' ''Dataset selector''
     ''httptransport.DescribeExportDatasetRequest'' ''httptransport.ExportDatasetDescriptorBody''"

definition op_datasets_list :: operation where
  "op_datasets_list = export_operation ''export datasets'' ''List export datasets available to an application'' ''Application scope and search''
     ''httptransport.ListExportDatasetsRequest'' ''httptransport.ExportDatasetPageBody''"

definition op_download :: operation where
  "op_download = export_operation ''exports'' ''Create a short-lived download URL'' ''Download request''
     ''httptransport.DownloadExportRequest'' ''httptransport.ExportDownloadBody''"

definition op_get :: operation where
  "op_get = export_operation ''exports'' ''Get an export job'' ''Job selector''
     ''httptransport.GetExportRequest'' ''httptransport.ExportJobBody''"

definition op_list :: operation where
  "op_list = export_operation ''exports'' ''Search export jobs for frontend pages'' ''Filters and pagination''
     ''httptransport.ListExportsRequest'' ''httptransport.ExportPageBody''"

definition op_retry :: operation where
  "op_retry = export_operation ''exports'' ''Retry a failed or canceled export'' ''Retry request''
     ''httptransport.RetryExportRequest'' ''httptransport.ExportMutationBody''"

definition op_me :: operation where
  "op_me = plain_operation ''authentication'' ''Return the authenticated subject'' [''Bearer'']
     [(200, ''OK'', answer_schema ''httptransport.MeResponseBody''), (401, ''Code 20001: unauthorized'', Ref ''httptransport.Response'')]"

definition op_version :: operation where
  "op_version = plain_operation ''operations'' ''Return build and runtime version information'' []
     [(200, ''OK'', answer_schema ''buildinfo.Info'')]"

definition op_live :: operation where
  "op_live = plain_operation ''operations'' ''Check process liveness'' []
     [(200, ''OK'', answer_schema ''health.Status'')]"

definition op_ready :: operation where
  "op_ready = plain_operation ''operations'' ''Check database and Redis readiness'' []
     [(200, ''OK'', answer_schema ''health.Status''), (503, ''Code 50003: dependency unavailable'', answer_schema ''health.Status'')]"

definition documented_paths :: "(string \<times> string \<times> operation) list" where
  "documented_paths =
    [(''/api/v1/exports/cancel'', ''post'', op_cancel),
     (''/api/v1/exports/create'', ''post'', op_create),
     (''/api/v1/exports/datasets/describe'', ''post'', op_datasets_describe),
     (''/api/v1/exports/datasets/list'', ''post'', op_datasets_list),
     (''/api/v1/exports/download'', ''post'', op_download),
     (''/api/v1/exports/get'', ''post'', op_get),
     (''/api/v1/exports/list'', ''post'', op_list),
     (''/api/v1/exports/retry'', ''post'', op_retry),
     (''/api/v1/me'', ''post'', op_me),
     (''/api/v1/version'', ''post'', op_version),
     (''/live'', ''post'', op_live),
     (''/ready'', ''post'', op_ready)]"

section \<open>The rest of the document\<close>

text \<open>The ways a caller identifies, by name: description, type, header and place.\<close>

definition security_definitions :: "(string \<times> string \<times> string \<times> string \<times> string) list" where
  "security_definitions =
    [(''Bearer'', ''Enter \"Bearer {JWT}\".'', ''apiKey'', ''Authorization'', ''header''),
     (''PSK'', ''Enter \"PSK {shared-key}\" for routes configured with PSK authentication.'', ''apiKey'', ''Authorization'', ''header'')]"

record swag_spec =
  sw_Version :: string
  sw_Host :: string
  sw_BasePath :: string
  sw_Schemes :: "string list"
  sw_Title :: string
  sw_Description :: string
  sw_InfoInstanceName :: string
  sw_LeftDelim :: string
  sw_RightDelim :: string

definition SwaggerInfo :: swag_spec where
  "SwaggerInfo = \<lparr>sw_Version = ''1.0'', sw_Host = [], sw_BasePath = ''/'', sw_Schemes = [''http'', ''https''],
     sw_Title = ''Data Export Service API'',
     sw_Description = ''Asynchronous tenant-aware CSV, JSONL, and XLSX export API. Application error codes: 0 success; 10000-19999 common/input; 20000-29999 authentication/authorization; 30000-39999 business; 50000-59999 infrastructure.'',
     sw_InfoInstanceName = ''swagger'', sw_LeftDelim = ''{{'', sw_RightDelim = ''}}''\<rparr>"

text \<open>The server puts its own version in.\<close>

definition served_info :: "build \<Rightarrow> swag_spec" where
  "served_info b = SwaggerInfo\<lparr>sw_Version := bd_Version b\<rparr>"

section \<open>Conformance\<close>

text \<open>
  A document conforms to a schema: it has values of the types described, and no member that is not described.  A member may be
  missing, for none is marked as required, and a \<open>null\<close> stands for a value that is absent.  The parts of \<open>allOf\<close> are read together, the
  later ones refining the earlier.
\<close>

definition properties_of :: "(string \<times> schema) list \<Rightarrow> schema \<Rightarrow> (string \<times> schema) list" where
  "properties_of D s =
    (case s of
       Properties ps \<Rightarrow> ps
     | Ref n \<Rightarrow> (case map_of D n of Some (Properties ps) \<Rightarrow> ps | _ \<Rightarrow> [])
     | _ \<Rightarrow> [])"

definition expand :: "(string \<times> schema) list \<Rightarrow> schema \<Rightarrow> schema" where
  "expand D s =
    (case s of
       Ref n \<Rightarrow> (case map_of D n of Some t \<Rightarrow> t | None \<Rightarrow> Ref n)
     | AllOf ss \<Rightarrow> Properties (concat (rev (map (properties_of D) ss)))
     | _ \<Rightarrow> s)"

fun conforms :: "(string \<times> schema) list \<Rightarrow> schema \<Rightarrow> json \<Rightarrow> bool" where
  "conforms D s JNull = True"
| "conforms D s (JStr t) = (expand D s = SString \<or> expand D s = Anything)"
| "conforms D s (JBool b) = (expand D s = SBoolean \<or> expand D s = Anything)"
| "conforms D s (JNum t) = (expand D s = SInteger \<and> ParseInt t \<noteq> None \<or> expand D s = Anything)"
| "conforms D s (JArr vs) =
    (case expand D s of
       ArrayOf t \<Rightarrow> list_all (conforms D t) vs
     | Anything \<Rightarrow> True
     | _ \<Rightarrow> False)"
| "conforms D s (JObj ms) =
    (case expand D s of
       Properties ps \<Rightarrow> list_all (\<lambda>m. case map_of ps (fst m) of None \<Rightarrow> False | Some t \<Rightarrow> conforms D t (snd m)) ms
     | MapOf t \<Rightarrow> list_all (\<lambda>m. conforms D t (snd m)) ms
     | SObject \<Rightarrow> True
     | Anything \<Rightarrow> True
     | _ \<Rightarrow> False)"

end
