(* ===== verification/Api_Docs_Laws.thy ===== *)
theory Api_Docs_Laws
  imports Api_Docs Transport_Laws
begin

text \<open>
  The description of the API is true of the code: it documents exactly the routes that are served, what the handlers write
  conforms to the documented schemas, and the decoders accept what the schemas allow.
\<close>

section \<open>The document\<close>

lemmas schema_defs = doc_BuildInfo_def doc_HealthDependency_def doc_HealthStatus_def doc_CreateExportRequest_def
  doc_DescribeExportDatasetRequest_def doc_DownloadExportRequest_def doc_ExportColumnBody_def doc_ExportDatasetDescriptorBody_def
  doc_ExportDatasetPageBody_def doc_ExportDatasetSummaryBody_def doc_ExportDownloadBody_def doc_ExportJobBody_def
  doc_ExportMutationBody_def doc_ExportPageBody_def doc_ExportQueryFieldBody_def doc_GetExportRequest_def
  doc_ListExportDatasetsRequest_def doc_ListExportsRequest_def doc_MeResponseBody_def doc_Response_def
  doc_RetryExportRequest_def doc_VersionedExportRequest_def

lemmas operation_defs = op_cancel_def op_create_def op_datasets_describe_def op_datasets_list_def op_download_def op_get_def op_list_def
  op_retry_def op_me_def op_version_def op_live_def op_ready_def

text \<open>The references of a schema, all of which the document defines.\<close>

fun refs :: "schema \<Rightarrow> string list" where
  "refs (Ref n) = [n]"
| "refs (ArrayOf s) = refs s"
| "refs (MapOf s) = refs s"
| "refs (Properties ps) = concat (map (\<lambda>p. refs (snd p)) ps)"
| "refs (AllOf ss) = concat (map refs ss)"
| "refs _ = []"

definition operation_refs :: "operation \<Rightarrow> string list" where
  "operation_refs op = concat (map (\<lambda>(name, place, what, required, s). refs s) (dop_parameters op))
     @ concat (map (\<lambda>(status, what, s). refs s) (dop_responses op))"

lemma document_closed:
  "set (concat (map (\<lambda>d. refs (snd d)) doc_definitions) @ concat (map (\<lambda>(path, verb, op). operation_refs op) documented_paths))
     \<subseteq> set (map fst doc_definitions)"
  by code_simp

text \<open>What a reference stands for.\<close>

lemma doc_lookups [simp]:
  "expand doc_definitions (Ref ''buildinfo.Info'') = doc_BuildInfo"
  "expand doc_definitions (Ref ''health.Dependency'') = doc_HealthDependency"
  "expand doc_definitions (Ref ''health.Status'') = doc_HealthStatus"
  "expand doc_definitions (Ref ''httptransport.ExportColumnBody'') = doc_ExportColumnBody"
  "expand doc_definitions (Ref ''httptransport.ExportDatasetDescriptorBody'') = doc_ExportDatasetDescriptorBody"
  "expand doc_definitions (Ref ''httptransport.ExportDatasetPageBody'') = doc_ExportDatasetPageBody"
  "expand doc_definitions (Ref ''httptransport.ExportDatasetSummaryBody'') = doc_ExportDatasetSummaryBody"
  "expand doc_definitions (Ref ''httptransport.ExportDownloadBody'') = doc_ExportDownloadBody"
  "expand doc_definitions (Ref ''httptransport.ExportJobBody'') = doc_ExportJobBody"
  "expand doc_definitions (Ref ''httptransport.ExportMutationBody'') = doc_ExportMutationBody"
  "expand doc_definitions (Ref ''httptransport.ExportPageBody'') = doc_ExportPageBody"
  "expand doc_definitions (Ref ''httptransport.ExportQueryFieldBody'') = doc_ExportQueryFieldBody"
  "expand doc_definitions (Ref ''httptransport.MeResponseBody'') = doc_MeResponseBody"
  "expand doc_definitions (Ref ''httptransport.Response'') = doc_Response"
  by (simp_all add: expand_def doc_definitions_def)

lemma request_lookups [simp]:
  "expand doc_definitions (Ref ''httptransport.CreateExportRequest'') = doc_CreateExportRequest"
  "expand doc_definitions (Ref ''httptransport.DescribeExportDatasetRequest'') = doc_DescribeExportDatasetRequest"
  "expand doc_definitions (Ref ''httptransport.DownloadExportRequest'') = doc_DownloadExportRequest"
  "expand doc_definitions (Ref ''httptransport.GetExportRequest'') = doc_GetExportRequest"
  "expand doc_definitions (Ref ''httptransport.ListExportDatasetsRequest'') = doc_ListExportDatasetsRequest"
  "expand doc_definitions (Ref ''httptransport.ListExportsRequest'') = doc_ListExportsRequest"
  "expand doc_definitions (Ref ''httptransport.RetryExportRequest'') = doc_RetryExportRequest"
  "expand doc_definitions (Ref ''httptransport.VersionedExportRequest'') = doc_VersionedExportRequest"
  by (simp_all add: expand_def doc_definitions_def)

lemma expand_types [simp]:
  "expand D SString = SString" "expand D SInteger = SInteger" "expand D SBoolean = SBoolean" "expand D SObject = SObject"
  "expand D Anything = Anything" "expand D (ArrayOf s) = ArrayOf s" "expand D (MapOf s) = MapOf s"
  "expand D (Properties ps) = Properties ps"
  by (simp_all add: expand_def)

lemma expand_answer: "expand doc_definitions (answer_schema n)
  = Properties [(''body'', Ref n), (''body'', Anything), (''code'', SInteger), (''message'', SString), (''request_id'', SString)]"
  by (simp add: expand_def answer_schema_def properties_of_def doc_definitions_def doc_Response_def)

lemma conforms_Anything [simp]: "conforms D Anything v"
  by (cases v) simp_all

section \<open>Integers\<close>

lemma digit_char:
  assumes "n < 10"
  shows "is_digit (char_of (48 + n :: nat)) \<and> char_of (48 + n :: nat) \<noteq> CHR ''-''"
proof -
  have b: "of_char (char_of (48 + n :: nat) :: char) = 48 + n" using assms by simp
  have "char_of (48 + n :: nat) \<noteq> CHR ''-''"
  proof
    assume "char_of (48 + n :: nat) = CHR ''-''"
    then have "of_char (CHR ''-'') = 48 + n" using b by simp
    then show False by simp
  qed
  then show ?thesis using assms by (simp add: is_digit_def b)
qed

lemma digits_all: "digits n \<noteq> [] \<and> list_all is_digit (digits n) \<and> hd (digits n) \<noteq> CHR ''-''"
proof (induction n rule: digits.induct)
  case (1 n)
  show ?case
  proof (cases "n < 10")
    case True
    then show ?thesis using digit_char [OF True] by (simp add: digits.simps [of n])
  next
    case False
    have m: "n mod 10 < 10" by simp
    show ?thesis using 1 [OF False] digit_char [OF m] False by (simp add: digits.simps [of n] hd_append)
  qed
qed

lemma ParseInt_FormatInt: "ParseInt (FormatInt n) \<noteq> None"
  using digits_all [of "nat n"] digits_all [of "nat (- n)"]
  by (cases "digits (nat n)") (auto simp: ParseInt_def FormatInt_def)

lemma conforms_int [simp]: "conforms D s (json_int n) = (expand D s = SInteger \<or> expand D s = Anything)"
  by (simp add: json_int_def ParseInt_FormatInt)

section \<open>Responses\<close>

text \<open>The text of a query is passed through; it is described as an object.\<close>

definition object_text :: "string \<Rightarrow> bool" where
  "object_text s = (case json_parse s of Some (JObj _) \<Rightarrow> True | Some JNull \<Rightarrow> True | _ \<Rightarrow> False)"

definition body_queries :: "http_body \<Rightarrow> string list" where
  "body_queries b = (case b of JobBody j \<Rightarrow> [jb_Query j] | MutationBody j _ \<Rightarrow> [jb_Query j] | PageBody js _ _ _ \<Rightarrow> map jb_Query js | _ \<Rightarrow> [])"

definition body_schema :: "http_body \<Rightarrow> string" where
  "body_schema b =
    (case b of
       NoBody \<Rightarrow> []
     | JobBody _ \<Rightarrow> ''httptransport.ExportJobBody''
     | MutationBody _ _ \<Rightarrow> ''httptransport.ExportMutationBody''
     | PageBody _ _ _ _ \<Rightarrow> ''httptransport.ExportPageBody''
     | DownloadBody _ \<Rightarrow> ''httptransport.ExportDownloadBody''
     | DatasetPageBody _ _ _ _ \<Rightarrow> ''httptransport.ExportDatasetPageBody''
     | DescriptorBody _ \<Rightarrow> ''httptransport.ExportDatasetDescriptorBody''
     | StatusBody _ \<Rightarrow> ''health.Status''
     | MeBody _ \<Rightarrow> ''httptransport.MeResponseBody''
     | VersionBody _ \<Rightarrow> ''buildinfo.Info'')"

lemma body_schema_simps [simp]:
  "body_schema (JobBody j) = ''httptransport.ExportJobBody''"
  "body_schema (MutationBody j duplicate) = ''httptransport.ExportMutationBody''"
  "body_schema (PageBody items count page pageSize) = ''httptransport.ExportPageBody''"
  "body_schema (DownloadBody d) = ''httptransport.ExportDownloadBody''"
  "body_schema (DatasetPageBody datasets count page pageSize) = ''httptransport.ExportDatasetPageBody''"
  "body_schema (DescriptorBody e) = ''httptransport.ExportDatasetDescriptorBody''"
  "body_schema (StatusBody st) = ''health.Status''"
  "body_schema (MeBody subject) = ''httptransport.MeResponseBody''"
  "body_schema (VersionBody v) = ''buildinfo.Info''"
  by (simp_all add: body_schema_def)

lemma conforms_strings [simp]:
  "expand D s = ArrayOf SString \<Longrightarrow> conforms D s (json_strings xs)"
  "expand D s = ArrayOf SString \<Longrightarrow> conforms D s (message_strings ys)"
  by (simp_all add: json_strings_def message_strings_def list_all_iff split: option.splits)

lemma conforms_raw: "object_text s \<Longrightarrow> expand D t = SObject \<Longrightarrow> conforms D t (json_raw s)"
  by (auto simp: object_text_def json_raw_def split: option.splits json.splits)

lemma conforms_omitempty [simp]:
  "list_all P (omitempty k v) = (case v of None \<Rightarrow> True | Some x \<Rightarrow> P (k, x))"
  by (simp add: omitempty_def split: option.splits)

lemma job_conforms:
  assumes "object_text (jb_Query b)"
  shows "conforms doc_definitions (Ref ''httptransport.ExportJobBody'') (job_json T b)"
  using conforms_raw [OF assms, of doc_definitions SObject]
  by (simp add: job_json_def doc_ExportJobBody_def split: option.splits)

lemma page_conforms:
  assumes "expand D s = Properties [(''items'', ArrayOf t), (''page'', SInteger), (''page_size'', SInteger), (''total'', SInteger)]"
    and "list_all (conforms D t) items"
  shows "conforms D s (page_json items count page pageSize)"
  using assms by (simp add: page_json_def)

lemma summary_conforms: "conforms doc_definitions (Ref ''httptransport.ExportDatasetSummaryBody'') (summary_json d)"
  by (simp add: summary_json_def doc_ExportDatasetSummaryBody_def)

lemma column_conforms: "conforms doc_definitions (Ref ''httptransport.ExportColumnBody'') (column_json x)"
  by (simp add: column_json_def doc_ExportColumnBody_def)

lemma query_field_conforms: "conforms doc_definitions (Ref ''httptransport.ExportQueryFieldBody'') (query_field_json x)"
  by (simp add: query_field_json_def doc_ExportQueryFieldBody_def)

lemma descriptor_conforms: "conforms doc_definitions (Ref ''httptransport.ExportDatasetDescriptorBody'') (descriptor_json d)"
  by (simp add: descriptor_json_def doc_ExportDatasetDescriptorBody_def list_all_iff column_conforms query_field_conforms)

lemma dependency_conforms: "conforms doc_definitions (Ref ''health.Dependency'') (dependency_json d)"
  by (simp add: dependency_json_def doc_HealthDependency_def)

lemma status_conforms: "conforms doc_definitions (Ref ''health.Status'') (status_json s)"
proof -
  have "conforms doc_definitions (MapOf (Ref ''health.Dependency'')) (JObj (map (\<lambda>(k, d). (k, dependency_json d)) ds))" for ds
    by (simp add: list_all_iff dependency_conforms case_prod_beta)
  then show ?thesis by (simp add: status_json_def doc_HealthStatus_def)
qed

lemma body_conforms:
  assumes "list_all object_text (body_queries b)"
  shows "conforms doc_definitions (Ref (body_schema b)) (body_json T b)"
proof (cases b)
  case (PageBody items count page pageSize)
  have "list_all (conforms doc_definitions (Ref ''httptransport.ExportJobBody'')) (map (job_json T) items)"
    using assms PageBody by (auto simp: body_queries_def list_all_iff intro: job_conforms)
  then show ?thesis unfolding PageBody
    by (simp add: body_json_def) (rule page_conforms; simp add: doc_ExportPageBody_def)
next
  case (DatasetPageBody items count page pageSize)
  have "list_all (conforms doc_definitions (Ref ''httptransport.ExportDatasetSummaryBody'')) (map summary_json items)"
    by (simp add: list_all_iff summary_conforms)
  then show ?thesis unfolding DatasetPageBody
    by (simp add: body_json_def) (rule page_conforms; simp add: doc_ExportDatasetPageBody_def)
next
  case (JobBody j)
  then show ?thesis using assms by (simp add: body_json_def body_queries_def job_conforms)
next
  case (MutationBody j duplicate)
  then show ?thesis using assms
    by (simp add: body_json_def body_queries_def job_conforms doc_ExportMutationBody_def)
next
  case (DownloadBody d)
  then show ?thesis by (simp add: body_json_def download_json_def doc_ExportDownloadBody_def)
next
  case (DescriptorBody d)
  then show ?thesis by (simp add: body_json_def descriptor_conforms)
next
  case (StatusBody s)
  then show ?thesis by (simp add: body_json_def status_conforms)
next
  case (MeBody subject)
  then show ?thesis by (simp add: body_json_def doc_MeResponseBody_def split: option.splits)
next
  case (VersionBody v)
  then show ?thesis by (simp add: body_json_def build_json_def doc_BuildInfo_def)
qed (simp add: body_json_def)

text \<open>The whole response, with the schema of its body or with that of any response.\<close>

lemma response_conforms:
  assumes "list_all object_text (body_queries (rsp_Body r))" and "rsp_Body r = NoBody \<or> body_schema (rsp_Body r) = n"
    and "s = answer_schema n \<or> s = Ref ''httptransport.Response''"
  shows "conforms doc_definitions s (response_json T r)"
proof -
  have "conforms doc_definitions (Ref n) (body_json T (rsp_Body r))"
    using body_conforms [OF assms(1), of T] assms(2) by (auto simp: body_json_def)
  then show ?thesis using assms(3)
    by (auto simp: response_json_def expand_answer doc_Response_def split: option.splits)
qed

text \<open>A handler answers with a body of one kind, with none, or not at all.\<close>

definition answers_with :: "string \<Rightarrow> ('r, 'w) handler \<Rightarrow> bool" where
  "answers_with n h \<longleftrightarrow> (\<forall>c r w c' r' w'. h (c, r, w) = (c', r', w') \<longrightarrow> gn_response c' = gn_response c
     \<or> (\<exists>resp. gn_response c' = Some resp \<and> (rsp_Body resp = NoBody \<or> body_schema (rsp_Body resp) = n)))"

lemma http_Fail_body: "\<exists>resp. gn_response (http_Fail c e) = Some resp \<and> rsp_Body resp = NoBody"
  by (simp add: http_Fail_def AbortWithStatusJSON_def split: prod.splits)

lemma answer_answers:
  assumes act: "\<And>q c w body w1. act q c w = (Inr body, w1) \<Longrightarrow> body_schema body = n"
  shows "answers_with n (answer decode act)"
  unfolding answers_with_def
proof (intro allI impI)
  fix c r w c' r' w'
  assume run: "answer decode act (c, r, w) = (c', r', w')"
  show "gn_response c' = gn_response c \<or> (\<exists>resp. gn_response c' = Some resp \<and> (rsp_Body resp = NoBody \<or> body_schema (rsp_Body resp) = n))"
  proof (cases "bind decode c")
    case (Inl e)
    then show ?thesis using run http_Fail_body [of c e] by (auto simp: answer_def)
  next
    case (Inr q)
    obtain v w1 where a: "act q c w = (v, w1)" by (metis prod.exhaust)
    show ?thesis
    proof (cases v)
      case (Inl e)
      then show ?thesis using run a Inr http_Fail_body [of c e] by (auto simp: answer_def split: if_splits)
    next
      case (Inr body)
      then show ?thesis using run a \<open>bind decode c = Inr q\<close> act [of q c w body w1] by (auto simp: answer_def http_OK_def)
    qed
  qed
qed

lemma direct_answers:
  assumes "\<And>c rw. h (c, rw) = (http_OK c (b c), rw)" and "\<And>c. body_schema (b c) = n"
  shows "answers_with n h"
  unfolding answers_with_def by (auto simp: assms http_OK_def)

lemma Version_answers: "answers_with ''buildinfo.Info'' (http_Version H)"
  by (rule direct_answers [where b = "\<lambda>c. VersionBody (buildinfo_Current (ha_build H) (ha_now H))"]) (simp_all add: http_Version_def)

lemma Me_answers: "answers_with ''httptransport.MeResponseBody'' Me"
  by (rule direct_answers [where b = "\<lambda>c. MeBody (gn_subject c)"]) (simp_all add: Me_def)

lemma Live_answers: "answers_with ''health.Status'' Live"
  by (rule direct_answers [where b = "\<lambda>c. StatusBody health_Live"]) (simp_all add: Live_def)

lemma Ready_answers: "answers_with ''health.Status'' (Ready H)"
  by (auto simp: answers_with_def Ready_def http_OK_def split: prod.splits if_splits)

lemma operation_answers:
  "answers_with ''httptransport.ExportMutationBody'' (CreateExport H)"
  "answers_with ''httptransport.ExportDatasetPageBody'' (ListExportDatasets H)"
  "answers_with ''httptransport.ExportDatasetDescriptorBody'' (DescribeExportDataset H)"
  "answers_with ''httptransport.ExportJobBody'' (GetExport H)"
  "answers_with ''httptransport.ExportPageBody'' (ListExports H)"
  "answers_with ''httptransport.ExportJobBody'' (CancelExport H)"
  "answers_with ''httptransport.ExportMutationBody'' (RetryExport H)"
  "answers_with ''httptransport.ExportDownloadBody'' (DownloadExport H)"
  unfolding CreateExport_def ListExportDatasets_def DescribeExportDataset_def GetExport_def ListExports_def CancelExport_def
    RetryExport_def DownloadExport_def
  by (rule answer_answers; force simp: Let_def split: prod.splits sum.splits option.splits)+

section \<open>Requests\<close>

definition documented_type :: "'a field \<Rightarrow> schema" where
  "documented_type f =
    (case f of FString _ \<Rightarrow> SString | FInt32 _ \<Rightarrow> SInteger | FInt64 _ \<Rightarrow> SInteger | FTime _ \<Rightarrow> SString | FStrings _ \<Rightarrow> ArrayOf SString
     | FRaw _ \<Rightarrow> SObject)"

text \<open>What the description leaves out: numbers have 32 bits (more is allowed where the struct has 64), and two members are times.\<close>

definition readable :: "(string \<Rightarrow> time option) \<Rightarrow> string \<times> json \<Rightarrow> bool" where
  "readable parse_time m \<longleftrightarrow>
    (case snd m of
       JNum s \<Rightarrow> (case ParseInt s of Some n \<Rightarrow> in_i32 n | None \<Rightarrow> False)
     | JStr s \<Rightarrow> fst m \<in> {''created_from'', ''created_to''} \<longrightarrow> parse_time s \<noteq> None
     | _ \<Rightarrow> True)"

definition described_by :: "(string \<times> 'a field) list \<Rightarrow> schema \<Rightarrow> bool" where
  "described_by table s \<longleftrightarrow>
    (case s of
       Properties ps \<Rightarrow> list_all (\<lambda>(n, t). map_option documented_type (map_of table n) = Some t) ps
         \<and> list_all (\<lambda>(n, f). (case f of FTime _ \<Rightarrow> n \<in> {''created_from'', ''created_to''} | _ \<Rightarrow> True)) table
     | _ \<Rightarrow> False)"

lemma request_schemas:
  "described_by create_fields doc_CreateExportRequest"
  "described_by list_datasets_fields doc_ListExportDatasetsRequest"
  "described_by describe_fields doc_DescribeExportDatasetRequest"
  "described_by get_fields doc_GetExportRequest"
  "described_by list_fields doc_ListExportsRequest"
  "described_by versioned_fields doc_VersionedExportRequest"
  "described_by retry_fields doc_RetryExportRequest"
  "described_by download_fields doc_DownloadExportRequest"
  by (simp_all add: described_by_def documented_type_def create_fields_def list_datasets_fields_def describe_fields_def get_fields_def
      list_fields_def versioned_fields_def retry_fields_def download_fields_def schema_defs)

lemma strings_into_total: "list_all (conforms D SString) vs \<Longrightarrow> strings_into old vs \<noteq> None"
proof (induction vs arbitrary: old)
  case (Cons v vs)
  then show ?case by (cases v) (auto split: list.splits)
qed simp

lemma read_field_total:
  assumes "conforms D (documented_type f) v" and "readable parse_time (k, v)"
    and "case f of FTime _ \<Rightarrow> k \<in> {''created_from'', ''created_to''} | _ \<Rightarrow> True"
  shows "\<exists>q'. read_field parse_time raw f v q = Some q'"
  using assms
  by (cases f; cases v)
    (auto simp: documented_type_def read_field_def read_int_def readable_def in_i32_def dest: strings_into_total [of _ _ "[]"]
      split: option.splits)

lemma read_members_total:
  assumes "described_by table s" and "s = Properties ps" and "conforms D s (JObj ms)" and "list_all (readable parse_time) ms"
  shows "\<exists>q'. read_members parse_time raw table ms q = Some q'"
  using assms(3,4)
proof (induction ms arbitrary: q)
  case (Cons m ms)
  obtain k v where m: "m = (k, v)" by (cases m)
  obtain t where t: "map_of ps k = Some t" "conforms D t v" using Cons.prems(1) assms(2) m by (auto split: option.splits)
  have "(k, t) \<in> set ps" using t(1) by (rule map_of_SomeD)
  then have "map_option documented_type (map_of table k) = Some t"
    using assms(1) unfolding assms(2) described_by_def by (auto simp: list_all_iff)
  then obtain f where f: "map_of table k = Some f" "documented_type f = t" by (cases "map_of table k") auto
  have "(k, f) \<in> set table" using f(1) by (rule map_of_SomeD)
  moreover have "\<forall>x\<in>set table. case x of (n, f) \<Rightarrow> (case f of FTime _ \<Rightarrow> n \<in> {''created_from'', ''created_to''} | _ \<Rightarrow> True)"
    using assms(1) unfolding assms(2) described_by_def schema.case list_all_iff by (rule conjunct2)
  ultimately have times: "case f of FTime _ \<Rightarrow> k \<in> {''created_from'', ''created_to''} | _ \<Rightarrow> True" by (metis (no_types, lifting) case_prodD)
  have "readable parse_time (k, v)" using Cons.prems(2) m by simp
  from read_field_total [OF _ this times] obtain q1 where q1: "read_field parse_time raw f v q = Some q1" using t(2) f(2) by blast
  show ?case using Cons.IH [of q1] Cons.prems q1 f(1) by (simp add: m field_of_def assms(2))
qed simp

lemma bind_json_total:
  assumes "described_by table t" and "expand D s = t" and "first_value body = Some (JObj ms)" and "conforms D s (JObj ms)"
    and "list_all (readable parse_time) ms"
  shows "\<exists>q. bind_json parse_time raw table zero body = Inr q"
proof -
  obtain ps where ps: "t = Properties ps" using assms(1) by (auto simp: described_by_def split: schema.splits)
  have "conforms D t (JObj ms)" using assms(2,4) ps by simp
  from read_members_total [OF assms(1) ps this assms(5), of "raw body" zero]
  show ?thesis using assms(3) by (auto simp: bind_json_def read_struct_def)
qed

section \<open>Routes\<close>

text \<open>The routes for callers: the probes and the API.\<close>

definition described_routes :: "'o http_api \<Rightarrow> (string \<times> ('r, 'o world) handler) list" where
  "described_routes H = (''/live'', Live) # (''/ready'', Ready H) # api_routes H"

text \<open>The routes that read a body, with what their decoder makes of it.\<close>

definition accepting :: "'o http_api \<Rightarrow> (string \<times> (string \<Rightarrow> bool)) list" where
  "accepting H =
    [(''/api/v1/exports/create'', \<lambda>body. \<not> isl (bind_create H body)),
     (''/api/v1/exports/datasets/list'', \<lambda>body. \<not> isl (bind_list_datasets H body)),
     (''/api/v1/exports/datasets/describe'', \<lambda>body. \<not> isl (bind_describe H body)),
     (''/api/v1/exports/get'', \<lambda>body. \<not> isl (bind_get H body)),
     (''/api/v1/exports/list'', \<lambda>body. \<not> isl (bind_list H body)),
     (''/api/v1/exports/cancel'', \<lambda>body. \<not> isl (bind_versioned H body)),
     (''/api/v1/exports/retry'', \<lambda>body. \<not> isl (bind_retry H body)),
     (''/api/v1/exports/download'', \<lambda>body. \<not> isl (bind_download H body))]"

definition documents :: "operation \<Rightarrow> string \<Rightarrow> bool" where
  "documents op n \<longleftrightarrow> (\<forall>(status, what, s)\<in>set (dop_responses op). s = answer_schema n \<or> s = Ref ''httptransport.Response'')"

lemma export_documents [simp]: "documents (export_operation tag summary what request n) n"
  by (simp add: documents_def export_operation_def)

lemma plain_documents [simp]:
  "documents (plain_operation tag summary protection responses) n \<longleftrightarrow>
    (\<forall>(status, what, s)\<in>set responses. s = answer_schema n \<or> s = Ref ''httptransport.Response'')"
  by (simp add: documents_def plain_operation_def)

lemma documented_routes:
  "distinct (map fst documented_paths)"
  "set (map fst documented_paths) = set (map fst (described_routes H))"
  "(path, verb, op) \<in> set documented_paths \<Longrightarrow> verb = ''post''"
  by (auto simp: documented_paths_def described_routes_def api_routes_def)

lemma documented_lookups:
  "map_of documented_paths ''/api/v1/exports/cancel'' = Some (''post'', op_cancel)"
  "map_of documented_paths ''/api/v1/exports/create'' = Some (''post'', op_create)"
  "map_of documented_paths ''/api/v1/exports/datasets/describe'' = Some (''post'', op_datasets_describe)"
  "map_of documented_paths ''/api/v1/exports/datasets/list'' = Some (''post'', op_datasets_list)"
  "map_of documented_paths ''/api/v1/exports/download'' = Some (''post'', op_download)"
  "map_of documented_paths ''/api/v1/exports/get'' = Some (''post'', op_get)"
  "map_of documented_paths ''/api/v1/exports/list'' = Some (''post'', op_list)"
  "map_of documented_paths ''/api/v1/exports/retry'' = Some (''post'', op_retry)"
  "map_of documented_paths ''/api/v1/me'' = Some (''post'', op_me)"
  "map_of documented_paths ''/api/v1/version'' = Some (''post'', op_version)"
  "map_of documented_paths ''/live'' = Some (''post'', op_live)"
  "map_of documented_paths ''/ready'' = Some (''post'', op_ready)"
  by (simp_all add: documented_paths_def)

definition truly_documented :: "string \<times> ('r, 'w) handler \<Rightarrow> bool" where
  "truly_documented ph \<longleftrightarrow>
    (\<exists>op n. map_of documented_paths (fst ph) = Some (''post'', op) \<and> answers_with n (snd ph) \<and> documents op n)"

lemma documentedI:
  "map_of documented_paths path = Some (''post'', op) \<Longrightarrow> answers_with n h \<Longrightarrow> documents op n \<Longrightarrow> truly_documented (path, h)"
  by (auto simp: truly_documented_def)

lemma routes_documented: "list_all truly_documented (described_routes H)"
  unfolding described_routes_def api_routes_def list.pred_inject
  by (intro conjI list.pred_inject(1); (rule documentedI, rule documented_lookups,
      rule Version_answers Me_answers Live_answers Ready_answers operation_answers, simp add: operation_defs))

lemma route_documented:
  assumes "(path, h) \<in> set (described_routes H)" and "(path, verb, op) \<in> set documented_paths"
  shows "\<exists>n. answers_with n h \<and> documents op n"
proof -
  have "truly_documented (path, h)" using routes_documented assms(1) unfolding list_all_iff by (rule bspec)
  moreover have "map_of documented_paths path = Some (verb, op)" using assms(2) documented_routes(1) by (simp add: map_of_is_SomeI)
  ultimately show ?thesis by (auto simp: truly_documented_def)
qed

text \<open>A decoder reads what its schema allows.\<close>

definition reads :: "(string \<Rightarrow> time option) \<Rightarrow> schema \<Rightarrow> (string \<Rightarrow> bool) \<Rightarrow> bool" where
  "reads parse_time s accept \<longleftrightarrow> (\<forall>body ms. first_value body = Some (JObj ms) \<longrightarrow> conforms doc_definitions s (JObj ms)
     \<longrightarrow> list_all (readable parse_time) ms \<longrightarrow> accept body)"

lemma reads_bind:
  assumes "described_by table t" and "expand doc_definitions s = t"
  shows "reads parse_time s (\<lambda>body. \<not> isl (bind_json parse_time raw table zero body))"
  unfolding reads_def using bind_json_total [OF assms] by (metis sum.disc(2))

definition reads_documented :: "(string \<Rightarrow> time option) \<Rightarrow> string \<times> (string \<Rightarrow> bool) \<Rightarrow> bool" where
  "reads_documented parse_time pa \<longleftrightarrow> (\<exists>op name place what required s. map_of documented_paths (fst pa) = Some (''post'', op)
     \<and> dop_parameters op = [(name, place, what, required, s)] \<and> reads parse_time s (snd pa))"

lemma reads_documentedI:
  assumes "map_of documented_paths path = Some (''post'', op)" and "op = export_operation tag summary what request body"
    and "expand doc_definitions (Ref request) = t" and "described_by table t"
  shows "reads_documented parse_time (path, \<lambda>body. \<not> isl (bind_json parse_time raw table zero body))"
  using assms(1) reads_bind [OF assms(4,3), of parse_time raw zero] unfolding reads_documented_def assms(2)
  by (auto simp: export_operation_def)

lemma decoders_read:
  "list_all (reads_documented parse_time) (accepting (with_decoders parse_time raw H))"
  by (cases H; simp only: accepting_def with_decoders_def http_api.select_convs http_api.update_convs list.pred_inject;
      intro conjI TrueI list.pred_inject(1); (rule reads_documentedI, rule documented_lookups, rule operation_defs, rule request_lookups,
      rule request_schemas))

text \<open>Every answer of a handler with a documented status is as the operation describes it.\<close>

definition answers_described :: "(time \<Rightarrow> string) \<Rightarrow> operation \<Rightarrow> ('r, 'w) handler \<Rightarrow> bool" where
  "answers_described T op h \<longleftrightarrow> (\<forall>c r w c' r' w' resp status what s. gn_response c = None \<longrightarrow> h (c, r, w) = (c', r', w')
     \<longrightarrow> gn_response c' = Some resp \<longrightarrow> list_all object_text (body_queries (rsp_Body resp))
     \<longrightarrow> (status, what, s) \<in> set (dop_responses op) \<longrightarrow> gn_Status c' = status \<longrightarrow> conforms doc_definitions s (response_json T resp))"

lemma documented_answers:
  assumes "(path, h) \<in> set (described_routes H)" and "(path, verb, op) \<in> set documented_paths"
  shows "answers_described T op h"
proof -
  obtain n where n: "answers_with n h" "documents op n" using route_documented [OF assms] by blast
  have "conforms doc_definitions s (response_json T resp)"
    if run: "gn_response c = None" "h (c, r, w) = (c', r', w')" "gn_response c' = Some resp"
      and queries: "list_all object_text (body_queries (rsp_Body resp))" and s: "(status, what, s) \<in> set (dop_responses op)"
    for c r w c' r' w' resp status what s
  proof -
    have "rsp_Body resp = NoBody \<or> body_schema (rsp_Body resp) = n"
      using n(1) run unfolding answers_with_def by fastforce
    moreover have "s = answer_schema n \<or> s = Ref ''httptransport.Response''" using n(2) s unfolding documents_def by blast
    ultimately show ?thesis by (rule response_conforms [OF queries])
  qed
  then show ?thesis unfolding answers_described_def by blast
qed

lemma documented_reads:
  assumes "(path, accept) \<in> set (accepting (with_decoders parse_time raw H))" and "(path, verb, op) \<in> set documented_paths"
    and "(name, place, what, required, s) \<in> set (dop_parameters op)"
  shows "reads parse_time s accept"
proof -
  have "map_of documented_paths path = Some (verb, op)" using assms(2) documented_routes(1) by (simp add: map_of_is_SomeI)
  then show ?thesis using bspec [OF decoders_read [unfolded list_all_iff] assms(1)] assms(3) by (auto simp: reads_documented_def)
qed

section \<open>Properties\<close>


definition demo_body :: string where
  "demo_body = ''{\"id\":\"j\"}''"

lemma demo_letters: "EncodeRune 105 = ''i''" "EncodeRune 100 = ''d''" "EncodeRune 106 = ''j''"
  by (simp_all add: EncodeRune_def char_of_def bit_0)

lemmas json_eval = json_parse_def start_token_def json_space_def punct_def scalar_token_def begin_value_def max_depth_def demo_letters

lemma demo_parse: "json_parse demo_body = Some (JObj [(''id'', JStr ''j'')])"
  by (simp add: demo_body_def json_eval)

lemma demo_prefixes:
  "json_parse [] = None" "json_parse ''{'' = None" "json_parse ''{\"'' = None" "json_parse ''{\"i'' = None" "json_parse ''{\"id'' = None" "json_parse ''{\"id\"'' = None" "json_parse ''{\"id\":'' = None" "json_parse ''{\"id\":\"'' = None" "json_parse ''{\"id\":\"j'' = None" "json_parse ''{\"id\":\"j\"'' = None"
  by (simp_all add: json_eval)

lemma demo_lengths: "[0..<Suc (length demo_body)] = [0, 1, 2, 3, 4, 5, 6, 7, 8, 9, 10]"
  by code_simp

lemma demo_first_value: "first_value demo_body = Some (JObj [(''id'', JStr ''j'')])"
  unfolding first_value_def demo_lengths json_Valid_def
  using demo_parse by (simp add: demo_body_def demo_prefixes)


text \<open>Columns that were not given are answered with \<open>null\<close>, which the document does not know.\<close>

lemma missing_columns_null:
  assumes "cer_SelectedColumns q = None" and "SelectedColumnsJSON j = ci_SelectedColumnsJSON (create_input_of q)"
  shows "jb_SelectedColumns (exportJobBody j) = None"
proof -
  have "columns_of ''null'' = None" by code_simp
  then show ?thesis using assms by (simp add: exportJobBody_def create_input_of_def marshal_strings_def)
qed

end
