(* ===== verification/App_Runtime.thy ===== *)
theory App_Runtime
  imports Outbound_Laws App_Scheduler Export_Catalog
begin

text \<open>
  The constructors of \<open>internal/app/app.go\<close>, \<open>internal/app/application.go\<close>, \<open>internal/authorization/provider.go\<close>,
  \<open>internal/idempotency/manager.go\<close> and \<open>internal/database/database.go\<close>: which parts a
  process is built of, from its configuration.  The container that calls the constructors, the drivers and the clients of the
  platform services are parameters.
\<close>

section \<open>The database\<close>

text \<open>The parsed connection strings of the two drivers: what \<open>Open\<close> sets, and the rest.\<close>

record pgx_config =
  pgx_Database :: string
  pgx_RuntimeParams :: "string \<rightharpoonup> string"
  pgx_rest :: string

record mysql_config =
  my_DBName :: string
  my_ParseTime :: bool
  my_Loc :: string
  my_rest :: string

record 'd drivers =
  dr_ParseConfig :: "string \<Rightarrow> pgx_config result"
  dr_OpenDB :: "pgx_config \<Rightarrow> 'd"
  dr_ParseDSN :: "string \<Rightarrow> mysql_config result"
  dr_LoadLocation :: "string \<Rightarrow> goerror option"
  dr_FormatDSN :: "mysql_config \<Rightarrow> string"
  dr_Open :: "string \<Rightarrow> string \<Rightarrow> 'd result"
  dr_Ping :: "'d \<Rightarrow> duration \<Rightarrow> goerror option"

record pool_limits =
  pool_MaxOpen :: int
  pool_MaxIdle :: int
  pool_MaxLifetime :: duration
  pool_MaxIdleTime :: duration

definition driverName :: "string \<Rightarrow> string result" where
  "driverName dbType =
    (if dbType = ''mysql'' then Inr ''mysql''
     else if dbType = ''postgres'' \<or> dbType = ''kingbase'' then Inr ''pgx''
     else Inl (Opaque (''unsupported database type '' @ dbType)))"

definition open_pgx :: "'d drivers \<Rightarrow> database_config \<Rightarrow> 'd result" where
  "open_pgx D cfg =
    (case dr_ParseConfig D (dbc_DSN cfg) of
       Inl e \<Rightarrow> Inl (Wrap ''parse database dsn: '' e [])
     | Inr cc \<Rightarrow>
        (let c1 = (if dbc_Name cfg \<noteq> [] then cc\<lparr>pgx_Database := dbc_Name cfg\<rparr> else cc);
             c2 = (if dbc_Schema cfg \<noteq> [] then c1\<lparr>pgx_RuntimeParams := (pgx_RuntimeParams c1)(''search_path'' \<mapsto> dbc_Schema cfg)\<rparr> else c1)
         in Inr (dr_OpenDB D (c2\<lparr>pgx_RuntimeParams := (pgx_RuntimeParams c2)(''timezone'' \<mapsto> ''Asia/Shanghai'')\<rparr>))))"

definition open_mysql :: "'d drivers \<Rightarrow> string \<Rightarrow> database_config \<Rightarrow> 'd result" where
  "open_mysql D driver cfg =
    (case dr_ParseDSN D (dbc_DSN cfg) of
       Inl e \<Rightarrow> Inl (Wrap ''parse database dsn: '' e [])
     | Inr cc \<Rightarrow>
        (let c1 = (if dbc_Name cfg \<noteq> [] then cc\<lparr>my_DBName := dbc_Name cfg\<rparr> else cc)
         in case dr_LoadLocation D ''Asia/Shanghai'' of
              Some e \<Rightarrow> Inl (Wrap ''load database timezone: '' e [])
            | None \<Rightarrow>
               (case dr_Open D driver (dr_FormatDSN D (c1\<lparr>my_ParseTime := True, my_Loc := ''Asia/Shanghai''\<rparr>)) of
                  Inl e \<Rightarrow> Inl (Wrap ''open database: '' e [])
                | Inr db \<Rightarrow> Inr db)))"

definition database_Open :: "'d drivers \<Rightarrow> database_config \<Rightarrow> ('d \<times> pool_limits) result" where
  "database_Open D cfg =
    (case driverName (dbc_Type cfg) of
       Inl e \<Rightarrow> Inl e
     | Inr driver \<Rightarrow>
        (case (if driver = ''pgx'' then open_pgx D cfg
               else if driver = ''mysql'' then open_mysql D driver cfg
               else case dr_Open D driver (dbc_DSN cfg) of Inl e \<Rightarrow> Inl (Wrap ''open database: '' e []) | Inr db \<Rightarrow> Inr db) of
           Inl e \<Rightarrow> Inl e
         | Inr db \<Rightarrow>
            (case dr_Ping D db (dbc_PingTimeout cfg) of
               Some e \<Rightarrow> Inl (Wrap ''ping database: '' e [])
             | None \<Rightarrow> Inr (db, \<lparr>pool_MaxOpen = dbc_MaxOpenConns cfg, pool_MaxIdle = dbc_MaxIdleConns cfg,
                 pool_MaxLifetime = dbc_ConnMaxLifetime cfg, pool_MaxIdleTime = dbc_ConnMaxIdleTime cfg\<rparr>))))"

section \<open>The parts of a process\<close>

text \<open>\<open>None\<close> is the nil pointer of a part that is disabled.\<close>

definition newDatabase :: "'d drivers \<Rightarrow> config \<Rightarrow> ('d \<times> pool_limits) option result" where
  "newDatabase D cfg =
    (if \<not> dbc_Enabled (c_Database cfg) then Inr None
     else case database_Open D (c_Database cfg) of Inl e \<Rightarrow> Inl e | Inr db \<Rightarrow> Inr (Some db))"

definition newRedis ::
  "(redis_config \<Rightarrow> 'k) \<Rightarrow> ('k \<Rightarrow> goerror option) \<Rightarrow> ('k \<Rightarrow> goerror option) \<Rightarrow> bool \<Rightarrow> config \<Rightarrow> 'k option result" where
  "newRedis newClient ping instrument tracing cfg =
    (if \<not> redis_Enabled (c_Redis cfg) then Inr None
     else case cache_Open newClient ping (c_Redis cfg) of
       Inl e \<Rightarrow> Inl e
     | Inr rc \<Rightarrow>
        if tracing then (case instrument rc of
            Some e \<Rightarrow> Inl (Wrap ''instrument redis tracing: '' e [])
          | None \<Rightarrow> Inr (Some rc))
        else Inr (Some rc))"

definition newLocker :: "('k \<Rightarrow> 'r redsync) \<Rightarrow> 'k option \<Rightarrow> 'r redsync option" where
  "newLocker NewLocker rdb = (case rdb of None \<Rightarrow> None | Some c \<Rightarrow> Some (NewLocker c))"

record idempotency_settings =
  is_Enabled :: bool
  is_Service :: string
  is_ProcessingTTL :: duration
  is_ResultTTL :: duration
  is_FailureTTL :: duration

definition idempotency_New :: "('k option \<Rightarrow> idempotency_settings \<Rightarrow> 'm) \<Rightarrow> 'k option \<Rightarrow> config \<Rightarrow> 'm" where
  "idempotency_New new rdb cfg =
    (let i = c_Idempotency cfg
     in new rdb \<lparr>is_Enabled = idem_Enabled i, is_Service = app_Name (c_App cfg), is_ProcessingTTL = idem_ProcessingTTL i,
          is_ResultTTL = idem_ResultTTL i, is_FailureTTL = idem_FailureTTL i\<rparr>)"

definition disabledApplicationVerifier :: verifier where
  "disabledApplicationVerifier t a = None"

definition newApplicationVerifier :: "('c \<Rightarrow> duration \<Rightarrow> verifier) \<Rightarrow> config \<Rightarrow> 'c registry option \<Rightarrow> verifier result" where
  "newApplicationVerifier NewGRPCVerifier cfg registry =
    (if \<not> dbc_Enabled (c_Database cfg) then Inr disabledApplicationVerifier
     else case registry of
       None \<Rightarrow> Inl (Opaque ''data export service requires outbound registry'')
     | Some r \<Rightarrow>
        (case registry_GRPC r ''application'' of
           None \<Rightarrow> Inl (Opaque ''data export service requires outbound.grpc.application'')
         | Some connection \<Rightarrow> Inr (NewGRPCVerifier connection 2000000000)))"

definition authorization_New :: "('c option \<Rightarrow> duration \<Rightarrow> 'z) \<Rightarrow> 'c registry \<Rightarrow> 'z" where
  "authorization_New NewGRPCAuthorizer registry =
    (case registry_GRPC registry ''authorization'' of
       None \<Rightarrow> NewGRPCAuthorizer None 2000000000
     | Some connection \<Rightarrow> NewGRPCAuthorizer (Some connection) 2000000000)"

section \<open>The export module\<close>

text \<open>The libraries a pipeline calls.\<close>

record 'c pipeline_libs =
  pi_streams :: "'c \<Rightarrow> stream_env"
  pi_gofmt :: gofmt
  pi_excelize :: excelize
  pi_sha256 :: "string \<Rightarrow> string"
  pi_producer_first :: bool

definition NewPipeline :: "'c pipeline_libs \<Rightarrow> 'c provider_env \<Rightarrow> 'o s3 \<Rightarrow> int \<Rightarrow> int \<Rightarrow> int \<Rightarrow> int \<Rightarrow> ('c, 'o) pipeline" where
  "NewPipeline L provider storage batchSize maxRows maxBytes progressEvery =
    \<lparr>pl_provider = provider, pl_streams = pi_streams L, pl_storage = storage, pl_batchSize = batchSize, pl_maxRows = maxRows,
     pl_maxBytes = maxBytes, pl_progressEvery = progressEvery, pl_gofmt = pi_gofmt L, pl_excelize = pi_excelize L,
     pl_sha256 = pi_sha256 L, pl_producer_first = pi_producer_first L\<rparr>"

definition newPipeline :: "'c pipeline_libs \<Rightarrow> 'c provider_env \<Rightarrow> 'o s3 \<Rightarrow> config \<Rightarrow> ('c, 'o) pipeline" where
  "newPipeline L provider storage cfg = NewPipeline L provider storage (exp_BatchSize (c_Export cfg)) (exp_MaxRows (c_Export cfg))
     (exp_MaxBytes (c_Export cfg)) (exp_ProgressEvery (c_Export cfg))"

text \<open>The job timeout is the deadline of a run's context, which a model of the worker sees as the errors of what it cuts off.\<close>

definition NewWorker :: "('c, 'o) pipeline \<Rightarrow> 'o s3 \<Rightarrow> duration \<Rightarrow> ('c, 'o) worker" where
  "NewWorker pipeline storage ttl = \<lparr>wk_pipeline = pipeline, wk_storage = storage, wk_resultTTL = ttl\<rparr>"

definition newWorker :: "('c, 'o) pipeline \<Rightarrow> 'o s3 \<Rightarrow> config \<Rightarrow> ('c, 'o) worker" where
  "newWorker pipeline storage cfg = NewWorker pipeline storage (exp_ResultTTL (c_Export cfg))"

text \<open>
  The service and the worker of a process.  The provider is both the source of the pipeline and the
  catalog of the service: \<open>describe\<close> is its \<open>DescribeDataset\<close>.
\<close>

definition export_module ::
  "golib \<Rightarrow> 'c pipeline_libs \<Rightarrow> (config \<Rightarrow> 'o s3 result) \<Rightarrow> (config \<Rightarrow> ('c provider_env \<times> 'c grpc_provider) result)
    \<Rightarrow> ('c provider_env \<Rightarrow> describer) \<Rightarrow> config \<Rightarrow> verifier option
    \<Rightarrow> ('o service \<times> catalog \<times> ('c, 'o) worker \<times> 'c grpc_provider) result" where
  "export_module lib L newStorage newProvider describe cfg apps =
    (case newStorage cfg of
       Inl e \<Rightarrow> Inl e
     | Inr storage \<Rightarrow>
        (case newProvider cfg of
           Inl e \<Rightarrow> Inl e
         | Inr (provider, gp) \<Rightarrow>
            (case NewRuntimeService lib storage (exp_ResultTTL (c_Export cfg)) (os_PresignTTL (c_ObjectStorage cfg)) apps
                (Some (describe provider)) of
               Inl e \<Rightarrow> Inl e
             | Inr service \<Rightarrow>
                (case NewRuntimeCatalog \<lparr>cp_ListDatasets = ListDatasets provider, cp_DescribeDataset = describe provider\<rparr> apps of
                   Inl e \<Rightarrow> Inl e
                 | Inr cat \<Rightarrow> Inr (service, cat, newWorker (newPipeline L provider storage cfg) storage cfg, gp)))))"

section \<open>Laws\<close>

text \<open>The pool a database is opened with, on success: the right driver, the configured database and schema, and the one timezone.\<close>

definition pgx_target :: "database_config \<Rightarrow> pgx_config \<Rightarrow> pgx_config \<Rightarrow> bool" where
  "pgx_target cfg parsed cc \<longleftrightarrow> pgx_Database cc = (if dbc_Name cfg = [] then pgx_Database parsed else dbc_Name cfg)
    \<and> pgx_RuntimeParams cc ''timezone'' = Some ''Asia/Shanghai''
    \<and> pgx_RuntimeParams cc ''search_path'' = (if dbc_Schema cfg = [] then pgx_RuntimeParams parsed ''search_path'' else Some (dbc_Schema cfg))
    \<and> pgx_rest cc = pgx_rest parsed"

lemma open_pgx_target:
  assumes "open_pgx D cfg = Inr db"
  shows "\<exists>parsed cc. dr_ParseConfig D (dbc_DSN cfg) = Inr parsed \<and> db = dr_OpenDB D cc \<and> pgx_target cfg parsed cc"
proof -
  obtain parsed where p: "dr_ParseConfig D (dbc_DSN cfg) = Inr parsed"
    using assms by (auto simp: open_pgx_def split: sum.splits)
  define c1 where "c1 = (if dbc_Name cfg \<noteq> [] then parsed\<lparr>pgx_Database := dbc_Name cfg\<rparr> else parsed)"
  define c2 where "c2 = (if dbc_Schema cfg \<noteq> [] then c1\<lparr>pgx_RuntimeParams := (pgx_RuntimeParams c1)(''search_path'' \<mapsto> dbc_Schema cfg)\<rparr> else c1)"
  define cc where "cc = c2\<lparr>pgx_RuntimeParams := (pgx_RuntimeParams c2)(''timezone'' \<mapsto> ''Asia/Shanghai'')\<rparr>"
  have "dr_OpenDB D cc = db" using assms p unfolding open_pgx_def Let_def c1_def c2_def cc_def by (simp only: sum.case sum.inject)
  then have "db = dr_OpenDB D cc" by simp
  moreover have "pgx_target cfg parsed cc" by (simp add: pgx_target_def c1_def c2_def cc_def)
  ultimately show ?thesis using p by blast
qed

lemma driverName_Inr:
  "driverName t = Inr driver \<longleftrightarrow> t = ''mysql'' \<and> driver = ''mysql'' \<or> t \<in> {''postgres'', ''kingbase''} \<and> driver = ''pgx''"
  by (auto simp: driverName_def)

lemma driverName_isDBType: "isDBType t \<longleftrightarrow> (\<exists>driver. driverName t = Inr driver)"
  by (auto simp: isDBType_def driverName_def)

lemma database_Open_pgx:
  assumes "database_Open D cfg = Inr (db, limits)" and "dbc_Type cfg \<noteq> ''mysql''"
  shows "\<exists>parsed cc. dr_ParseConfig D (dbc_DSN cfg) = Inr parsed \<and> db = dr_OpenDB D cc \<and> pgx_target cfg parsed cc
    \<and> dr_Ping D db (dbc_PingTimeout cfg) = None"
  using assms open_pgx_target [of D cfg db]
  by (auto simp: database_Open_def driverName_Inr split: sum.splits option.splits)

text \<open>A validated configuration has every connection the process asks its registry for.\<close>

lemma Validate_upstreams:
  assumes "Validate cfg = None" and "NewRegistry U F newClient (c_Outbound cfg) = (Inr r, dropped)"
  shows "(dbc_Enabled (c_Database cfg) \<longrightarrow> registry_GRPC r ''application'' \<noteq> None)
    \<and> (authz_Enabled (c_Authorization cfg) \<longrightarrow> registry_GRPC r ''authorization'' \<noteq> None)"
proof -
  have "registry_GRPC r n = None \<longleftrightarrow> map_of (outb_GRPC (c_Outbound cfg)) n = None" for n
    using NewRegistry_complete [OF assms(2)] by (simp add: registry_GRPC_def map_of_eq_None_iff flip: set_map)
  then show ?thesis using assms(1) by (auto simp: Validate_None validate_servers_def validate_exposure_def Let_def)
qed

definition worker_limits :: "('c, 'o) worker \<Rightarrow> bool" where
  "worker_limits W \<longleftrightarrow> (let p = wk_pipeline W
     in 1 \<le> pl_batchSize p \<and> pl_batchSize p \<le> 10000 \<and> 1 \<le> pl_maxRows p \<and> 1 \<le> pl_maxBytes p \<and> 1 \<le> pl_progressEvery p \<and> 0 < wk_resultTTL W)"

lemma Validate_limits: "Validate cfg = None \<Longrightarrow> worker_limits (newWorker (newPipeline L provider storage cfg) storage cfg)"
  by (auto simp: Validate_None validate_export_def Let_def worker_limits_def newWorker_def NewWorker_def newPipeline_def NewPipeline_def)

lemma export_module_parts:
  assumes "export_module lib L newStorage newProvider describe cfg (Some verify) = Inr (service, cat, worker, gp)"
  shows "\<exists>storage provider. newStorage cfg = Inr storage \<and> newProvider cfg = Inr (provider, gp)
    \<and> service = (NewService lib storage (exp_ResultTTL (c_Export cfg)) (os_PresignTTL (c_ObjectStorage cfg)))
        \<lparr>applications := verify, catalog := Some (describe provider)\<rparr>
    \<and> cat = \<lparr>cat_provider = \<lparr>cp_ListDatasets = ListDatasets provider, cp_DescribeDataset = describe provider\<rparr>, cat_applications = verify\<rparr>
    \<and> worker = newWorker (newPipeline L provider storage cfg) storage cfg"
  using assms by (auto simp: export_module_def NewRuntimeService_def NewRuntimeCatalog_def split: sum.splits)

section \<open>Properties\<close>

text \<open>
  The parts fit.  From a configuration that passes validation and its registry of upstreams, the application verifier is
  always constructed; with a database it is the one over the \<open>application\<close> upstream, and the service and the catalog both
  use it, never the verifier that allows everything.  The service and the worker share one storage and one lifetime of
  results, the catalog describes the datasets of the provider the worker reads, and the limits of the worker are positive.
\<close>

theorem wired_process:
  assumes "Validate cfg = None" and "NewRegistry U F newClient (c_Outbound cfg) = (Inr r, dropped)"
  shows "\<exists>verify. newApplicationVerifier NewGRPCVerifier cfg (Some r) = Inr verify
    \<and> (dbc_Enabled (c_Database cfg) \<longrightarrow> (\<exists>conn. registry_GRPC r ''application'' = Some conn \<and> verify = NewGRPCVerifier conn 2000000000))
    \<and> (authz_Enabled (c_Authorization cfg) \<longrightarrow> (\<exists>conn. registry_GRPC r ''authorization'' = Some conn
        \<and> authorization_New NewGRPCAuthorizer r = NewGRPCAuthorizer (Some conn) 2000000000))
    \<and> (\<forall>service cat worker gp.
         export_module lib L newStorage newProvider describe cfg (Some verify) = Inr (service, cat, worker, gp)
         \<longrightarrow> applications service = verify \<and> cat_applications cat = verify
           \<and> catalog service = Some (describe (pl_provider (wk_pipeline worker))) \<and> cp_ListDatasets (cat_provider cat) = ListDatasets (pl_provider (wk_pipeline worker))
           \<and> sv_storage service = wk_storage worker \<and> pl_storage (wk_pipeline worker) = wk_storage worker
           \<and> resultTTL service = wk_resultTTL worker \<and> worker_limits worker)"
proof -
  have up: "dbc_Enabled (c_Database cfg) \<Longrightarrow> \<exists>conn. registry_GRPC r ''application'' = Some conn"
    "authz_Enabled (c_Authorization cfg) \<Longrightarrow> \<exists>conn. registry_GRPC r ''authorization'' = Some conn"
    using Validate_upstreams [OF assms] by auto
  have az: "authz_Enabled (c_Authorization cfg) \<longrightarrow> (\<exists>conn. registry_GRPC r ''authorization'' = Some conn
        \<and> authorization_New NewGRPCAuthorizer r = NewGRPCAuthorizer (Some conn) 2000000000)"
    using up(2) by (auto simp: authorization_New_def)
  obtain verify where v: "newApplicationVerifier NewGRPCVerifier cfg (Some r) = Inr verify"
    "dbc_Enabled (c_Database cfg) \<longrightarrow> (\<exists>conn. registry_GRPC r ''application'' = Some conn \<and> verify = NewGRPCVerifier conn 2000000000)"
    using up(1) by (cases "dbc_Enabled (c_Database cfg)") (auto simp: newApplicationVerifier_def)
  have parts: "applications service = verify \<and> cat_applications cat = verify
      \<and> catalog service = Some (describe (pl_provider (wk_pipeline worker))) \<and> cp_ListDatasets (cat_provider cat) = ListDatasets (pl_provider (wk_pipeline worker))
      \<and> sv_storage service = wk_storage worker \<and> pl_storage (wk_pipeline worker) = wk_storage worker
      \<and> resultTTL service = wk_resultTTL worker \<and> worker_limits worker"
    if m: "export_module lib L newStorage newProvider describe cfg (Some verify) = Inr (service, cat, worker, gp)"
    for service cat worker gp
    using export_module_parts [OF m] Validate_limits [OF assms(1), of L]
    by (auto simp: NewService_def newWorker_def NewWorker_def newPipeline_def NewPipeline_def)
  show ?thesis using v az parts by blast
qed

text \<open>A process with a database, an application service that refuses, and the libraries of the worker's examples.\<close>

definition demo_application :: grpc_upstream_config where
  "demo_application = demo_upstream\<lparr>gu_Target := ''application:9090''\<rparr>"

definition demo_wired :: config where
  "demo_wired = setDefaults\<lparr>c_Database := default_database\<lparr>dbc_Enabled := True, dbc_DSN := ''postgres://db''\<rparr>,
     c_Outbound := \<lparr>outb_HTTP = [], outb_GRPC = [(''application'', demo_application)]\<rparr>\<rparr>"

definition demo_registry :: "string registry" where
  "demo_registry = \<lparr>reg_http = [], reg_grpc = [(''application'', ''application:9090'')]\<rparr>"

definition demo_refusing :: "string \<Rightarrow> duration \<Rightarrow> verifier" where
  "demo_refusing conn timeout t a = Some ErrNotGranted"

definition demo_libs :: "string pipeline_libs" where
  "demo_libs = \<lparr>pi_streams = pl_streams demo_pipeline, pi_gofmt = pl_gofmt demo_pipeline, pi_excelize = pl_excelize demo_pipeline,
     pi_sha256 = pl_sha256 demo_pipeline, pi_producer_first = True\<rparr>"

lemma demo_wired_valid: "Validate demo_wired = None"
  unfolding Validate_None
  by (simp add: validate_defs default_defs default_patterns default_names demo_wired_def demo_application_def demo_upstream_def
      validateClientPolicy_def first_error_None isDBType_def)

lemma demo_wired_registry: "NewRegistry U demo_files (\<lambda>target _. Inr target) (c_Outbound demo_wired) = (Inr demo_registry, [])"
  by (simp add: NewRegistry_def demo_wired_def demo_registry_def demo_application_def demo_upstream_def upstream_dial_def Dial_def
      transportCredentials_def default_defs)

theorem wired_process_witness:
  "\<exists>service cat worker gp. export_module (sv_lib demo_service) demo_libs (\<lambda>_. Inr (pl_storage demo_pipeline))
      (\<lambda>_. Inr (pl_provider demo_pipeline, demo_gp)) (\<lambda>_ _ _ _ _. Inl IoEOF) demo_wired
      (Some (demo_refusing ''application:9090'' 2000000000)) = Inr (service, cat, worker, gp)
    \<and> applications service ''t'' ''a'' = Some ErrNotGranted \<and> worker_limits worker"
proof -
  let ?m = "export_module (sv_lib demo_service) demo_libs (\<lambda>_. Inr (pl_storage demo_pipeline))
      (\<lambda>_. Inr (pl_provider demo_pipeline, demo_gp)) (\<lambda>_ _ _ _ _. Inl IoEOF) demo_wired
      (Some (demo_refusing ''application:9090'' 2000000000))"
  have v: "newApplicationVerifier demo_refusing demo_wired (Some demo_registry) = Inr (demo_refusing ''application:9090'' 2000000000)"
    by (simp add: newApplicationVerifier_def demo_wired_def demo_registry_def registry_GRPC_def)
  obtain service cat worker gp where m: "?m = Inr (service, cat, worker, gp)"
    by (simp add: export_module_def NewRuntimeService_def NewRuntimeCatalog_def)
  show ?thesis
    using wired_process [OF demo_wired_valid, OF demo_wired_registry, of demo_refusing "\<lambda>_ _. ()" "sv_lib demo_service" demo_libs
        "\<lambda>_. Inr (pl_storage demo_pipeline)" "\<lambda>_. Inr (pl_provider demo_pipeline, demo_gp)" "\<lambda>_ _ _ _ _. Inl IoEOF"] m
    unfolding v by (fastforce simp: demo_refusing_def)
qed

end
