(* ===== verification/App_Process.thy ===== *)
theory App_Process
  imports Http_Server Grpc_Server Observability_Laws Api_Docs_Laws App_Events App_Migration App_Runtime
begin

text \<open>
  \<open>New\<close> of \<open>internal/app/app.go\<close> and \<open>main\<close> of \<open>cmd/api\<close>: the whole process, from its command line over the loaded
  configuration to its servers.  The container calls every constructor once, after those it needs; here in the order in which the
  modules ask for them.  The platform gives what is outside of the repository.
\<close>

section \<open>Constructors\<close>

text \<open>A constructor after another, which may fail.\<close>

definition and_then :: "'a result \<Rightarrow> ('a \<Rightarrow> 'b result) \<Rightarrow> 'b result" where
  "and_then m f = (case m of Inl e \<Rightarrow> Inl e | Inr x \<Rightarrow> f x)"

lemma and_then_Inr [simp]: "and_then (Inr x) f = f x"
  by (simp add: and_then_def)

lemma and_then_elim: "and_then m f = Inr y \<Longrightarrow> (\<And>x. m = Inr x \<Longrightarrow> f x = Inr y \<Longrightarrow> thesis) \<Longrightarrow> thesis"
  by (auto simp: and_then_def split: sum.splits)

definition newLogger :: "(string \<Rightarrow> goerror option) \<Rightarrow> (string \<Rightarrow> int result) \<Rightarrow> (rune \<Rightarrow> rune) \<Rightarrow> config \<Rightarrow> logger result" where
  "newLogger mkdir parse_level lower cfg =
    (case logging_New mkdir parse_level lower (c_Log cfg) of
       Inl e \<Rightarrow> Inl e
     | Inr l \<Rightarrow> Inr (l\<lparr>lg_Attrs := [(''service'', app_Name (c_App cfg)), (''environment'', rt_ActiveProfile (c_Runtime cfg))]\<rparr>))"

text \<open>The handlers keep the services; the rest of \<open>http_api\<close> is what the environment does in a request.\<close>

definition NewHandler :: "(string \<Rightarrow> time option) \<Rightarrow> (string \<Rightarrow> string) \<Rightarrow> 'o http_api \<Rightarrow> health_service \<Rightarrow> 'o service \<Rightarrow> catalog \<Rightarrow> 'o http_api" where
  "NewHandler parse_time raw environment healthService exportService cat =
    with_decoders parse_time raw (environment\<lparr>ha_health := healthService, ha_exports := exportService, ha_catalog := cat\<rparr>)"

section \<open>The process\<close>

record ('d, 'k, 'b, 'c, 'o, 'r, 'm, 's) platform =
  px_mkdir :: "string \<Rightarrow> goerror option"
  px_level :: "string \<Rightarrow> int result"
  px_lower :: "rune \<Rightarrow> rune"
  px_urls :: url_codec
  px_open_schema :: "string \<Rightarrow> goerror option"
  px_schema_fault :: "schema_op list \<Rightarrow> schema_op \<Rightarrow> goerror option"
  px_migrator :: "('m, 's) migrator"
  px_state :: 's
  px_drivers :: "'d drivers"
  px_exporter :: "string \<Rightarrow> goerror option"
  px_version :: string
  px_redis :: "redis_config \<Rightarrow> 'k"
  px_redis_ping :: "'k \<Rightarrow> goerror option"
  px_instrument :: "'k \<Rightarrow> goerror option"
  px_bus :: "bus_config \<Rightarrow> 'b result"
  px_collectors :: collector_names
  px_urllib :: urllib
  px_files :: tls_files
  px_newClient :: "string \<Rightarrow> transport option \<Rightarrow> 'c result"
  px_verifier :: "'c \<Rightarrow> duration \<Rightarrow> verifier"
  px_authorizer :: "'c option \<Rightarrow> duration \<Rightarrow> authorizer"
  px_storage :: "config \<Rightarrow> 'o s3 result"
  px_discovery :: "'c \<Rightarrow> duration \<Rightarrow> string \<Rightarrow> service_instance list result result"
  px_metadata :: metadata_parser
  px_describe :: "'c provider_env \<Rightarrow> describer"
  px_pipeline :: "'c pipeline_libs"
  px_golib :: golib
  px_jwks :: "string \<Rightarrow> string \<Rightarrow> string \<Rightarrow> (string \<Rightarrow> principal result) result"
  px_jwt :: jwtlib
  px_ping_db :: "'d \<Rightarrow> duration \<Rightarrow> goerror option"
  px_ping_redis :: "'k \<Rightarrow> duration \<Rightarrow> goerror option"
  px_limiter :: "'k \<Rightarrow> string \<Rightarrow> rate_limit_rule_config \<Rightarrow> 'r \<Rightarrow> (int \<times> int \<times> duration) result \<times> 'r"
  px_idempotency :: "'k option \<Rightarrow> idempotency_settings \<Rightarrow> 'r idem_manager"
  px_idempotencyValid :: "string \<Rightarrow> bool"
  px_ParseMediaType :: "string \<Rightarrow> string result"
  px_sha256 :: "string \<Rightarrow> string"
  px_sample :: "sample \<Rightarrow> 'r \<Rightarrow> 'r"
  px_Code :: "goerror option \<Rightarrow> string"
  px_location :: "string \<Rightarrow> goerror option"
  px_cron_spec :: "string \<Rightarrow> goerror option"
  px_trusted :: "string list \<Rightarrow> goerror option"
  px_requests :: "'o http_api"
  px_parse_time :: "string \<Rightarrow> time option"
  px_raw :: "string \<Rightarrow> string"
  px_pages :: "('r, 'o world) pages"

record ('d, 'k, 'b, 'c, 'o, 'r, 's) process =
  ps_logger :: logger
  ps_migrated :: "schema_op list \<times> 's"
  ps_tracing :: tracing
  ps_db :: "('d \<times> pool_limits) option"
  ps_redis :: "'k option"
  ps_bus :: "'b option"
  ps_registry :: "'c registry"
  ps_worker :: "('c, 'o) worker"
  ps_provider :: "'c grpc_provider"
  ps_jobs :: "(string \<times> cron_job) list"
  ps_grpc :: grpc_host
  ps_export_server :: "'o export_server"
  ps_server :: "'r server"
  ps_api :: "'o http_api"
  ps_http :: "('r, 'o world) http_server"

definition process_server ::
  "('d, 'k, 'b, 'c, 'o, 'r, 'm, 's) platform \<Rightarrow> config \<Rightarrow> metrics \<Rightarrow> 'k option \<Rightarrow> 'c registry \<Rightarrow> auth_service \<Rightarrow> 'r server" where
  "process_server X cfg M rdb registry authService = \<lparr>sv_cfg = cfg, sv_jwt = px_jwt X, sv_auth = authService,
     sv_authorizer = authorization_New (px_authorizer X) registry,
     sv_limiter = limiter_New (map_option (px_limiter X) rdb) cfg,
     sv_idempotency = Some (idempotency_New (px_idempotency X) rdb cfg), sv_idempotencyValid = px_idempotencyValid X,
     sv_ParseMediaType = px_ParseMediaType X, sv_sha256 = px_sha256 X,
     sv_meter = \<lparr>mr_metrics = M, mr_sample = px_sample X, mr_Code = px_Code X\<rparr>\<rparr>"

definition startup_migration :: "('d, 'k, 'b, 'c, 'o, 'r, 'm, 's) platform \<Rightarrow> config \<Rightarrow> (schema_op list \<times> 's) result" where
  "startup_migration X cfg =
    (case runStartupMigration (px_urls X) (px_open_schema X) (px_schema_fault X) (px_migrator X) cfg (px_state X) of
       (Some e, y) \<Rightarrow> Inl e
     | (None, y) \<Rightarrow> Inr y)"

definition application_New :: "('d, 'k, 'b, 'c, 'o, 'r, 'm, 's) platform \<Rightarrow> config \<Rightarrow> ('d, 'k, 'b, 'c, 'o, 'r, 's) process result" where
  "application_New X cfg =
    and_then (newLogger (px_mkdir X) (px_level X) (px_lower X) cfg) (\<lambda>l.
    and_then (startup_migration X cfg) (\<lambda>migrated.
    and_then (newDatabase (px_drivers X) cfg) (\<lambda>db.
    and_then (NewTracing (px_exporter X) (px_version X) cfg) (\<lambda>tracing.
    and_then (newRedis (px_redis X) (px_redis_ping X) (px_instrument X) (tg_enabled tracing) cfg) (\<lambda>rdb.
    and_then (eventbus_New (px_bus X) cfg) (\<lambda>bus.
    and_then (NewMetrics (px_collectors X) (c_Observability cfg) (db \<noteq> None) (rdb \<noteq> None)) (\<lambda>M.
    and_then (fst (NewRegistry (px_urllib X) (px_files X) (px_newClient X) (c_Outbound cfg))) (\<lambda>registry.
    and_then (newApplicationVerifier (px_verifier X) cfg (Some registry)) (\<lambda>verify.
    and_then (export_module (px_golib X) (px_pipeline X) (px_storage X)
        (\<lambda>cfg. NewProvider (px_files X) (px_newClient X) (px_discovery X) (px_metadata X) (px_lower X) cfg registry)
        (px_describe X) cfg (Some verify)) (\<lambda>(service, cat, worker, gp).
    and_then (scheduler_New (px_location X) (px_cron_spec X) (c_Cron cfg)) (\<lambda>js.
    and_then (auth_NewRuntime (px_jwks X) cfg) (\<lambda>authService.
    and_then (grpc_NewServer (px_files X) cfg) (\<lambda>host.
      let health = health_New (map_option (\<lambda>d. px_ping_db X (fst d)) db) (map_option (px_ping_redis X) rdb) cfg;
          api = NewHandler (px_parse_time X) (px_raw X) (px_requests X) health service cat;
          V = process_server X cfg M rdb registry authService
      in and_then (http_NewServer (px_trusted X) V api (px_pages X)) (\<lambda>http.
           Inr \<lparr>ps_logger = l, ps_migrated = migrated, ps_tracing = tracing, ps_db = db, ps_redis = rdb, ps_bus = bus, ps_registry = registry,
             ps_worker = worker, ps_provider = gp, ps_jobs = js, ps_grpc = host,
             ps_export_server = \<lparr>es_service = service, es_catalog = cat, es_env = ha_env (px_requests X)\<rparr>,
             ps_server = V, ps_api = api, ps_http = http\<rparr>))))))))))))))"

text \<open>\<open>main\<close>: the exit of the process with what it prints, or the start of what was configured; the flags are parsed.\<close>

datatype 'p command = Exit int string | Start 'p

definition api_main ::
  "(string \<Rightarrow> string \<Rightarrow> config result) \<Rightarrow> (config \<Rightarrow> 'p) \<Rightarrow> build \<Rightarrow> bool \<Rightarrow> string \<Rightarrow> string \<Rightarrow> 'p command" where
  "api_main load new b showVersion configPath profile =
    (if showVersion
     then Exit 0 (''version='' @ bd_Version b @ '' commit='' @ bd_Commit b @ '' build_time='' @ bd_BuildTime b @ [CHR 0x0A])
     else case load configPath profile of
       Inl e \<Rightarrow> Exit 1 (''load configuration: '' @ error_string e @ [CHR 0x0A])
     | Inr cfg \<Rightarrow> Start (new cfg))"

section \<open>Laws\<close>

text \<open>What a process that was built consists of.\<close>

lemma application_parts:
  assumes "application_New X cfg = Inr p"
  obtains registry dropped verify service cat authService M where
    "startup_migration X cfg = Inr (ps_migrated p)"
    "NewRegistry (px_urllib X) (px_files X) (px_newClient X) (c_Outbound cfg) = (Inr registry, dropped)"
    "newApplicationVerifier (px_verifier X) cfg (Some registry) = Inr verify"
    "export_module (px_golib X) (px_pipeline X) (px_storage X)
        (\<lambda>cfg. NewProvider (px_files X) (px_newClient X) (px_discovery X) (px_metadata X) (px_lower X) cfg registry)
        (px_describe X) cfg (Some verify) = Inr (service, cat, ps_worker p, ps_provider p)"
    "NewMetrics (px_collectors X) (c_Observability cfg) (ps_db p \<noteq> None) (ps_redis p \<noteq> None) = Inr M"
    "grpc_NewServer (px_files X) cfg = Inr (ps_grpc p)"
    "scheduler_New (px_location X) (px_cron_spec X) (c_Cron cfg) = Inr (ps_jobs p)"
    "ps_server p = process_server X cfg M (ps_redis p) registry authService"
    "ha_exports (ps_api p) = service" "ha_catalog (ps_api p) = cat" "ha_env (ps_api p) = ha_env (px_requests X)"
    "\<exists>H0. ps_api p = with_decoders (px_parse_time X) (px_raw X) H0"
    "ps_export_server p = \<lparr>es_service = service, es_catalog = cat, es_env = ha_env (px_requests X)\<rparr>"
    "http_NewServer (px_trusted X) (ps_server p) (ps_api p) (px_pages X) = Inr (ps_http p)"
proof -
  show thesis
    using assms unfolding application_New_def Let_def
    by (elim and_then_elim) (clarsimp elim!: and_then_elim, rule that, auto simp: NewHandler_def with_decoders_def prod_eq_iff)
qed

lemma LoadWithProfile_valid: "LoadWithProfile L path explicitProfile = Inr cfg \<Longrightarrow> Validate cfg = None"
  by (auto simp: LoadWithProfile_def Let_def split: option.splits if_splits sum.splits)

lemma api_main_Start:
  "api_main load new b showVersion path profile = Start x \<longleftrightarrow> \<not> showVersion \<and> (\<exists>cfg. load path profile = Inr cfg \<and> x = new cfg)"
  by (auto simp: api_main_def split: sum.splits)

section \<open>Properties\<close>

text \<open>
  C11. A process that runs.  Whatever the command line, the files and the platform are, a process that was started runs on a configuration
  that passed validation, and its parts fit: both transports serve the same service and catalog; the service and the worker
  share one storage and one lifetime of results, the catalog lists the provider the worker reads, and the worker's limits are positive.
  With a database, service and catalog ask the application service about every caller and never the verifier that allows everything; with
  authorization on, the HTTP server asks the authorization service.  The metrics are registered, the HTTP server has the routes it should
  have and the decoders of the described schemas, and in production the gRPC server has a certificate and does not describe itself.  A migration that is to run at start has succeeded.
\<close>

theorem process_started:
  fixes p :: "('d, 'k, 'b, 'c, 'o, 'r, 's) process" and X :: "('d, 'k, 'b, 'c, 'o, 'r, 'm, 's) platform"
  assumes "api_main (LoadWithProfile L) (application_New X) b showVersion path profile = Start (Inr p)"
    and "cfg = sv_cfg (ps_server p)" and "S = ha_exports (ps_api p)" and "K = ha_catalog (ps_api p)" and "W = ps_worker p"
  shows "Validate cfg = None \<and> same_server (ps_api p) (ps_export_server p)
    \<and> sv_storage S = wk_storage W \<and> pl_storage (wk_pipeline W) = wk_storage W \<and> resultTTL S = wk_resultTTL W \<and> worker_limits W
    \<and> cp_ListDatasets (cat_provider K) = ListDatasets (pl_provider (wk_pipeline W))
    \<and> cat_applications K = applications S
    \<and> (dbc_Enabled (c_Database cfg) \<longrightarrow> (\<exists>conn. applications S = px_verifier X conn 2000000000))
    \<and> (authz_Enabled (c_Authorization cfg) \<longrightarrow> (\<exists>conn. sv_authorizer (ps_server p) = px_authorizer X (Some conn) 2000000000))
    \<and> NewMetrics (px_collectors X) (c_Observability cfg) (ps_db p \<noteq> None) (ps_redis p \<noteq> None) = Inr (mr_metrics (sv_meter (ps_server p)))
    \<and> ht_routes (ps_http p) = (\<lambda>a. server_routes (ps_server p) a (ps_api p) (px_pages X))
    \<and> (\<exists>H0. ps_api p = with_decoders (px_parse_time X) (px_raw X) H0)
    \<and> (production cfg \<and> grpc_Enabled (c_GRPC cfg) \<longrightarrow> gh_creds (ps_grpc p) \<noteq> None \<and> Reflection \<notin> set (gh_services (ps_grpc p)))
    \<and> (migr_AutoUp (c_Migration cfg) \<longrightarrow> migration_Run (px_urls X) (px_open_schema X) (px_schema_fault X) (px_migrator X)
          (c_Migration cfg) ''up'' 0 (px_state X) = (None, ps_migrated p))"
proof -
  obtain c where load: "LoadWithProfile L path profile = Inr c" and new: "application_New X c = Inr p"
    using assms(1) by (auto simp: api_main_Start)
  note valid = LoadWithProfile_valid [OF load]
  show ?thesis
  proof (rule application_parts [OF new])
    fix registry dropped verify service cat authService M
    assume mig: "startup_migration X c = Inr (ps_migrated p)" and reg: "NewRegistry (px_urllib X) (px_files X) (px_newClient X) (c_Outbound c) = (Inr registry, dropped)"
      and ver: "newApplicationVerifier (px_verifier X) c (Some registry) = Inr verify"
      and ex: "export_module (px_golib X) (px_pipeline X) (px_storage X)
        (\<lambda>cfg. NewProvider (px_files X) (px_newClient X) (px_discovery X) (px_metadata X) (px_lower X) cfg registry)
        (px_describe X) c (Some verify) = Inr (service, cat, ps_worker p, ps_provider p)"
      and met: "NewMetrics (px_collectors X) (c_Observability c) (ps_db p \<noteq> None) (ps_redis p \<noteq> None) = Inr M"
      and host: "grpc_NewServer (px_files X) c = Inr (ps_grpc p)"
      and srv: "ps_server p = process_server X c M (ps_redis p) registry authService"
      and api: "ha_exports (ps_api p) = service" "ha_catalog (ps_api p) = cat" "ha_env (ps_api p) = ha_env (px_requests X)"
        "\<exists>H0. ps_api p = with_decoders (px_parse_time X) (px_raw X) H0"
        "ps_export_server p = \<lparr>es_service = service, es_catalog = cat, es_env = ha_env (px_requests X)\<rparr>"
      and http: "http_NewServer (px_trusted X) (ps_server p) (ps_api p) (px_pages X) = Inr (ps_http p)"
    have c: "cfg = c" using assms(2) srv by (simp add: process_server_def)
    obtain verify' where w: "newApplicationVerifier (px_verifier X) c (Some registry) = Inr verify'"
      "dbc_Enabled (c_Database c) \<longrightarrow> (\<exists>conn. registry_GRPC registry ''application'' = Some conn \<and> verify' = px_verifier X conn 2000000000)"
      "authz_Enabled (c_Authorization c) \<longrightarrow> (\<exists>conn. registry_GRPC registry ''authorization'' = Some conn
        \<and> authorization_New (px_authorizer X) registry = px_authorizer X (Some conn) 2000000000)"
      using wired_process [OF valid reg, of "px_verifier X" "px_authorizer X"] by blast
    have parts: "applications service = verify" "cat_applications cat = verify"
      "cp_ListDatasets (cat_provider cat) = ListDatasets (pl_provider (wk_pipeline W))"
      "sv_storage service = wk_storage W" "pl_storage (wk_pipeline W) = wk_storage W" "resultTTL service = wk_resultTTL W" "worker_limits W"
      using export_module_parts [OF ex] Validate_limits [OF valid, of "px_pipeline X"] assms(5)
      by (auto simp: NewService_def newWorker_def NewWorker_def newPipeline_def NewPipeline_def)
    have "same_server (ps_api p) (ps_export_server p)" using api by (simp add: same_server_def)
    moreover have "ht_routes (ps_http p) = (\<lambda>a. server_routes (ps_server p) a (ps_api p) (px_pages X))"
      using http by (auto simp: http_NewServer_def Let_def split: option.splits dest!: sym [of _ "ps_http p"])
    moreover have "production c \<and> grpc_Enabled (c_GRPC c) \<longrightarrow> gh_creds (ps_grpc p) \<noteq> None \<and> Reflection \<notin> set (gh_services (ps_grpc p))"
      using production_grpc [OF valid _ _ host] by blast
    moreover have "migr_AutoUp (c_Migration c) \<longrightarrow> migration_Run (px_urls X) (px_open_schema X) (px_schema_fault X) (px_migrator X)
          (c_Migration c) ''up'' 0 (px_state X) = (None, ps_migrated p)"
      using mig by (auto simp: startup_migration_def runStartupMigration_def split: prod.splits option.splits)
    ultimately show ?thesis
      using valid parts w ver met srv api(1,2,4) assms(3,4) unfolding c by (auto simp: process_server_def)
  qed
qed

text \<open>A platform on which everything works, and the production configuration of the loader's example.\<close>

definition demo_platform :: "(unit, unit, unit, string, bucket, unit, unit, nat) platform" where
  "demo_platform = \<lparr>px_mkdir = (\<lambda>_. None), px_level = (\<lambda>_. Inr 0), px_lower = id,
     px_urls = demo_codec, px_open_schema = (\<lambda>_. None), px_schema_fault = (\<lambda>_ _. None), px_migrator = demo_migrator, px_state = 0,
     px_drivers = \<lparr>dr_ParseConfig = (\<lambda>_. Inl IoEOF), dr_OpenDB = (\<lambda>_. ()), dr_ParseDSN = (\<lambda>_. Inl IoEOF), dr_LoadLocation = (\<lambda>_. None),
       dr_FormatDSN = (\<lambda>_. []), dr_Open = (\<lambda>_ _. Inl IoEOF), dr_Ping = (\<lambda>_ _. None)\<rparr>,
     px_exporter = (\<lambda>_. None), px_version = ''1'', px_redis = (\<lambda>_. ()), px_redis_ping = (\<lambda>_. None), px_instrument = (\<lambda>_. None),
     px_bus = (\<lambda>_. Inr ()), px_collectors = demo_collectors, px_urllib = demo_urllib,
     px_files = demo_files\<lparr>tf_LoadX509KeyPair := (\<lambda>c k. Inr c)\<rparr>, px_newClient = (\<lambda>target _. Inr target),
     px_verifier = demo_refusing, px_authorizer = (\<lambda>_ _. sv_authorizer demo_server), px_storage = (\<lambda>_. Inr (pl_storage demo_pipeline)),
     px_discovery = (\<lambda>_ _ _. Inl IoEOF), px_metadata = pe_ParseMetadata demo_provider, px_describe = (\<lambda>_ _ _ _ _. Inl IoEOF),
     px_pipeline = demo_libs, px_golib = sv_lib demo_service, px_jwks = (\<lambda>_ _ _. Inr (\<lambda>_. Inl IoEOF)), px_jwt = demo_jwt,
     px_ping_db = (\<lambda>_ _. None), px_ping_redis = (\<lambda>_ _. None), px_limiter = (\<lambda>_ _ _ r. (Inl IoEOF, r)),
     px_idempotency = (\<lambda>_ s. \<lparr>im_Enabled = is_Enabled s, im_Begin = (\<lambda>_ _ r. (Inl IoEOF, r)), im_Complete = (\<lambda>_ _ _ r. (None, r)),
       im_Fail = (\<lambda>_ _ _ r. (None, r))\<rparr>),
     px_idempotencyValid = (\<lambda>_. True), px_ParseMediaType = (\<lambda>_. Inr ''application/json''), px_sha256 = id, px_sample = (\<lambda>_ r. r),
     px_Code = (\<lambda>_. ''OK''), px_location = (\<lambda>_. None), px_cron_spec = (\<lambda>_. None), px_trusted = (\<lambda>_. None),
     px_requests = demo_http_api, px_parse_time = (\<lambda>_. None), px_raw = id, px_pages = demo_http_pages\<rparr>"

definition demo_production_loaded :: "string list \<Rightarrow> config" where
  "demo_production_loaded files = demo_production\<lparr>c_App := default_app\<lparr>app_Env := ''production''\<rparr>,
      c_Migration := (c_Migration demo_production)\<lparr>migr_Schema := ''data_export'', migr_DatabaseName := ''platform''\<rparr>,
      c_Runtime := \<lparr>rt_ActiveProfile = ''production'', rt_ConfigFiles = files\<rparr>\<rparr>"

lemma demo_Load_production:
  "\<exists>files. LoadWithProfile demo_loader ''config.yml'' ''production'' = Inr (demo_production_loaded files)"
proof -
  obtain c where c: "LoadWithProfile demo_loader ''config.yml'' ''production'' = Inr c" using demo_Load by blast
  have "ToLower id ''production'' = ''production''" by (rule ToLower_lower; simp)
  moreover have "TrimSpace ''production'' = ''production''" by (rule TrimSpace_visible; simp add: visible_def)
  ultimately have p: "active_profile demo_loader ''config.yml'' ''production'' = ''production''"
    by (simp add: active_profile_def demo_loader_def)
  show ?thesis using c unfolding LoadWithProfile_def p
    by (auto simp: demo_loader_def demo_production_loaded_def demo_production_def default_defs Let_def split: option.splits if_splits sum.splits)
qed

lemma demo_application_New: "\<exists>p. application_New demo_platform (demo_production_loaded files) = Inr p"
proof -
  let ?c = "demo_production_loaded files" and ?X = demo_platform
  note conf = demo_production_loaded_def demo_production_def default_defs demo_upstream_def
  obtain M where M: "NewMetrics (px_collectors ?X) (c_Observability ?c) False False = Inr M"
    using demo_NewMetrics by (auto simp: demo_platform_def conf)
  obtain l where l: "newLogger (px_mkdir ?X) (px_level ?X) (px_lower ?X) ?c = Inr l"
    by (simp add: newLogger_def logging_New_def demo_platform_def)
  have parts: "newDatabase (px_drivers ?X) ?c = Inr None"
    "newRedis (px_redis ?X) (px_redis_ping ?X) (px_instrument ?X) t ?c = Inr None" "eventbus_New (px_bus ?X) ?c = Inr None" for t
    by (simp_all add: newDatabase_def newRedis_def eventbus_New_def conf)
  obtain tr where tr: "NewTracing (px_exporter ?X) (px_version ?X) ?c = Inr tr" by (simp add: NewTracing_def conf)
  obtain r d where r: "NewRegistry (px_urllib ?X) (px_files ?X) (px_newClient ?X) (c_Outbound ?c) = (Inr r, d)"
    by (simp add: NewRegistry_def conf upstream_dial_def Dial_def transportCredentials_def demo_platform_def)
  have v: "newApplicationVerifier (px_verifier ?X) ?c (Some r) = Inr disabledApplicationVerifier"
    by (simp add: newApplicationVerifier_def conf)
  obtain s k w gp where ex: "export_module (px_golib ?X) (px_pipeline ?X) (px_storage ?X)
      (\<lambda>cfg. NewProvider (px_files ?X) (px_newClient ?X) (px_discovery ?X) (px_metadata ?X) (px_lower ?X) cfg r)
      (px_describe ?X) ?c (Some disabledApplicationVerifier) = Inr (s, k, w, gp)"
    by (simp add: export_module_def NewRuntimeService_def NewRuntimeCatalog_def NewProvider_def conf demo_platform_def Let_def)
  obtain js where js: "scheduler_New (px_location ?X) (px_cron_spec ?X) (c_Cron ?c) = Inr js"
    by (simp add: scheduler_New_def demo_platform_def conf)
  obtain a where a: "auth_NewRuntime (px_jwks ?X) ?c = Inr a" by (simp add: auth_NewRuntime_def Let_def demo_platform_def conf)
  obtain h where h: "grpc_NewServer (px_files ?X) ?c = Inr h"
    by (simp add: grpc_NewServer_def serverCredentials_def Let_def conf demo_platform_def demo_files_def)
  have t: "px_trusted ?X = (\<lambda>_. None)" by (simp add: demo_platform_def)
  obtain y where y: "startup_migration ?X ?c = Inr y"
    by (simp add: startup_migration_def runStartupMigration_def migration_Run_def demo_platform_def demo_codec_def demo_migrator_def
        withMigrationOptions_def HasPrefix_def ensureSchema_def createSchema_def schema_pattern_def schema_lead_def schema_char_def
        join_close_def conf Let_def)
  show ?thesis unfolding application_New_def by (simp add: M l y parts tr r v ex js a h http_NewServer_def t Let_def)
qed

theorem process_started_witness:
  "\<exists>p. api_main (LoadWithProfile demo_loader) (application_New demo_platform) (ha_build demo_http_api) False ''config.yml'' ''production'' = Start (Inr p)
    \<and> same_server (ps_api p) (ps_export_server p) \<and> gh_creds (ps_grpc p) \<noteq> None"
proof -
  obtain files where load: "LoadWithProfile demo_loader ''config.yml'' ''production'' = Inr (demo_production_loaded files)"
    using demo_Load_production by blast
  obtain p where p: "application_New demo_platform (demo_production_loaded files) = Inr p" using demo_application_New by blast
  have run: "api_main (LoadWithProfile demo_loader) (application_New demo_platform) (ha_build demo_http_api) False ''config.yml'' ''production'' = Start (Inr p)"
    using load p by (simp add: api_main_def)
  have "sv_cfg (ps_server p) = demo_production_loaded files"
    by (rule application_parts [OF p]) (simp add: process_server_def)
  moreover have "production (demo_production_loaded files)" "grpc_Enabled (c_GRPC (demo_production_loaded files))"
    by (simp_all add: production_def demo_production_loaded_def demo_production_def default_defs)
  ultimately show ?thesis using run process_started [OF run refl refl refl refl] by (intro exI [of _ p]) simp
qed

end
