(* ===== verification/Spec2Isabelle.thy ===== *)
theory Spec2Isabelle
  imports Http_Server Grpc_Server Grpc_Laws Observability_Laws App_Events App_Migration App_Process
begin

text \<open>
  Verification of the data export service.

  \<^bold>\<open>The program.\<close>  Clients ask over HTTP or gRPC for an export of a dataset in the scope of a tenant and an application.  The
  service stores the request as a job and, in the same transaction, an event in an outbox table.  A dispatcher moves the outbox to
  an event bus; a consumer hands each requested job to a worker, which claims it, streams the dataset's rows from a provider
  service over gRPC, formats them, and uploads the document to object storage while it is being written.  The
  end of the job is recorded with another event.  Scheduled jobs remove expired documents and old rows.  Several replicas run
  all of this on one database and one bucket.

  \<^bold>\<open>The data and the store.\<close>  \<open>Go_Prelude\<close>, \<open>Go_Strings\<close>, \<open>Go_Path\<close>, \<open>Go_Json\<close> and \<open>Go_Net\<close> hold what the code uses of the language and
  its standard library: integers with their wrap-around written out, bytes and runes, \<open>path.Match\<close>, the JSON grammar, host and port.  Strings are lists of
  bytes.  \<open>App_Error\<close> (\<open>internal/apperror\<close>) has errors as values.  \<open>Export_Model\<close> (\<open>internal/export/model.go\<close>, \<open>events.go\<close>,
  \<open>proto.go\<close>) has the structs; \<open>Export_Repository\<close> (\<open>internal/export/repository.go\<close>, \<open>internal/database/transaction.go\<close>) has the two tables as lists of rows, each SQL
  statement as a function on them, and transactions.  The state of the program is the \<open>world\<close>: the database, the
  bucket, and counters of the clock, the identifiers and the statements.  An \<open>env\<close> says which statements and
  commits fail, and what the other replicas commit before each statement outside a transaction; no theorem restricts the
  failures unless it says so.  \<open>Export_Lifecycle\<close> is the abstract specification: one rule for each transaction a replica
  can commit.  The locales \<open>keyed_update\<close>, \<open>safe_update\<close> and \<open>lifecycle_update\<close> are the contract of
  a guarded update by key, interpreted on each statement of the repository.

  \<^bold>\<open>The operations.\<close>  \<open>Export_Service\<close> (\<open>service.go\<close>) has the operations of the job API and their validation,
  \<open>Export_Catalog\<close> (\<open>catalog.go\<close>) the catalog of datasets.  \<open>Export_Provider\<close> (\<open>provider.go\<close>) is the client of the providers:
  discovery, targets, connections, streaming with retries.  \<open>Export_Formatter\<close> (\<open>formatter.go\<close>) writes CSV, JSON lines and spreadsheets through
  buffers into the upload; \<open>Export_Pipeline\<close> (\<open>pipeline.go\<close>) connects the two goroutines of a run, with both orders in which they can end;
  \<open>Object_Storage\<close> (\<open>internal/objectstorage\<close>) is the bucket.  \<open>Export_Worker\<close> (\<open>worker.go\<close>) claims, runs, records and cleans.  The locales
  \<open>batch_source\<close> (a provider), \<open>document_writer\<close> and \<open>chunk_sink\<close> (a formatter and its destination) and \<open>persisting\<close> are the interfaces
  the pipeline and the worker are verified against, interpreted on the code's own definitions.

  \<^bold>\<open>The transports.\<close>  \<open>App_Auth\<close> (\<open>internal/auth\<close>) has tokens and keys; \<open>Http_Middleware\<close>, \<open>Http_Handler\<close> and \<open>Http_Json\<close>
  (\<open>internal/transport/http\<close>, \<open>internal/ratelimit\<close>, \<open>internal/requestid\<close>, \<open>internal/buildinfo\<close>) the chain in front of the API, its routes and handlers, and
  the JSON they read and write; \<open>Http_Server\<close> (\<open>server.go\<close>) the server with every route it registers; \<open>Grpc_Transport\<close> and \<open>Grpc_Server\<close>
  (\<open>internal/transport/grpc\<close>) the interceptors, the methods and the server; \<open>App_Health\<close> (\<open>internal/health\<close>) readiness; \<open>Api_Docs\<close>
  (\<open>docs/docs.go\<close>) the served description of the API, as data.  A middleware is a function between handlers; a handler that panics leaves
  its context marked, and what stands between it and the recovery is skipped.
  The locale \<open>guard\<close> is the contract of a middleware that answers by itself or calls its handler once, for callers it
  admits, and \<open>unary_guard\<close> that of a gRPC interceptor; both compose.

  \<^bold>\<open>The process.\<close>  \<open>App_Config\<close> and \<open>App_Defaults\<close> (\<open>internal/config\<close>) hold the configuration, its defaults and its checks.
  \<open>Observability\<close> (\<open>internal/observability\<close>, \<open>internal/logging\<close>) has the metrics, their registration and the settings of traces and logs.
  \<open>Outbound_Http\<close> and \<open>Outbound_Grpc\<close> (\<open>internal/outbound\<close>, \<open>internal/grpcclient\<close>) are the clients of other services; both retry loops satisfy the
  locale \<open>retry_loop\<close>.  \<open>App_Events\<close> (\<open>internal/app/export_eventbus.go\<close>, \<open>internal/eventbus\<close>) brings requested jobs to the worker and runs the loops
  of the outbox, \<open>App_Scheduler\<close> (\<open>internal/scheduler\<close>, \<open>internal/cache\<close>) the scheduled jobs; \<open>App_Migration\<close> (\<open>internal/migration\<close>, \<open>cmd/migrate\<close>) prepares the
  database, \<open>App_Runtime\<close> (\<open>internal/app\<close>, \<open>internal/database\<close>) builds the parts of a process, and \<open>App_Process\<close> (\<open>internal/app/app.go\<close>,
  \<open>cmd/api\<close>) the process itself, from its command line to its servers.

  \<^bold>\<open>What is shown.\<close>  This theory composes the parts: every operation, request, event and scheduled job is a step of one system, whose runs
  refine the job life cycle and keep the store's invariant, and a job reported done has its complete document in the bucket.  \<open>Export_Service_Laws\<close> has the
  effect of each operation of the API and who may cause it; \<open>Export_Provider_Laws\<close> that every batch arrives once and in order across retries;
  \<open>Export_Formatter_Laws\<close> what the documents contain and that CSV reads back; \<open>Export_Pipeline_Laws\<close> that a success stored exactly the document and a failure
  nothing; \<open>Export_Worker_Laws\<close> how jobs end and what cleaning removes; \<open>Http_Laws\<close> and \<open>Transport_Laws\<close> that only
  identified and permitted callers reach a handler, that both transports agree, and that a panic never leaves a chain; \<open>Http_Server\<close> what is exposed;
  \<open>Grpc_Laws\<close> that a gRPC call changes the world only through its method; \<open>Api_Docs_Laws\<close> that the served description is true; \<open>Observability_Laws\<close> that no
  observation panics; \<open>App_Process\<close> that the parts of a started process fit; \<open>Outbound_Laws\<close> the bounds on outgoing calls.
  \<open>Demo_Instance\<close> is a small deployment on which the witnesses evaluate.

  \<^bold>\<open>Bounds and fuel.\<close>  Loops run on the structure of their data or on the attempts the configuration
  allows, so every definition is total; the few that are not structural have their measure proved at the definition.
  Numbers of 32 and 64 bits wrap where the code computes with them (pages, counters, back-off); two results on
  pages state where that overflow shows.

  \<^bold>\<open>Parameters.\<close>  What is not in the repository is an argument of the definitions: the platform library (event envelopes, the dispatcher and
  retention cleaner of the outbox, application access, authorization, the idempotency manager, token keys, discovery), MinIO, Redis and its
  locks, the spreadsheet, token and configuration libraries, the drivers, gRPC and HTTP themselves, the Unicode tables, and the formats of floats and times.  Theorems that
  rely on a promise of one of them have it as a named hypothesis (\<open>bus_delivers\<close>, \<open>atomic_put\<close>, \<open>removes\<close>, \<open>replicas\<close>,
  \<open>matches_routes\<close>, \<open>pages_inert\<close>, \<open>platform_interceptors\<close>, \<open>meters\<close>).

  \<^bold>\<open>Not modelled.\<close>  The records written to logs and the spans of traces do not affect results.  Deadlines are
  seen as the errors of the operations they cut off.  The pages that libraries serve (metrics, profiles, the viewer of the description), the redirects and the choice of
  the router, and the container's order among constructors that do not need one another are the libraries'; so is the
  end of a process beyond what its parts do when they stop.  Where the code quotes a value into an error text, the model puts it in unquoted: no code reads these
  texts.
\<close>

section \<open>The system\<close>

text \<open>
  What a replica does, one call at a time: the requests of the service, and the worker's runs.  The
  other replicas and the outbox publisher act between any two statements, through \<open>others\<close>.
\<close>

inductive system_step ::
  "'o service \<Rightarrow> ('c, 'o) worker \<Rightarrow> env \<Rightarrow> 'c grpc_provider \<times> 'o world \<Rightarrow> 'c grpc_provider \<times> 'o world \<Rightarrow> bool"
  for S W E where
  create: "Create S E ctx input w = (r, w') \<Longrightarrow> system_step S W E (p, w) (p, w')"
| get: "Get S E ctx t a i w = (r, w') \<Longrightarrow> system_step S W E (p, w) (p, w')"
| list: "List S E ctx f w = (r, w') \<Longrightarrow> system_step S W E (p, w) (p, w')"
| cancel: "Cancel S E ctx t a i expected w = (r, w') \<Longrightarrow> system_step S W E (p, w) (p, w')"
| retry: "Retry S E ctx t a i expected key w = (r, w') \<Longrightarrow> system_step S W E (p, w) (p, w')"
| download: "CreateDownloadURL S E ctx t a i ttl w = (r, w') \<Longrightarrow> system_step S W E (p, w) (p, w')"
| process: "Process W E t a i (p, w) = (r, p', w') \<Longrightarrow> system_step S W E (p, w) (p', w')"
| cleanup: "CleanupExpired W E limit w = (r, w') \<Longrightarrow> system_step S W E (p, w) (p, w')"
| purge: "PurgeExpiredMetadata E retention limit w = (r, w') \<Longrightarrow> system_step S W E (p, w) (p, w')"

lemma system_step_run:
  assumes "system_step S W E x y"
  shows "job_run E (w_db (snd x)) (w_db (snd y))"
  using assms
  by (induction rule: system_step.induct)
    (simp_all add: Create_run Get_run List_run Cancel_run Retry_run CreateDownloadURL_run Process_run CleanupExpired_run
      PurgeExpiredMetadata_run)

lemma system_steps_run:
  assumes "(system_step S W E)\<^sup>*\<^sup>* x y"
  shows "job_run E (w_db (snd x)) (w_db (snd y))"
  using assms by (induction rule: rtranclp_induct) (auto intro: run.trans system_step_run)

lemma demo_replicas: "replicas demo_env"
  by (simp add: replicas_def)

lemma demo_process_step:
  "\<exists>w' :: bucket world. system_step demo_service demo_worker demo_env (demo_gp, demo_world [demo_created]) (demo_gp, w')
    \<and> map Status (jobs (w_db w')) = [''succeeded'']"
proof -
  obtain w' where P: "Process demo_worker demo_env ''t'' ''a'' ''j'' (demo_gp, demo_world [demo_created]) = (None, demo_gp, w')"
    and st: "map Status (jobs (w_db w')) = [''succeeded'']" using demo_Process by (elim exE conjE)
  show ?thesis using system_step.process [OF P, of demo_service] st by (intro exI conjI)
qed

text \<open>The errors a progress report can have besides those of the connection.\<close>

lemma sql_auto_Inl:
  assumes "sql_auto E st w = (Inl e, w')"
  shows "(\<exists>n f. sql_faults E n = Some f \<and> e = fault_error f) \<or> (\<exists>d. st d = Inl e)"
proof (cases "sql_faults E (w_stmts w)")
  case None
  then show ?thesis using assms by (auto simp: sql_auto_def sql_tx_def Let_def split: sum.splits)
next
  case (Some f)
  then have "e = fault_error f \<or> (\<exists>d. st d = Inl e)"
    using assms by (auto simp: sql_auto_def sql_tx_def Let_def split: sum.splits sql_fault.splits)
  with Some show ?thesis by blast
qed

lemma on_progress_error:
  assumes "on_progress E job pr w = (Some e, w')"
  shows "e \<in> {ErrStaleVersion, SqlConstraint} \<or> (\<exists>n f. sql_faults E n = Some f \<and> e = fault_error f)"
proof (cases "pr_Checkpoint pr")
  case False
  obtain r w1 where S: "sql_auto E (stmt_EnsureRunning (TenantID job) (ApplicationID job) (ID job)) w = (r, w1)" by fastforce
  with assms False show ?thesis
    by (cases r) (auto simp: on_progress_def repo_EnsureRunning_def stmt_EnsureRunning_def select_one_def
        split: if_splits option.splits dest!: sql_auto_Inl)
next
  case True
  obtain r w1 where S: "sql_auto E (stmt_Progress (TenantID job) (ApplicationID job) (ID job) (pr_Rows pr) (pr_Bytes pr)
      (percent_of (pr_Rows pr) (pr_EstimatedRows pr)) (clock E (w_ticks w))) (tick w) = (r, w1)" by (metis prod.exhaust)
  with assms True show ?thesis
    by (cases r) (auto simp: on_progress_def repo_Progress_def stmt_Progress_def exec_update_def optimistic_def now_def Let_def
        split: if_splits dest!: sql_auto_Inl)
qed

lemma demo_progress_final: "progress_final (worth_retry (pl_streams demo_pipeline)) (Some (on_progress demo_env job))"
  unfolding progress_final_def
proof (intro allI impI)
  fix f pr and w :: "'o world" and e w'
  assume "Some (on_progress demo_env job) = Some f" "f pr w = (Some e, w')"
  then have "e \<in> {ErrStaleVersion, SqlConstraint}" using on_progress_error [of demo_env job pr w e w'] by (auto simp: demo_env_def)
  then show "\<not> worth_retry (pl_streams demo_pipeline) e"
    by (auto simp: worth_retry_def demo_pipeline_def demo_stream_def retryableStreamError_def)
qed

lemma demo_store_ok: "store_ok (w_db (demo_world [demo_created]))"
proof -
  have "row_ok demo_created" by (simp add: row_ok_def demo_created_def demo_job_def zero_job_def status_defs)
  then show ?thesis by (simp add: store_ok_def)
qed

section \<open>Properties\<close>

text \<open>
  C2. The program refines the job life cycle.  However requests, worker runs and cleanups of one replica are interleaved with the transactions of
  the others, and whatever statements and commits fail, the database only ever takes steps of the
  life cycle relation: a row is created queued, moves along an edge of the status graph under its
  guard together with its event, or is removed once it has expired (the outbox alone may also be
  relayed).
\<close>

theorem system_refines_lifecycle:
  assumes "replicas E" and "(system_step S W E)\<^sup>*\<^sup>* x y"
  shows "(job_step (seal E))\<^sup>*\<^sup>* (w_db (snd x)) (w_db (snd y))"
  by (rule job_run_replicas [OF assms(1) system_steps_run [OF assms(2)]])

theorem system_refines_lifecycle_witness:
  "\<exists>w' :: bucket world. (job_step (seal demo_env))\<^sup>*\<^sup>* (w_db (demo_world [demo_created])) (w_db w')
    \<and> map Status (jobs (w_db w')) = [''succeeded'']"
  using demo_process_step system_refines_lifecycle [OF demo_replicas r_into_rtranclp] by fastforce

text \<open>
  C4. The invariant of the store.  In every reachable state the constraints of the jobs table hold (unique ids, unique idempotency keys
  within a tenant and application, legal statuses, formats and progress), and each row is
  consistent: a queued job has no results and no times, a running one has started and not
  completed, a finished one has its completion time, exactly the succeeded and expired ones an
  expiry, and versions start at one.
\<close>

theorem reachable_store_ok:
  assumes "replicas E" and "store_ok (w_db w)" and "(system_step S W E)\<^sup>*\<^sup>* (p, w) (p', w')"
  shows "store_ok (w_db w')"
  using job_steps_store_ok [OF job_run_replicas [OF assms(1) system_steps_run [OF assms(3)]]] assms(2) by simp

theorem reachable_store_ok_witness:
  "\<exists>w' :: bucket world. store_ok (w_db w') \<and> map Status (jobs (w_db w')) = [''succeeded'']"
proof -
  obtain w' :: "bucket world" where step: "system_step demo_service demo_worker demo_env (demo_gp, demo_world [demo_created]) (demo_gp, w')"
    and st: "map Status (jobs (w_db w')) = [''succeeded'']" using demo_process_step by (elim exE conjE)
  have "(system_step demo_service demo_worker demo_env)\<^sup>*\<^sup>* (demo_gp, demo_world [demo_created]) (demo_gp, w')"
    using step by (rule r_into_rtranclp)
  then show ?thesis using reachable_store_ok [OF demo_replicas demo_store_ok] st by (intro exI conjI)
qed

text \<open>
  C7. The history of a job.  While a job stays in the table its identity, its request and its object key are fixed, its row changes
  only together with a growing version, and a succeeded job is kept as it is until it expires.
\<close>

theorem job_history:
  assumes "life sl i d d'" and "table_ok (jobs d)" and "x \<in> set (jobs d)" and "ID x = i"
    and "y \<in> set (jobs d')" and "ID y = i"
  shows "same_identity x y \<and> (y = x \<or> Version x < Version y)
    \<and> (Status x = StatusSucceeded \<longrightarrow> y = x \<or> Status y = StatusExpired)"
  using life_later [OF assms(1-4)] life_settled [OF assms(1-4)] assms(5,6) by (auto simp: later_def)

theorem job_history_witness: "same_identity demo_created (set_Claim 0 demo_created)"
proof -
  let ?d = "w_db (demo_world [demo_created])" and ?d' = "w_db (demo_world [set_Claim 0 demo_created])"
  have "stmt_Claim ''t'' ''a'' ''j'' 0 ?d = Inr (1, ?d')"
    by (simp add: stmt_Claim_def service_eval demo_created_def)
  then have "job_step (seal demo_env) ?d ?d'" by (rule job_step.claim)
  moreover have "ID demo_created = ''j''" by (simp add: demo_created_def demo_job_def)
  ultimately have "life (seal demo_env) ''j'' ?d ?d'" by (auto simp: life_def present_def)
  moreover have "table_ok (jobs ?d)" "demo_created \<in> set (jobs ?d)" "set_Claim 0 demo_created \<in> set (jobs ?d')"
    "ID (set_Claim 0 demo_created) = ''j''" using \<open>ID demo_created = ''j''\<close> by simp_all
  ultimately show ?thesis using job_history \<open>ID demo_created = ''j''\<close> by blast
qed

text \<open>
  C1. Export, end to end.  When a worker reports a claimed job done, and its provider serves the dataset, the bucket holds
  under the job's key the complete document (the header of the dataset's columns and every row
  once, in order), and the job's row is succeeded with the size, row count and checksum of exactly
  these bytes, announced in the outbox.
\<close>

theorem export_end_to_end:
  fixes W :: "('c, 'o) worker"
  assumes "Process W E t a i (p, w) = (None, p', w')"
    and "repo_Claim E t a i (clock E (w_ticks w)) (tick w) = (Inr (Some job), w2)"
    and "serves (wk_pipeline W) job p pages"
    and "final_here (worth_retry (pl_streams (wk_pipeline W))) (run_env (wk_pipeline W) (ObjectKey job) (w_objs w2))
      (Some (on_progress E job :: 'o progress_fn))"
    and "0 \<le> pl_maxBytes (wk_pipeline W)" and "length (concat (map rp_Rows pages)) < 2 ^ 63"
    and "atomic_put (pl_storage (wk_pipeline W)) get"
  shows "\<exists>content row. get (w_objs w') (ObjectKey job) = Some content
    \<and> document_bytes (pl_gofmt (wk_pipeline W)) (pl_excelize (wk_pipeline W)) (Format job) (rp_Columns (hd pages))
        (concat (map rp_Rows pages)) content
    \<and> recorded E ''succeeded'' job row (w_db w') \<and> Status row = StatusSucceeded
    \<and> BytesWritten row = int (length content) \<and> RowsExported row = int (length (concat (map rp_Rows pages)))
    \<and> Checksum row = hex_EncodeToString (pl_sha256 (wk_pipeline W) content)"
proof -
  obtain selected res w3 j at where ran: "Run (wk_pipeline W) job selected (Some (on_progress E job)) (p, w2) = (Inr res, p', w3)"
    and rec: "recorded E ''succeeded'' job (set_Succeed (succeeded_job W job res at) j) (w_db w')"
    and objs: "w_objs w' = w_objs w3"
    by (rule Process_finished [OF assms(1,2)])
  obtain content where c: "get (w_objs w3) (ObjectKey job) = Some content"
    "document_bytes (pl_gofmt (wk_pipeline W)) (pl_excelize (wk_pipeline W)) (Format job) (rp_Columns (hd pages))
        (concat (map rp_Rows pages)) content"
    "plr_Bytes res = int (length content)" "plr_Rows res = int (length (concat (map rp_Rows pages)))"
    "plr_Checksum res = hex_EncodeToString (pl_sha256 (wk_pipeline W) content)"
    using Run_document [OF ran assms(3-7)] by blast
  show ?thesis using c rec objs by (intro exI [of _ content] exI [of _ "set_Succeed (succeeded_job W job res at) j"]) simp
qed

theorem export_end_to_end_witness:
  "\<exists>(w' :: bucket world) content row. map_of (w_objs w') ''t/a/j.csv'' = Some content
    \<and> recorded demo_env ''succeeded'' demo_running row (w_db w') \<and> Status row = StatusSucceeded
    \<and> BytesWritten row = int (length content) \<and> RowsExported row = 2"
proof -
  obtain w' where P: "Process demo_worker demo_env ''t'' ''a'' ''j'' (demo_gp, demo_world [demo_created]) = (None, demo_gp, w')"
    using demo_Process by blast
  have C: "repo_Claim demo_env ''t'' ''a'' ''j'' (clock demo_env (w_ticks (demo_world [demo_created]))) (tick (demo_world [demo_created]))
    = (Inr (Some demo_running), (demo_world [demo_running])\<lparr>w_ticks := 1, w_stmts := 2\<rparr>)"
    using demo_Claim by simp
  have pl: "wk_pipeline demo_worker = demo_pipeline" by (simp add: demo_worker_def)
  have S: "serves (wk_pipeline demo_worker) demo_running demo_gp demo_pages"
    using demo_serves by (simp add: pl serves_def)
  have F: "final_here (worth_retry (pl_streams (wk_pipeline demo_worker))) (run_env (wk_pipeline demo_worker) key bk)
      (Some (on_progress demo_env demo_running :: bucket progress_fn))" for key bk
    using demo_final_here [of key bk] demo_progress_final [of demo_running] unfolding pl final_here_def by blast
  have M: "0 \<le> pl_maxBytes (wk_pipeline demo_worker)" "atomic_put (pl_storage (wk_pipeline demo_worker)) map_of"
    using demo_atomic by (simp_all add: pl demo_pipeline_def)
  have R: "length (concat (map rp_Rows demo_pages)) = 2" and K: "ObjectKey demo_running = ''t/a/j.csv''"
    by (simp_all add: demo_pages_def demo_created_def demo_job_def)
  show ?thesis using export_end_to_end [OF P C S F M(1) _ M(2)] R K by fastforce
qed

section \<open>Requests over HTTP\<close>

text \<open>What a handler of the API does to the world is a step of the system, or nothing.\<close>

definition steps_only :: "'o http_api \<Rightarrow> ('c, 'o) worker \<Rightarrow> 'c grpc_provider \<Rightarrow> ('r, 'o world) handler \<Rightarrow> bool" where
  "steps_only H W p h \<longleftrightarrow> (\<forall>c r w. world_of (h (c, r, w)) = w
     \<or> system_step (ha_exports H) W (ha_env H) (p, w) (p, world_of (h (c, r, w))))"

lemma answer_steps:
  assumes act: "\<And>q c w v w1. act q c w = (v, w1) \<Longrightarrow> w1 = w \<or> system_step (ha_exports H) W (ha_env H) (p, w) (p, w1)"
  shows "steps_only H W p (answer decode act)"
  unfolding steps_only_def
proof (intro allI)
  fix c r w
  show "world_of (answer decode act (c, r, w)) = w
     \<or> system_step (ha_exports H) W (ha_env H) (p, w) (p, world_of (answer decode act (c, r, w)))"
  proof (cases "bind decode c")
    case (Inr q)
    obtain v w1 where a: "act q c w = (v, w1)" by (metis prod.exhaust)
    then have "world_of (answer decode act (c, r, w)) = w1" using Inr by (cases v) (simp_all add: answer_def)
    then show ?thesis using act [OF a] by simp
  qed (simp add: answer_def)
qed

lemma CreateExport_steps: "steps_only H W p (CreateExport H)"
  unfolding CreateExport_def by (rule answer_steps) (auto split: prod.splits intro: system_step.create)

lemma GetExport_steps: "steps_only H W p (GetExport H)"
  unfolding GetExport_def by (rule answer_steps) (auto split: prod.splits intro: system_step.get)

lemma ListExports_steps: "steps_only H W p (ListExports H)"
  unfolding ListExports_def by (rule answer_steps) (auto split: prod.splits intro: system_step.list)

lemma CancelExport_steps: "steps_only H W p (CancelExport H)"
  unfolding CancelExport_def by (rule answer_steps) (auto split: prod.splits intro: system_step.cancel)

lemma RetryExport_steps: "steps_only H W p (RetryExport H)"
  unfolding RetryExport_def by (rule answer_steps) (auto split: prod.splits intro: system_step.retry)

lemma DownloadExport_steps: "steps_only H W p (DownloadExport H)"
  unfolding DownloadExport_def by (rule answer_steps) (auto split: prod.splits intro: system_step.download)

lemma ListExportDatasets_steps: "steps_only H W p (ListExportDatasets H)"
  unfolding ListExportDatasets_def by (rule answer_steps) simp

lemma DescribeExportDataset_steps: "steps_only H W p (DescribeExportDataset H)"
  unfolding DescribeExportDataset_def by (rule answer_steps) simp

lemma Me_steps: "steps_only H W p Me"
  by (simp add: steps_only_def Me_def)

lemma Version_steps: "steps_only H W p (http_Version H)"
  by (simp add: steps_only_def http_Version_def)

lemmas handler_steps = CreateExport_steps GetExport_steps ListExports_steps CancelExport_steps RetryExport_steps
  DownloadExport_steps ListExportDatasets_steps DescribeExportDataset_steps Me_steps Version_steps

lemma api_handler_steps:
  assumes "(route, h) \<in> set (api_routes H)"
  shows "steps_only H W p h"
proof -
  have "list_all (steps_only H W p) (map snd (api_routes H))"
    by (simp only: api_routes_def list.map snd_conv list.pred_inject handler_steps simp_thms)
  then show ?thesis using assms by (force simp: list_all_iff)
qed

text \<open>
  From the request to the life cycle.  Whatever a request to a route of the API carries, serving it leaves
  the world as it was, or it takes one step of the system, and that only for a caller who
  is identified and permitted on that route.
\<close>

theorem api_calls_are_steps:
  assumes "(route, h) \<in> set (api_routes H)" and "serve V a h (c, r, w) = (c', r', w')"
  shows "w' = w \<or> (system_step (ha_exports H) W (ha_env H) (p, w) (p, w')
    \<and> (\<exists>c1. identified (sv_jwt V) (sv_auth V) (ar_at a) (c_Auth (sv_cfg V)) c c1
         \<and> permitted (authz_Enabled (c_Authorization (sv_cfg V))) (sv_authorizer V) c1))"
proof -
  have "w' = w \<or> (\<exists>c1 r1. admitted V a c c1 \<and> world_of (h (c1, r1, w)) = w')"
    by (rule guard.world_changes [OF serve_guard, OF assms(2)])
  then show ?thesis
  proof
    assume "\<exists>c1 r1. admitted V a c c1 \<and> world_of (h (c1, r1, w)) = w'"
    then obtain c1 r1 where c1: "admitted V a c c1" and w': "world_of (h (c1, r1, w)) = w'" by (elim exE conjE)
    have "w' = w \<or> system_step (ha_exports H) W (ha_env H) (p, w) (p, w')"
      using api_handler_steps [OF assms(1)] w' unfolding steps_only_def by metis
    then show ?thesis using c1 unfolding admitted_def by metis
  qed simp
qed

theorem api_calls_are_steps_witness:
  "\<exists>c' w'. serve demo_server demo_arrival (GetExport demo_http_api) (demo_gin demo_bearer, (), demo_world [demo_job]) = (c', (), w')
    \<and> (w' = demo_world [demo_job]
       \<or> (system_step demo_service demo_worker demo_env (demo_gp, demo_world [demo_job]) (demo_gp, w')
          \<and> (\<exists>c1. identified demo_jwt demo_auth 5 demo_auth_config (demo_gin demo_bearer) c1)))"
proof -
  obtain c' r' w' where run: "serve demo_server demo_arrival (GetExport demo_http_api) (demo_gin demo_bearer, (), demo_world [demo_job])
      = (c', r', w')" by (metis prod.exhaust)
  have route: "(''/api/v1/exports/get'', GetExport demo_http_api) \<in> set (api_routes demo_http_api)"
    by (simp add: api_routes_def)
  have params: "ha_exports demo_http_api = demo_service" "ha_env demo_http_api = demo_env" "sv_jwt demo_server = demo_jwt"
    "sv_auth demo_server = demo_auth" "ar_at demo_arrival = 5" "c_Auth (sv_cfg demo_server) = demo_auth_config"
    by (simp_all add: demo_http_api_def demo_server_def demo_arrival_def)
  note step = api_calls_are_steps [OF route, OF run, of demo_worker demo_gp, unfolded params]
  show ?thesis using run step by (intro exI [of _ c'] exI [of _ w'] conjI) (simp, blast)
qed

text \<open>
  C5. From the wire to the life cycle.  Whatever request arrives at the HTTP server, for whatever path and however the
  server is configured, it leaves the database, the bucket and the other replicas' work as they were, or it takes
  one step of the system; and that only as a \<open>POST\<close> to a route of the API, by a caller who is identified and permitted on that route.
  (The pages that libraries serve are taken not to touch the world, and the router to choose a route of the request's method.)
\<close>

theorem http_requests_are_steps:
  fixes r :: 'r and w :: "'o world"
  assumes "matches_routes find_route" and "pages_inert P"
    and "serve_http find_route V a H P path (c, r, w) = (c', r', w')"
  shows "w' = w \<or> (system_step (ha_exports H) W (ha_env H) (p, w) (p, w') \<and> gn_Method c = ''POST''
    \<and> (\<exists>route (h :: ('r, 'o world) handler) c1. (route, h) \<in> set (api_routes H)
         \<and> identified (sv_jwt V) (sv_auth V) (ar_at a) (c_Auth (sv_cfg V)) (c\<lparr>gn_FullPath := route\<rparr>) c1
         \<and> permitted (authz_Enabled (c_Authorization (sv_cfg V))) (sv_authorizer V) c1))"
proof -
  let ?routes = "server_routes V a H P"
  let ?keys = "map (\<lambda>(m, p, h). (m, p)) ?routes"
  show ?thesis
  proof (cases "find_route ?keys (gn_Method c) path")
    case None
    then have "router_chain V a not_found (c\<lparr>gn_FullPath := []\<rparr>, r, w) = (c', r', w')"
      using assms(3) by (simp add: serve_http_def Let_def)
    then have "w' = w" by (rule inert_router [OF inert_probes(3)])
    then show ?thesis by (rule disjI1)
  next
    case (Some i)
    obtain m q h where route: "?routes ! i = (m, q, h)" by (metis prod.exhaust)
    have "i < length ?keys \<and> fst (?keys ! i) = gn_Method c" using assms(1) Some unfolding matches_routes_def by blast
    then have i: "i < length ?routes" and m: "m = gn_Method c" using route by auto
    have run: "router_chain V a h (c\<lparr>gn_FullPath := q\<rparr>, r, w) = (c', r', w')"
      using assms(3) Some route by (simp add: serve_http_def Let_def)
    have "(m, q, h) \<in> set ?routes" using i route by (metis nth_mem)
    from server_routes_inert [OF assms(2) this] show ?thesis
    proof
      assume "inert h"
      then have "w' = w" using run by (rule inert_router)
      then show ?thesis by (rule disjI1)
    next
      assume "m = ''POST'' \<and> (\<exists>k. (q, k) \<in> set (api_routes H) \<and> h = api_chain V a k)"
      then obtain k where k: "m = ''POST''" "(q, k) \<in> set (api_routes H)" "h = api_chain V a k" by blast
      have served: "serve V a k (c\<lparr>gn_FullPath := q\<rparr>, r, w) = (c', r', w')" using run k(3) by (simp add: serve_def)
      have post: "gn_Method c = ''POST''" using k(1) m by simp
      show ?thesis using api_calls_are_steps [OF k(2) served, of W p]
      proof (elim disjE conjE exE)
        fix c1
        assume c1: "system_step (ha_exports H) W (ha_env H) (p, w) (p, w')"
          "identified (sv_jwt V) (sv_auth V) (ar_at a) (c_Auth (sv_cfg V)) (c\<lparr>gn_FullPath := q\<rparr>) c1"
          "permitted (authz_Enabled (c_Authorization (sv_cfg V))) (sv_authorizer V) c1"
        show ?thesis using c1 post k(2) by (intro disjI2 conjI exI [of _ q] exI [of _ k] exI [of _ c1])
      qed simp
    qed
  qed
qed

text \<open>A router that serves the third API route to every \<open>POST\<close>, and nothing else.\<close>

definition demo_find_route :: "(string \<times> string) list \<Rightarrow> string \<Rightarrow> string \<Rightarrow> nat option" where
  "demo_find_route routes m path =
    (if path = ''/api/v1/exports/get'' \<and> m = ''POST'' \<and> (''POST'', path) \<in> set routes
     then Some (length (takeWhile (\<lambda>x. x \<noteq> (''POST'', path)) routes)) else None)"

lemma demo_matches: "matches_routes demo_find_route"
  unfolding matches_routes_def
proof (intro allI impI)
  fix routes m path i assume i: "demo_find_route routes m path = Some i"
  then have m: "m = ''POST''" "(''POST'', path) \<in> set routes" "i = length (takeWhile (\<lambda>x. x \<noteq> (''POST'', path)) routes)"
    by (auto simp: demo_find_route_def split: if_splits)
  obtain xs ys where routes: "routes = xs @ (''POST'', path) # ys" "(''POST'', path) \<notin> set xs"
    using split_list_first [OF m(2)] by blast
  then have "i = length xs" using m(3) by simp
  then show "i < length routes \<and> fst (routes ! i) = m" using routes(1) m(1) by (simp add: nth_append)
qed

theorem http_requests_are_steps_witness:
  "\<exists>c' w'. serve_http demo_find_route demo_server demo_arrival demo_http_api demo_http_pages ''/api/v1/exports/get''
      (demo_gin demo_bearer, (), demo_world [demo_job]) = (c', (), w')
    \<and> (w' = demo_world [demo_job] \<or> system_step demo_service demo_worker demo_env (demo_gp, demo_world [demo_job]) (demo_gp, w'))"
proof -
  obtain c' r' w' where run: "serve_http demo_find_route demo_server demo_arrival demo_http_api demo_http_pages ''/api/v1/exports/get''
      (demo_gin demo_bearer, (), demo_world [demo_job]) = (c', r', w')" by (metis prod.exhaust)
  have inert: "pages_inert demo_http_pages" by (simp add: pages_inert_def inert_def demo_http_pages_def)
  have params: "ha_exports demo_http_api = demo_service" "ha_env demo_http_api = demo_env" by (simp_all add: demo_http_api_def)
  show ?thesis
    using run http_requests_are_steps [OF demo_matches inert run, of demo_worker demo_gp, unfolded params]
    by (intro exI [of _ c'] exI [of _ w'] conjI) (simp, blast)
qed

section \<open>Calls over gRPC\<close>

lemma dispatch_steps:
  "snd (export_dispatch X ctx q w) = w \<or> system_step (es_service X) W (es_env X) (p, w) (p, snd (export_dispatch X ctx q w))"
proof (cases q)
  case (CreateMsg r)
  show ?thesis unfolding CreateMsg
    by (auto simp: export_dispatch_def grpc_CreateExportJob_def split: prod.splits intro: system_step.create)
next
  case (GetMsg r)
  show ?thesis unfolding GetMsg
    by (auto simp: export_dispatch_def grpc_GetExportJob_def split: prod.splits intro: system_step.get)
next
  case (ListMsg r)
  show ?thesis unfolding ListMsg
    by (auto simp: export_dispatch_def grpc_ListExportJobs_def split: prod.splits intro: system_step.list)
next
  case (CancelMsg r)
  show ?thesis unfolding CancelMsg
    by (auto simp: export_dispatch_def grpc_CancelExportJob_def split: prod.splits intro: system_step.cancel)
next
  case (RetryMsg r)
  show ?thesis unfolding RetryMsg
    by (auto simp: export_dispatch_def grpc_RetryExportJob_def split: prod.splits intro: system_step.retry)
next
  case (DownloadMsg r)
  show ?thesis unfolding DownloadMsg
    by (auto simp: export_dispatch_def grpc_CreateDownloadURL_def split: prod.splits intro: system_step.download)
next
  case (ListDatasetsMsg r)
  show ?thesis unfolding ListDatasetsMsg
    by (simp add: export_dispatch_def grpc_ListExportDatasets_def split: prod.splits sum.splits)
next
  case (DescribeDatasetMsg r)
  show ?thesis unfolding DescribeDatasetMsg
    by (simp add: export_dispatch_def grpc_DescribeAvailableExportDataset_def split: sum.splits)
qed

text \<open>
  C6. From the call to the life cycle, over gRPC.  Whatever message a call carries, the chain of interceptors and the method
  leave the database, the bucket and the other replicas' work as they were, or they take one step of the system, and that only for a caller
  the chain identified; when authorization is on, also only if the permission of that method is granted to the caller.  (The
  platform's two interceptors are taken to run what is behind them at most once, that of authorization only when the permission is
  granted; samples to go to the metrics.)
\<close>

theorem grpc_calls_are_steps:
  fixes G :: "(export_message, export_reply, 'o world \<times> 'm) grpc_server"
  assumes "platform_interceptors granted G" and "meters (gs_meter G)"
    and "unary_chain G a (message_method (gs_names G) q) (over (export_dispatch X)) ctx q (w, m) = (v, w', m')"
  shows "w' = w \<or> (system_step (es_service X) W (es_env X) (p, w) (p, w')
    \<and> (\<exists>ctx1. grpc_identified (gs_jwt G) (gs_auth G) (cl_at a) (c_Auth (gs_cfg G)) (message_method (gs_names G) q) ctx ctx1
         \<and> (authz_Enabled (c_Authorization (gs_cfg G)) \<longrightarrow>
              (\<exists>permission. exportGRPCRequirement (gs_names G) True (message_method (gs_names G) q) = Some permission
                 \<and> granted permission (gx_principal ctx1)))))"
proof -
  have "w' = w \<or> (\<exists>ctx1. grpc_admitted granted G a (message_method (gs_names G) q) ctx ctx1 \<and> snd (export_dispatch X ctx1 q w) = w')"
    by (rule unary_guard.through [OF unary_chain_guard [OF assms(1,2)] assms(3)])
  then show ?thesis
  proof (elim disjE exE conjE)
    fix ctx1
    assume c: "grpc_admitted granted G a (message_method (gs_names G) q) ctx ctx1" and w': "snd (export_dispatch X ctx1 q w) = w'"
    have "w' = w \<or> system_step (es_service X) W (es_env X) (p, w) (p, w')" using dispatch_steps [of X ctx1 q w W p] w' by simp
    then show ?thesis using c message_requirement [of "gs_names G" q] unfolding grpc_admitted_def by metis
  qed simp
qed

definition demo_export_rpc :: "(export_message, export_reply, bucket world \<times> sample list) grpc_server" where
  "demo_export_rpc = \<lparr>gs_cfg = setDefaults\<lparr>c_Auth := demo_auth_config\<rparr>, gs_jwt = demo_jwt, gs_auth = demo_auth,
     gs_names = gs_names demo_grpc_server, gs_idempotencyValid = (\<lambda>_. True), gs_authz = (\<lambda>_ _. id), gs_idempotency = (\<lambda>_ _. id),
     gs_meter = \<lparr>mr_metrics = metrics_of True, mr_sample = (\<lambda>s (w, samples). (w, s # samples)), mr_Code = (\<lambda>_. ''OK'')\<rparr>\<rparr>"

lemma demo_rpc_guards:
  "platform_interceptors (\<lambda>_ _. True) demo_export_rpc \<and> meters (gs_meter demo_export_rpc)"
proof -
  have "unary_guard (\<lambda>h. h) same_grpc" by (unfold_locales) (metis fst_conv snd_conv same_grpc_refl)
  then show ?thesis by (simp add: platform_interceptors_def meters_def demo_export_rpc_def id_def)
qed

theorem grpc_calls_are_steps_witness:
  "\<exists>v w' m'. unary_chain demo_export_rpc \<lparr>cl_generated = ''g'', cl_at = 5, cl_elapsed = 7\<rparr>
        (message_method (gs_names demo_export_rpc) (GetMsg demo_get_request)) (over (export_dispatch demo_export_server))
        (demo_ctx demo_bearer) (GetMsg demo_get_request) (demo_world [demo_job], []) = (v, w', m')
    \<and> (w' = demo_world [demo_job] \<or> system_step demo_service demo_worker demo_env (demo_gp, demo_world [demo_job]) (demo_gp, w'))"
proof -
  obtain v w' m' where run: "unary_chain demo_export_rpc \<lparr>cl_generated = ''g'', cl_at = 5, cl_elapsed = 7\<rparr>
        (message_method (gs_names demo_export_rpc) (GetMsg demo_get_request)) (over (export_dispatch demo_export_server))
        (demo_ctx demo_bearer) (GetMsg demo_get_request) (demo_world [demo_job], []) = (v, w', m')" by (metis prod.exhaust)
  have params: "es_service demo_export_server = demo_service" "es_env demo_export_server = demo_env"
    by (simp_all add: demo_export_server_def)
  show ?thesis
    using run grpc_calls_are_steps [OF demo_rpc_guards [THEN conjunct1] demo_rpc_guards [THEN conjunct2] run,
        of demo_worker demo_gp, unfolded params]
    by (intro exI [of _ v] exI [of _ w'] exI [of _ m'] conjI) (simp, blast)
qed

section \<open>Background work\<close>

text \<open>
  C9. From events and schedules to the life cycle.  Whatever the bus delivers to the worker's consumer and whichever
  scheduled job is due, the replica takes at most one step of the system: a run of the job the event names in its own tenant and
  application, or one cleanup; an event whose payload is not a request of its own scope changes nothing, and the
  sample job leaves the database and the bucket alone.
\<close>

theorem background_work_is_steps:
  "(\<forall>r y. handleRequested unmarshal W E m x = (r, y) \<longrightarrow>
      y = x \<or> (system_step S W E x y
        \<and> (\<exists>payload job. unmarshal (dl_Payload m) = Inr payload \<and> jc_ChangeType payload = ''requested'' \<and> jc_Job payload = Some job
           \<and> pb_TenantId job = dl_TenantId m \<and> pb_ApplicationId job = dl_ApplicationId m \<and> dl_ApplicationId m \<noteq> []
           \<and> Process W E (dl_TenantId m) (dl_ApplicationId m) (pb_Id job) x = (r, y))))
   \<and> (\<forall>status w' k'. run_cron_job W E cfg locker job (snd x, k) = (status, w', k') \<longrightarrow>
      (if job = SampleJob then w' = snd x else system_step S W E x (fst x, w') \<and> k' = k))"
proof (intro conjI allI impI)
  fix r y assume H: "handleRequested unmarshal W E m x = (r, y)"
  show "y = x \<or> (system_step S W E x y
        \<and> (\<exists>payload job. unmarshal (dl_Payload m) = Inr payload \<and> jc_ChangeType payload = ''requested'' \<and> jc_Job payload = Some job
           \<and> pb_TenantId job = dl_TenantId m \<and> pb_ApplicationId job = dl_ApplicationId m \<and> dl_ApplicationId m \<noteq> []
           \<and> Process W E (dl_TenantId m) (dl_ApplicationId m) (pb_Id job) x = (r, y)))"
    using H by (cases x, cases y) (auto simp: handleRequested_def split: sum.splits option.splits if_splits intro: system_step.process)
next
  fix status w' k' assume R: "run_cron_job W E cfg locker job (snd x, k) = (status, w', k')"
  show "if job = SampleJob then w' = snd x else system_step S W E x (fst x, w') \<and> k' = k"
    using R by (cases x, cases job)
      (auto simp: run_cron_job_def split: prod.splits intro: system_step.cleanup system_step.purge)
qed

theorem background_work_is_steps_witness:
  "\<exists>w' :: bucket world. handleRequested (\<lambda>_. Inr \<lparr>jc_ChangeType = ''requested'', jc_Job = Some (ToProto demo_created)\<rparr>)
       demo_worker demo_env \<lparr>dl_TenantId = ''t'', dl_ApplicationId = ''a'', dl_Payload = []\<rparr> (demo_gp, demo_world [demo_created])
       = (None, demo_gp, w')
    \<and> system_step demo_service demo_worker demo_env (demo_gp, demo_world [demo_created]) (demo_gp, w')
    \<and> map Status (jobs (w_db w')) = [''succeeded'']"
proof -
  let ?u = "\<lambda>_ :: string. Inr \<lparr>jc_ChangeType = ''requested'', jc_Job = Some (ToProto demo_created)\<rparr> :: job_changed result"
  let ?m = "\<lparr>dl_TenantId = ''t'', dl_ApplicationId = ''a'', dl_Payload = []\<rparr>"
  let ?x = "(demo_gp, demo_world [demo_created]) :: string grpc_provider \<times> bucket world"
  obtain w' where P: "Process demo_worker demo_env ''t'' ''a'' ''j'' ?x = (None, demo_gp, w')"
    and st: "map Status (jobs (w_db w')) = [''succeeded'']" using demo_Process by (elim exE conjE)
  have ids: "pb_TenantId (ToProto demo_created) = ''t''" "pb_ApplicationId (ToProto demo_created) = ''a''"
    "pb_Id (ToProto demo_created) = ''j''" by (simp_all add: ToProto_def demo_created_def demo_job_def)
  have H: "handleRequested ?u demo_worker demo_env ?m ?x = (None, demo_gp, w')"
    using P by (simp add: handleRequested_def ids)
  have "map Status (jobs (w_db (snd ?x))) \<noteq> [''succeeded'']"
    by (simp add: demo_created_def demo_job_def status_defs)
  then have "(demo_gp, w') \<noteq> ?x" using st by auto
  then have "system_step demo_service demo_worker demo_env ?x (demo_gp, w')"
    using conjunct1 [OF background_work_is_steps [of ?u demo_worker demo_env ?m ?x demo_service]] H by blast
  then show ?thesis using H st by (intro exI conjI)
qed

end
